(* ===== verification/Prelude.thy ===== *)
theory Prelude
  imports
    Main
    "HOL-Library.Finite_Map"
    "HOL-Library.Char_ord"
    "HOL-Library.List_Lexorder"
begin

text \<open>
  What every component of the development shares: the result of running Go code against an
  outside world, Go's error values, and the order in which Go ranges over a map.
\<close>

section \<open>Running Go code\<close>

text \<open>
  The operator only ever acts on the outside (the Kubernetes API server, GitLab, Vault, the
  clock) through calls. The type \<open>'w\<close> stands for that outside world; it stays a type
  variable throughout, so nothing is assumed about it. A piece of Go code that calls out is a
  function of the world that returns, panics, or does not end, and leaves a new world.
\<close>

named_theorems keeps_intros

datatype panic = NilDeref | IndexRange | SliceRange | NilMapWrite | MustFailed

datatype 'a outcome = Ret 'a | Panicked panic | Diverged

type_synonym ('w, 'a) go = "'w \<Rightarrow> 'a outcome \<times> 'w"

definition ret :: "'a \<Rightarrow> ('w, 'a) go" where
  "ret a = (\<lambda>w. (Ret a, w))"

definition crash :: "panic \<Rightarrow> ('w, 'a) go" where
  "crash p = (\<lambda>w. (Panicked p, w))"

definition diverge :: "('w, 'a) go" where
  "diverge = (\<lambda>w. (Diverged, w))"

text \<open>\<open>bnd m f\<close> is \<open>x := m; f(x)\<close>: a panic or a loop that does not end in \<open>m\<close> is one of
  the whole.\<close>

definition bnd :: "('w, 'a) go \<Rightarrow> ('a \<Rightarrow> ('w, 'b) go) \<Rightarrow> ('w, 'b) go" where
  "bnd m f = (\<lambda>w. case m w of
       (Ret a, w') \<Rightarrow> f a w'
     | (Panicked p, w') \<Rightarrow> (Panicked p, w')
     | (Diverged, w') \<Rightarrow> (Diverged, w'))"

lemma ret_apply: "ret a w = (Ret a, w)"
  by (simp add: ret_def)

lemma crash_apply: "crash p w = (Panicked p, w)"
  by (simp add: crash_def)

lemma diverge_apply: "diverge w = (Diverged, w)"
  by (simp add: diverge_def)

lemma ret_eq_iff [simp]:
  "ret a w = (x, w') \<longleftrightarrow> x = Ret a \<and> w' = w"
  "(x, w') = ret a w \<longleftrightarrow> x = Ret a \<and> w' = w"
  by (auto simp: ret_apply)

lemma crash_eq_iff [simp]:
  "crash p w = (x, w') \<longleftrightarrow> x = Panicked p \<and> w' = w"
  "(x, w') = crash p w \<longleftrightarrow> x = Panicked p \<and> w' = w"
  by (auto simp: crash_apply)

lemma diverge_eq_iff [simp]:
  "diverge w = (x, w') \<longleftrightarrow> x = Diverged \<and> w' = w"
  "(x, w') = diverge w \<longleftrightarrow> x = Diverged \<and> w' = w"
  by (auto simp: diverge_apply)

lemma ret_inject [simp]: "ret a w = ret b w' \<longleftrightarrow> a = b \<and> w = w'" "ret a = ret b \<longleftrightarrow> a = b"
  by (auto simp: ret_def fun_eq_iff)

lemma ret_crash_distinct [simp]: "ret a w \<noteq> crash p w'" "crash p w \<noteq> ret a w'"
  "ret a w \<noteq> diverge w'" "diverge w \<noteq> ret a w'" "crash p w \<noteq> diverge w'" "diverge w \<noteq> crash p w'"
  by (simp_all add: ret_apply crash_apply diverge_apply)

lemma fst_snd_ret [simp]: "fst (ret a w) = Ret a" "snd (ret a w) = w" "case_prod g (ret a w) = g (Ret a) w"
  by (simp_all add: ret_apply)

lemma fst_snd_crash [simp]: "fst (crash p w) = Panicked p" "snd (crash p w) = w"
  "case_prod g (crash p w) = g (Panicked p) w"
  by (simp_all add: crash_apply)

lemma fst_snd_diverge [simp]: "fst (diverge w) = Diverged" "snd (diverge w) = w"
  "case_prod g (diverge w) = g Diverged w"
  by (simp_all add: diverge_apply)

lemma bnd_Ret [simp]: "m w = (Ret a, w') \<Longrightarrow> bnd m f w = f a w'"
  by (simp add: bnd_def)

lemma bnd_Panicked [simp]: "m w = (Panicked p, w') \<Longrightarrow> bnd m f w = (Panicked p, w')"
  by (simp add: bnd_def)

lemma bnd_Diverged [simp]: "m w = (Diverged, w') \<Longrightarrow> bnd m f w = (Diverged, w')"
  by (simp add: bnd_def)

lemma bnd_ret [simp]: "bnd (ret a) f = f a"
  by (rule ext) (simp add: bnd_def)

lemma bnd_crash [simp]: "bnd (crash p) f = crash p"
  by (rule ext) (simp add: bnd_def crash_apply)

lemma bnd_diverge [simp]: "bnd diverge f = diverge"
  by (rule ext) (simp add: bnd_def diverge_apply)

lemma bnd_ret_right [simp]: "bnd m ret = m"
  by (rule ext) (simp add: bnd_def ret_apply split: prod.split outcome.split)

lemma bnd_assoc: "bnd (bnd m f) g = bnd m (\<lambda>x. bnd (f x) g)"
  by (rule ext) (simp add: bnd_def split: prod.split outcome.split)

lemma outcome_world_cases [case_names Ret Panicked Diverged]:
  obtains a w' where "m w = (Ret a, w')"
  | p w' where "m w = (Panicked p, w')"
  | w' where "m w = (Diverged, w')"
  by (metis outcome.exhaust surj_pair)

lemma bnd_cong1: "(\<And>a w'. m w = (Ret a, w') \<Longrightarrow> f a w' = g a w') \<Longrightarrow> bnd m f w = bnd m g w"
  by (cases rule: outcome_world_cases [of m w]) simp_all

lemma bnd_cong_all: "(\<And>a w. f a w = g a w) \<Longrightarrow> bnd m f = bnd m g"
  by (rule ext) (rule bnd_cong1)

lemma bnd_RetE:
  assumes "bnd m f w = (Ret b, w'')"
  obtains a w' where "m w = (Ret a, w')" and "f a w' = (Ret b, w'')"
  using assms by (cases rule: outcome_world_cases [of m w]) auto

subsection \<open>What a run returns, and what it keeps\<close>

text \<open>\<open>wp m Q w\<close>: from the world \<open>w\<close> the code \<open>m\<close> returns, and its result and the world it
  leaves satisfy \<open>Q\<close>. \<open>wlp\<close> is the same for the runs that return.\<close>

definition wp :: "('w, 'a) go \<Rightarrow> ('a \<Rightarrow> 'w \<Rightarrow> bool) \<Rightarrow> 'w \<Rightarrow> bool" where
  "wp m Q w = (case m w of (Ret a, w') \<Rightarrow> Q a w' | (Panicked p, w') \<Rightarrow> False | (Diverged, w') \<Rightarrow> False)"

definition wlp :: "('w, 'a) go \<Rightarrow> ('a \<Rightarrow> 'w \<Rightarrow> bool) \<Rightarrow> 'w \<Rightarrow> bool" where
  "wlp m Q w = (case m w of (Ret a, w') \<Rightarrow> Q a w' | (Panicked p, w') \<Rightarrow> True | (Diverged, w') \<Rightarrow> True)"

lemma wp_ret [simp]: "wp (ret a) Q w = Q a w"
  by (simp add: wp_def)

lemma wp_bnd [simp]: "wp (bnd m f) Q w = wp m (\<lambda>a. wp (f a) Q) w"
  by (simp add: wp_def bnd_def split: prod.split outcome.split)

lemma wp_crash [simp]: "\<not> wp (crash p) Q w"
  by (simp add: wp_def)

lemma wlp_ret [simp]: "wlp (ret a) Q w = Q a w"
  by (simp add: wlp_def)

lemma wlp_crash [simp]: "wlp (crash p) Q w"
  by (simp add: wlp_def)

lemma wlp_diverge [simp]: "wlp diverge Q w"
  by (simp add: wlp_def)

lemma wlp_bnd [simp]: "wlp (bnd m f) Q w = wlp m (\<lambda>a. wlp (f a) Q) w"
  by (simp add: wlp_def bnd_def split: prod.split outcome.split)

lemma wlp_mono: "wlp m Q w \<Longrightarrow> (\<And>a w'. m w = (Ret a, w') \<Longrightarrow> Q a w' \<Longrightarrow> R a w') \<Longrightarrow> wlp m R w"
  by (auto simp: wlp_def split: prod.splits outcome.splits)

lemma wlp_trivial [simp]: "wlp m (\<lambda>_ _. True) w"
  by (simp add: wlp_def split: prod.split outcome.split)

lemma wlpI: "(\<And>a w'. m w = (Ret a, w') \<Longrightarrow> Q a w') \<Longrightarrow> wlp m Q w"
  by (auto simp: wlp_def split: prod.split outcome.split)

lemma wlpD: "wlp m Q w \<Longrightarrow> m w = (Ret a, w') \<Longrightarrow> Q a w'"
  by (simp add: wlp_def)

text \<open>\<open>keeps P m\<close>: whatever happens in \<open>m\<close> (a panic included), a world with \<open>P\<close> is left as a
  world with \<open>P\<close>.\<close>

definition keeps :: "('w \<Rightarrow> bool) \<Rightarrow> ('w, 'a) go \<Rightarrow> bool" where
  "keeps P m \<longleftrightarrow> (\<forall>w. P w \<longrightarrow> P (snd (m w)))"

lemma keepsI: "(\<And>w. P w \<Longrightarrow> P (snd (m w))) \<Longrightarrow> keeps P m"
  by (simp add: keeps_def)

lemma keepsD: "keeps P m \<Longrightarrow> P w \<Longrightarrow> P (snd (m w))"
  by (simp add: keeps_def)

lemma keeps_ret [keeps_intros]: "keeps P (ret a)"
  by (simp add: keeps_def)

lemma keeps_crash [keeps_intros]: "keeps P (crash p)"
  by (simp add: keeps_def)

lemma keeps_diverge [keeps_intros]: "keeps P diverge"
  by (simp add: keeps_def)

lemma keeps_bnd [keeps_intros]:
  assumes m: "keeps P m" and f: "\<And>a w w'. m w = (Ret a, w') \<Longrightarrow> keeps P (f a)"
  shows "keeps P (bnd m f)"
proof (rule keepsI)
  fix w assume "P w"
  with m have P': "P (snd (m w))" by (rule keepsD)
  show "P (snd (bnd m f w))"
  proof (cases rule: outcome_world_cases [of m w])
    case (Ret a w')
    with P' have "P w'" by simp
    with f [OF Ret] have "P (snd (f a w'))" by (rule keepsD)
    with Ret show ?thesis by simp
  qed (use P' in simp_all)
qed

text \<open>The rules follow the code through its branches.\<close>

lemma keeps_if [keeps_intros]:
  "(b \<Longrightarrow> keeps P m) \<Longrightarrow> (\<not> b \<Longrightarrow> keeps P n) \<Longrightarrow> keeps P (if b then m else n)"
  by simp

lemma keeps_sum [keeps_intros]:
  "(\<And>a. x = Inl a \<Longrightarrow> keeps P (f a)) \<Longrightarrow> (\<And>b. x = Inr b \<Longrightarrow> keeps P (g b)) \<Longrightarrow> keeps P (case_sum f g x)"
  by (cases x) auto

lemma keeps_option [keeps_intros]:
  "(x = None \<Longrightarrow> keeps P m) \<Longrightarrow> (\<And>a. x = Some a \<Longrightarrow> keeps P (f a)) \<Longrightarrow> keeps P (case_option m f x)"
  by (cases x) auto

lemma keeps_prod [keeps_intros]:
  "(\<And>a b. x = (a, b) \<Longrightarrow> keeps P (f a b)) \<Longrightarrow> keeps P (case_prod f x)"
  by (cases x) auto

lemma keeps_bool [keeps_intros]:
  "(x \<Longrightarrow> keeps P m) \<Longrightarrow> (\<not> x \<Longrightarrow> keeps P n) \<Longrightarrow> keeps P (case_bool m n x)"
  by (cases x) auto

lemma keeps_Let [keeps_intros]: "keeps P (f x) \<Longrightarrow> keeps P (Let x f)"
  by simp

section \<open>Error values\<close>

text \<open>
  Kubernetes errors carry a reason that \<open>k8s.io/apimachinery/pkg/api/errors\<close> tests; the other
  errors are what the code makes: a message, a message around another error (\<open>%w\<close>), several
  errors combined, and the two sentinel errors the code tests with \<open>errors.Is\<close>.
\<close>

datatype api_reason = NotFound | AlreadyExists | Conflict | NotRegistered | OtherReason

datatype gerr =
    ErrNew string
  | Wrap string gerr
  | MultiErr "gerr list"
  | ApiErr api_reason string
  | ErrRepoNotFound
  | ErrGitlabNotFound

fun errString :: "gerr \<Rightarrow> string" where
  "errString (ErrNew s) = s"
| "errString (Wrap s e) = s @ errString e"
| "errString (MultiErr es) = concat (map (\<lambda>e. errString e @ ''; '') es)"
| "errString (ApiErr r s) = s"
| "errString ErrRepoNotFound = ''repository not found''"
| "errString ErrGitlabNotFound = ''404 Not Found''"

text \<open>\<open>errors.Is\<close> for the two sentinels, and the Kubernetes predicates, all through wrapping.\<close>

fun isRepoNotFound :: "gerr \<Rightarrow> bool" where
  "isRepoNotFound ErrRepoNotFound = True"
| "isRepoNotFound (Wrap s e) = isRepoNotFound e"
| "isRepoNotFound (MultiErr es) = list_ex isRepoNotFound es"
| "isRepoNotFound _ = False"

fun isGitlabNotFound :: "gerr \<Rightarrow> bool" where
  "isGitlabNotFound ErrGitlabNotFound = True"
| "isGitlabNotFound (Wrap s e) = isGitlabNotFound e"
| "isGitlabNotFound (MultiErr es) = list_ex isGitlabNotFound es"
| "isGitlabNotFound _ = False"

fun hasReason :: "api_reason \<Rightarrow> gerr \<Rightarrow> bool" where
  "hasReason r (ApiErr r' s) = (r = r')"
| "hasReason r (Wrap s e) = hasReason r e"
| "hasReason r (MultiErr es) = list_ex (hasReason r) es"
| "hasReason r _ = False"

abbreviation IsNotFound :: "gerr \<Rightarrow> bool" where
  "IsNotFound \<equiv> hasReason NotFound"

abbreviation IsAlreadyExists :: "gerr \<Rightarrow> bool" where
  "IsAlreadyExists \<equiv> hasReason AlreadyExists"

abbreviation IsConflict :: "gerr \<Rightarrow> bool" where
  "IsConflict \<equiv> hasReason Conflict"

text \<open>\<open>runtime.IsNotRegisteredError\<close> is a type assertion, which wrapping defeats.\<close>

definition IsNotRegisteredError :: "gerr \<Rightarrow> bool" where
  "IsNotRegisteredError e = (case e of ApiErr r s \<Rightarrow> r = NotRegistered | _ \<Rightarrow> False)"

text \<open>\<open>multierr.Combine\<close>: no error, the only error, or all of them.\<close>

fun combineErrs :: "gerr list \<Rightarrow> gerr option" where
  "combineErrs [] = None"
| "combineErrs [e] = Some e"
| "combineErrs es = Some (MultiErr es)"

lemma combineErrs_None [simp]: "combineErrs es = None \<longleftrightarrow> es = []" "None = combineErrs es \<longleftrightarrow> es = []"
  by (cases es rule: combineErrs.cases; simp)+

section \<open>Maps and the order of a range loop\<close>

text \<open>
  A Go map is a finite map (a nil map and an empty one are the same to every reader here and to
  \<open>equality.Semantic.DeepEqual\<close>). Go leaves the order of \<open>range\<close> over a map open: a range loop
  asks the world for a hint, a list of keys, and visits the keys of the hint first. Every order
  of the keys is the answer to some hint.
\<close>

type_synonym 'v gomap = "(string, 'v) fmap"

definition rangeKeys :: "string list \<Rightarrow> 'v gomap \<Rightarrow> string list" where
  "rangeKeys hint m =
     (let ks = remdups (filter (\<lambda>k. fmlookup m k \<noteq> None) hint)
      in ks @ filter (\<lambda>k. k \<notin> set ks) (sorted_list_of_fset (fmdom m)))"

lemma set_rangeKeys [simp]: "set (rangeKeys hint m) = fset (fmdom m)"
  by (auto simp: rangeKeys_def Let_def fmlookup_dom_iff)

lemma distinct_rangeKeys [simp]: "distinct (rangeKeys hint m)"
proof -
  have "distinct (sorted_list_of_fset (fmdom m))"
    by (simp add: sorted_list_of_fset.rep_eq)
  then show ?thesis by (auto simp: rangeKeys_def Let_def intro: distinct_filter)
qed

lemma rangeKeys_lookup: "k \<in> set (rangeKeys hint m) \<longleftrightarrow> (\<exists>v. fmlookup m k = Some v)"
  by (simp add: fmlookup_dom_iff)

text \<open>The keys and values of a map in the order the loop sees them.\<close>

definition rangeMap :: "string list \<Rightarrow> 'v gomap \<Rightarrow> (string \<times> 'v) list" where
  "rangeMap hint m = map (\<lambda>k. (k, the (fmlookup m k))) (rangeKeys hint m)"

lemma set_rangeMap [simp]: "set (rangeMap hint m) = {(k, v). fmlookup m k = Some v}"
  by (force simp: rangeMap_def fmlookup_dom_iff image_iff)

lemma map_fst_rangeMap [simp]: "map fst (rangeMap hint m) = rangeKeys hint m"
  by (simp add: rangeMap_def comp_def)

lemma distinct_rangeMap [simp]: "distinct (map fst (rangeMap hint m))"
  by simp

lemma rangeKeys_empty [simp]: "rangeKeys hint fmempty = []"
  by (metis set_empty set_rangeKeys fmdom_empty bot_fset.rep_eq)

lemma rangeMap_empty [simp]: "rangeMap hint fmempty = []"
  by (simp add: rangeMap_def)

text \<open>Every enumeration of the keys is reached: no order is left out.\<close>

lemma rangeKeys_any_order:
  assumes "distinct ks" and "set ks = fset (fmdom m)"
  shows "rangeKeys ks m = ks"
proof -
  have f: "filter (\<lambda>k. fmlookup m k \<noteq> None) ks = ks"
    using assms(2) by (auto simp: filter_id_conv fmlookup_dom_iff)
  have "filter (\<lambda>k. k \<notin> set ks) (sorted_list_of_fset (fmdom m)) = []"
    using assms(2) by (simp add: filter_empty_conv)
  with f assms(1) show ?thesis
    by (simp add: rangeKeys_def distinct_remdups_id)
qed

lemma gomap_eqI: "(\<And>k. fmlookup m k = fmlookup n k) \<Longrightarrow> m = n"
  by (rule fmap_ext)

section \<open>Lists\<close>

text \<open>\<open>permute\<close> lists the elements in an order the caller picks, for sorts that are not stable.\<close>

definition permute :: "nat list \<Rightarrow> 'a list \<Rightarrow> 'a list" where
  "permute ns xs = map (nth xs) (let js = remdups (filter (\<lambda>i. i < length xs) ns)
                                 in js @ filter (\<lambda>i. i \<notin> set js) [0..<length xs])"

lemma set_permute [simp]: "set (permute ns xs) = set xs"
proof -
  let ?js = "remdups (filter (\<lambda>i. i < length xs) ns)"
  have "set (?js @ filter (\<lambda>i. i \<notin> set ?js) [0..<length xs]) = {..<length xs}" by auto
  then have "set (permute ns xs) = nth xs ` {..<length xs}"
    by (simp only: permute_def Let_def set_map)
  also have "\<dots> = set xs" by (auto simp: set_conv_nth)
  finally show ?thesis .
qed

end
