(* ===== verification/Api.thy ===== *)
theory Api
  imports Prelude
begin

text \<open>
  The custom resources of the operator (\<open>api/v1alpha1\<close>): \<open>Cluster\<close>, \<open>Tenant\<close>, \<open>GitRepo\<close> and
  \<open>TenantTemplate\<close> as records with the fields of the Go structs, the constants of the enums
  (which are strings in Go, so any string can occur), and the methods of the three types that
  implement \<open>pipeline.Object\<close>. A field \<open>X\<close> of a struct is the record field \<open>p_X\<close>, with a short
  prefix \<open>p\<close> for the struct. A pointer is an \<open>option\<close>; a struct with the one field \<open>Name\<close>
  (\<open>LocalObjectReference\<close>) is that name. The \<open>TypeMeta\<close> of an object is what
  \<open>GroupVersionKind()\<close> reads from it. Times are instants in nanoseconds.
\<close>

section \<open>Kubernetes metadata the code reads or writes\<close>

type_synonym time = int

record GVK =
  gvk_Group :: string
  gvk_Version :: string
  gvk_Kind :: string

record OwnerReference =
  or_GVK :: GVK
  or_Name :: string
  or_UID :: string
  or_Controller :: bool

record ObjectMeta =
  om_Name :: string
  om_Namespace :: string
  om_UID :: string
  om_ResourceVersion :: string
  om_CreationTimestamp :: time
  om_DeletionTimestamp :: "time option"
  om_Labels :: "string gomap"
  om_Annotations :: "string gomap"
  om_OwnerReferences :: "OwnerReference list"
  om_Finalizers :: "string list"

definition emptyMeta :: ObjectMeta where
  "emptyMeta = \<lparr>om_Name = '''', om_Namespace = '''', om_UID = '''', om_ResourceVersion = '''',
     om_CreationTimestamp = 0, om_DeletionTimestamp = None, om_Labels = fmempty,
     om_Annotations = fmempty, om_OwnerReferences = [], om_Finalizers = []\<rparr>"

record SecretReference =
  sr_Name :: string
  sr_Namespace :: string

record SecretKeySelector =
  sks_Name :: string
  sks_Key :: string
  sks_Optional :: "bool option"

section \<open>Constants\<close>

definition LabelNameTenant :: string where
  "LabelNameTenant = ''syn.tools/tenant''"

definition FinalizerName :: string where
  "FinalizerName = ''cluster.lieutenant.syn.tools''"

definition PipelineFinalizerName :: string where
  "PipelineFinalizerName = ''cluster.lieutenant.syn.tools/pipelines''"

definition DeleteProtectionAnnotation :: string where
  "DeleteProtectionAnnotation = ''syn.tools/protected-delete''"

definition SynGroup :: string where
  "SynGroup = ''syn.tools''"

definition GitLabType :: string where
  "GitLabType = ''gitlab''"

definition AutoRepoType :: string where
  "AutoRepoType = ''auto''"

definition UnmanagedRepoType :: string where
  "UnmanagedRepoType = ''unmanaged''"

definition DefaultRepoType :: string where
  "DefaultRepoType = ''''"

definition PhaseCreated :: string where
  "PhaseCreated = ''created''"

definition PhaseCreating :: string where
  "PhaseCreating = ''creating''"

definition PhaseFailed :: string where
  "PhaseFailed = ''failed''"

definition ArchivePolicy :: string where
  "ArchivePolicy = ''Archive''"

definition DeletePolicy :: string where
  "DeletePolicy = ''Delete''"

definition RetainPolicy :: string where
  "RetainPolicy = ''Retain''"

definition CreatePolicy :: string where
  "CreatePolicy = ''Create''"

definition AdoptPolicy :: string where
  "AdoptPolicy = ''Adopt''"

lemmas api_constants = LabelNameTenant_def FinalizerName_def PipelineFinalizerName_def
  DeleteProtectionAnnotation_def SynGroup_def GitLabType_def AutoRepoType_def
  UnmanagedRepoType_def DefaultRepoType_def PhaseCreated_def PhaseCreating_def PhaseFailed_def
  ArchivePolicy_def DeletePolicy_def RetainPolicy_def CreatePolicy_def AdoptPolicy_def

section \<open>Git repositories\<close>

record EnvVarGitlabOptions =
  go_Description :: string
  go_Protected :: bool
  go_Masked :: bool
  go_Raw :: bool

record EnvVarSource =
  evs_SecretKeyRef :: "SecretKeySelector option"

record EnvVar =
  ev_Name :: string
  ev_Value :: string
  ev_ValueFrom :: "EnvVarSource option"
  ev_GitlabOptions :: EnvVarGitlabOptions

record DeployKey =
  dk_Type :: string
  dk_Key :: string
  dk_WriteAccess :: bool

record DeployKeyTemplate =
  dkt_Type :: string
  dkt_WriteAccess :: bool

record DeployKeyStatus =
  dks_DeployKey :: DeployKey
  dks_SecretRef :: string

record GitRepoTemplate =
  gt_APISecretRef :: SecretReference
  gt_DeployKeys :: "DeployKey gomap"
  gt_GeneratedDeployKeys :: "DeployKeyTemplate gomap"
  gt_Path :: string
  gt_RepoName :: string
  gt_RepoType :: string
  gt_DisplayName :: string
  gt_TemplateFiles :: "string gomap"
  gt_DeletionPolicy :: string
  gt_CreationPolicy :: string
  gt_AccessTokenSecretRef :: string
  gt_CIVariables :: "EnvVar list"

text \<open>\<open>&GitRepoTemplate{}\<close>.\<close>

definition emptyGitRepoTemplate :: GitRepoTemplate where
  "emptyGitRepoTemplate = \<lparr>gt_APISecretRef = \<lparr>sr_Name = '''', sr_Namespace = ''''\<rparr>,
     gt_DeployKeys = fmempty, gt_GeneratedDeployKeys = fmempty, gt_Path = '''', gt_RepoName = '''',
     gt_RepoType = '''', gt_DisplayName = '''', gt_TemplateFiles = fmempty,
     gt_DeletionPolicy = '''', gt_CreationPolicy = '''', gt_AccessTokenSecretRef = '''',
     gt_CIVariables = []\<rparr>"

record GitRepoSpec =
  gs_GitRepoTemplate :: GitRepoTemplate
  gs_TenantRef :: string

record GitRepoStatus =
  gst_Phase :: "string option"
  gst_Type :: string
  gst_URL :: string
  gst_HostKeys :: string
  gst_LastAppliedCIVariables :: string
  gst_GeneratedDeployKeys :: "DeployKeyStatus gomap"

definition emptyGitRepoStatus :: GitRepoStatus where
  "emptyGitRepoStatus = \<lparr>gst_Phase = None, gst_Type = '''', gst_URL = '''', gst_HostKeys = '''',
     gst_LastAppliedCIVariables = '''', gst_GeneratedDeployKeys = fmempty\<rparr>"

record GitRepo =
  gr_GVK :: GVK
  gr_Meta :: ObjectMeta
  gr_Spec :: GitRepoSpec
  gr_Status :: GitRepoStatus

section \<open>Clusters\<close>

record ClusterSpec =
  cs_DisplayName :: string
  cs_GitRepoURL :: string
  cs_GitHostKeys :: string
  cs_GitRepoTemplate :: "GitRepoTemplate option"
  cs_TenantRef :: string
  cs_TenantGitRepoRevision :: string
  cs_GlobalGitRepoRevision :: string
  cs_TokenLifeTime :: string
  cs_Facts :: "string gomap"
  cs_DeletionPolicy :: string
  cs_CreationPolicy :: string
  cs_EnableCompilePipeline :: bool

record BootstrapToken =
  bt_Token :: string
  bt_ValidUntil :: time
  bt_TokenValid :: bool

record CompileMetaVersionInfo =
  vi_URL :: string
  vi_GitSHA :: string
  vi_Version :: string
  vi_Path :: string

record CompileMetaInstanceVersionInfo =
  ivi_VersionInfo :: CompileMetaVersionInfo
  ivi_Component :: string

record CompileMeta =
  cm_LastCompile :: time
  cm_CommodoreBuildInfo :: "string gomap"
  cm_Global :: CompileMetaVersionInfo
  cm_Tenant :: CompileMetaVersionInfo
  cm_Packages :: "CompileMetaVersionInfo gomap"
  cm_Instances :: "CompileMetaInstanceVersionInfo gomap"

record ClusterStatus =
  cst_BootstrapToken :: "BootstrapToken option"
  cst_Facts :: "string gomap"
  cst_CompileMeta :: CompileMeta

record Cluster =
  cl_GVK :: GVK
  cl_Meta :: ObjectMeta
  cl_Spec :: ClusterSpec
  cl_Status :: ClusterStatus

section \<open>Tenants\<close>

record CompilePipelineSpec =
  cps_Enabled :: bool
  cps_PipelineFiles :: "string gomap"

record TenantSpec =
  ts_DisplayName :: string
  ts_GitRepoURL :: string
  ts_GitRepoRevision :: string
  ts_GlobalGitRepoURL :: string
  ts_GlobalGitRepoRevision :: string
  ts_GitRepoTemplate :: "GitRepoTemplate option"
  ts_DeletionPolicy :: string
  ts_CreationPolicy :: string
  ts_ClusterTemplate :: "ClusterSpec option"
  ts_CompilePipeline :: "CompilePipelineSpec option"

text \<open>\<open>CompilePipelineStatus\<close> has the one field \<open>Clusters\<close>; the record field of the tenant's
  status holds the pointer to it.\<close>

record CompilePipelineStatus =
  cpst_Clusters :: "string list"

record TenantStatus =
  tst_CompilePipeline :: "CompilePipelineStatus option"

record Tenant =
  tn_GVK :: GVK
  tn_Meta :: ObjectMeta
  tn_Spec :: TenantSpec
  tn_Status :: TenantStatus

record TenantTemplate =
  tt_Meta :: ObjectMeta
  tt_Spec :: TenantSpec

end
