(* ===== verification/Objects.thy ===== *)
theory Objects
  imports Api
begin

text \<open>
  The methods of \<open>Cluster\<close>, \<open>Tenant\<close> and \<open>GitRepo\<close> (\<open>api/v1alpha1/*_types.go\<close>), and the
  interface \<open>pipeline.Object\<close> they implement (\<open>pipeline/pipeline.go\<close>). The interface value is
  a sum of the three types; a method call is a case distinction on it. The laws that the steps of
  the pipeline rely on are the locale \<open>pipeline_object\<close>, interpreted on the three types.
\<close>

section \<open>Methods of the resources\<close>

text \<open>
  \<open>GetGitTemplate\<close> returns a pointer. For a tenant and a git repo the pointer is into the object;
  for a cluster it is into the object only if the field is set, else it points to a fresh
  template that nobody else sees. The getter is the value behind the pointer with the object as
  the call leaves it (a tenant gets an empty template put in); \<open>Put\<close> is a write through the
  pointer.
\<close>

definition Cluster_GetGitTemplate :: "Cluster \<Rightarrow> GitRepoTemplate" where
  "Cluster_GetGitTemplate c = (case cs_GitRepoTemplate (cl_Spec c) of
       None \<Rightarrow> emptyGitRepoTemplate | Some t \<Rightarrow> t)"

definition Cluster_PutGitTemplate :: "GitRepoTemplate \<Rightarrow> Cluster \<Rightarrow> Cluster" where
  "Cluster_PutGitTemplate t c = (case cs_GitRepoTemplate (cl_Spec c) of
       None \<Rightarrow> c
     | Some _ \<Rightarrow> c\<lparr>cl_Spec := (cl_Spec c)\<lparr>cs_GitRepoTemplate := Some t\<rparr>\<rparr>)"

definition Cluster_SetGitRepoURLAndHostKeys :: "string \<Rightarrow> string \<Rightarrow> Cluster \<Rightarrow> Cluster" where
  "Cluster_SetGitRepoURLAndHostKeys url hostKeys c =
     c\<lparr>cl_Spec := (cl_Spec c)\<lparr>cs_GitRepoURL := url, cs_GitHostKeys := hostKeys\<rparr>\<rparr>"

definition Tenant_GetGitTemplate :: "Tenant \<Rightarrow> GitRepoTemplate \<times> Tenant" where
  "Tenant_GetGitTemplate t = (case ts_GitRepoTemplate (tn_Spec t) of
       None \<Rightarrow> (emptyGitRepoTemplate,
               t\<lparr>tn_Spec := (tn_Spec t)\<lparr>ts_GitRepoTemplate := Some emptyGitRepoTemplate\<rparr>\<rparr>)
     | Some g \<Rightarrow> (g, t))"

definition Tenant_PutGitTemplate :: "GitRepoTemplate \<Rightarrow> Tenant \<Rightarrow> Tenant" where
  "Tenant_PutGitTemplate g t = t\<lparr>tn_Spec := (tn_Spec t)\<lparr>ts_GitRepoTemplate := Some g\<rparr>\<rparr>"

definition Tenant_GetCompilePipelineStatus :: "Tenant \<Rightarrow> CompilePipelineStatus" where
  "Tenant_GetCompilePipelineStatus t = (case tst_CompilePipeline (tn_Status t) of
       None \<Rightarrow> \<lparr>cpst_Clusters = []\<rparr> | Some s \<Rightarrow> s)"

definition Tenant_GetCompilePipelineSpec :: "Tenant \<Rightarrow> CompilePipelineSpec" where
  "Tenant_GetCompilePipelineSpec t = (case ts_CompilePipeline (tn_Spec t) of
       None \<Rightarrow> \<lparr>cps_Enabled = False, cps_PipelineFiles = fmempty\<rparr> | Some s \<Rightarrow> s)"

definition Tenant_SetGitRepoURLAndHostKeys :: "string \<Rightarrow> string \<Rightarrow> Tenant \<Rightarrow> Tenant" where
  "Tenant_SetGitRepoURLAndHostKeys url hostKeys t =
     t\<lparr>tn_Spec := (tn_Spec t)\<lparr>ts_GitRepoURL := url\<rparr>\<rparr>"

definition TenantTemplateAnnotation :: string where
  "TenantTemplateAnnotation = ''lieutenant.syn.tools/tenant-template''"

text \<open>
  \<open>ApplyTemplate\<close>: \<open>mergo.Merge\<close> on the two specs is the parameter \<open>merge\<close> (the merged
  destination, and the error). A failed merge may leave its destination half merged.
\<close>

definition Tenant_ApplyTemplate ::
  "(TenantSpec \<Rightarrow> TenantSpec \<Rightarrow> TenantSpec \<times> gerr option) \<Rightarrow> Tenant \<Rightarrow> TenantTemplate option
     \<Rightarrow> Tenant \<times> gerr option" where
  "Tenant_ApplyTemplate merge t template = (case template of
       None \<Rightarrow> (t, None)
     | Some tt \<Rightarrow>
         (case merge (tn_Spec t) (tt_Spec tt) of
            (spec, Some e) \<Rightarrow>
              (t\<lparr>tn_Spec := spec\<rparr>, Some (Wrap ''failed to merge tenant template into tenant: '' e))
          | (spec, None) \<Rightarrow>
              (t\<lparr>tn_Spec := spec,
                 tn_Meta := (tn_Meta t)\<lparr>om_Annotations :=
                   fmupd TenantTemplateAnnotation (om_Name (tt_Meta tt)) (om_Annotations (tn_Meta t))\<rparr>\<rparr>,
               None)))"

text \<open>The plain getters, per type.\<close>

definition Cluster_GetTenantRef :: "Cluster \<Rightarrow> string" where
  "Cluster_GetTenantRef c = cs_TenantRef (cl_Spec c)"

definition Cluster_GetDeletionPolicy :: "Cluster \<Rightarrow> string" where
  "Cluster_GetDeletionPolicy c = cs_DeletionPolicy (cl_Spec c)"

definition Cluster_GetCreationPolicy :: "Cluster \<Rightarrow> string" where
  "Cluster_GetCreationPolicy c = cs_CreationPolicy (cl_Spec c)"

definition Cluster_GetDisplayName :: "Cluster \<Rightarrow> string" where
  "Cluster_GetDisplayName c = cs_DisplayName (cl_Spec c)"

definition Cluster_GetSpec :: "Cluster \<Rightarrow> ClusterSpec" where
  "Cluster_GetSpec c = cl_Spec c"

definition Cluster_GetMeta :: "Cluster \<Rightarrow> ObjectMeta" where
  "Cluster_GetMeta c = cl_Meta c"

definition Cluster_GetStatus :: "Cluster \<Rightarrow> ClusterStatus" where
  "Cluster_GetStatus c = cl_Status c"

definition Tenant_GetTenantRef :: "Tenant \<Rightarrow> string" where
  "Tenant_GetTenantRef t = om_Name (tn_Meta t)"

definition Tenant_GetDeletionPolicy :: "Tenant \<Rightarrow> string" where
  "Tenant_GetDeletionPolicy t = ts_DeletionPolicy (tn_Spec t)"

definition Tenant_GetCreationPolicy :: "Tenant \<Rightarrow> string" where
  "Tenant_GetCreationPolicy t = ts_CreationPolicy (tn_Spec t)"

definition Tenant_GetDisplayName :: "Tenant \<Rightarrow> string" where
  "Tenant_GetDisplayName t = ts_DisplayName (tn_Spec t)"

definition Tenant_GetSpec :: "Tenant \<Rightarrow> TenantSpec" where
  "Tenant_GetSpec t = tn_Spec t"

definition Tenant_GetMeta :: "Tenant \<Rightarrow> ObjectMeta" where
  "Tenant_GetMeta t = tn_Meta t"

definition Tenant_GetStatus :: "Tenant \<Rightarrow> TenantStatus" where
  "Tenant_GetStatus t = tn_Status t"

definition GitRepo_GetTenantRef :: "GitRepo \<Rightarrow> string" where
  "GitRepo_GetTenantRef g = gs_TenantRef (gr_Spec g)"

definition GitRepo_GetDeletionPolicy :: "GitRepo \<Rightarrow> string" where
  "GitRepo_GetDeletionPolicy g = gt_DeletionPolicy (gs_GitRepoTemplate (gr_Spec g))"

definition GitRepo_GetCreationPolicy :: "GitRepo \<Rightarrow> string" where
  "GitRepo_GetCreationPolicy g = gt_CreationPolicy (gs_GitRepoTemplate (gr_Spec g))"

definition GitRepo_GetDisplayName :: "GitRepo \<Rightarrow> string" where
  "GitRepo_GetDisplayName g = gt_DisplayName (gs_GitRepoTemplate (gr_Spec g))"

definition GitRepo_GetSpec :: "GitRepo \<Rightarrow> GitRepoSpec" where
  "GitRepo_GetSpec g = gr_Spec g"

definition GitRepo_GetMeta :: "GitRepo \<Rightarrow> ObjectMeta" where
  "GitRepo_GetMeta g = gr_Meta g"

definition GitRepo_GetStatus :: "GitRepo \<Rightarrow> GitRepoStatus" where
  "GitRepo_GetStatus g = gr_Status g"

lemmas getters [simp] =
  Cluster_GetTenantRef_def Cluster_GetDeletionPolicy_def Cluster_GetCreationPolicy_def
  Cluster_GetDisplayName_def Cluster_GetSpec_def Cluster_GetMeta_def Cluster_GetStatus_def
  Tenant_GetTenantRef_def Tenant_GetDeletionPolicy_def Tenant_GetCreationPolicy_def
  Tenant_GetDisplayName_def Tenant_GetSpec_def Tenant_GetMeta_def Tenant_GetStatus_def
  GitRepo_GetTenantRef_def GitRepo_GetDeletionPolicy_def GitRepo_GetCreationPolicy_def
  GitRepo_GetDisplayName_def GitRepo_GetSpec_def GitRepo_GetMeta_def GitRepo_GetStatus_def

section \<open>The interface pipeline.Object\<close>

datatype Object = ClusterObj Cluster | TenantObj Tenant | GitRepoObj GitRepo

fun GetGitTemplate :: "Object \<Rightarrow> GitRepoTemplate \<times> Object" where
  "GetGitTemplate (ClusterObj c) = (Cluster_GetGitTemplate c, ClusterObj c)"
| "GetGitTemplate (TenantObj t) = (let (g, t') = Tenant_GetGitTemplate t in (g, TenantObj t'))"
| "GetGitTemplate (GitRepoObj g) = (gs_GitRepoTemplate (gr_Spec g), GitRepoObj g)"

fun PutGitTemplate :: "GitRepoTemplate \<Rightarrow> Object \<Rightarrow> Object" where
  "PutGitTemplate p (ClusterObj c) = ClusterObj (Cluster_PutGitTemplate p c)"
| "PutGitTemplate p (TenantObj t) = TenantObj (Tenant_PutGitTemplate p t)"
| "PutGitTemplate p (GitRepoObj g) =
     GitRepoObj (g\<lparr>gr_Spec := (gr_Spec g)\<lparr>gs_GitRepoTemplate := p\<rparr>\<rparr>)"

fun GroupVersionKind :: "Object \<Rightarrow> GVK" where
  "GroupVersionKind (ClusterObj c) = cl_GVK c"
| "GroupVersionKind (TenantObj t) = tn_GVK t"
| "GroupVersionKind (GitRepoObj g) = gr_GVK g"

fun GetMeta :: "Object \<Rightarrow> ObjectMeta" where
  "GetMeta (ClusterObj c) = Cluster_GetMeta c"
| "GetMeta (TenantObj t) = Tenant_GetMeta t"
| "GetMeta (GitRepoObj g) = GitRepo_GetMeta g"

fun SetMeta :: "ObjectMeta \<Rightarrow> Object \<Rightarrow> Object" where
  "SetMeta m (ClusterObj c) = ClusterObj (c\<lparr>cl_Meta := m\<rparr>)"
| "SetMeta m (TenantObj t) = TenantObj (t\<lparr>tn_Meta := m\<rparr>)"
| "SetMeta m (GitRepoObj g) = GitRepoObj (g\<lparr>gr_Meta := m\<rparr>)"

fun GetTenantRef :: "Object \<Rightarrow> string" where
  "GetTenantRef (ClusterObj c) = Cluster_GetTenantRef c"
| "GetTenantRef (TenantObj t) = Tenant_GetTenantRef t"
| "GetTenantRef (GitRepoObj g) = GitRepo_GetTenantRef g"

fun GetDeletionPolicy :: "Object \<Rightarrow> string" where
  "GetDeletionPolicy (ClusterObj c) = Cluster_GetDeletionPolicy c"
| "GetDeletionPolicy (TenantObj t) = Tenant_GetDeletionPolicy t"
| "GetDeletionPolicy (GitRepoObj g) = GitRepo_GetDeletionPolicy g"

fun GetCreationPolicy :: "Object \<Rightarrow> string" where
  "GetCreationPolicy (ClusterObj c) = Cluster_GetCreationPolicy c"
| "GetCreationPolicy (TenantObj t) = Tenant_GetCreationPolicy t"
| "GetCreationPolicy (GitRepoObj g) = GitRepo_GetCreationPolicy g"

fun GetDisplayName :: "Object \<Rightarrow> string" where
  "GetDisplayName (ClusterObj c) = Cluster_GetDisplayName c"
| "GetDisplayName (TenantObj t) = Tenant_GetDisplayName t"
| "GetDisplayName (GitRepoObj g) = GitRepo_GetDisplayName g"

fun SetGitRepoURLAndHostKeys :: "string \<Rightarrow> string \<Rightarrow> Object \<Rightarrow> Object" where
  "SetGitRepoURLAndHostKeys url hk (ClusterObj c) =
     ClusterObj (Cluster_SetGitRepoURLAndHostKeys url hk c)"
| "SetGitRepoURLAndHostKeys url hk (TenantObj t) =
     TenantObj (Tenant_SetGitRepoURLAndHostKeys url hk t)"
| "SetGitRepoURLAndHostKeys url hk (GitRepoObj g) = GitRepoObj g"

text \<open>\<open>GetSpec\<close> and \<open>GetStatus\<close> return \<open>interface{}\<close>: the value with its dynamic type.\<close>

datatype SpecValue = ClusterSpecV ClusterSpec | TenantSpecV TenantSpec | GitRepoSpecV GitRepoSpec

datatype StatusValue =
  ClusterStatusV ClusterStatus | TenantStatusV TenantStatus | GitRepoStatusV GitRepoStatus

fun GetSpec :: "Object \<Rightarrow> SpecValue" where
  "GetSpec (ClusterObj c) = ClusterSpecV (Cluster_GetSpec c)"
| "GetSpec (TenantObj t) = TenantSpecV (Tenant_GetSpec t)"
| "GetSpec (GitRepoObj g) = GitRepoSpecV (GitRepo_GetSpec g)"

fun GetStatus :: "Object \<Rightarrow> StatusValue" where
  "GetStatus (ClusterObj c) = ClusterStatusV (Cluster_GetStatus c)"
| "GetStatus (TenantObj t) = TenantStatusV (Tenant_GetStatus t)"
| "GetStatus (GitRepoObj g) = GitRepoStatusV (GitRepo_GetStatus g)"

abbreviation GetName :: "Object \<Rightarrow> string" where
  "GetName obj \<equiv> om_Name (GetMeta obj)"

abbreviation GetNamespace :: "Object \<Rightarrow> string" where
  "GetNamespace obj \<equiv> om_Namespace (GetMeta obj)"

section \<open>The contract of the interface\<close>

text \<open>
  What the steps of the pipeline need of an object: the metadata is a field that can be read
  back, writing it touches neither spec nor status, handing out the template and setting the URL
  touch neither metadata nor status nor the tenant reference.
\<close>

locale pipeline_object =
  fixes getMeta :: "'o \<Rightarrow> ObjectMeta"
    and setMeta :: "ObjectMeta \<Rightarrow> 'o \<Rightarrow> 'o"
    and getSpec :: "'o \<Rightarrow> 'spec"
    and getStatus :: "'o \<Rightarrow> 'status"
    and getTemplate :: "'o \<Rightarrow> GitRepoTemplate \<times> 'o"
    and putTemplate :: "GitRepoTemplate \<Rightarrow> 'o \<Rightarrow> 'o"
    and setURL :: "string \<Rightarrow> string \<Rightarrow> 'o \<Rightarrow> 'o"
    and tenantRef :: "'o \<Rightarrow> string"
  assumes getMeta_setMeta: "getMeta (setMeta m x) = m"
    and setMeta_getMeta: "setMeta (getMeta x) x = x"
    and setMeta_setMeta: "setMeta m' (setMeta m x) = setMeta m' x"
    and getSpec_setMeta: "getSpec (setMeta m x) = getSpec x"
    and getStatus_setMeta: "getStatus (setMeta m x) = getStatus x"
    and tenantRef_setMeta: "om_Name m = om_Name (getMeta x) \<Longrightarrow> tenantRef (setMeta m x) = tenantRef x"
    and getMeta_getTemplate: "getMeta (snd (getTemplate x)) = getMeta x"
    and getStatus_getTemplate: "getStatus (snd (getTemplate x)) = getStatus x"
    and tenantRef_getTemplate: "tenantRef (snd (getTemplate x)) = tenantRef x"
    and getTemplate_again: "getTemplate (snd (getTemplate x)) = getTemplate x"
    and getMeta_putTemplate: "getMeta (putTemplate t x) = getMeta x"
    and getStatus_putTemplate: "getStatus (putTemplate t x) = getStatus x"
    and tenantRef_putTemplate: "tenantRef (putTemplate t x) = tenantRef x"
    and putTemplate_same: "putTemplate (fst (getTemplate x)) (snd (getTemplate x)) = snd (getTemplate x)"
    and getMeta_setURL: "getMeta (setURL u h x) = getMeta x"
    and getStatus_setURL: "getStatus (setURL u h x) = getStatus x"
    and tenantRef_setURL: "tenantRef (setURL u h x) = tenantRef x"
    and fst_getTemplate_setURL: "fst (getTemplate (setURL u h x)) = fst (getTemplate x)"
begin

lemmas meta_laws = getMeta_setMeta setMeta_getMeta setMeta_setMeta getMeta_getTemplate
  getMeta_putTemplate getMeta_setURL

lemmas spec_status_laws = getSpec_setMeta getStatus_setMeta getStatus_getTemplate
  getStatus_putTemplate getStatus_setURL

lemmas tenantRef_laws = tenantRef_setMeta tenantRef_getTemplate tenantRef_putTemplate tenantRef_setURL

text \<open>Two objects of which one is the other with new metadata differ in their metadata only.\<close>

lemma setMeta_eq_iff: "setMeta m x = setMeta m' x \<longleftrightarrow> m = m'"
  by (metis getMeta_setMeta)

lemma setMeta_same_iff: "setMeta m x = x \<longleftrightarrow> m = getMeta x"
  by (metis getMeta_setMeta setMeta_getMeta)

text \<open>Reading, defaulting and writing back the template leaves who the object is.\<close>

lemma identity_after_template:
  "getMeta (putTemplate t (snd (getTemplate x))) = getMeta x"
  "tenantRef (putTemplate t (snd (getTemplate x))) = tenantRef x"
  "getStatus (putTemplate t (snd (getTemplate x))) = getStatus x"
  by (simp_all add: getMeta_putTemplate getMeta_getTemplate tenantRef_putTemplate
      tenantRef_getTemplate getStatus_putTemplate getStatus_getTemplate)

end

lemmas object_methods = Cluster_GetGitTemplate_def Cluster_PutGitTemplate_def
  Cluster_SetGitRepoURLAndHostKeys_def Tenant_GetGitTemplate_def Tenant_PutGitTemplate_def
  Tenant_SetGitRepoURLAndHostKeys_def

interpretation obj: pipeline_object GetMeta SetMeta GetSpec GetStatus GetGitTemplate
  PutGitTemplate SetGitRepoURLAndHostKeys GetTenantRef
proof (unfold_locales, goal_cases)
  case (1 m x) show ?case by (cases x) simp_all
next
  case (2 x) show ?case by (cases x) simp_all
next
  case (3 m' m x) show ?case by (cases x) simp_all
next
  case (4 m x) show ?case by (cases x) simp_all
next
  case (5 m x) show ?case by (cases x) simp_all
next
  case (6 m x) then show ?case by (cases x) simp_all
qed (case_tac x; simp add: object_methods split: option.splits)+

declare obj.meta_laws [simp] obj.spec_status_laws [simp] obj.tenantRef_laws [simp]
  obj.fst_getTemplate_setURL [simp] obj.getTemplate_again [simp]

section \<open>Sample objects\<close>

text \<open>Concrete objects, at which the witnesses of the theorems apply them.\<close>

definition sampleMeta :: "string \<Rightarrow> ObjectMeta" where
  "sampleMeta name = emptyMeta\<lparr>om_Name := name, om_Namespace := ''lieutenant'', om_UID := ''u1'',
     om_ResourceVersion := ''1''\<rparr>"

definition synGVK :: "string \<Rightarrow> GVK" where
  "synGVK kind = \<lparr>gvk_Group = SynGroup, gvk_Version = ''v1alpha1'', gvk_Kind = kind\<rparr>"

definition sampleVersion :: CompileMetaVersionInfo where
  "sampleVersion = \<lparr>vi_URL = '''', vi_GitSHA = '''', vi_Version = '''', vi_Path = ''''\<rparr>"

definition sampleClusterSpec :: ClusterSpec where
  "sampleClusterSpec = \<lparr>cs_DisplayName = ''Prod'', cs_GitRepoURL = '''', cs_GitHostKeys = '''',
     cs_GitRepoTemplate = Some emptyGitRepoTemplate, cs_TenantRef = ''t-acme'',
     cs_TenantGitRepoRevision = '''', cs_GlobalGitRepoRevision = '''', cs_TokenLifeTime = '''',
     cs_Facts = fmempty, cs_DeletionPolicy = '''', cs_CreationPolicy = '''',
     cs_EnableCompilePipeline = False\<rparr>"

definition sampleCluster :: Cluster where
  "sampleCluster = \<lparr>cl_GVK = synGVK ''Cluster'', cl_Meta = sampleMeta ''c-prod'',
     cl_Spec = sampleClusterSpec,
     cl_Status = \<lparr>cst_BootstrapToken = None, cst_Facts = fmempty,
       cst_CompileMeta = \<lparr>cm_LastCompile = 0, cm_CommodoreBuildInfo = fmempty,
         cm_Global = sampleVersion, cm_Tenant = sampleVersion, cm_Packages = fmempty,
         cm_Instances = fmempty\<rparr>\<rparr>\<rparr>"

definition sampleTenantSpec :: TenantSpec where
  "sampleTenantSpec = \<lparr>ts_DisplayName = ''Acme'', ts_GitRepoURL = '''', ts_GitRepoRevision = '''',
     ts_GlobalGitRepoURL = '''', ts_GlobalGitRepoRevision = '''',
     ts_GitRepoTemplate = Some emptyGitRepoTemplate, ts_DeletionPolicy = '''',
     ts_CreationPolicy = '''', ts_ClusterTemplate = None, ts_CompilePipeline = None\<rparr>"

definition sampleTenant :: Tenant where
  "sampleTenant = \<lparr>tn_GVK = synGVK ''Tenant'', tn_Meta = sampleMeta ''t-acme'',
     tn_Spec = sampleTenantSpec, tn_Status = \<lparr>tst_CompilePipeline = None\<rparr>\<rparr>"

definition sampleGitRepo :: GitRepo where
  "sampleGitRepo = \<lparr>gr_GVK = synGVK ''GitRepo'', gr_Meta = sampleMeta ''c-prod'',
     gr_Spec = \<lparr>gs_GitRepoTemplate = emptyGitRepoTemplate\<lparr>gt_Path := ''acme'', gt_RepoName := ''prod''\<rparr>,
       gs_TenantRef = ''t-acme''\<rparr>,
     gr_Status = emptyGitRepoStatus\<rparr>"

lemmas sample_defs = sampleMeta_def emptyMeta_def synGVK_def sampleVersion_def sampleClusterSpec_def
  sampleCluster_def sampleTenantSpec_def sampleTenant_def sampleGitRepo_def
  emptyGitRepoTemplate_def emptyGitRepoStatus_def

end
