(* ===== verification/Kube.thy ===== *)
theory Kube
  imports Objects "HOL-Library.Word"
begin

text \<open>
  The outside of the operator that is reached through \<open>client.Client\<close>, \<open>controllerutil\<close> and the
  Go runtime. None of it is code of the repository, so all of it is a parameter: a record of the
  calls the code makes, each a function of the world \<open>'w\<close>. Nothing is assumed of them here; a
  theorem that needs documented behaviour names it as a hypothesis.
\<close>

section \<open>Objects of Kubernetes itself\<close>

record Secret =
  sec_Meta :: ObjectMeta
  sec_Type :: string
  sec_Data :: "string gomap"

record ServiceAccount =
  sa_Meta :: ObjectMeta

record PolicyRule =
  pr_APIGroups :: "string list"
  pr_Resources :: "string list"
  pr_Verbs :: "string list"
  pr_ResourceNames :: "string list"

record Role =
  role_Meta :: ObjectMeta
  role_Rules :: "PolicyRule list"

record RoleRef =
  rr_APIGroup :: string
  rr_Kind :: string
  rr_Name :: string

record Subject =
  sub_Kind :: string
  sub_Name :: string
  sub_Namespace :: string

record RoleBinding =
  rb_Meta :: ObjectMeta
  rb_RoleRef :: RoleRef
  rb_Subjects :: "Subject list"

section \<open>The calls\<close>

text \<open>A namespaced name, and what a \<open>List\<close> selects.\<close>

record NamespacedName =
  nn_Namespace :: string
  nn_Name :: string

datatype selector = Everything | MatchingLabel string string | MatchingField string string

text \<open>
  \<open>Get\<close>, \<open>Create\<close>, \<open>Update\<close>, \<open>Status().Update\<close> and \<open>Delete\<close> by kind. A write that succeeds
  decodes the server's answer into the object it was given, so it returns the object.
  \<open>AddFinalizer\<close> and \<open>RemoveFinalizer\<close> return the new list and whether it changed.
  \<open>CreateOrUpdate\<close> gets the mutate function of its caller.
\<close>

record 'w Client =
  k_GetCluster :: "NamespacedName \<Rightarrow> ('w, gerr + Cluster) go"
  k_GetTenant :: "NamespacedName \<Rightarrow> ('w, gerr + Tenant) go"
  k_GetGitRepo :: "NamespacedName \<Rightarrow> ('w, gerr + GitRepo) go"
  k_GetTenantTemplate :: "NamespacedName \<Rightarrow> ('w, gerr + TenantTemplate) go"
  k_GetSecret :: "NamespacedName \<Rightarrow> ('w, gerr + Secret) go"
  k_GetRole :: "NamespacedName \<Rightarrow> ('w, gerr + Role) go"
  k_GetRoleBinding :: "NamespacedName \<Rightarrow> ('w, gerr + RoleBinding) go"
  k_ListClusters :: "string \<Rightarrow> selector \<Rightarrow> ('w, gerr + Cluster list) go"
  k_ListTenants :: "string \<Rightarrow> ('w, gerr + Tenant list) go"
  k_ListGitRepos :: "string \<Rightarrow> selector \<Rightarrow> ('w, gerr + GitRepo list) go"
  k_ListSecrets :: "('w, gerr + Secret list) go"
  k_CreateGitRepo :: "GitRepo \<Rightarrow> ('w, gerr + GitRepo) go"
  k_CreateSecret :: "Secret \<Rightarrow> ('w, gerr + Secret) go"
  k_CreateServiceAccount :: "ServiceAccount \<Rightarrow> ('w, gerr + ServiceAccount) go"
  k_CreateRole :: "Role \<Rightarrow> ('w, gerr + Role) go"
  k_CreateRoleBinding :: "RoleBinding \<Rightarrow> ('w, gerr + RoleBinding) go"
  k_UpdateCluster :: "Cluster \<Rightarrow> ('w, gerr + Cluster) go"
  k_UpdateTenant :: "Tenant \<Rightarrow> ('w, gerr + Tenant) go"
  k_UpdateGitRepo :: "GitRepo \<Rightarrow> ('w, gerr + GitRepo) go"
  k_UpdateRole :: "Role \<Rightarrow> ('w, gerr + Role) go"
  k_UpdateRoleBinding :: "RoleBinding \<Rightarrow> ('w, gerr + RoleBinding) go"
  k_StatusUpdateCluster :: "Cluster \<Rightarrow> ('w, gerr + Cluster) go"
  k_StatusUpdateTenant :: "Tenant \<Rightarrow> ('w, gerr + Tenant) go"
  k_StatusUpdateGitRepo :: "GitRepo \<Rightarrow> ('w, gerr + GitRepo) go"
  k_DeleteSecret :: "Secret \<Rightarrow> ('w, gerr option) go"
  k_CreateOrUpdateSecret ::
    "Secret \<Rightarrow> (Secret \<Rightarrow> ('w, Secret \<times> gerr option) go) \<Rightarrow> ('w, string \<times> Secret \<times> gerr option) go"
  k_CreateOrUpdateRole ::
    "Role \<Rightarrow> (Role \<Rightarrow> ('w, Role \<times> gerr option) go) \<Rightarrow> ('w, string \<times> Role \<times> gerr option) go"
  k_AddFinalizer :: "string list \<Rightarrow> string \<Rightarrow> string list \<times> bool"
  k_RemoveFinalizer :: "string list \<Rightarrow> string \<Rightarrow> string list \<times> bool"
  k_NewControllerRef :: "ObjectMeta \<Rightarrow> GVK \<Rightarrow> OwnerReference"
  k_SetControllerReference :: "ObjectMeta \<Rightarrow> ObjectMeta \<Rightarrow> gerr + ObjectMeta"

text \<open>\<open>Client.Update\<close> and \<open>Client.Status().Update\<close> on an object of any of the three kinds.\<close>

fun kUpdate :: "'w Client \<Rightarrow> Object \<Rightarrow> ('w, gerr + Object) go" where
  "kUpdate k (ClusterObj c) = bnd (k_UpdateCluster k c) (\<lambda>r. ret (map_sum id ClusterObj r))"
| "kUpdate k (TenantObj t) = bnd (k_UpdateTenant k t) (\<lambda>r. ret (map_sum id TenantObj r))"
| "kUpdate k (GitRepoObj g) = bnd (k_UpdateGitRepo k g) (\<lambda>r. ret (map_sum id GitRepoObj r))"

fun kStatusUpdate :: "'w Client \<Rightarrow> Object \<Rightarrow> ('w, gerr + Object) go" where
  "kStatusUpdate k (ClusterObj c) = bnd (k_StatusUpdateCluster k c) (\<lambda>r. ret (map_sum id ClusterObj r))"
| "kStatusUpdate k (TenantObj t) = bnd (k_StatusUpdateTenant k t) (\<lambda>r. ret (map_sum id TenantObj r))"
| "kStatusUpdate k (GitRepoObj g) = bnd (k_StatusUpdateGitRepo k g) (\<lambda>r. ret (map_sum id GitRepoObj r))"

text \<open>The Go runtime: the clock, \<open>crypto/rand.Read\<close>, and the order a range loop over a map takes.\<close>

record 'w Runtime =
  rt_Now :: "('w, time) go"
  rt_RandRead :: "nat \<Rightarrow> ('w, gerr + 8 word list) go"
  rt_MapHint :: "('w, string list) go"
  rt_SortHint :: "('w, nat list) go"

definition rangeOver :: "'w Runtime \<Rightarrow> 'v gomap \<Rightarrow> ('w, (string \<times> 'v) list) go" where
  "rangeOver rt m = bnd (rt_MapHint rt) (\<lambda>hint. ret (rangeMap hint m))"

section \<open>Documented behaviour, for hypotheses\<close>

text \<open>
  \<open>controllerutil\<close>: \<open>AddFinalizer\<close> adds the finalizer if it is not there and says whether it
  changed the list; \<open>RemoveFinalizer\<close> removes it wherever it is and says so too.
\<close>

definition finalizer_laws :: "'w Client \<Rightarrow> bool" where
  "finalizer_laws k \<longleftrightarrow>
     (\<forall>fs f. k_AddFinalizer k fs f = (if f \<in> set fs then (fs, False) else (fs @ [f], True))) \<and>
     (\<forall>fs f. k_RemoveFinalizer k fs f = (filter (\<lambda>x. x \<noteq> f) fs, f \<in> set fs))"

text \<open>
  An empty API server that accepts every write, leaves the world as it is and behaves as
  documented otherwise. It serves as the instance of the parameters at which the theorems with a
  hypothesis on the client are applied.
\<close>

definition idleClient :: "'w Client" where
  "idleClient = \<lparr>
     k_GetCluster = (\<lambda>_. ret (Inl (ApiErr NotFound ''not found''))),
     k_GetTenant = (\<lambda>_. ret (Inl (ApiErr NotFound ''not found''))),
     k_GetGitRepo = (\<lambda>_. ret (Inl (ApiErr NotFound ''not found''))),
     k_GetTenantTemplate = (\<lambda>_. ret (Inl (ApiErr NotFound ''not found''))),
     k_GetSecret = (\<lambda>_. ret (Inl (ApiErr NotFound ''not found''))),
     k_GetRole = (\<lambda>_. ret (Inl (ApiErr NotFound ''not found''))),
     k_GetRoleBinding = (\<lambda>_. ret (Inl (ApiErr NotFound ''not found''))),
     k_ListClusters = (\<lambda>_ _. ret (Inr [])),
     k_ListTenants = (\<lambda>_. ret (Inr [])),
     k_ListGitRepos = (\<lambda>_ _. ret (Inr [])),
     k_ListSecrets = ret (Inr []),
     k_CreateGitRepo = (\<lambda>x. ret (Inr x)),
     k_CreateSecret = (\<lambda>x. ret (Inr x)),
     k_CreateServiceAccount = (\<lambda>x. ret (Inr x)),
     k_CreateRole = (\<lambda>x. ret (Inr x)),
     k_CreateRoleBinding = (\<lambda>x. ret (Inr x)),
     k_UpdateCluster = (\<lambda>x. ret (Inr x)),
     k_UpdateTenant = (\<lambda>x. ret (Inr x)),
     k_UpdateGitRepo = (\<lambda>x. ret (Inr x)),
     k_UpdateRole = (\<lambda>x. ret (Inr x)),
     k_UpdateRoleBinding = (\<lambda>x. ret (Inr x)),
     k_StatusUpdateCluster = (\<lambda>x. ret (Inr x)),
     k_StatusUpdateTenant = (\<lambda>x. ret (Inr x)),
     k_StatusUpdateGitRepo = (\<lambda>x. ret (Inr x)),
     k_DeleteSecret = (\<lambda>_. ret None),
     k_CreateOrUpdateSecret = (\<lambda>x f. bnd (f x) (\<lambda>(y, e). ret (''created'', y, e))),
     k_CreateOrUpdateRole = (\<lambda>x f. bnd (f x) (\<lambda>(y, e). ret (''created'', y, e))),
     k_AddFinalizer = (\<lambda>fs f. if f \<in> set fs then (fs, False) else (fs @ [f], True)),
     k_RemoveFinalizer = (\<lambda>fs f. (filter (\<lambda>x. x \<noteq> f) fs, f \<in> set fs)),
     k_NewControllerRef = (\<lambda>m g. \<lparr>or_GVK = g, or_Name = om_Name m, or_UID = om_UID m, or_Controller = True\<rparr>),
     k_SetControllerReference = (\<lambda>owner m. Inr (m\<lparr>om_OwnerReferences :=
        [\<lparr>or_GVK = \<lparr>gvk_Group = '''', gvk_Version = '''', gvk_Kind = ''''\<rparr>, or_Name = om_Name owner,
          or_UID = om_UID owner, or_Controller = True\<rparr>]\<rparr>))\<rparr>"

definition idleRuntime :: "'w Runtime" where
  "idleRuntime = \<lparr>rt_Now = ret 0, rt_RandRead = (\<lambda>n. ret (Inr (replicate n 0))),
     rt_MapHint = ret [], rt_SortHint = ret []\<rparr>"

lemma idle_simps [simp]:
  "k_GetCluster idleClient key = ret (Inl (ApiErr NotFound ''not found''))"
  "k_GetTenant idleClient key = ret (Inl (ApiErr NotFound ''not found''))"
  "k_GetGitRepo idleClient key = ret (Inl (ApiErr NotFound ''not found''))"
  "k_GetTenantTemplate idleClient key = ret (Inl (ApiErr NotFound ''not found''))"
  "k_GetSecret idleClient key = ret (Inl (ApiErr NotFound ''not found''))"
  "k_GetRole idleClient key = ret (Inl (ApiErr NotFound ''not found''))"
  "k_GetRoleBinding idleClient key = ret (Inl (ApiErr NotFound ''not found''))"
  "k_ListClusters idleClient ns sel = ret (Inr [])"
  "k_ListTenants idleClient ns = ret (Inr [])"
  "k_ListGitRepos idleClient ns sel = ret (Inr [])"
  "k_ListSecrets idleClient = ret (Inr [])"
  "k_CreateGitRepo idleClient g = ret (Inr g)"
  "k_CreateSecret idleClient s = ret (Inr s)"
  "k_CreateServiceAccount idleClient sa = ret (Inr sa)"
  "k_CreateRole idleClient r = ret (Inr r)"
  "k_CreateRoleBinding idleClient b = ret (Inr b)"
  "k_UpdateCluster idleClient c = ret (Inr c)"
  "k_UpdateTenant idleClient t = ret (Inr t)"
  "k_UpdateGitRepo idleClient g = ret (Inr g)"
  "k_UpdateRole idleClient r = ret (Inr r)"
  "k_UpdateRoleBinding idleClient b = ret (Inr b)"
  "k_StatusUpdateCluster idleClient c = ret (Inr c)"
  "k_StatusUpdateTenant idleClient t = ret (Inr t)"
  "k_StatusUpdateGitRepo idleClient g = ret (Inr g)"
  "k_DeleteSecret idleClient s = ret None"
  "k_AddFinalizer idleClient fs f = (if f \<in> set fs then (fs, False) else (fs @ [f], True))"
  "k_RemoveFinalizer idleClient fs f = (filter (\<lambda>x. x \<noteq> f) fs, f \<in> set fs)"
  "rt_Now idleRuntime = ret 0"
  "rt_MapHint idleRuntime = ret []"
  "rt_SortHint idleRuntime = ret []"
  by (simp_all add: idleClient_def idleRuntime_def)

lemma idle_Update [simp]: "kUpdate idleClient x = ret (Inr x)"
  by (cases x) simp_all

lemma idle_StatusUpdate [simp]: "kStatusUpdate idleClient x = ret (Inr x)"
  by (cases x) simp_all

lemma idleClient_laws [simp]: "finalizer_laws idleClient"
  by (simp add: finalizer_laws_def idleClient_def)

lemma finalizer_laws_add:
  "finalizer_laws k \<Longrightarrow> k_AddFinalizer k fs f = (if f \<in> set fs then (fs, False) else (fs @ [f], True))"
  by (simp add: finalizer_laws_def)

lemma finalizer_laws_remove:
  "finalizer_laws k \<Longrightarrow> k_RemoveFinalizer k fs f = (filter (\<lambda>x. x \<noteq> f) fs, f \<in> set fs)"
  by (simp add: finalizer_laws_def)

end
