(* ===== verification/GoLib.thy ===== *)
theory GoLib
  imports Prelude
begin

text \<open>
  The functions of Go's standard library that the code uses on strings and paths: \<open>strings\<close>,
  \<open>strconv\<close> and \<open>path\<close>. A Go string is a sequence of bytes, a HOL \<open>string\<close> a list of 8-bit
  characters. The lemmas are the facts the components use: splitting and joining are inverse,
  decimal numerals are injective and can be read back, and \<open>path.Join\<close> of plain elements is
  their concatenation.
\<close>

section \<open>strings\<close>

fun splitOn :: "char \<Rightarrow> string \<Rightarrow> string list" where
  "splitOn c [] = [[]]"
| "splitOn c (x # xs) =
     (if x = c then [] # splitOn c xs
      else (case splitOn c xs of [] \<Rightarrow> [[x]] | y # ys \<Rightarrow> (x # y) # ys))"

fun joinWith :: "string \<Rightarrow> string list \<Rightarrow> string" where
  "joinWith sep [] = ''''"
| "joinWith sep [x] = x"
| "joinWith sep (x # y # ys) = x @ sep @ joinWith sep (y # ys)"

definition replaceChar :: "char \<Rightarrow> char \<Rightarrow> string \<Rightarrow> string" where
  "replaceChar a b s = map (\<lambda>x. if x = a then b else x) s"

definition hasPrefix :: "string \<Rightarrow> string \<Rightarrow> bool" where
  "hasPrefix s p \<longleftrightarrow> take (length p) s = p"

definition hasSuffix :: "string \<Rightarrow> string \<Rightarrow> bool" where
  "hasSuffix s p \<longleftrightarrow> hasPrefix (rev s) (rev p)"

text \<open>The white space of \<open>unicode.IsSpace\<close>, as the bytes of its UTF-8 encodings.\<close>

definition spaceSeqs :: "string list" where
  "spaceSeqs =
     [[CHR 0x09], [CHR 0x0A], [CHR 0x0B], [CHR 0x0C], [CHR 0x0D], [CHR 0x20],
      [CHR 0xC2, CHR 0x85], [CHR 0xC2, CHR 0xA0], [CHR 0xE1, CHR 0x9A, CHR 0x80],
      [CHR 0xE2, CHR 0x80, CHR 0x80], [CHR 0xE2, CHR 0x80, CHR 0x81],
      [CHR 0xE2, CHR 0x80, CHR 0x82], [CHR 0xE2, CHR 0x80, CHR 0x83],
      [CHR 0xE2, CHR 0x80, CHR 0x84], [CHR 0xE2, CHR 0x80, CHR 0x85],
      [CHR 0xE2, CHR 0x80, CHR 0x86], [CHR 0xE2, CHR 0x80, CHR 0x87],
      [CHR 0xE2, CHR 0x80, CHR 0x88], [CHR 0xE2, CHR 0x80, CHR 0x89],
      [CHR 0xE2, CHR 0x80, CHR 0x8A], [CHR 0xE2, CHR 0x80, CHR 0xA8],
      [CHR 0xE2, CHR 0x80, CHR 0xA9], [CHR 0xE2, CHR 0x80, CHR 0xAF],
      [CHR 0xE2, CHR 0x81, CHR 0x9F], [CHR 0xE3, CHR 0x80, CHR 0x80]]"

text \<open>\<open>leadingSeq seqs s\<close> is how many characters of \<open>s\<close> the first matching sequence takes, 0
  for none.\<close>

fun leadingSeq :: "string list \<Rightarrow> string \<Rightarrow> nat" where
  "leadingSeq [] s = 0"
| "leadingSeq (p # ps) s = (if hasPrefix s p then length p else leadingSeq ps s)"

function dropSeqs :: "string list \<Rightarrow> string \<Rightarrow> string" where
  "dropSeqs ps s = (if leadingSeq ps s = 0 \<or> s = [] then s else dropSeqs ps (drop (leadingSeq ps s) s))"
  by pat_completeness auto
termination
  by (relation "measure (\<lambda>(ps, s). length s)") auto

declare dropSeqs.simps [simp del]

definition TrimSpace :: "string \<Rightarrow> string" where
  "TrimSpace s = rev (dropSeqs (map rev spaceSeqs) (rev (dropSeqs spaceSeqs s)))"

lemma splitOn_not_Nil [simp]: "splitOn c s \<noteq> []"
  by (cases s) (auto split: list.splits)

lemma joinWith_Cons: "ys \<noteq> [] \<Longrightarrow> joinWith sep (x # ys) = x @ sep @ joinWith sep ys"
  by (cases ys) simp_all

lemma joinWith_splitOn: "joinWith [c] (splitOn c s) = s"
proof (induction s)
  case Nil
  show ?case by simp
next
  case (Cons x xs)
  obtain y ys where y: "splitOn c xs = y # ys"
    by (cases "splitOn c xs") simp_all
  show ?case
  proof (cases "x = c")
    case True
    with Cons.IH show ?thesis by (simp add: joinWith_Cons)
  next
    case False
    with Cons.IH y show ?thesis by (cases ys) auto
  qed
qed

lemma splitOn_no_sep: "c \<notin> set s \<Longrightarrow> splitOn c s = [s]"
  by (induction s) auto

lemma splitOn_append: "c \<notin> set x \<Longrightarrow> splitOn c (x @ c # s) = x # splitOn c s"
  by (induction x) auto

lemma splitOn_joinWith:
  "xs \<noteq> [] \<Longrightarrow> (\<forall>x \<in> set xs. c \<notin> set x) \<Longrightarrow> splitOn c (joinWith [c] xs) = xs"
proof (induction xs)
  case Nil
  then show ?case by simp
next
  case (Cons x ys)
  then show ?case
    by (cases "ys = []") (auto simp: splitOn_no_sep joinWith_Cons splitOn_append)
qed

lemma splitOn_pieces: "x \<in> set (splitOn c s) \<Longrightarrow> c \<notin> set x"
proof (induction s arbitrary: x)
  case Nil
  then show ?case by simp
next
  case (Cons a s)
  obtain y ys where y: "splitOn c s = y # ys"
    by (cases "splitOn c s") simp_all
  with Cons show ?case by (auto split: if_splits)
qed

lemma length_splitOn: "length (splitOn c s) = Suc (count_list s c)"
proof (induction s)
  case Nil
  then show ?case by simp
next
  case (Cons a s)
  then show ?case by (cases "splitOn c s") auto
qed

lemma length_replaceChar [simp]: "length (replaceChar a b s) = length s"
  by (simp add: replaceChar_def)

lemma replaceChar_inject:
  "b \<notin> set s \<Longrightarrow> b \<notin> set t \<Longrightarrow> replaceChar a b s = replaceChar a b t \<Longrightarrow> s = t"
proof (induction s arbitrary: t)
  case Nil
  then show ?case by (simp add: replaceChar_def)
next
  case (Cons x s)
  then obtain y t' where t: "t = y # t'" by (cases t) (simp_all add: replaceChar_def)
  with Cons.prems have "x = y" and "replaceChar a b s = replaceChar a b t'"
    by (auto simp: replaceChar_def split: if_splits)
  with Cons t show ?case by simp
qed

lemma hasPrefix_append [simp]: "hasPrefix (p @ s) p"
  by (simp add: hasPrefix_def)

lemma hasPrefix_iff: "hasPrefix s p \<longleftrightarrow> (\<exists>r. s = p @ r)"
  unfolding hasPrefix_def by (metis append_eq_conv_conj append_take_drop_id)

section \<open>strconv\<close>

definition ParseBool :: "string \<Rightarrow> bool option" where
  "ParseBool s =
     (if s \<in> {''1'', ''t'', ''T'', ''true'', ''TRUE'', ''True''} then Some True
      else if s \<in> {''0'', ''f'', ''F'', ''false'', ''FALSE'', ''False''} then Some False
      else None)"

text \<open>\<open>%q\<close>: \<open>strconv.Quote\<close>, for text without control characters.\<close>

definition Quote :: "string \<Rightarrow> string" where
  "Quote s = CHR 0x22 # concat (map (\<lambda>c. if c = CHR 0x22 \<or> c = CHR 0x5C then [CHR 0x5C, c] else [c]) s)
     @ [CHR 0x22]"

definition digitChar :: "nat \<Rightarrow> char" where
  "digitChar n = char_of (48 + n)"

fun decNat :: "nat \<Rightarrow> string" where
  "decNat n = (if n < 10 then [digitChar n] else decNat (n div 10) @ [digitChar (n mod 10)])"

declare decNat.simps [simp del]

definition FormatInt :: "int \<Rightarrow> string" where
  "FormatInt i = (if i < 0 then CHR ''-'' # decNat (nat (- i)) else decNat (nat i))"

definition isDigit :: "char \<Rightarrow> bool" where
  "isDigit c \<longleftrightarrow> 48 \<le> (of_char c :: nat) \<and> (of_char c :: nat) \<le> 57"

definition digitsVal :: "string \<Rightarrow> nat" where
  "digitsVal s = foldl (\<lambda>n c. 10 * n + (of_char c - 48)) 0 s"

text \<open>\<open>strconv.Atoi\<close> on a 64-bit platform: an optional sign and decimal digits, within the range
  of an \<open>int\<close>.\<close>

definition Atoi :: "string \<Rightarrow> int option" where
  "Atoi s =
     (let (neg, ds) = (case s of
            c # r \<Rightarrow> if c = CHR ''-'' then (True, r) else if c = CHR ''+'' then (False, r) else (False, s)
          | [] \<Rightarrow> (False, s));
          v = (if neg then - int (digitsVal ds) else int (digitsVal ds))
      in if ds = [] \<or> \<not> list_all isDigit ds then None
         else if - (2 ^ 63) \<le> v \<and> v < 2 ^ 63 then Some v else None)"

lemma of_char_digitChar: "n < 10 \<Longrightarrow> (of_char (digitChar n) :: nat) = 48 + n"
  by (simp add: digitChar_def)

lemma isDigit_digitChar: "n < 10 \<Longrightarrow> isDigit (digitChar n)"
  by (simp add: isDigit_def of_char_digitChar)

lemma decNat_not_Nil [simp]: "decNat n \<noteq> []"
  by (subst decNat.simps) simp

lemma decNat_digits: "list_all isDigit (decNat n)"
proof (induction n rule: decNat.induct)
  case (1 n)
  then show ?case by (subst decNat.simps) (simp add: isDigit_digitChar)
qed

lemma digitsVal_decNat [simp]: "digitsVal (decNat n) = n"
proof (induction n rule: decNat.induct)
  case (1 n)
  show ?case
  proof (cases "n < 10")
    case True
    then show ?thesis by (subst decNat.simps) (simp add: digitsVal_def of_char_digitChar)
  next
    case False
    with 1 have "foldl (\<lambda>n c. 10 * n + (of_char c - 48)) 0 (decNat (n div 10)) = n div 10"
      by (simp add: digitsVal_def)
    with False show ?thesis
      by (subst decNat.simps) (simp add: digitsVal_def of_char_digitChar)
  qed
qed

lemma not_isDigit_sign [simp]: "\<not> isDigit CHR ''-''" "\<not> isDigit CHR ''+''"
  by (simp_all add: isDigit_def)

lemma decNat_no_sign: "decNat n = c # r \<Longrightarrow> c \<noteq> CHR ''-'' \<and> c \<noteq> CHR ''+''"
  using decNat_digits [of n] by auto

lemma Atoi_FormatInt:
  assumes "- (2 ^ 63) \<le> i" and "i < 2 ^ 63"
  shows "Atoi (FormatInt i) = Some i"
proof (cases "i < 0")
  case True
  with assms show ?thesis by (simp add: Atoi_def FormatInt_def decNat_digits)
next
  case False
  obtain c r where cr: "decNat (nat i) = c # r"
    by (cases "decNat (nat i)") simp_all
  with decNat_no_sign [OF cr] decNat_digits [of "nat i"] digitsVal_decNat [of "nat i"] False assms
  show ?thesis by (simp add: Atoi_def FormatInt_def)
qed

lemma FormatInt_inject [simp]: "FormatInt i = FormatInt j \<longleftrightarrow> i = j"
proof
  assume eq: "FormatInt i = FormatInt j"
  have inj: "decNat m = decNat n \<Longrightarrow> m = n" for m n
    by (metis digitsVal_decNat)
  have sign: "CHR ''-'' # r \<noteq> decNat n" "decNat n \<noteq> CHR ''-'' # r" for r n
    using decNat_no_sign [of n] by metis+
  show "i = j"
    using eq inj [of "nat (- i)" "nat (- j)"] inj [of "nat i" "nat j"]
    by (auto simp: FormatInt_def sign split: if_splits)
qed simp

section \<open>path\<close>

fun cleanElems :: "bool \<Rightarrow> string list \<Rightarrow> string list \<Rightarrow> string list" where
  "cleanElems rooted acc [] = rev acc"
| "cleanElems rooted acc (e # es) =
     (if e = '''' \<or> e = ''.'' then cleanElems rooted acc es
      else if e = ''..'' then
        (case acc of
           [] \<Rightarrow> cleanElems rooted (if rooted then [] else [''..'']) es
         | a # as \<Rightarrow> if a = ''..'' then cleanElems rooted (''..'' # acc) es
                    else cleanElems rooted as es)
      else cleanElems rooted (e # acc) es)"

definition pathClean :: "string \<Rightarrow> string" where
  "pathClean p =
     (let rooted = hasPrefix p ''/'';
          body = joinWith ''/'' (cleanElems rooted [] (splitOn CHR ''/'' p))
      in if rooted then CHR ''/'' # body else if body = '''' then ''.'' else body)"

definition pathJoin :: "string list \<Rightarrow> string" where
  "pathJoin es =
     (let es' = dropWhile (\<lambda>e. e = '''') es
      in if es' = [] then '''' else pathClean (joinWith ''/'' es'))"

definition pathDir :: "string \<Rightarrow> string" where
  "pathDir p = pathClean (rev (dropWhile (\<lambda>c. c \<noteq> CHR ''/'') (rev p)))"

text \<open>An element that \<open>path.Clean\<close> does not touch.\<close>

definition plainElem :: "string \<Rightarrow> bool" where
  "plainElem e \<longleftrightarrow> e \<noteq> '''' \<and> e \<noteq> ''.'' \<and> e \<noteq> ''..'' \<and> CHR ''/'' \<notin> set e"

lemma cleanElems_plain: "list_all plainElem es \<Longrightarrow> cleanElems rooted acc es = rev acc @ es"
  by (induction es arbitrary: acc) (auto simp: plainElem_def)

lemma joinWith_plain_not_Nil: "es \<noteq> [] \<Longrightarrow> list_all plainElem es \<Longrightarrow> joinWith ''/'' es \<noteq> ''''"
proof -
  assume "es \<noteq> []" and "list_all plainElem es"
  then obtain e es' where "es = e # es'" and "e \<noteq> ''''" by (cases es) (auto simp: plainElem_def)
  then show ?thesis by (cases es') simp_all
qed

lemma joinWith_plain_not_rooted:
  assumes "es \<noteq> []" and "list_all plainElem es"
  shows "\<not> hasPrefix (joinWith ''/'' es) ''/''"
proof -
  from assms obtain e es' where e: "es = e # es'" "plainElem e" by (cases es) auto
  from e(2) obtain c r where c: "e = c # r" "c \<noteq> CHR ''/''" by (cases e) (auto simp: plainElem_def)
  with e(1) show ?thesis by (cases es') (auto simp: hasPrefix_def)
qed

lemma pathClean_plain:
  assumes "es \<noteq> []" and "list_all plainElem es"
  shows "pathClean (joinWith ''/'' es) = joinWith ''/'' es"
proof -
  have "splitOn CHR ''/'' (joinWith ''/'' es) = es"
    using assms by (intro splitOn_joinWith) (auto simp: list_all_iff plainElem_def)
  with assms show ?thesis
    by (simp add: pathClean_def joinWith_plain_not_rooted cleanElems_plain joinWith_plain_not_Nil)
qed

lemma pathJoin_plain:
  assumes "es \<noteq> []" and "list_all plainElem es"
  shows "pathJoin es = joinWith ''/'' es"
proof -
  have "dropWhile (\<lambda>e. e = '''') es = es"
    using assms by (cases es) (auto simp: plainElem_def)
  with assms pathClean_plain show ?thesis by (simp add: pathJoin_def)
qed

lemma dropWhile_to_sep: "c \<notin> set s \<Longrightarrow> dropWhile (\<lambda>x. x \<noteq> c) (rev s @ c # t) = c # t"
  by (induction s rule: rev_induct) auto

lemma splitOn_snoc_sep:
  "xs \<noteq> [] \<Longrightarrow> (\<forall>x \<in> set xs. c \<notin> set x) \<Longrightarrow> splitOn c (joinWith [c] xs @ [c]) = xs @ ['''']"
proof (induction xs)
  case Nil
  then show ?case by simp
next
  case (Cons x ys)
  then show ?case
    by (cases "ys = []") (auto simp: joinWith_Cons splitOn_append)
qed

lemma cleanElems_snoc_empty:
  "list_all plainElem es \<Longrightarrow> cleanElems rooted acc (es @ ['''']) = rev acc @ es"
  by (induction es arbitrary: acc) (auto simp: plainElem_def)

lemma joinWith_snoc: "xs \<noteq> [] \<Longrightarrow> joinWith sep (xs @ [y]) = joinWith sep xs @ sep @ y"
proof (induction xs)
  case Nil
  then show ?case by simp
next
  case (Cons x xs)
  then show ?case by (cases "xs = []") (auto simp: joinWith_Cons)
qed

lemma pathDir_plain:
  assumes "es \<noteq> []" and "list_all plainElem es" and "plainElem e"
  shows "pathDir (joinWith ''/'' (es @ [e])) = joinWith ''/'' es"
proof -
  let ?d = "joinWith ''/'' es"
  have "rev (dropWhile (\<lambda>c. c \<noteq> CHR ''/'') (rev (joinWith ''/'' (es @ [e])))) = ?d @ ''/''"
    using assms by (simp add: joinWith_snoc plainElem_def dropWhile_to_sep)
  moreover have "splitOn CHR ''/'' (?d @ ''/'') = es @ ['''']"
    using assms by (intro splitOn_snoc_sep) (auto simp: list_all_iff plainElem_def)
  moreover have "\<not> hasPrefix (?d @ ''/'') ''/''"
    using joinWith_plain_not_rooted [OF assms(1,2)] joinWith_plain_not_Nil [OF assms(1,2)]
    by (cases ?d) (auto simp: hasPrefix_def)
  ultimately show ?thesis
    using assms by (simp add: pathDir_def pathClean_def cleanElems_snoc_empty joinWith_plain_not_Nil)
qed

end
