(* ===== verification/Pipeline.thy ===== *)
theory Pipeline
  imports Kube GoLib
begin

text \<open>
  The reconcile pipeline (\<open>pipeline/pipeline.go\<close>, \<open>pipeline/steps.go\<close>): the context and the
  result of a step, \<open>RunPipeline\<close>, and the steps every controller shares. A step is a function of
  the object and the context that returns both as it leaves them, because the code passes
  pointers. Logging is left out; type assertions that cannot fail (every \<open>Object\<close> is a
  \<open>client.Object\<close> and a \<open>runtime.Object\<close>) have no branch, and \<open>DeepCopyObject\<close> is the identity
  on values. \<open>equality.Semantic.DeepEqual\<close> is equality of values.
\<close>

section \<open>Context, result and RunPipeline\<close>

record 'w Context =
  ctx_FinalizerName :: string
  ctx_Client :: "'w Client"
  ctx_Runtime :: "'w Runtime"
  ctx_Deleted :: bool
  ctx_originalObject :: "Object option"
  ctx_CreateSATokenSecret :: bool
  ctx_DefaultCreationPolicy :: string
  ctx_DefaultDeletionPolicy :: string
  ctx_DefaultGlobalGitRepoUrl :: string
  ctx_UseVault :: bool
  ctx_UseDeletionProtection :: bool

record Result =
  rs_Abort :: bool
  rs_Err :: "gerr option"
  rs_Requeue :: bool

definition okResult :: Result where
  "okResult = \<lparr>rs_Abort = False, rs_Err = None, rs_Requeue = False\<rparr>"

definition errResult :: "gerr \<Rightarrow> Result" where
  "errResult e = \<lparr>rs_Abort = False, rs_Err = Some e, rs_Requeue = False\<rparr>"

lemmas result_defs = okResult_def errResult_def

text \<open>What a controller answers to controller-runtime: \<open>reconcile.Result\<close> and an error.\<close>

record CtrlResult =
  cr_Requeue :: bool
  cr_RequeueAfter :: time

definition ctrlDone :: CtrlResult where
  "ctrlDone = \<lparr>cr_Requeue = False, cr_RequeueAfter = 0\<rparr>"

type_synonym 'w Function = "Object \<Rightarrow> 'w Context \<Rightarrow> ('w, Object \<times> 'w Context \<times> Result) go"

record 'w Step =
  step_Name :: string
  step_F :: "'w Function"

definition stops :: "Result \<Rightarrow> bool" where
  "stops r \<longleftrightarrow> rs_Abort r \<or> rs_Err r \<noteq> None"

definition stopResult :: "'w Step \<Rightarrow> Result \<Rightarrow> Result" where
  "stopResult s r = (case rs_Err r of
       None \<Rightarrow> \<lparr>rs_Abort = False, rs_Err = None, rs_Requeue = rs_Requeue r\<rparr>
     | Some e \<Rightarrow> errResult (Wrap (''step '' @ step_Name s @ '' failed: '') e))"

fun RunPipeline :: "Object \<Rightarrow> 'w Context \<Rightarrow> 'w Step list \<Rightarrow> ('w, Object \<times> 'w Context \<times> Result) go" where
  "RunPipeline obj data [] = ret (obj, data, okResult)"
| "RunPipeline obj data (s # ss) =
     bnd (step_F s obj data) (\<lambda>(obj', data', r).
       if stops r then ret (obj', data', stopResult s r) else RunPipeline obj' data' ss)"

section \<open>The shared steps\<close>

definition addDeletionProtection :: "'w Function" where
  "addDeletionProtection obj data =
     (if ctx_Deleted data then ret (obj, data, okResult)
      else if ctx_UseDeletionProtection data then
        (let m = GetMeta obj;
             annotations = om_Annotations m;
             annotations' = (if fmlookup annotations DeleteProtectionAnnotation = None
                             then fmupd DeleteProtectionAnnotation ''true'' annotations
                             else annotations)
         in ret (SetMeta (m\<lparr>om_Annotations := annotations'\<rparr>) obj, data, okResult))
      else ret (obj, data, okResult))"

text \<open>Reading a missing key of a Go map gives the zero value, here the empty string.\<close>

definition lookupStr :: "string gomap \<Rightarrow> string \<Rightarrow> string" where
  "lookupStr m k = (case fmlookup m k of None \<Rightarrow> '''' | Some v \<Rightarrow> v)"

definition AddTenantLabel :: "'w Function" where
  "AddTenantLabel obj data =
     (let m = GetMeta obj;
          labels = om_Labels m;
          labels' = (if lookupStr labels LabelNameTenant \<noteq> GetTenantRef obj
                     then fmupd LabelNameTenant (GetTenantRef obj) labels else labels)
      in ret (SetMeta (m\<lparr>om_Labels := labels'\<rparr>) obj, data, okResult))"

definition specAndMetaEqual :: "Object \<Rightarrow> Object \<Rightarrow> bool" where
  "specAndMetaEqual a b \<longleftrightarrow> GetMeta a = GetMeta b \<and> GetSpec a = GetSpec b"

definition gvkString :: "GVK \<Rightarrow> string" where
  "gvkString g = gvk_Group g @ ''/'' @ gvk_Version g @ '', Kind='' @ gvk_Kind g"

text \<open>What a failed write of the object is answered with: \<open>what\<close> is \<open>status\<close> or nothing.\<close>

definition updateErr :: "string \<Rightarrow> Object \<Rightarrow> gerr \<Rightarrow> gerr" where
  "updateErr what obj err =
     Wrap (''update '' @ gvkString (GroupVersionKind obj) @ ''/'' @ GetName obj @ what @ '': '') err"

definition writeFailed :: "string \<Rightarrow> Object \<Rightarrow> gerr \<Rightarrow> Result" where
  "writeFailed what obj err =
     (if IsConflict err then \<lparr>rs_Abort = False, rs_Err = None, rs_Requeue = True\<rparr>
      else errResult (updateErr what obj err))"

definition updateObject :: "'w Function" where
  "updateObject obj data = (case ctx_originalObject data of
       None \<Rightarrow> crash NilDeref
     | Some orig \<Rightarrow>
         bnd (if specAndMetaEqual obj orig then ret None
              else bnd (kUpdate (ctx_Client data) obj) (\<lambda>r. case r of
                     Inr _ \<Rightarrow> ret None
                   | Inl err \<Rightarrow> ret (Some (writeFailed '''' obj err))))
           (\<lambda>early. case early of
              Some res \<Rightarrow> ret (obj, data, res)
            | None \<Rightarrow>
                if GetStatus orig = GetStatus obj
                then ret (obj, data, \<lparr>rs_Abort = True, rs_Err = None, rs_Requeue = False\<rparr>)
                else bnd (kStatusUpdate (ctx_Client data) obj) (\<lambda>r. case r of
                       Inr _ \<Rightarrow> ret (obj, data, \<lparr>rs_Abort = True, rs_Err = None, rs_Requeue = False\<rparr>)
                     | Inl err \<Rightarrow> ret (obj, data, writeFailed '' status'' obj err))))"

text \<open>\<open>for _, v := range list\<close> that returns at the first hit.\<close>

fun sliceContainsString :: "string list \<Rightarrow> string \<Rightarrow> bool" where
  "sliceContainsString [] s = False"
| "sliceContainsString (v # vs) s = (if v = s then True else sliceContainsString vs s)"

definition isProtected :: "Object \<Rightarrow> bool" where
  "isProtected obj = (case fmlookup (om_Annotations (GetMeta obj)) DeleteProtectionAnnotation of
       None \<Rightarrow> False
     | Some v \<Rightarrow> (case ParseBool v of None \<Rightarrow> True | Some b \<Rightarrow> b))"

definition handleDeletion :: "'w Function" where
  "handleDeletion obj data =
     (if \<not> ctx_Deleted data then ret (obj, data, okResult)
      else if sliceContainsString (om_Finalizers (GetMeta obj)) (ctx_FinalizerName data)
              \<and> \<not> isProtected obj
           then ret (obj, data, okResult)
           else ret (obj, data, errResult (ErrNew ''finalzier was not removed'')))"

definition CheckIfDeleted :: "'w Function" where
  "CheckIfDeleted obj data =
     (if om_DeletionTimestamp (GetMeta obj) \<noteq> None
      then ret (obj, data\<lparr>ctx_Deleted := True\<rparr>, okResult)
      else ret (obj, data, okResult))"

definition handleFinalizer :: "'w Function" where
  "handleFinalizer obj data =
     (let m = GetMeta obj; k = ctx_Client data;
          fs = (if ctx_FinalizerName data \<noteq> '''' \<and> \<not> ctx_Deleted data
                then fst (k_AddFinalizer k (om_Finalizers m) (ctx_FinalizerName data))
                else fst (k_RemoveFinalizer k (om_Finalizers m) (ctx_FinalizerName data)))
      in ret (SetMeta (m\<lparr>om_Finalizers := fs\<rparr>) obj, data, okResult))"

definition DeepCopyOriginal :: "'w Function" where
  "DeepCopyOriginal obj data = ret (obj, data\<lparr>ctx_originalObject := Some obj\<rparr>, okResult)"

definition CommonSteps :: "'w Step list" where
  "CommonSteps =
     [\<lparr>step_Name = ''deletion'', step_F = handleDeletion\<rparr>,
      \<lparr>step_Name = ''add deletion protection'', step_F = addDeletionProtection\<rparr>,
      \<lparr>step_Name = ''handle finalizer'', step_F = handleFinalizer\<rparr>,
      \<lparr>step_Name = ''update object'', step_F = updateObject\<rparr>]"

definition Common :: "'w Function" where
  "Common obj data = RunPipeline obj data CommonSteps"

section \<open>RunPipeline as a big-step relation\<close>

text \<open>
  \<open>pipeline_run steps s executed s' res\<close>: starting with object, context and world \<open>s\<close>, the steps
  \<open>executed\<close> are run one after the other, the state is \<open>s'\<close> after the last of them, and the
  pipeline answers \<open>res\<close>.
\<close>

type_synonym 'w pstate = "Object \<times> 'w Context \<times> 'w"

inductive pipeline_run ::
  "'w Step list \<Rightarrow> 'w pstate \<Rightarrow> 'w Step list \<Rightarrow> 'w pstate \<Rightarrow> Result \<Rightarrow> bool" where
  run_done: "pipeline_run [] st [] st okResult"
| run_pass: "\<lbrakk>step_F s obj data w = (Ret (obj1, data1, r), w1); \<not> stops r;
     pipeline_run ss (obj1, data1, w1) ex st res\<rbrakk>
     \<Longrightarrow> pipeline_run (s # ss) (obj, data, w) (s # ex) st res"
| run_stop: "\<lbrakk>step_F s obj data w = (Ret (obj1, data1, r), w1); stops r\<rbrakk>
     \<Longrightarrow> pipeline_run (s # ss) (obj, data, w) [s] (obj1, data1, w1) (stopResult s r)"

inductive_cases run_NilE: "pipeline_run [] st ex st' res"
inductive_cases run_ConsE: "pipeline_run (s # ss) st ex st' res"

lemma RunPipeline_run:
  "RunPipeline obj data steps w = (Ret (obj', data', res), w') \<Longrightarrow>
     \<exists>ex. pipeline_run steps (obj, data, w) ex (obj', data', w') res"
proof (induction steps arbitrary: obj data w)
  case Nil
  then show ?case by (auto intro: run_done)
next
  case (Cons s ss)
  from Cons.prems obtain obj1 data1 r w1 where s: "step_F s obj data w = (Ret (obj1, data1, r), w1)"
    and rest: "(if stops r then ret (obj1, data1, stopResult s r)
                else RunPipeline obj1 data1 ss) w1 = (Ret (obj', data', res), w')"
    by (auto elim!: bnd_RetE)
  show ?case
  proof (cases "stops r")
    case True
    with s rest show ?thesis by (auto intro: run_stop)
  next
    case False
    with rest Cons.IH obtain ex where "pipeline_run ss (obj1, data1, w1) ex (obj', data', w') res"
      by fastforce
    with s False show ?thesis by (blast intro: run_pass)
  qed
qed

lemma run_RunPipeline:
  "pipeline_run steps st ex st' res \<Longrightarrow> st = (obj, data, w) \<Longrightarrow> st' = (obj', data', w') \<Longrightarrow>
     RunPipeline obj data steps w = (Ret (obj', data', res), w')"
  by (induction arbitrary: obj data w rule: pipeline_run.induct) auto

lemma run_prefix: "pipeline_run steps st ex st' res \<Longrightarrow> \<exists>rest. steps = ex @ rest"
  by (induction rule: pipeline_run.induct) auto

lemma run_never_aborts: "pipeline_run steps st ex st' res \<Longrightarrow> \<not> rs_Abort res"
  by (induction rule: pipeline_run.induct)
    (auto simp: result_defs stopResult_def split: option.splits)

text \<open>A step that never aborts with a request to requeue; a pipeline of such steps never asks for
  one.\<close>

definition quiet :: "'w Function \<Rightarrow> bool" where
  "quiet f \<longleftrightarrow> (\<forall>obj data w obj' data' r w'.
     f obj data w = (Ret (obj', data', r), w') \<longrightarrow> \<not> (rs_Abort r \<and> rs_Err r = None \<and> rs_Requeue r))"

lemma quietI:
  "(\<And>obj data w obj' data' r w'. f obj data w = (Ret (obj', data', r), w') \<Longrightarrow>
      rs_Abort r \<Longrightarrow> rs_Err r = None \<Longrightarrow> rs_Requeue r \<Longrightarrow> False) \<Longrightarrow> quiet f"
  by (auto simp: quiet_def)

lemma run_requeue:
  "pipeline_run steps st ex st' res \<Longrightarrow> rs_Requeue res \<Longrightarrow> \<exists>s \<in> set ex. \<not> quiet (step_F s)"
proof (induction rule: pipeline_run.induct)
  case (run_done st)
  then show ?case by (simp add: result_defs)
next
  case (run_pass s obj data w obj1 data1 r w1 ss ex st res)
  then show ?case by auto
next
  case (run_stop s obj data w obj1 data1 r w1 ss)
  then have "rs_Err r = None" and "rs_Requeue r" and "rs_Abort r"
    by (auto simp: stopResult_def stops_def result_defs split: option.splits)
  with run_stop.hyps show ?case by (simp add: quiet_def) blast
qed

lemma quiet_RunPipeline:
  assumes "\<forall>s \<in> set steps. quiet (step_F s)"
    and "RunPipeline obj data steps w = (Ret (obj', data', r), w')"
  shows "\<not> rs_Requeue r \<and> \<not> rs_Abort r"
proof -
  from assms(2) obtain ex where run: "pipeline_run steps (obj, data, w) ex (obj', data', w') r"
    by (blast dest: RunPipeline_run)
  from run_prefix [OF run] assms(1) have "\<forall>s \<in> set ex. quiet (step_F s)" by auto
  with run_requeue [OF run] run_never_aborts [OF run] show ?thesis by auto
qed

lemma quiet_pipeline: "\<forall>s \<in> set steps. quiet (step_F s) \<Longrightarrow> quiet (\<lambda>obj data. RunPipeline obj data steps)"
  by (rule quietI) (auto dest: quiet_RunPipeline)

section \<open>Steps that do not abort, and invariants\<close>

definition unaborted :: "'w Function \<Rightarrow> bool" where
  "unaborted f \<longleftrightarrow> (\<forall>obj data w obj' data' r w'. f obj data w = (Ret (obj', data', r), w') \<longrightarrow> \<not> rs_Abort r)"

lemma unabortedI:
  "(\<And>obj data w obj' data' r w'. f obj data w = (Ret (obj', data', r), w') \<Longrightarrow> \<not> rs_Abort r) \<Longrightarrow> unaborted f"
  by (simp add: unaborted_def)

lemma unabortedD: "unaborted f \<Longrightarrow> f obj data w = (Ret (obj', data', r), w') \<Longrightarrow> \<not> rs_Abort r"
  unfolding unaborted_def by blast

lemma unaborted_quiet: "unaborted f \<Longrightarrow> quiet f"
  by (auto simp: unaborted_def quiet_def)

text \<open>A step that aborts only with an error. A pipeline of such steps that reports no error has run every
  step.\<close>

definition finishes :: "'w Function \<Rightarrow> bool" where
  "finishes f \<longleftrightarrow> (\<forall>obj data w obj' data' r w'. f obj data w = (Ret (obj', data', r), w') \<longrightarrow>
     rs_Err r = None \<longrightarrow> \<not> stops r)"

lemma finishesI:
  "(\<And>obj data w obj' data' r w'. f obj data w = (Ret (obj', data', r), w') \<Longrightarrow> rs_Err r = None \<Longrightarrow> \<not> rs_Abort r) \<Longrightarrow>
     finishes f"
  unfolding finishes_def stops_def by blast

lemma finishesD: "finishes f \<Longrightarrow> f obj data w = (Ret (obj', data', r), w') \<Longrightarrow> rs_Err r = None \<Longrightarrow> \<not> stops r"
  unfolding finishes_def by blast

lemma unaborted_finishes [intro]: "unaborted f \<Longrightarrow> finishes f"
  by (rule finishesI) (blast dest: unabortedD)

lemma finishes_pipeline: "finishes (\<lambda>obj data. RunPipeline obj data steps)"
  by (rule finishesI) (blast dest: RunPipeline_run run_never_aborts)

lemma RunPipeline_passes:
  assumes "RunPipeline obj data (pre @ s # post) w = (Ret (obj', data', r), w')" and "rs_Err r = None"
    and "\<forall>s \<in> set (pre @ [s]). finishes (step_F s)"
  obtains o1 d1 w1 o2 d2 r2 w2 where
    "RunPipeline obj data pre w = (Ret (o1, d1, okResult), w1)"
    and "step_F s o1 d1 w1 = (Ret (o2, d2, r2), w2)" and "rs_Err r2 = None"
    and "RunPipeline o2 d2 post w2 = (Ret (obj', data', r), w')"
  using assms(1,3)
proof (induction pre arbitrary: obj data w thesis)
  case Nil
  from Nil.prems(2) obtain o2 d2 r2 w2 where s: "step_F s obj data w = (Ret (o2, d2, r2), w2)"
    and rest: "(if stops r2 then ret (o2, d2, stopResult s r2) else RunPipeline o2 d2 post) w2 = (Ret (obj', data', r), w')"
    by (auto elim!: bnd_RetE)
  from rest assms(2) have "rs_Err r2 = None"
    by (auto simp: stops_def stopResult_def errResult_def split: if_splits option.splits)
  with s Nil.prems(3) have "\<not> stops r2" by (auto dest: finishesD)
  with s rest \<open>rs_Err r2 = None\<close> Nil.prems(1) [of obj data w] show ?case by simp
next
  case (Cons s0 pre)
  from Cons.prems(2) obtain o2 d2 r2 w2 where s: "step_F s0 obj data w = (Ret (o2, d2, r2), w2)"
    and rest: "(if stops r2 then ret (o2, d2, stopResult s0 r2) else RunPipeline o2 d2 (pre @ s # post)) w2 = (Ret (obj', data', r), w')"
    by (auto elim!: bnd_RetE)
  from rest assms(2) have "rs_Err r2 = None"
    by (auto simp: stops_def stopResult_def errResult_def split: if_splits option.splits)
  with s Cons.prems(3) have go: "\<not> stops r2" by (auto dest: finishesD)
  show ?case
  proof (rule Cons.IH [of o2 d2 w2])
    fix o1 d1 w1 o3 d3 r3 w3
    assume "RunPipeline o2 d2 pre w2 = (Ret (o1, d1, okResult), w1)"
      and "step_F s o1 d1 w1 = (Ret (o3, d3, r3), w3)" and "rs_Err r3 = None"
      and "RunPipeline o3 d3 post w3 = (Ret (obj', data', r), w')"
    with s go show thesis by (intro Cons.prems(1) [of o1 d1 w1 o3 d3 r3 w3]) simp_all
  qed (use rest go Cons.prems(3) in simp_all)
qed

lemma RunPipeline_through:
  assumes "RunPipeline obj data (pre @ s # post) w = (Ret (obj', data', r), w')" and "rs_Err r = None"
    and "\<forall>s \<in> set (pre @ [s]). unaborted (step_F s)"
  obtains o1 d1 w1 o2 d2 r2 w2 where
    "RunPipeline obj data pre w = (Ret (o1, d1, okResult), w1)"
    and "step_F s o1 d1 w1 = (Ret (o2, d2, r2), w2)" and "rs_Err r2 = None"
    and "RunPipeline o2 d2 post w2 = (Ret (obj', data', r), w')"
  by (rule RunPipeline_passes [OF assms(1,2)]) (use assms(3) in blast, rule that)

lemma RunPipeline_invariant:
  assumes "\<And>s obj data w obj' data' r w'. s \<in> set steps \<Longrightarrow> P obj data \<Longrightarrow>
      step_F s obj data w = (Ret (obj', data', r), w') \<Longrightarrow> P obj' data'"
    and "P obj data" and "RunPipeline obj data steps w = (Ret (obj', data', r), w')"
  shows "P obj' data'"
  using assms
proof (induction steps arbitrary: obj data w)
  case (Cons s ss)
  from Cons.prems(3) obtain o1 d1 r1 w1 where s: "step_F s obj data w = (Ret (o1, d1, r1), w1)"
    and rest: "(if stops r1 then ret (o1, d1, stopResult s r1) else RunPipeline o1 d1 ss) w1 = (Ret (obj', data', r), w')"
    by (auto elim!: bnd_RetE)
  from Cons.prems(1) [OF _ Cons.prems(2) s] have P: "P o1 d1" by simp
  show ?case
  proof (cases "stops r1")
    case True
    with rest P show ?thesis by simp
  next
    case False
    with rest have "RunPipeline o1 d1 ss w1 = (Ret (obj', data', r), w')" by simp
    from Cons.IH [OF _ P this] Cons.prems(1) show ?thesis by (meson list.set_intros(2))
  qed
qed simp

section \<open>What the shared steps do\<close>

text \<open>The metadata the shared steps leave in a live object before it is written.\<close>

definition preparedMeta :: "bool \<Rightarrow> string \<Rightarrow> ObjectMeta \<Rightarrow> ObjectMeta" where
  "preparedMeta protect fin m =
     (let m' = (if protect
                   \<and> fmlookup (om_Annotations m) DeleteProtectionAnnotation = None
                then m\<lparr>om_Annotations := fmupd DeleteProtectionAnnotation ''true'' (om_Annotations m)\<rparr>
                else m)
      in if fin \<noteq> '''' \<and> fin \<notin> set (om_Finalizers m)
         then m'\<lparr>om_Finalizers := om_Finalizers m @ [fin]\<rparr>
         else if fin = ''''
         then m'\<lparr>om_Finalizers := filter (\<lambda>f. f \<noteq> '''') (om_Finalizers m)\<rparr>
         else m')"

definition updateStep :: "'w Step" where
  "updateStep = \<lparr>step_Name = ''update object'', step_F = updateObject\<rparr>"

lemma not_stops_ok [simp]: "\<not> stops okResult"
  by (simp add: stops_def okResult_def)

lemma sliceContainsString_iff [simp]: "sliceContainsString xs s \<longleftrightarrow> s \<in> set xs"
  by (induction xs) auto

lemma meta_annotations_same: "m\<lparr>om_Annotations := om_Annotations m\<rparr> = (m :: ObjectMeta)"
  by simp

lemma meta_finalizers_same: "m\<lparr>om_Finalizers := om_Finalizers m\<rparr> = (m :: ObjectMeta)"
  by simp

lemma Common_live:
  assumes "\<not> ctx_Deleted data" and "finalizer_laws (ctx_Client data)"
  shows "Common obj data = RunPipeline (SetMeta (preparedMeta (ctx_UseDeletionProtection data) (ctx_FinalizerName data) (GetMeta obj)) obj) data [updateStep]"
  using assms
  by (auto simp: Common_def CommonSteps_def handleDeletion_def addDeletionProtection_def
      handleFinalizer_def preparedMeta_def updateStep_def finalizer_laws_add
      finalizer_laws_remove Let_def)

lemma Common_deleted_blocked:
  assumes "ctx_Deleted data" and "isProtected obj \<or> ctx_FinalizerName data \<notin> set (om_Finalizers (GetMeta obj))"
  shows "Common obj data = ret (obj, data,
           errResult (Wrap ''step deletion failed: '' (ErrNew ''finalzier was not removed'')))"
  using assms
  by (auto simp: Common_def CommonSteps_def handleDeletion_def errResult_def stops_def stopResult_def)

lemma Common_deleted_released:
  assumes "ctx_Deleted data" and "\<not> isProtected obj"
    and "ctx_FinalizerName data \<in> set (om_Finalizers (GetMeta obj))"
    and "finalizer_laws (ctx_Client data)"
  shows "Common obj data = RunPipeline
           (SetMeta ((GetMeta obj)\<lparr>om_Finalizers :=
              filter (\<lambda>f. f \<noteq> ctx_FinalizerName data) (om_Finalizers (GetMeta obj))\<rparr>) obj) data [updateStep]"
  using assms
  by (simp add: Common_def CommonSteps_def handleDeletion_def addDeletionProtection_def
      handleFinalizer_def updateStep_def finalizer_laws_remove Let_def)

lemma updateObject_unchanged:
  assumes "ctx_originalObject data = Some orig" and "specAndMetaEqual obj orig"
    and "GetStatus orig = GetStatus obj"
  shows "RunPipeline obj data [updateStep] = ret (obj, data, okResult)"
  using assms
  by (intro ext) (simp add: updateStep_def updateObject_def stops_def stopResult_def okResult_def)

lemma quiet_handleDeletion: "quiet handleDeletion"
  by (rule quietI) (auto simp: handleDeletion_def result_defs split: if_splits)

lemma quiet_addDeletionProtection: "quiet addDeletionProtection"
  by (rule quietI) (auto simp: addDeletionProtection_def result_defs Let_def split: if_splits)

lemma quiet_handleFinalizer: "quiet handleFinalizer"
  by (rule quietI) (auto simp: handleFinalizer_def result_defs Let_def)

lemma quiet_AddTenantLabel: "quiet AddTenantLabel"
  by (rule quietI) (auto simp: AddTenantLabel_def result_defs Let_def)

lemma quiet_CheckIfDeleted: "quiet CheckIfDeleted"
  by (rule quietI) (auto simp: CheckIfDeleted_def result_defs split: if_splits)

lemma quiet_DeepCopyOriginal: "quiet DeepCopyOriginal"
  by (rule quietI) (auto simp: DeepCopyOriginal_def result_defs)

lemma writeFailed_not_abort [simp]: "\<not> rs_Abort (writeFailed what obj err)"
  by (simp add: writeFailed_def errResult_def)

lemma quiet_updateObject: "quiet updateObject"
  by (rule quietI)
    (auto simp: updateObject_def elim!: bnd_RetE split: option.splits if_splits sum.splits)

lemmas quiet_shared = quiet_handleDeletion quiet_addDeletionProtection quiet_handleFinalizer
  quiet_AddTenantLabel quiet_CheckIfDeleted quiet_DeepCopyOriginal quiet_updateObject

lemma quiet_Common: "quiet Common"
  unfolding Common_def
  by (rule quiet_pipeline) (simp add: CommonSteps_def quiet_shared)

section \<open>Properties of the pipeline\<close>

definition sampleContext :: "'w Context" where
  "sampleContext = \<lparr>ctx_FinalizerName = FinalizerName, ctx_Client = idleClient,
     ctx_Runtime = idleRuntime, ctx_Deleted = False, ctx_originalObject = None,
     ctx_CreateSATokenSecret = False, ctx_DefaultCreationPolicy = CreatePolicy,
     ctx_DefaultDeletionPolicy = ArchivePolicy, ctx_DefaultGlobalGitRepoUrl = '''',
     ctx_UseVault = False, ctx_UseDeletionProtection = True\<rparr>"

lemma sampleContext_simps [simp]:
  "ctx_FinalizerName sampleContext = FinalizerName"
  "ctx_Client sampleContext = idleClient"
  "ctx_Runtime sampleContext = idleRuntime"
  "\<not> ctx_Deleted sampleContext"
  "ctx_originalObject sampleContext = None"
  "\<not> ctx_CreateSATokenSecret sampleContext"
  "ctx_DefaultCreationPolicy sampleContext = CreatePolicy"
  "ctx_DefaultDeletionPolicy sampleContext = ArchivePolicy"
  "\<not> ctx_UseVault sampleContext"
  "ctx_UseDeletionProtection sampleContext"
  by (simp_all add: sampleContext_def)

definition called :: "'w Step \<Rightarrow> Object \<times> 'w Context \<times> 'w \<Rightarrow> Result \<Rightarrow> Object \<times> 'w Context \<times> 'w \<Rightarrow> bool" where
  "called s st r st' \<longleftrightarrow> (case (st, st') of ((obj, data, w), (obj', data', w')) \<Rightarrow>
     step_F s obj data w = (Ret (obj', data', r), w'))"

text \<open>The calls of a run as a sequence of states and results: the first \<open>k\<close> steps are called, each where
  the one before it ended, and what the last of them answers decides.\<close>

definition callSequence :: "'w Step list \<Rightarrow> nat \<Rightarrow> (nat \<Rightarrow> Object \<times> 'w Context \<times> 'w) \<Rightarrow> (nat \<Rightarrow> Result) \<Rightarrow> Result \<Rightarrow> bool" where
  "callSequence steps k st rs res \<longleftrightarrow> k \<le> length steps \<and>
     (\<forall>i<k. called (steps ! i) (st i) (rs i) (st (Suc i))) \<and>
     (\<forall>i. Suc i < k \<longrightarrow> \<not> rs_Abort (rs i) \<and> rs_Err (rs i) = None) \<and>
     (k = length steps \<and> (\<forall>i<k. \<not> rs_Abort (rs i) \<and> rs_Err (rs i) = None) \<and>
        res = \<lparr>rs_Abort = False, rs_Err = None, rs_Requeue = False\<rparr>
      \<or> (\<exists>j e. k = Suc j \<and> rs_Err (rs j) = Some e \<and> res = \<lparr>rs_Abort = False,
           rs_Err = Some (Wrap (''step '' @ step_Name (steps ! j) @ '' failed: '') e), rs_Requeue = False\<rparr>)
      \<or> (\<exists>j. k = Suc j \<and> rs_Err (rs j) = None \<and> rs_Abort (rs j) \<and>
           res = \<lparr>rs_Abort = False, rs_Err = None, rs_Requeue = rs_Requeue (rs j)\<rparr>))"

lemma callSequence_Nil: "callSequence [] k st rs res \<longleftrightarrow> k = 0 \<and> res = okResult"
  by (auto simp: callSequence_def okResult_def)

lemma callSequence_none: "\<not> callSequence (s # ss) 0 st rs res"
  by (simp add: callSequence_def)

lemma all_Suc: "(\<forall>i<Suc k. P i) \<longleftrightarrow> P 0 \<and> (\<forall>i<k. P (Suc i))"
  by (auto simp: less_Suc_eq_0_disj)

lemma callSequence_stop:
  "stops (rs 0) \<Longrightarrow> callSequence (s # ss) (Suc k) st rs res \<longleftrightarrow>
     k = 0 \<and> called s (st 0) (rs 0) (st 1) \<and> res = stopResult s (rs 0)"
  by (cases k) (auto simp: callSequence_def stops_def stopResult_def errResult_def all_Suc)

lemma callSequence_pass:
  "\<not> stops (rs 0) \<Longrightarrow> callSequence (s # ss) (Suc k) st rs res \<longleftrightarrow>
     called s (st 0) (rs 0) (st 1) \<and> callSequence ss k (st \<circ> Suc) (rs \<circ> Suc) res"
  by (cases k) (auto simp: callSequence_def stops_def all_Suc)

text \<open>C25: What \<open>RunPipeline\<close> does, as a sequence of calls: the steps are called in the order of the list, each
  on the object, the context and the world that the one before it left, and no step is called after one
  that aborted or failed. When every step has passed the answer is empty; after an error it is that error
  with the name of the step; after an abort without an error it keeps only the wish to be requeued.\<close>

theorem RunPipeline_iff_run:
  "RunPipeline obj data steps w = (Ret (obj', data', res), w') \<longleftrightarrow>
     (\<exists>k st rs. st 0 = (obj, data, w) \<and> st k = (obj', data', w') \<and> callSequence steps k st rs res)"
proof (induction steps arbitrary: obj data w)
  case Nil
  then show ?case by (auto simp: callSequence_Nil)
next
  case (Cons s ss)
  show ?case
  proof
    assume "RunPipeline obj data (s # ss) w = (Ret (obj', data', res), w')"
    then obtain obj1 data1 r w1 where c: "step_F s obj data w = (Ret (obj1, data1, r), w1)"
      and rest: "(if stops r then ret (obj1, data1, stopResult s r) else RunPipeline obj1 data1 ss) w1 = (Ret (obj', data', res), w')"
      by (auto elim!: bnd_RetE)
    show "\<exists>k st rs. st 0 = (obj, data, w) \<and> st k = (obj', data', w') \<and> callSequence (s # ss) k st rs res"
    proof (cases "stops r")
      case True
      with c rest show ?thesis
        by (intro exI [of _ "Suc 0"] exI [of _ "case_nat (obj, data, w) (\<lambda>_. (obj1, data1, w1))"] exI [of _ "\<lambda>_. r"])
          (simp add: callSequence_stop called_def ret_apply)
    next
      case False
      with rest Cons.IH [of obj1 data1 w1] obtain k st rs where
        "st 0 = (obj1, data1, w1)" "st k = (obj', data', w')" "callSequence ss k st rs res" by auto
      with c False show ?thesis
        by (intro exI [of _ "Suc k"] exI [of _ "case_nat (obj, data, w) st"] exI [of _ "case_nat r rs"])
          (simp add: callSequence_pass called_def comp_def)
    qed
  next
    assume "\<exists>k st rs. st 0 = (obj, data, w) \<and> st k = (obj', data', w') \<and> callSequence (s # ss) k st rs res"
    then obtain k st rs where st: "st 0 = (obj, data, w)" "st k = (obj', data', w')"
      and seq: "callSequence (s # ss) k st rs res" by blast
    from seq callSequence_none obtain j where k: "k = Suc j" by (cases k) blast+
    obtain obj1 data1 w1 where st1: "st 1 = (obj1, data1, w1)" by (cases "st 1")
    show "RunPipeline obj data (s # ss) w = (Ret (obj', data', res), w')"
    proof (cases "stops (rs 0)")
      case True
      with seq st st1 k show ?thesis by (auto simp: callSequence_stop called_def ret_apply bnd_def)
    next
      case False
      with seq k st st1 have "callSequence ss j (st \<circ> Suc) (rs \<circ> Suc) res" "step_F s obj data w = (Ret (obj1, data1, rs 0), w1)"
        by (simp_all add: callSequence_pass called_def)
      moreover from this(1) have "RunPipeline obj1 data1 ss w1 = (Ret (obj', data', res), w')"
        using Cons.IH [of obj1 data1 w1] st(2) st1 k by auto
      ultimately show ?thesis using False by (simp add: bnd_def)
    qed
  qed
qed

text \<open>C15: A deleted object whose protection annotation is set to anything but a false value is not
  released: the shared steps return an error and call nothing, so the finalizer stays.\<close>

theorem protected_object_is_kept:
  assumes "ctx_Deleted data"
    and "fmlookup (om_Annotations (GetMeta obj)) DeleteProtectionAnnotation = Some v"
    and "ParseBool v \<noteq> Some False"
  shows "Common obj data w = (Ret (obj, data,
           errResult (Wrap ''step deletion failed: '' (ErrNew ''finalzier was not removed''))), w)"
proof -
  from assms(2,3) have "isProtected obj"
    by (auto simp: isProtected_def split: option.splits)
  with assms(1) show ?thesis by (simp add: Common_deleted_blocked)
qed

definition protectedCluster :: Object where
  "protectedCluster = ClusterObj (sampleCluster\<lparr>cl_Meta := (sampleMeta ''c-prod'')\<lparr>
     om_Annotations := fmupd DeleteProtectionAnnotation ''yes please'' fmempty,
     om_Finalizers := [FinalizerName]\<rparr>\<rparr>)"

lemma protected_object_is_kept_witness:
  "Common protectedCluster (sampleContext\<lparr>ctx_Deleted := True\<rparr>) () =
     (Ret (protectedCluster, sampleContext\<lparr>ctx_Deleted := True\<rparr>,
        errResult (Wrap ''step deletion failed: '' (ErrNew ''finalzier was not removed''))), ())"
  by (rule protected_object_is_kept [where v = "''yes please''"])
    (simp_all add: protectedCluster_def ParseBool_def)

text \<open>C16: A deleted object that carries the finalizer and is not protected is released with one
  call: the shared steps write it without the finalizer (and otherwise unchanged), and only an
  error of that write other than a conflict is reported.\<close>

theorem deleted_object_is_released:
  assumes "ctx_Deleted data" and "\<not> isProtected obj"
    and "ctx_FinalizerName data \<in> set (om_Finalizers (GetMeta obj))"
    and "finalizer_laws (ctx_Client data)" and "ctx_originalObject data = Some obj"
  defines "obj' \<equiv> SetMeta ((GetMeta obj)\<lparr>om_Finalizers :=
      filter (\<lambda>f. f \<noteq> ctx_FinalizerName data) (om_Finalizers (GetMeta obj))\<rparr>) obj"
  shows "Common obj data = bnd (kUpdate (ctx_Client data) obj') (\<lambda>r. ret (obj', data,
           (case r of
              Inr _ \<Rightarrow> okResult
            | Inl e \<Rightarrow> if IsConflict e then okResult
                else errResult (Wrap ''step update object failed: '' (updateErr '''' obj' e)))))"
proof -
  have "om_Finalizers (GetMeta obj') \<noteq> om_Finalizers (GetMeta obj)"
    using assms(3) by (simp add: obj'_def filter_id_conv)
  then have neq: "\<not> specAndMetaEqual obj' obj" by (auto simp: specAndMetaEqual_def)
  have st: "GetStatus obj' = GetStatus obj" by (simp add: obj'_def)
  show ?thesis
    unfolding Common_deleted_released [OF assms(1-4), folded obj'_def]
    using neq st assms(5)
    by (simp add: updateStep_def updateObject_def bnd_assoc)
      (rule bnd_cong_all, auto simp: stops_def writeFailed_def stopResult_def okResult_def
        errResult_def split: sum.splits)
qed

definition deletedCluster :: Object where
  "deletedCluster = ClusterObj (sampleCluster\<lparr>cl_Meta := (sampleMeta ''c-prod'')\<lparr>
     om_Finalizers := [FinalizerName, PipelineFinalizerName]\<rparr>\<rparr>)"

lemma deleted_object_is_released_witness:
  "fst (Common deletedCluster (sampleContext\<lparr>ctx_Deleted := True,
          ctx_originalObject := Some deletedCluster\<rparr>) ()) =
     Ret (ClusterObj (sampleCluster\<lparr>cl_Meta := (sampleMeta ''c-prod'')\<lparr>
            om_Finalizers := [PipelineFinalizerName]\<rparr>\<rparr>),
          sampleContext\<lparr>ctx_Deleted := True, ctx_originalObject := Some deletedCluster\<rparr>, okResult)"
  by (subst deleted_object_is_released)
    (simp_all add: deletedCluster_def isProtected_def sample_defs api_constants)

text \<open>For a live object the shared steps are one write of the prepared object: the deletion
  protection annotation is added where the operator uses it and the object has none (an existing
  value is kept), the finalizer is there, and nothing else changes.\<close>

theorem live_object_is_prepared:
  fixes obj :: Object
  assumes "\<not> ctx_Deleted data" and "finalizer_laws (ctx_Client data)"
    and "ctx_FinalizerName data \<noteq> ''''"
  defines "m \<equiv> GetMeta obj" and "m' \<equiv> preparedMeta (ctx_UseDeletionProtection data) (ctx_FinalizerName data) (GetMeta obj)"
  shows "Common obj data = RunPipeline (SetMeta m' obj) data [updateStep] \<and>
    ctx_FinalizerName data \<in> set (om_Finalizers m') \<and>
    fmlookup (om_Annotations m') DeleteProtectionAnnotation =
      (case fmlookup (om_Annotations m) DeleteProtectionAnnotation of
         None \<Rightarrow> if ctx_UseDeletionProtection data then Some ''true'' else None
       | Some v \<Rightarrow> Some v) \<and>
    fmdrop DeleteProtectionAnnotation (om_Annotations m') =
      fmdrop DeleteProtectionAnnotation (om_Annotations m) \<and>
    m'\<lparr>om_Annotations := om_Annotations m, om_Finalizers := om_Finalizers m\<rparr> = m"
  using assms(3) Common_live [OF assms(1,2)]
  by (auto simp: m_def m'_def preparedMeta_def Let_def fmdrop_fmupd_same split: option.splits)

lemma live_object_is_prepared_witness:
  "fmlookup (om_Annotations (preparedMeta True FinalizerName (GetMeta (ClusterObj sampleCluster))))
     DeleteProtectionAnnotation = Some ''true'' \<and>
   FinalizerName \<in> set (om_Finalizers (preparedMeta True FinalizerName (GetMeta (ClusterObj sampleCluster))))"
  using live_object_is_prepared [of "sampleContext :: unit Context" "ClusterObj sampleCluster"]
  by (simp add: sampleContext_def sample_defs FinalizerName_def)

text \<open>The shared steps settle: run again on the object they have written, with nothing else
  changed, they make no call at all and leave the object alone.\<close>

theorem Common_settles:
  fixes obj :: Object
  assumes "\<not> ctx_Deleted data" and "finalizer_laws (ctx_Client data)"
  defines "obj1 \<equiv> SetMeta (preparedMeta (ctx_UseDeletionProtection data) (ctx_FinalizerName data) (GetMeta obj)) obj"
  assumes "ctx_originalObject data = Some obj1"
  shows "Common obj1 data = ret (obj1, data, okResult)"
proof -
  have "preparedMeta p fin (preparedMeta p fin m) = preparedMeta p fin m" for p fin m
    by (auto simp: preparedMeta_def Let_def)
  then have "SetMeta (preparedMeta (ctx_UseDeletionProtection data) (ctx_FinalizerName data) (GetMeta obj1)) obj1 = obj1"
    by (simp add: obj1_def)
  moreover have "RunPipeline obj1 data [updateStep] = ret (obj1, data, okResult)"
    using assms(4) by (rule updateObject_unchanged) (simp_all add: specAndMetaEqual_def)
  ultimately show ?thesis
    using Common_live [OF assms(1,2), of obj1] by (simp del: RunPipeline.simps)
qed

lemma Common_settles_witness:
  "Common (SetMeta (preparedMeta True FinalizerName (sampleMeta ''c-prod'')) (ClusterObj sampleCluster))
     (sampleContext\<lparr>ctx_originalObject := Some (SetMeta (preparedMeta True FinalizerName
        (sampleMeta ''c-prod'')) (ClusterObj sampleCluster))\<rparr>) () =
   (Ret (SetMeta (preparedMeta True FinalizerName (sampleMeta ''c-prod'')) (ClusterObj sampleCluster),
      sampleContext\<lparr>ctx_originalObject := Some (SetMeta (preparedMeta True FinalizerName
        (sampleMeta ''c-prod'')) (ClusterObj sampleCluster))\<rparr>, okResult), ())"
  using Common_settles [of "sampleContext\<lparr>ctx_originalObject := Some (SetMeta (preparedMeta True
      FinalizerName (sampleMeta ''c-prod'')) (ClusterObj sampleCluster))\<rparr> :: unit Context"
      "ClusterObj sampleCluster"]
  by (simp add: sampleCluster_def)

text \<open>A write conflict is reported as success: the write step answers it with the request to
  requeue, and the pipeline that ends with this step returns the plain result, with no error and
  no requeue, although neither object nor status were stored.\<close>

theorem conflict_is_dropped:
  assumes "ctx_originalObject data = Some orig" and "\<not> specAndMetaEqual obj orig"
    and "kUpdate (ctx_Client data) obj w = (Ret (Inl e), w')" and "IsConflict e"
  shows "updateObject obj data w = (Ret (obj, data, \<lparr>rs_Abort = False, rs_Err = None, rs_Requeue = True\<rparr>), w')
    \<and> RunPipeline obj data [updateStep] w = (Ret (obj, data, okResult), w')"
  using assms by (simp add: updateStep_def updateObject_def writeFailed_def stops_def)

lemma conflict_is_dropped_witness:
  "\<exists>data. RunPipeline (ClusterObj sampleCluster) data [updateStep] () =
     (Ret (ClusterObj sampleCluster, data, okResult), ())"
proof -
  let ?k = "idleClient\<lparr>k_UpdateCluster := \<lambda>_. ret (Inl (Wrap ''put: '' (ApiErr Conflict ''conflict'')))\<rparr>"
  let ?d = "sampleContext\<lparr>ctx_Client := ?k, ctx_originalObject := Some (TenantObj sampleTenant)\<rparr> :: unit Context"
  have "RunPipeline (ClusterObj sampleCluster) ?d [updateStep] () =
     (Ret (ClusterObj sampleCluster, ?d, okResult), ())"
    using conflict_is_dropped [of ?d "TenantObj sampleTenant" "ClusterObj sampleCluster" "()"
        "Wrap ''put: '' (ApiErr Conflict ''conflict'')" "()"]
    by (simp add: specAndMetaEqual_def)
  then show ?thesis by blast
qed

text \<open>
  Optimistic locking, as documented for the API server: a write that is accepted and changes the
  object gives it a new resource version, and a later write with the old one is refused with a
  conflict.
\<close>

definition optimistic_locking :: "'w Client \<Rightarrow> bool" where
  "optimistic_locking k \<longleftrightarrow> (\<forall>obj w obj' w'. kUpdate k obj w = (Ret (Inr obj'), w') \<longrightarrow>
     om_ResourceVersion (GetMeta obj') \<noteq> om_ResourceVersion (GetMeta obj) \<longrightarrow>
     (\<exists>e w''. kStatusUpdate k obj w' = (Ret (Inl e), w'') \<and> IsConflict e))"

text \<open>C20: A pass that changes both the object and its status does not get its status stored. The
  write step sends copies and keeps the resource version it started with, so under optimistic
  locking the status update that follows the accepted update is refused, and the refusal is
  reported as plain success.\<close>

theorem status_update_after_update_is_lost:
  assumes "optimistic_locking (ctx_Client data)"
    and "ctx_originalObject data = Some orig" and "\<not> specAndMetaEqual obj orig"
    and "GetStatus orig \<noteq> GetStatus obj"
    and "kUpdate (ctx_Client data) obj w = (Ret (Inr obj'), w')"
    and "om_ResourceVersion (GetMeta obj') \<noteq> om_ResourceVersion (GetMeta obj)"
  shows "\<exists>e w''. kStatusUpdate (ctx_Client data) obj w' = (Ret (Inl e), w'') \<and>
    RunPipeline obj data [updateStep] w = (Ret (obj, data, okResult), w'')"
proof -
  from assms(1,5,6) obtain e w'' where e: "kStatusUpdate (ctx_Client data) obj w' = (Ret (Inl e), w'')"
    "IsConflict e"
    unfolding optimistic_locking_def by blast
  with assms(2-5) have "RunPipeline obj data [updateStep] w = (Ret (obj, data, okResult), w'')"
    by (simp add: updateStep_def updateObject_def writeFailed_def stops_def)
  with e show ?thesis by blast
qed

text \<open>The instance: a server whose world is the resource version it has stored.\<close>

definition versionedWrite :: "Cluster \<Rightarrow> (string, gerr + Cluster) go" where
  "versionedWrite c v =
     (if om_ResourceVersion (cl_Meta c) = v
      then (Ret (Inr (c\<lparr>cl_Meta := (cl_Meta c)\<lparr>om_ResourceVersion := CHR ''1'' # v\<rparr>\<rparr>)), CHR ''1'' # v)
      else (Ret (Inl (ApiErr Conflict ''conflict'')), v))"

definition versionedClient :: "string Client" where
  "versionedClient = idleClient\<lparr>k_UpdateCluster := versionedWrite,
     k_StatusUpdateCluster := versionedWrite\<rparr>"

lemma versionedClient_locks: "optimistic_locking versionedClient"
  unfolding optimistic_locking_def
proof (intro allI impI)
  fix obj w obj' w'
  assume "kUpdate versionedClient obj w = (Ret (Inr obj'), w')"
    and "om_ResourceVersion (GetMeta obj') \<noteq> om_ResourceVersion (GetMeta obj)"
  then show "\<exists>e w''. kStatusUpdate versionedClient obj w' = (Ret (Inl e), w'') \<and> IsConflict e"
    by (cases obj) (auto simp: versionedClient_def versionedWrite_def bnd_def split: if_splits)
qed

lemma status_update_after_update_is_lost_witness:
  "\<exists>data v. RunPipeline (ClusterObj sampleCluster) data [updateStep] ''1'' =
     (Ret (ClusterObj sampleCluster, data, okResult), v)"
proof -
  let ?d = "sampleContext\<lparr>ctx_Client := versionedClient,
     ctx_originalObject := Some (TenantObj sampleTenant)\<rparr>"
  note versionedClient_locks
  then show ?thesis
    using status_update_after_update_is_lost [of ?d "TenantObj sampleTenant" "ClusterObj sampleCluster"
        "''1''" "SetMeta ((GetMeta (ClusterObj sampleCluster))\<lparr>om_ResourceVersion := ''11''\<rparr>) (ClusterObj sampleCluster)" "''11''"]
    by (auto simp: specAndMetaEqual_def versionedClient_def versionedWrite_def
        sampleCluster_def sampleMeta_def bnd_def)
qed

end
