(* ===== verification/EnvVars.thy ===== *)
theory EnvVars
  imports Api
begin

text \<open>
  The list of CI variables of a repository template (\<open>controllers/util.go\<close>): find a variable by
  name, set it to a value or to a reference to a secret, remove it. The operations say whether
  they changed anything. Their contract is the locale \<open>env_table\<close>, interpreted for both ways to
  set a variable.
\<close>

section \<open>The operations\<close>

text \<open>\<open>slices.IndexFunc\<close>: the first index, or \<open>-1\<close>.\<close>

fun indexFrom :: "int \<Rightarrow> string \<Rightarrow> EnvVar list \<Rightarrow> int" where
  "indexFrom i name [] = -1"
| "indexFrom i name (e # es) = (if ev_Name e = name then i else indexFrom (i + 1) name es)"

definition envVarIndex :: "string \<Rightarrow> EnvVar list \<Rightarrow> int" where
  "envVarIndex name xs = indexFrom 0 name xs"

definition noGitlabOptions :: EnvVarGitlabOptions where
  "noGitlabOptions = \<lparr>go_Description = '''', go_Protected = False, go_Masked = False, go_Raw = False\<rparr>"

definition updateEnvVarValue :: "string \<Rightarrow> string \<Rightarrow> EnvVar list \<Rightarrow> EnvVar list \<times> bool" where
  "updateEnvVarValue name val envVars =
     (let index = envVarIndex name envVars in
      if index < 0 then
        (envVars @ [\<lparr>ev_Name = name, ev_Value = val, ev_ValueFrom = None,
           ev_GitlabOptions = noGitlabOptions\<lparr>go_Raw := True\<rparr>\<rparr>], True)
      else if ev_Value (envVars ! nat index) \<noteq> val then
        (envVars[nat index := (envVars ! nat index)\<lparr>ev_Value := val\<rparr>], True)
      else (envVars, False))"

definition secretSource :: "string \<Rightarrow> string \<Rightarrow> EnvVarSource" where
  "secretSource secret key =
     \<lparr>evs_SecretKeyRef = Some \<lparr>sks_Name = secret, sks_Key = key, sks_Optional = None\<rparr>\<rparr>"

text \<open>\<open>envVars[index].ValueFrom.SecretKeyRef\<close>: no value if one of the pointers is nil, which is a
  panic of the code.\<close>

definition secretKeyRef :: "EnvVar \<Rightarrow> SecretKeySelector option" where
  "secretKeyRef e = (case ev_ValueFrom e of None \<Rightarrow> None | Some src \<Rightarrow> evs_SecretKeyRef src)"

definition updateEnvVarValueFrom ::
  "string \<Rightarrow> string \<Rightarrow> string \<Rightarrow> EnvVar list \<Rightarrow> (EnvVar list \<times> bool) option" where
  "updateEnvVarValueFrom name secret key envVars =
     (let index = envVarIndex name envVars in
      if index < 0 then
        Some (envVars @ [\<lparr>ev_Name = name, ev_Value = '''',
                ev_ValueFrom = Some (secretSource secret key),
                ev_GitlabOptions = noGitlabOptions\<lparr>go_Masked := True, go_Raw := True\<rparr>\<rparr>], True)
      else (case secretKeyRef (envVars ! nat index) of
         None \<Rightarrow> None
       | Some ref \<Rightarrow>
           if sks_Name ref \<noteq> secret \<or> sks_Key ref \<noteq> key then
             Some (envVars[nat index := (envVars ! nat index)
                     \<lparr>ev_ValueFrom := Some (secretSource secret key)\<rparr>], True)
           else Some (envVars, False)))"

text \<open>\<open>slices.Delete(envVars, i, i+1)\<close>.\<close>

definition removeEnvVar :: "string \<Rightarrow> EnvVar list \<Rightarrow> EnvVar list \<times> bool" where
  "removeEnvVar name envVars =
     (let index = envVarIndex name envVars in
      if index \<ge> 0 then (take (nat index) envVars @ drop (nat index + 1) envVars, True)
      else (envVars, False))"

section \<open>The list as a table\<close>

text \<open>What the list says about a name: the first variable of that name.\<close>

definition lookEnv :: "string \<Rightarrow> EnvVar list \<Rightarrow> EnvVar option" where
  "lookEnv name xs = find (\<lambda>e. ev_Name e = name) xs"

definition namesDistinct :: "EnvVar list \<Rightarrow> bool" where
  "namesDistinct xs \<longleftrightarrow> distinct (map ev_Name xs)"

lemma indexFrom_cases:
  "(indexFrom i name xs = -1 \<and> lookEnv name xs = None \<and> name \<notin> ev_Name ` set xs) \<or>
   (\<exists>ys e zs. xs = ys @ e # zs \<and> name \<notin> ev_Name ` set ys \<and> ev_Name e = name \<and>
      indexFrom i name xs = i + int (length ys) \<and> lookEnv name xs = Some e)"
proof (induction xs arbitrary: i)
  case Nil
  then show ?case by (simp add: lookEnv_def)
next
  case (Cons x xs)
  show ?case
  proof (cases "ev_Name x = name")
    case True
    then show ?thesis
      by (intro disjI2 exI [of _ "[]"] exI [of _ x] exI [of _ xs]) (simp add: lookEnv_def)
  next
    case False
    from Cons.IH [of "i + 1"] show ?thesis
    proof (elim disjE exE conjE)
      assume "indexFrom (i + 1) name xs = -1" "lookEnv name xs = None" "name \<notin> ev_Name ` set xs"
      with False show ?thesis by (auto simp: lookEnv_def)
    next
      fix ys e zs
      assume "xs = ys @ e # zs" "name \<notin> ev_Name ` set ys" "ev_Name e = name"
        "indexFrom (i + 1) name xs = i + 1 + int (length ys)" "lookEnv name xs = Some e"
      with False show ?thesis
        by (intro disjI2 exI [of _ "x # ys"] exI [of _ e] exI [of _ zs]) (auto simp: lookEnv_def)
    qed
  qed
qed

text \<open>Every operation distinguishes these two cases.\<close>

lemma envVar_cases [case_names absent present]:
  obtains "envVarIndex name xs = -1" "lookEnv name xs = None" "name \<notin> ev_Name ` set xs"
  | ys e zs where "xs = ys @ e # zs" "name \<notin> ev_Name ` set ys" "ev_Name e = name"
      "envVarIndex name xs = int (length ys)" "lookEnv name xs = Some e"
  using indexFrom_cases [of 0 name xs] unfolding envVarIndex_def by fastforce

lemma lookEnv_Nil [simp]: "lookEnv n [] = None"
  by (simp add: lookEnv_def)

lemma lookEnv_Cons [simp]: "lookEnv n (e # es) = (if ev_Name e = n then Some e else lookEnv n es)"
  by (simp add: lookEnv_def)

lemma lookEnv_append [simp]:
  "lookEnv n (xs @ ys) = (case lookEnv n xs of None \<Rightarrow> lookEnv n ys | Some e \<Rightarrow> Some e)"
  by (induction xs) simp_all

lemma lookEnv_None_iff: "lookEnv n xs = None \<longleftrightarrow> n \<notin> ev_Name ` set xs"
  by (induction xs) auto

lemma lookEnv_absent [simp]: "n \<notin> ev_Name ` set xs \<Longrightarrow> lookEnv n xs = None"
  by (simp add: lookEnv_None_iff)

lemma namesDistinct_append [simp]:
  "namesDistinct (xs @ ys) \<longleftrightarrow>
     namesDistinct xs \<and> namesDistinct ys \<and> ev_Name ` set xs \<inter> ev_Name ` set ys = {}"
  by (simp add: namesDistinct_def)

lemma namesDistinct_Cons [simp]:
  "namesDistinct (e # es) \<longleftrightarrow> ev_Name e \<notin> ev_Name ` set es \<and> namesDistinct es"
  by (simp add: namesDistinct_def)

lemma namesDistinct_Nil [simp]: "namesDistinct []"
  by (simp add: namesDistinct_def)

section \<open>The contract\<close>

text \<open>
  A table of named entries. \<open>put n v t\<close> makes the entry \<open>n\<close> hold \<open>v\<close> and reports whether the
  table changed; it has no result if the code panics. \<open>rem\<close> takes an entry out. A table is well
  formed if no name occurs twice, and only then does \<open>rem\<close> leave nothing of that name.
\<close>

locale env_table =
  fixes look :: "string \<Rightarrow> 't \<Rightarrow> 'e option"
    and wf :: "'t \<Rightarrow> bool"
    and put :: "string \<Rightarrow> 'v \<Rightarrow> 't \<Rightarrow> ('t \<times> bool) option"
    and rem :: "string \<Rightarrow> 't \<Rightarrow> 't \<times> bool"
    and holds :: "'v \<Rightarrow> 'e \<Rightarrow> bool"
  assumes put_hit: "put n v t = Some (t', ch) \<Longrightarrow> \<exists>e. look n t' = Some e \<and> holds v e"
    and put_other: "put n v t = Some (t', ch) \<Longrightarrow> m \<noteq> n \<Longrightarrow> look m t' = look m t"
    and put_same: "put n v t = Some (t', False) \<Longrightarrow> t' = t"
    and put_held: "look n t = Some e \<Longrightarrow> holds v e \<Longrightarrow> put n v t = Some (t, False)"
    and put_wf: "put n v t = Some (t', ch) \<Longrightarrow> wf t \<Longrightarrow> wf t'"
    and put_fresh: "look n t = None \<Longrightarrow> put n v t \<noteq> None"
    and rem_hit: "wf t \<Longrightarrow> look n (fst (rem n t)) = None"
    and rem_other: "m \<noteq> n \<Longrightarrow> look m (fst (rem n t)) = look m t"
    and rem_wf: "wf t \<Longrightarrow> wf (fst (rem n t))"
    and rem_changed: "snd (rem n t) \<longleftrightarrow> look n t \<noteq> None"
    and rem_absent: "look n t = None \<Longrightarrow> fst (rem n t) = t"
begin

text \<open>Setting again what was set changes nothing; so does setting it after other names were set.\<close>

lemma put_settles: "put n v t = Some (t', ch) \<Longrightarrow> put n v t' = Some (t', False)"
  using put_hit put_held by blast

lemma put_settles_after:
  assumes "put n v t = Some (t1, c1)" and "look n t2 = look n t1"
  shows "put n v t2 = Some (t2, False)"
  using put_hit [OF assms(1)] assms(2) put_held by metis

text \<open>Unchanged means that the entry was right already.\<close>

lemma put_unchanged_iff:
  "put n v t = Some (t', ch) \<Longrightarrow> \<not> ch \<Longrightarrow> t' = t \<and> (\<exists>e. look n t = Some e \<and> holds v e)"
  using put_hit [of n v t t' False] put_same [of n v t t'] by (cases ch) auto

lemma rem_settles: "wf t \<Longrightarrow> rem n (fst (rem n t)) = (fst (rem n t), False)"
  by (metis prod.collapse rem_absent rem_changed rem_hit)

text \<open>An entry that was just set can be taken out again without a trace in the others.\<close>

lemma rem_after_put:
  assumes "put n v t = Some (t', ch)"
  shows "m \<noteq> n \<Longrightarrow> look m (fst (rem n t')) = look m t" and "snd (rem n t')"
  using assms rem_other put_other rem_changed put_hit by (metis, metis option.distinct(1))

end

definition holdsValue :: "string \<Rightarrow> EnvVar \<Rightarrow> bool" where
  "holdsValue v e \<longleftrightarrow> ev_Value e = v"

definition holdsSecret :: "string \<times> string \<Rightarrow> EnvVar \<Rightarrow> bool" where
  "holdsSecret v e \<longleftrightarrow> (\<exists>ref. secretKeyRef e = Some ref \<and> sks_Name ref = fst v \<and> sks_Key ref = snd v)"

lemma updateEnvVarValue_absent:
  "envVarIndex name xs = -1 \<Longrightarrow> updateEnvVarValue name val xs =
     (xs @ [\<lparr>ev_Name = name, ev_Value = val, ev_ValueFrom = None,
        ev_GitlabOptions = noGitlabOptions\<lparr>go_Raw := True\<rparr>\<rparr>], True)"
  by (simp add: updateEnvVarValue_def)

lemma updateEnvVarValue_present:
  assumes "envVarIndex name (ys @ e # zs) = int (length ys)"
  shows "updateEnvVarValue name val (ys @ e # zs) =
     (ys @ e\<lparr>ev_Value := val\<rparr> # zs, ev_Value e \<noteq> val)"
  using assms by (cases e) (auto simp: updateEnvVarValue_def Let_def)

lemma updateEnvVarValueFrom_absent:
  "envVarIndex name xs = -1 \<Longrightarrow> updateEnvVarValueFrom name secret key xs =
     Some (xs @ [\<lparr>ev_Name = name, ev_Value = '''', ev_ValueFrom = Some (secretSource secret key),
        ev_GitlabOptions = noGitlabOptions\<lparr>go_Masked := True, go_Raw := True\<rparr>\<rparr>], True)"
  by (simp add: updateEnvVarValueFrom_def)

lemma updateEnvVarValueFrom_present:
  assumes "envVarIndex name (ys @ e # zs) = int (length ys)"
  shows "updateEnvVarValueFrom name secret key (ys @ e # zs) =
     (case secretKeyRef e of None \<Rightarrow> None
      | Some ref \<Rightarrow> if sks_Name ref = secret \<and> sks_Key ref = key then Some (ys @ e # zs, False)
          else Some (ys @ e\<lparr>ev_ValueFrom := Some (secretSource secret key)\<rparr> # zs, True))"
  using assms by (simp add: updateEnvVarValueFrom_def split: option.split)

lemma removeEnvVar_absent: "envVarIndex name xs = -1 \<Longrightarrow> removeEnvVar name xs = (xs, False)"
  by (simp add: removeEnvVar_def)

lemma removeEnvVar_present:
  "envVarIndex name (ys @ e # zs) = int (length ys) \<Longrightarrow> removeEnvVar name (ys @ e # zs) = (ys @ zs, True)"
  by (simp add: removeEnvVar_def)

lemma secretKeyRef_secretSource [simp]:
  "secretKeyRef (e\<lparr>ev_ValueFrom := Some (secretSource s k)\<rparr>) = Some \<lparr>sks_Name = s, sks_Key = k, sks_Optional = None\<rparr>"
  "secretKeyRef \<lparr>ev_Name = n, ev_Value = v, ev_ValueFrom = Some (secretSource s k), ev_GitlabOptions = g\<rparr>
     = Some \<lparr>sks_Name = s, sks_Key = k, sks_Optional = None\<rparr>"
  by (simp_all add: secretKeyRef_def secretSource_def)

text \<open>The laws of the two ways to set a variable and of the removal.\<close>

lemma removeEnvVar_laws:
  "namesDistinct t \<Longrightarrow> lookEnv n (fst (removeEnvVar n t)) = None"
  "m \<noteq> n \<Longrightarrow> lookEnv m (fst (removeEnvVar n t)) = lookEnv m t"
  "namesDistinct t \<Longrightarrow> namesDistinct (fst (removeEnvVar n t))"
  "snd (removeEnvVar n t) \<longleftrightarrow> lookEnv n t \<noteq> None"
  "lookEnv n t = None \<Longrightarrow> fst (removeEnvVar n t) = t"
proof -
  show "namesDistinct t \<Longrightarrow> lookEnv n (fst (removeEnvVar n t)) = None"
    by (cases rule: envVar_cases [of n t]) (auto simp: removeEnvVar_absent removeEnvVar_present)
  show "m \<noteq> n \<Longrightarrow> lookEnv m (fst (removeEnvVar n t)) = lookEnv m t"
    by (cases rule: envVar_cases [of n t])
      (auto simp: removeEnvVar_absent removeEnvVar_present split: option.split)
  show "namesDistinct t \<Longrightarrow> namesDistinct (fst (removeEnvVar n t))"
    by (cases rule: envVar_cases [of n t]) (auto simp: removeEnvVar_absent removeEnvVar_present)
  show "snd (removeEnvVar n t) \<longleftrightarrow> lookEnv n t \<noteq> None"
    by (cases rule: envVar_cases [of n t]) (auto simp: removeEnvVar_absent removeEnvVar_present)
  show "lookEnv n t = None \<Longrightarrow> fst (removeEnvVar n t) = t"
    by (cases rule: envVar_cases [of n t]) (auto simp: removeEnvVar_absent removeEnvVar_present)
qed

interpretation val: env_table lookEnv namesDistinct "\<lambda>n v t. Some (updateEnvVarValue n v t)"
  removeEnvVar holdsValue
proof (unfold_locales, goal_cases)
  case (1 n v t t' ch)
  then show ?case
    by (cases rule: envVar_cases [of n t])
      (auto simp: updateEnvVarValue_absent updateEnvVarValue_present holdsValue_def)
next
  case (2 n v t t' ch m)
  then show ?case
    by (cases rule: envVar_cases [of n t])
      (auto simp: updateEnvVarValue_absent updateEnvVarValue_present split: option.split)
next
  case (3 n v t t')
  then show ?case
    by (cases rule: envVar_cases [of n t])
      (auto simp: updateEnvVarValue_absent updateEnvVarValue_present)
next
  case (4 n t e v)
  then show ?case
    by (cases rule: envVar_cases [of n t])
      (auto simp: updateEnvVarValue_absent updateEnvVarValue_present holdsValue_def)
next
  case (5 n v t t' ch)
  then show ?case
    by (cases rule: envVar_cases [of n t])
      (auto simp: updateEnvVarValue_absent updateEnvVarValue_present)
qed (simp_all add: removeEnvVar_laws)

interpretation fromSecret: env_table lookEnv namesDistinct
  "\<lambda>n v t. updateEnvVarValueFrom n (fst v) (snd v) t" removeEnvVar holdsSecret
proof (unfold_locales, goal_cases)
  case (1 n v t t' ch)
  then show ?case
    by (cases rule: envVar_cases [of n t])
      (auto simp: updateEnvVarValueFrom_absent updateEnvVarValueFrom_present holdsSecret_def
        split: option.splits if_splits)
next
  case (2 n v t t' ch m)
  then show ?case
    by (cases rule: envVar_cases [of n t])
      (auto simp: updateEnvVarValueFrom_absent updateEnvVarValueFrom_present
        split: option.splits if_splits)
next
  case (3 n v t t')
  then show ?case
    by (cases rule: envVar_cases [of n t])
      (auto simp: updateEnvVarValueFrom_absent updateEnvVarValueFrom_present
        split: option.splits if_splits)
next
  case (4 n t e v)
  then show ?case
    by (cases rule: envVar_cases [of n t])
      (auto simp: updateEnvVarValueFrom_absent updateEnvVarValueFrom_present holdsSecret_def)
next
  case (5 n v t t' ch)
  then show ?case
    by (cases rule: envVar_cases [of n t])
      (auto simp: updateEnvVarValueFrom_absent updateEnvVarValueFrom_present
        split: option.splits if_splits)
next
  case (6 n t v)
  then show ?case
    by (cases rule: envVar_cases [of n t]) (auto simp: updateEnvVarValueFrom_absent)
qed (simp_all add: removeEnvVar_laws)

text \<open>The panic is possible only for a variable that is there without a reference to a secret.\<close>

lemma updateEnvVarValueFrom_panics_iff:
  "updateEnvVarValueFrom n secret key t = None \<longleftrightarrow>
     (\<exists>e. lookEnv n t = Some e \<and> secretKeyRef e = None)"
  by (cases rule: envVar_cases [of n t])
    (auto simp: updateEnvVarValueFrom_absent updateEnvVarValueFrom_present split: option.split)

end
