(* ===== verification/CompilePipeline.thy ===== *)
theory CompilePipeline
  imports Pipeline EnvVars "HOL-Library.Sublist"
begin

text \<open>
  The controller of the compile pipeline (\<open>controllers/tenant_compile_pipeline_controller.go\<close>): it
  keeps the CI variables of a tenant's repository in line with the tenant's clusters, adds its
  finalizer to live clusters, and releases clusters that are being deleted. A function that
  writes through the pointer to the tenant returns the tenant as it leaves it; \<open>None\<close> is the
  panic of \<open>updateEnvVarValueFrom\<close>.
\<close>

section \<open>Constants\<close>

definition CI_VARIABLE_API_URL :: string where
  "CI_VARIABLE_API_URL = ''COMMODORE_API_URL''"

definition CI_VARIABLE_API_TOKEN :: string where
  "CI_VARIABLE_API_TOKEN = ''COMMODORE_API_TOKEN''"

definition CI_VARIABLE_CLUSTERS :: string where
  "CI_VARIABLE_CLUSTERS = ''CLUSTERS''"

definition CI_VARIABLE_PREFIX_CLUSTER_ACCESS_TOKEN :: string where
  "CI_VARIABLE_PREFIX_CLUSTER_ACCESS_TOKEN = ''ACCESS_TOKEN_''"

definition SECRET_KEY_API_TOKEN :: string where
  "SECRET_KEY_API_TOKEN = ''token''"

definition SECRET_KEY_GITLAB_TOKEN :: string where
  "SECRET_KEY_GITLAB_TOKEN = ''token''"

lemmas ci_constants = CI_VARIABLE_API_URL_def CI_VARIABLE_API_TOKEN_def CI_VARIABLE_CLUSTERS_def
  CI_VARIABLE_PREFIX_CLUSTER_ACCESS_TOKEN_def

section \<open>The variables of the tenant\<close>

definition filterDeletedClusters :: "Cluster list \<Rightarrow> Cluster list" where
  "filterDeletedClusters clusters = filter (\<lambda>c. om_DeletionTimestamp (cl_Meta c) = None) clusters"

definition sortedClusterNames :: "Cluster list \<Rightarrow> string list" where
  "sortedClusterNames clusters = sort (map (\<lambda>c. om_Name (cl_Meta c)) clusters)"

definition ensureStatus :: "Tenant \<Rightarrow> Cluster list \<Rightarrow> Tenant \<times> bool" where
  "ensureStatus tenant clustersWithPipelineEnabled =
     (let sc = sortedClusterNames (filterDeletedClusters clustersWithPipelineEnabled) in
      if cpst_Clusters (Tenant_GetCompilePipelineStatus tenant) = sc then (tenant, False)
      else (tenant\<lparr>tn_Status := (tn_Status tenant)
              \<lparr>tst_CompilePipeline := Some \<lparr>cpst_Clusters = sc\<rparr>\<rparr>\<rparr>, True))"

definition putCIVariables :: "EnvVar list \<Rightarrow> Tenant \<Rightarrow> Tenant" where
  "putCIVariables vars t = Tenant_PutGitTemplate ((fst (Tenant_GetGitTemplate t))\<lparr>gt_CIVariables := vars\<rparr>) t"

definition ensureCiVariablesAbsent :: "Tenant \<Rightarrow> Tenant \<times> bool" where
  "ensureCiVariablesAbsent t =
     (let (template, t') = Tenant_GetGitTemplate t;
          (vars1, ch1) = removeEnvVar CI_VARIABLE_API_URL (gt_CIVariables template);
          (vars2, ch2) = removeEnvVar CI_VARIABLE_API_TOKEN vars1;
          (vars3, ch3) = removeEnvVar CI_VARIABLE_CLUSTERS vars2
      in if ch1 \<or> ch2 \<or> ch3 then (putCIVariables vars3 t', True) else (t', False))"

definition ensureCiVariables :: "string \<Rightarrow> Tenant \<Rightarrow> Cluster list \<Rightarrow> (Tenant \<times> bool) option" where
  "ensureCiVariables apiUrl t clusters =
     (let (template, t') = Tenant_GetGitTemplate t;
          clusterList = joinWith '' '' (sortedClusterNames clusters);
          (list1, ch1) = updateEnvVarValue CI_VARIABLE_API_URL apiUrl (gt_CIVariables template);
          (list2, ch2) = updateEnvVarValue CI_VARIABLE_CLUSTERS clusterList list1
      in case updateEnvVarValueFrom CI_VARIABLE_API_TOKEN (om_Name (tn_Meta t')) SECRET_KEY_API_TOKEN list2 of
           None \<Rightarrow> None
         | Some (list3, ch3) \<Rightarrow>
             if ch1 \<or> ch2 \<or> ch3 then Some (putCIVariables list3 t', True) else Some (t', False))"

definition clusterVarName :: "string \<Rightarrow> string" where
  "clusterVarName name = CI_VARIABLE_PREFIX_CLUSTER_ACCESS_TOKEN @ replaceChar CHR ''-'' CHR ''_'' name"

definition removesToken :: "Tenant \<Rightarrow> Cluster \<Rightarrow> bool" where
  "removesToken t c \<longleftrightarrow> om_DeletionTimestamp (cl_Meta c) \<noteq> None
     \<or> gt_AccessTokenSecretRef (Cluster_GetGitTemplate c) = ''''
     \<or> \<not> cps_Enabled (Tenant_GetCompilePipelineSpec t)
     \<or> \<not> cs_EnableCompilePipeline (cl_Spec c)"

definition ensureClusterCiVariable :: "Tenant \<Rightarrow> Cluster \<Rightarrow> (Tenant \<times> bool) option" where
  "ensureClusterCiVariable t c =
     (let (template, t') = Tenant_GetGitTemplate t;
          envVarName = clusterVarName (om_Name (cl_Meta c));
          updated = (if removesToken t c then Some (removeEnvVar envVarName (gt_CIVariables template))
             else updateEnvVarValueFrom envVarName (gt_AccessTokenSecretRef (Cluster_GetGitTemplate c))
                    SECRET_KEY_GITLAB_TOKEN (gt_CIVariables template))
      in case updated of None \<Rightarrow> None
         | Some (list, changed) \<Rightarrow>
             if changed then Some (putCIVariables list t', True) else Some (t', False))"

section \<open>The reconciler\<close>

definition errAddFinalizer :: "string \<Rightarrow> gerr \<Rightarrow> gerr" where
  "errAddFinalizer name err = Wrap (''error adding finalizer to cluster '' @ name @ '': '') err"

definition errRemoveFinalizer :: "string \<Rightarrow> gerr \<Rightarrow> gerr" where
  "errRemoveFinalizer name err = Wrap (''error removing finalizer from cluster '' @ name @ '': '') err"

definition addClusterFinalizer :: "'w Client \<Rightarrow> Cluster \<Rightarrow> ('w, gerr + Cluster) go" where
  "addClusterFinalizer k cluster =
     (if om_DeletionTimestamp (cl_Meta cluster) \<noteq> None then ret (Inr cluster)
      else let (fs, added) = k_AddFinalizer k (om_Finalizers (cl_Meta cluster)) PipelineFinalizerName;
               cluster' = cluster\<lparr>cl_Meta := (cl_Meta cluster)\<lparr>om_Finalizers := fs\<rparr>\<rparr>
           in if added then bnd (k_UpdateCluster k cluster') (\<lambda>r. case r of
                  Inl err \<Rightarrow> ret (Inl (errAddFinalizer (om_Name (cl_Meta cluster')) err))
                | Inr answer \<Rightarrow> ret (Inr answer))
              else ret (Inr cluster'))"

fun clusterLoop :: "'w Client \<Rightarrow> Cluster list \<Rightarrow> Tenant \<Rightarrow> bool \<Rightarrow> ('w, gerr + Tenant \<times> bool) go" where
  "clusterLoop k [] tenant changed = ret (Inr (tenant, changed))"
| "clusterLoop k (c # cs) tenant changed =
     bnd (addClusterFinalizer k c) (\<lambda>r. case r of
       Inl err \<Rightarrow> ret (Inl err)
     | Inr cluster \<Rightarrow>
         if gt_RepoType (Cluster_GetGitTemplate cluster) = UnmanagedRepoType
         then clusterLoop k cs tenant changed
         else (case ensureClusterCiVariable tenant cluster of
             None \<Rightarrow> crash NilDeref
           | Some (tenant', ch) \<Rightarrow> clusterLoop k cs tenant' (ch \<or> changed)))"

fun releaseLoop :: "'w Client \<Rightarrow> Cluster list \<Rightarrow> ('w, gerr option) go" where
  "releaseLoop k [] = ret None"
| "releaseLoop k (c # cs) =
     (if om_DeletionTimestamp (cl_Meta c) = None then releaseLoop k cs
      else let (fs, removed) = k_RemoveFinalizer k (om_Finalizers (cl_Meta c)) PipelineFinalizerName;
               c' = c\<lparr>cl_Meta := (cl_Meta c)\<lparr>om_Finalizers := fs\<rparr>\<rparr>
           in if removed then bnd (k_UpdateCluster k c') (\<lambda>r. case r of
                  Inl err \<Rightarrow> ret (Some (errRemoveFinalizer (om_Name (cl_Meta c')) err))
                | Inr _ \<Rightarrow> releaseLoop k cs)
              else releaseLoop k cs)"

text \<open>\<open>if changed { Update }\<close> and \<open>if ensureStatus { Status().Update }\<close>; both decode the server's
  answer into the tenant.\<close>

definition writeTenant :: "'w Client \<Rightarrow> bool \<Rightarrow> Tenant \<Rightarrow> ('w, gerr + Tenant) go" where
  "writeTenant k changed tenant =
     (if changed then bnd (k_UpdateTenant k tenant) (\<lambda>r. case r of
          Inl err \<Rightarrow> ret (Inl (Wrap ''error updating tenant: '' err))
        | Inr answer \<Rightarrow> ret (Inr answer))
      else ret (Inr tenant))"

definition writeStatus :: "'w Client \<Rightarrow> Cluster list \<Rightarrow> Tenant \<Rightarrow> ('w, gerr option) go" where
  "writeStatus k clustersWithPipelineEnabled tenant =
     (let cs = (if cps_Enabled (Tenant_GetCompilePipelineSpec tenant)
                then clustersWithPipelineEnabled else []);
          (tenant', changed) = ensureStatus tenant cs
      in if changed then bnd (k_StatusUpdateTenant k tenant') (\<lambda>r. case r of
             Inl err \<Rightarrow> ret (Some (Wrap ''error updating tenant status: '' err))
           | Inr _ \<Rightarrow> ret None)
         else ret None)"

definition syncTenant :: "'w Client \<Rightarrow> string \<Rightarrow> Tenant \<Rightarrow> Cluster list \<Rightarrow> ('w, gerr option) go" where
  "syncTenant k apiUrl tenant clusters =
     (let enabled = filter (\<lambda>c. cs_EnableCompilePipeline (cl_Spec c)) clusters;
          prepared = (if \<not> cps_Enabled (Tenant_GetCompilePipelineSpec tenant)
                      then Some (ensureCiVariablesAbsent tenant)
                      else ensureCiVariables apiUrl tenant (filterDeletedClusters enabled))
      in case prepared of None \<Rightarrow> crash NilDeref
         | Some (tenant1, changed1) \<Rightarrow>
             bnd (clusterLoop k clusters tenant1 changed1) (\<lambda>r. case r of
               Inl err \<Rightarrow> ret (Some err)
             | Inr (tenant2, changed) \<Rightarrow>
                 bnd (writeTenant k changed tenant2) (\<lambda>r. case r of
                   Inl err \<Rightarrow> ret (Some err)
                 | Inr tenant3 \<Rightarrow>
                     bnd (writeStatus k enabled tenant3) (\<lambda>e. case e of
                       Some err \<Rightarrow> ret (Some err)
                     | None \<Rightarrow> releaseLoop k clusters))))"

definition CompilePipeline_Reconcile ::
  "'w Client \<Rightarrow> string \<Rightarrow> NamespacedName \<Rightarrow> ('w, CtrlResult \<times> gerr option) go" where
  "CompilePipeline_Reconcile k apiUrl request =
     bnd (k_GetTenant k request) (\<lambda>r. case r of
       Inl err \<Rightarrow> if IsNotFound err then ret (ctrlDone, None) else ret (ctrlDone, Some err)
     | Inr tenant \<Rightarrow>
         bnd (k_ListClusters k (om_Namespace (tn_Meta tenant))
                (MatchingLabel LabelNameTenant (om_Name (tn_Meta tenant)))) (\<lambda>r. case r of
           Inl err \<Rightarrow> ret (ctrlDone, Some (Wrap ''error listing clusters: '' err))
         | Inr clusters \<Rightarrow>
             bnd (syncTenant k apiUrl tenant clusters) (\<lambda>err. ret (ctrlDone, err))))"

section \<open>What the variables become\<close>

abbreviation civars :: "Tenant \<Rightarrow> EnvVar list" where
  "civars t \<equiv> gt_CIVariables (fst (Tenant_GetGitTemplate t))"

text \<open>Everything of a tenant the variables leave alone.\<close>

definition sameTenant :: "Tenant \<Rightarrow> Tenant \<Rightarrow> bool" where
  "sameTenant t t' \<longleftrightarrow> tn_Meta t' = tn_Meta t \<and> tn_Status t' = tn_Status t \<and>
     (tn_Spec t')\<lparr>ts_GitRepoTemplate := None\<rparr> = (tn_Spec t)\<lparr>ts_GitRepoTemplate := None\<rparr> \<and>
     (fst (Tenant_GetGitTemplate t'))\<lparr>gt_CIVariables := []\<rparr> =
       (fst (Tenant_GetGitTemplate t))\<lparr>gt_CIVariables := []\<rparr>"

lemma sameTenant_refl [simp]: "sameTenant t t"
  by (simp add: sameTenant_def)

lemma sameTenant_trans: "sameTenant t t' \<Longrightarrow> sameTenant t' t'' \<Longrightarrow> sameTenant t t''"
  by (simp add: sameTenant_def)

lemma sameTenantD:
  assumes "sameTenant t t'"
  shows "tn_Meta t' = tn_Meta t" and "tn_Status t' = tn_Status t"
    and "Tenant_GetCompilePipelineSpec t' = Tenant_GetCompilePipelineSpec t"
proof -
  have "(tn_Spec t')\<lparr>ts_GitRepoTemplate := None\<rparr> = (tn_Spec t)\<lparr>ts_GitRepoTemplate := None\<rparr>"
    using assms by (simp add: sameTenant_def)
  then have "ts_CompilePipeline ((tn_Spec t')\<lparr>ts_GitRepoTemplate := None\<rparr>) =
      ts_CompilePipeline ((tn_Spec t)\<lparr>ts_GitRepoTemplate := None\<rparr>)" by simp
  then show "Tenant_GetCompilePipelineSpec t' = Tenant_GetCompilePipelineSpec t"
    by (simp add: Tenant_GetCompilePipelineSpec_def)
qed (use assms in \<open>simp_all add: sameTenant_def\<close>)

lemma GetGitTemplate_again [simp]:
  "Tenant_GetGitTemplate (snd (Tenant_GetGitTemplate t)) = Tenant_GetGitTemplate t"
  by (simp add: Tenant_GetGitTemplate_def split: option.split)

lemma sameTenant_GetGitTemplate [simp]: "sameTenant t (snd (Tenant_GetGitTemplate t))"
  by (simp add: sameTenant_def) (simp add: Tenant_GetGitTemplate_def split: option.split)

lemma civars_put [simp]: "civars (putCIVariables vars t) = vars"
  by (simp add: putCIVariables_def Tenant_PutGitTemplate_def Tenant_GetGitTemplate_def)

lemma sameTenant_put [simp]: "sameTenant t (putCIVariables vars t)"
  by (auto simp: sameTenant_def putCIVariables_def Tenant_PutGitTemplate_def
      Tenant_GetGitTemplate_def split: option.splits)

lemma GetGitTemplate_put [simp]:
  "snd (Tenant_GetGitTemplate (putCIVariables vars t)) = putCIVariables vars t"
  by (simp add: putCIVariables_def Tenant_PutGitTemplate_def Tenant_GetGitTemplate_def)

text \<open>The functions as updates of the list of variables.\<close>

definition storeVars :: "Tenant \<Rightarrow> EnvVar list \<times> bool \<Rightarrow> Tenant \<times> bool" where
  "storeVars t u = (let t' = snd (Tenant_GetGitTemplate t) in
     if snd u then (putCIVariables (fst u) t', True) else (t', False))"

lemma storeVars_facts:
  "storeVars t u = (t', ch) \<Longrightarrow> (\<not> snd u \<longrightarrow> fst u = civars t) \<Longrightarrow>
     ch = snd u \<and> civars t' = fst u \<and> sameTenant t t' \<and> snd (Tenant_GetGitTemplate t') = t'"
  by (auto simp: storeVars_def Let_def split: if_splits
      intro: sameTenant_trans [OF sameTenant_GetGitTemplate sameTenant_put])

definition absentVars :: "EnvVar list \<Rightarrow> EnvVar list \<times> bool" where
  "absentVars xs =
     (let (xs1, c1) = removeEnvVar CI_VARIABLE_API_URL xs;
          (xs2, c2) = removeEnvVar CI_VARIABLE_API_TOKEN xs1;
          (xs3, c3) = removeEnvVar CI_VARIABLE_CLUSTERS xs2
      in (xs3, c1 \<or> c2 \<or> c3))"

definition presentVars :: "string \<Rightarrow> string \<Rightarrow> string \<Rightarrow> EnvVar list \<Rightarrow> (EnvVar list \<times> bool) option" where
  "presentVars apiUrl clusterList tenantName xs =
     (let (xs1, c1) = updateEnvVarValue CI_VARIABLE_API_URL apiUrl xs;
          (xs2, c2) = updateEnvVarValue CI_VARIABLE_CLUSTERS clusterList xs1
      in map_option (\<lambda>(xs3, c3). (xs3, c1 \<or> c2 \<or> c3))
           (updateEnvVarValueFrom CI_VARIABLE_API_TOKEN tenantName SECRET_KEY_API_TOKEN xs2))"

definition clusterVars :: "Tenant \<Rightarrow> Cluster \<Rightarrow> EnvVar list \<Rightarrow> (EnvVar list \<times> bool) option" where
  "clusterVars t c xs =
     (if removesToken t c then Some (removeEnvVar (clusterVarName (om_Name (cl_Meta c))) xs)
      else updateEnvVarValueFrom (clusterVarName (om_Name (cl_Meta c)))
             (gt_AccessTokenSecretRef (Cluster_GetGitTemplate c)) SECRET_KEY_GITLAB_TOKEN xs)"

lemma ensureCiVariablesAbsent_store: "ensureCiVariablesAbsent t = storeVars t (absentVars (civars t))"
  by (simp add: ensureCiVariablesAbsent_def storeVars_def absentVars_def Let_def split: prod.split)

lemma ensureCiVariables_store:
  "ensureCiVariables url t cs = map_option (storeVars t)
     (presentVars url (joinWith '' '' (sortedClusterNames cs)) (om_Name (tn_Meta t)) (civars t))"
  using sameTenantD(1) [OF sameTenant_GetGitTemplate, of t]
  by (auto simp: ensureCiVariables_def storeVars_def presentVars_def Let_def
      split: prod.splits option.splits)

lemma ensureClusterCiVariable_store:
  "ensureClusterCiVariable t c = map_option (storeVars t) (clusterVars t c (civars t))"
  by (auto simp: ensureClusterCiVariable_def storeVars_def clusterVars_def Let_def
      split: prod.splits option.splits)

text \<open>Nothing reported as unchanged was changed.\<close>

lemma removeEnvVar_unchanged: "removeEnvVar n xs = (ys, False) \<Longrightarrow> ys = xs"
  using val.rem_changed [of n xs] val.rem_absent [of n xs] by simp

lemma absentVars_unchanged: "\<not> snd (absentVars xs) \<Longrightarrow> fst (absentVars xs) = xs"
  by (auto simp: absentVars_def Let_def split: prod.splits dest!: removeEnvVar_unchanged)

lemma presentVars_unchanged:
  "presentVars u l n xs = Some (ys, False) \<Longrightarrow> ys = xs"
  by (auto simp: presentVars_def Let_def split: prod.splits
      dest!: fromSecret.put_same [of _ "(n, SECRET_KEY_API_TOKEN)", simplified]
        arg_cong [of "updateEnvVarValue _ _ _" _ Some, THEN val.put_same])

lemma clusterVars_unchanged:
  "clusterVars t c xs = Some (ys, False) \<Longrightarrow> ys = xs"
  using fromSecret.put_same [of _ "(_, SECRET_KEY_GITLAB_TOKEN)", simplified]
  by (auto simp: clusterVars_def split: if_splits dest: removeEnvVar_unchanged)

lemma names_distinct:
  "CI_VARIABLE_API_URL \<noteq> CI_VARIABLE_API_TOKEN" "CI_VARIABLE_API_URL \<noteq> CI_VARIABLE_CLUSTERS"
  "CI_VARIABLE_API_TOKEN \<noteq> CI_VARIABLE_CLUSTERS" "clusterVarName n \<noteq> CI_VARIABLE_API_URL"
  "clusterVarName n \<noteq> CI_VARIABLE_API_TOKEN" "clusterVarName n \<noteq> CI_VARIABLE_CLUSTERS"
  by (simp_all add: ci_constants clusterVarName_def)

lemmas names_distinct' = names_distinct names_distinct [symmetric]

lemma absentVars_facts:
  assumes "namesDistinct xs"
  shows "lookEnv n (fst (absentVars xs)) =
      (if n \<in> {CI_VARIABLE_API_URL, CI_VARIABLE_API_TOKEN, CI_VARIABLE_CLUSTERS} then None
       else lookEnv n xs)"
    and "namesDistinct (fst (absentVars xs))"
proof -
  define xs1 where "xs1 = fst (removeEnvVar CI_VARIABLE_API_URL xs)"
  define xs2 where "xs2 = fst (removeEnvVar CI_VARIABLE_API_TOKEN xs1)"
  define xs3 where "xs3 = fst (removeEnvVar CI_VARIABLE_CLUSTERS xs2)"
  have eq: "fst (absentVars xs) = xs3"
    by (simp add: absentVars_def Let_def xs1_def xs2_def xs3_def split: prod.split)
  have wf: "namesDistinct xs1" "namesDistinct xs2" "namesDistinct xs3"
    using assms by (simp_all add: xs1_def xs2_def xs3_def val.rem_wf)
  then show "namesDistinct (fst (absentVars xs))" by (simp add: eq)
  have "lookEnv n xs3 = (if n = CI_VARIABLE_CLUSTERS then None else lookEnv n xs2)"
    "lookEnv n xs2 = (if n = CI_VARIABLE_API_TOKEN then None else lookEnv n xs1)"
    "lookEnv n xs1 = (if n = CI_VARIABLE_API_URL then None else lookEnv n xs)"
    using assms wf by (simp_all add: xs1_def xs2_def xs3_def val.rem_hit val.rem_other)
  then show "lookEnv n (fst (absentVars xs)) =
      (if n \<in> {CI_VARIABLE_API_URL, CI_VARIABLE_API_TOKEN, CI_VARIABLE_CLUSTERS} then None
       else lookEnv n xs)"
    by (auto simp: eq)
qed

lemma presentVars_facts:
  assumes "presentVars url l tn xs = Some (ys, ch)"
  shows "\<exists>e. lookEnv CI_VARIABLE_API_URL ys = Some e \<and> holdsValue url e"
    and "\<exists>e. lookEnv CI_VARIABLE_CLUSTERS ys = Some e \<and> holdsValue l e"
    and "\<exists>e. lookEnv CI_VARIABLE_API_TOKEN ys = Some e \<and> holdsSecret (tn, SECRET_KEY_API_TOKEN) e"
    and "n \<notin> {CI_VARIABLE_API_URL, CI_VARIABLE_API_TOKEN, CI_VARIABLE_CLUSTERS} \<Longrightarrow>
           lookEnv n ys = lookEnv n xs"
    and "namesDistinct xs \<Longrightarrow> namesDistinct ys"
proof -
  obtain xs1 c1 where 1: "updateEnvVarValue CI_VARIABLE_API_URL url xs = (xs1, c1)" by fastforce
  obtain xs2 c2 where 2: "updateEnvVarValue CI_VARIABLE_CLUSTERS l xs1 = (xs2, c2)" by fastforce
  from assms obtain c3 where
    3: "updateEnvVarValueFrom CI_VARIABLE_API_TOKEN tn SECRET_KEY_API_TOKEN xs2 = Some (ys, c3)"
    by (auto simp: presentVars_def 1 2)
  note u = val.put_hit val.put_other val.put_wf
  note f = fromSecret.put_hit [of _ "(tn, SECRET_KEY_API_TOKEN)", simplified]
    fromSecret.put_other [of _ "(tn, SECRET_KEY_API_TOKEN)", simplified]
    fromSecret.put_wf [of _ "(tn, SECRET_KEY_API_TOKEN)", simplified]
  have o1: "m \<noteq> CI_VARIABLE_API_URL \<Longrightarrow> lookEnv m xs1 = lookEnv m xs" for m
    using 1 val.put_other by simp
  have o2: "m \<noteq> CI_VARIABLE_CLUSTERS \<Longrightarrow> lookEnv m xs2 = lookEnv m xs1" for m
    using 2 val.put_other by simp
  have o3: "m \<noteq> CI_VARIABLE_API_TOKEN \<Longrightarrow> lookEnv m ys = lookEnv m xs2" for m
    using 3 f(2) by simp
  show "\<exists>e. lookEnv CI_VARIABLE_API_URL ys = Some e \<and> holdsValue url e"
    using val.put_hit [of CI_VARIABLE_API_URL url xs xs1 c1] 1 by (simp add: o2 o3 names_distinct')
  show "\<exists>e. lookEnv CI_VARIABLE_CLUSTERS ys = Some e \<and> holdsValue l e"
    using val.put_hit [of CI_VARIABLE_CLUSTERS l xs1 xs2 c2] 2 by (simp add: o3 names_distinct')
  show "\<exists>e. lookEnv CI_VARIABLE_API_TOKEN ys = Some e \<and> holdsSecret (tn, SECRET_KEY_API_TOKEN) e"
    using f(1) 3 by blast
  show "n \<notin> {CI_VARIABLE_API_URL, CI_VARIABLE_API_TOKEN, CI_VARIABLE_CLUSTERS} \<Longrightarrow>
      lookEnv n ys = lookEnv n xs"
    by (simp add: o1 o2 o3)
  show "namesDistinct xs \<Longrightarrow> namesDistinct ys"
    using val.put_wf [of CI_VARIABLE_API_URL url xs xs1 c1]
      val.put_wf [of CI_VARIABLE_CLUSTERS l xs1 xs2 c2] f(3) [OF 3] 1 2 by simp
qed

lemma presentVars_settled:
  assumes "\<exists>e. lookEnv CI_VARIABLE_API_URL ys = Some e \<and> holdsValue url e"
    and "\<exists>e. lookEnv CI_VARIABLE_CLUSTERS ys = Some e \<and> holdsValue l e"
    and "\<exists>e. lookEnv CI_VARIABLE_API_TOKEN ys = Some e \<and> holdsSecret (tn, SECRET_KEY_API_TOKEN) e"
  shows "presentVars url l tn ys = Some (ys, False)"
proof -
  from assms(1,2) have "updateEnvVarValue CI_VARIABLE_API_URL url ys = (ys, False)"
    "updateEnvVarValue CI_VARIABLE_CLUSTERS l ys = (ys, False)"
    using val.put_held by fastforce+
  moreover from assms(3)
  have "updateEnvVarValueFrom CI_VARIABLE_API_TOKEN tn SECRET_KEY_API_TOKEN ys = Some (ys, False)"
    using fromSecret.put_held [of _ ys _ "(tn, SECRET_KEY_API_TOKEN)", simplified] by blast
  ultimately show ?thesis by (simp add: presentVars_def)
qed

text \<open>What a cluster's variable has to be.\<close>

definition clusterVarRight :: "Tenant \<Rightarrow> Cluster \<Rightarrow> EnvVar list \<Rightarrow> bool" where
  "clusterVarRight t c xs \<longleftrightarrow>
     (if removesToken t c then lookEnv (clusterVarName (om_Name (cl_Meta c))) xs = None
      else \<exists>e. lookEnv (clusterVarName (om_Name (cl_Meta c))) xs = Some e \<and>
             holdsSecret (gt_AccessTokenSecretRef (Cluster_GetGitTemplate c), SECRET_KEY_GITLAB_TOKEN) e)"

lemma clusterVars_facts:
  assumes "clusterVars t c xs = Some (ys, ch)" and "namesDistinct xs"
  shows "clusterVarRight t c ys" and "namesDistinct ys"
    and "n \<noteq> clusterVarName (om_Name (cl_Meta c)) \<Longrightarrow> lookEnv n ys = lookEnv n xs"
proof -
  let ?n = "clusterVarName (om_Name (cl_Meta c))"
    and ?v = "(gt_AccessTokenSecretRef (Cluster_GetGitTemplate c), SECRET_KEY_GITLAB_TOKEN)"
  note f = fromSecret.put_hit [of ?n ?v, simplified] fromSecret.put_other [of ?n ?v, simplified]
    fromSecret.put_wf [of ?n ?v, simplified]
  show "clusterVarRight t c ys"
    using assms f(1) val.rem_hit [of xs ?n]
    by (cases "removesToken t c") (simp_all add: clusterVars_def clusterVarRight_def)
  show "namesDistinct ys"
    using assms f(3) val.rem_wf [of xs ?n]
    by (cases "removesToken t c") (simp_all add: clusterVars_def)
  show "n \<noteq> ?n \<Longrightarrow> lookEnv n ys = lookEnv n xs"
    using assms f(2) val.rem_other [of n ?n xs]
    by (cases "removesToken t c") (simp_all add: clusterVars_def)
qed

lemma clusterVars_settled:
  assumes "clusterVarRight t c ys"
  shows "clusterVars t c ys = Some (ys, False)"
proof (cases "removesToken t c")
  case True
  with assms have "lookEnv (clusterVarName (om_Name (cl_Meta c))) ys = None"
    by (simp add: clusterVarRight_def)
  then have "removeEnvVar (clusterVarName (om_Name (cl_Meta c))) ys = (ys, False)"
    using val.rem_absent val.rem_changed by (metis prod.collapse)
  with True show ?thesis by (simp add: clusterVars_def)
next
  case False
  with assms show ?thesis
    using fromSecret.put_held [of _ ys _ "(gt_AccessTokenSecretRef (Cluster_GetGitTemplate c),
        SECRET_KEY_GITLAB_TOKEN)", simplified]
    by (auto simp: clusterVarRight_def clusterVars_def)
qed

lemma removesToken_same: "sameTenant t t' \<Longrightarrow> removesToken t' c = removesToken t c"
  by (simp add: removesToken_def sameTenantD)

lemma ensureClusterCiVariable_facts:
  assumes "ensureClusterCiVariable t c = Some (t', ch)" and "namesDistinct (civars t)"
  shows "clusterVarRight t c (civars t')" and "namesDistinct (civars t')"
    and "n \<noteq> clusterVarName (om_Name (cl_Meta c)) \<Longrightarrow> lookEnv n (civars t') = lookEnv n (civars t)"
    and "sameTenant t t'" and "\<not> ch \<Longrightarrow> civars t' = civars t"
    and "snd (Tenant_GetGitTemplate t') = t'"
proof -
  from assms(1) obtain ys b where u: "clusterVars t c (civars t) = Some (ys, b)"
    and s: "storeVars t (ys, b) = (t', ch)"
    by (auto simp: ensureClusterCiVariable_store)
  have unch: "\<not> b \<Longrightarrow> ys = civars t" using u clusterVars_unchanged by (cases b) auto
  from storeVars_facts [OF s] unch
  have r: "ch = b" "civars t' = ys" "sameTenant t t'" "snd (Tenant_GetGitTemplate t') = t'" by auto
  then show "sameTenant t t'" and "\<not> ch \<Longrightarrow> civars t' = civars t"
    and "snd (Tenant_GetGitTemplate t') = t'" using unch by simp_all
  show "clusterVarRight t c (civars t')" "namesDistinct (civars t')"
    "n \<noteq> clusterVarName (om_Name (cl_Meta c)) \<Longrightarrow> lookEnv n (civars t') = lookEnv n (civars t)"
    using clusterVars_facts [OF u assms(2)] r by simp_all
qed

section \<open>The writes of a pass\<close>

text \<open>
  What a pass writes, in the order it writes it. Documented behaviour of the API server: an
  accepted \<open>Update\<close> keeps name, spec and deletion timestamp of a cluster, and name, spec and
  status of a tenant. \<open>logged k log\<close>: the world carries a log of the accepted writes.
\<close>

datatype apiWrite =
    ClusterFinalizers string "string list"
  | TenantVariables "EnvVar list"
  | TenantClusters "string list"

definition faithful_updates :: "'w Client \<Rightarrow> bool" where
  "faithful_updates k \<longleftrightarrow>
     (\<forall>c w c' w'. k_UpdateCluster k c w = (Ret (Inr c'), w') \<longrightarrow>
        om_Name (cl_Meta c') = om_Name (cl_Meta c) \<and> cl_Spec c' = cl_Spec c \<and>
        om_DeletionTimestamp (cl_Meta c') = om_DeletionTimestamp (cl_Meta c)) \<and>
     (\<forall>t w t' w'. k_UpdateTenant k t w = (Ret (Inr t'), w') \<longrightarrow>
        om_Name (tn_Meta t') = om_Name (tn_Meta t) \<and> tn_Spec t' = tn_Spec t \<and>
        tn_Status t' = tn_Status t)"

fun accepted :: "(gerr + 'a) outcome \<Rightarrow> bool" where
  "accepted (Ret r) = (\<not> isl r)"
| "accepted _ = False"

definition logged :: "'w Client \<Rightarrow> ('w \<Rightarrow> apiWrite list) \<Rightarrow> bool" where
  "logged k log \<longleftrightarrow>
     (\<forall>c w. log (snd (k_UpdateCluster k c w)) =
        log w @ (if accepted (fst (k_UpdateCluster k c w))
          then [ClusterFinalizers (om_Name (cl_Meta c)) (om_Finalizers (cl_Meta c))] else [])) \<and>
     (\<forall>t w. log (snd (k_UpdateTenant k t w)) =
        log w @ (if accepted (fst (k_UpdateTenant k t w)) then [TenantVariables (civars t)] else [])) \<and>
     (\<forall>t w. log (snd (k_StatusUpdateTenant k t w)) =
        log w @ (if accepted (fst (k_StatusUpdateTenant k t w))
          then [TenantClusters (cpst_Clusters (Tenant_GetCompilePipelineStatus t))] else [])) \<and>
     (\<forall>n w. log (snd (k_GetTenant k n w)) = log w) \<and>
     (\<forall>n s w. log (snd (k_ListClusters k n s w)) = log w)"

definition lacksFinalizer :: "Cluster \<Rightarrow> bool" where
  "lacksFinalizer c \<longleftrightarrow> om_DeletionTimestamp (cl_Meta c) = None \<and>
     PipelineFinalizerName \<notin> set (om_Finalizers (cl_Meta c))"

definition awaitsRelease :: "Cluster \<Rightarrow> bool" where
  "awaitsRelease c \<longleftrightarrow> om_DeletionTimestamp (cl_Meta c) \<noteq> None \<and>
     PipelineFinalizerName \<in> set (om_Finalizers (cl_Meta c))"

definition finalizerWrites :: "Cluster list \<Rightarrow> apiWrite list" where
  "finalizerWrites cs = map (\<lambda>c. ClusterFinalizers (om_Name (cl_Meta c))
     (om_Finalizers (cl_Meta c) @ [PipelineFinalizerName])) (filter lacksFinalizer cs)"

definition releaseWrites :: "Cluster list \<Rightarrow> apiWrite list" where
  "releaseWrites cs = map (\<lambda>c. ClusterFinalizers (om_Name (cl_Meta c))
     (filter (\<lambda>f. f \<noteq> PipelineFinalizerName) (om_Finalizers (cl_Meta c)))) (filter awaitsRelease cs)"

text \<open>The tenant after all clusters have been looked at.\<close>

fun foldVars :: "Cluster list \<Rightarrow> Tenant \<Rightarrow> bool \<Rightarrow> (Tenant \<times> bool) option" where
  "foldVars [] t ch = Some (t, ch)"
| "foldVars (c # cs) t ch =
     (if gt_RepoType (Cluster_GetGitTemplate c) = UnmanagedRepoType then foldVars cs t ch
      else case ensureClusterCiVariable t c of
          None \<Rightarrow> None
        | Some (t', b) \<Rightarrow> foldVars cs t' (b \<or> ch))"

definition wantedClusters :: "Tenant \<Rightarrow> Cluster list \<Rightarrow> string list" where
  "wantedClusters t clusters = (if cps_Enabled (Tenant_GetCompilePipelineSpec t)
     then sort (map (\<lambda>c. om_Name (cl_Meta c)) (filter (\<lambda>c. cs_EnableCompilePipeline (cl_Spec c) \<and>
            om_DeletionTimestamp (cl_Meta c) = None) clusters)) else [])"

definition wantedTenant :: "string \<Rightarrow> Tenant \<Rightarrow> Cluster list \<Rightarrow> (Tenant \<times> bool) option" where
  "wantedTenant apiUrl t clusters =
     (if cps_Enabled (Tenant_GetCompilePipelineSpec t)
      then ensureCiVariables apiUrl t (filterDeletedClusters
             (filter (\<lambda>c. cs_EnableCompilePipeline (cl_Spec c)) clusters))
      else Some (ensureCiVariablesAbsent t))"

definition syncPlan :: "string \<Rightarrow> Tenant \<Rightarrow> Cluster list \<Rightarrow> apiWrite list" where
  "syncPlan apiUrl t clusters = (case wantedTenant apiUrl t clusters of
       None \<Rightarrow> []
     | Some (t1, ch1) \<Rightarrow> finalizerWrites clusters @ (case foldVars clusters t1 ch1 of
         None \<Rightarrow> []
       | Some (t2, ch) \<Rightarrow> (if ch then [TenantVariables (civars t2)] else []) @
           (if cpst_Clusters (Tenant_GetCompilePipelineStatus t) = wantedClusters t clusters then []
            else [TenantClusters (wantedClusters t clusters)]) @
           releaseWrites clusters))"

lemma ensureClusterCiVariable_cong:
  "om_Name (cl_Meta c') = om_Name (cl_Meta c) \<Longrightarrow> cl_Spec c' = cl_Spec c \<Longrightarrow>
   om_DeletionTimestamp (cl_Meta c') = om_DeletionTimestamp (cl_Meta c) \<Longrightarrow>
     ensureClusterCiVariable t c' = ensureClusterCiVariable t c \<and>
     Cluster_GetGitTemplate c' = Cluster_GetGitTemplate c"
proof -
  assume same: "om_Name (cl_Meta c') = om_Name (cl_Meta c)" "cl_Spec c' = cl_Spec c"
    "om_DeletionTimestamp (cl_Meta c') = om_DeletionTimestamp (cl_Meta c)"
  then have tmpl: "Cluster_GetGitTemplate c' = Cluster_GetGitTemplate c"
    by (simp add: Cluster_GetGitTemplate_def)
  with same have "removesToken t c' = removesToken t c" by (simp add: removesToken_def)
  with tmpl same show ?thesis by (simp add: ensureClusterCiVariable_def cong: if_cong)
qed

text \<open>\<open>performs log m w ws ok\<close>: \<open>m\<close> does a prefix of the writes \<open>ws\<close>, and all of them if it returns
  a result with \<open>ok\<close>.\<close>

definition performs :: "('w \<Rightarrow> apiWrite list) \<Rightarrow> ('w, 'a) go \<Rightarrow> 'w \<Rightarrow> apiWrite list \<Rightarrow> ('a \<Rightarrow> bool) \<Rightarrow> bool" where
  "performs log m w ws ok \<longleftrightarrow> (\<exists>pre. log (snd (m w)) = log w @ pre \<and> prefix pre ws \<and>
     (\<forall>a. fst (m w) = Ret a \<longrightarrow> ok a \<longrightarrow> pre = ws))"

lemma performs_ret [simp]: "performs log (ret a) w ws ok \<longleftrightarrow> (ok a \<longrightarrow> ws = [])"
  by (auto simp: performs_def)

lemma performs_crash [simp]: "performs log (crash p) w ws ok"
  by (auto simp: performs_def)

lemma performs_mono: "performs log m w ws ok \<Longrightarrow> prefix ws ws' \<Longrightarrow> (\<And>a. ok' a \<Longrightarrow> ok a \<and> ws = ws') \<Longrightarrow>
    performs log m w ws' ok'"
  unfolding performs_def by (metis prefix_order.trans)

lemma performs_bnd:
  assumes m: "performs log m w ws okm"
    and f: "\<And>a w'. m w = (Ret a, w') \<Longrightarrow> okm a \<Longrightarrow> performs log (f a) w' ws' ok"
    and g: "\<And>a w'. m w = (Ret a, w') \<Longrightarrow> \<not> okm a \<Longrightarrow> \<exists>b. f a w' = (Ret b, w') \<and> \<not> ok b"
  shows "performs log (bnd m f) w (ws @ ws') ok"
proof (cases rule: outcome_world_cases [of m w])
  case (Ret a w')
  show ?thesis
  proof (cases "okm a")
    case True
    with m Ret have "log w' = log w @ ws" by (auto simp: performs_def)
    with f [OF Ret True] Ret show ?thesis
      by (auto simp: performs_def intro!: prefix_prefix)
  next
    case False
    with g [OF Ret] obtain b where "f a w' = (Ret b, w')" "\<not> ok b" by blast
    with m Ret show ?thesis by (fastforce simp: performs_def)
  qed
next
  case (Panicked p w')
  with m show ?thesis by (fastforce simp: performs_def)
next
  case (Diverged w')
  with m show ?thesis by (fastforce simp: performs_def)
qed

lemma performs_one:
  "log (snd (m w)) = log w @ (if accepted (fst (m w)) then [e] else []) \<Longrightarrow>
     performs log m w [e] (\<lambda>r. \<not> isl r)"
  by (cases rule: outcome_world_cases [of m w]) (auto simp: performs_def)

lemma performs_call:
  fixes f :: "gerr + 'b \<Rightarrow> ('w, 'c) go"
  assumes "log (snd (m w)) = log w @ (if accepted (fst (m w)) then [e] else [])"
    and "\<And>a. \<exists>b. f (Inr a) = ret b" and "\<And>a. \<exists>b. f (Inl a) = ret b \<and> \<not> ok b"
  shows "performs log (bnd m f) w [e] ok"
proof -
  have "performs log (bnd m f) w ([e] @ []) ok"
  proof (rule performs_bnd [OF performs_one [of log m w e, OF assms(1)]])
    fix r :: "gerr + 'b" and w' assume "\<not> isl r"
    then show "performs log (f r) w' [] ok" using assms(2) by (cases r) (auto, metis performs_ret)
  next
    fix r :: "gerr + 'b" and w' assume "\<not> \<not> isl r"
    then show "\<exists>b. f r w' = (Ret b, w') \<and> \<not> ok b" using assms(3)
      by (cases r) (auto, metis ret_apply)
  qed
  then show ?thesis by simp
qed

lemma logged_cluster: "logged k log \<Longrightarrow> log (snd (k_UpdateCluster k c w)) =
    log w @ (if accepted (fst (k_UpdateCluster k c w))
      then [ClusterFinalizers (om_Name (cl_Meta c)) (om_Finalizers (cl_Meta c))] else [])"
  by (simp add: logged_def)

lemma finalizerWrites_simps:
  "finalizerWrites [] = []"
  "finalizerWrites (c # cs) = finalizerWrites [c] @ finalizerWrites cs"
  by (simp_all add: finalizerWrites_def)

lemma releaseWrites_simps:
  "releaseWrites [] = []"
  "releaseWrites (c # cs) = releaseWrites [c] @ releaseWrites cs"
  by (simp_all add: releaseWrites_def)

lemma addClusterFinalizer_performs:
  assumes "logged k log" and "finalizer_laws k"
  shows "performs log (addClusterFinalizer k c) w (finalizerWrites [c]) (\<lambda>r. \<not> isl r)"
proof (cases "lacksFinalizer c")
  case True
  let ?m = "(cl_Meta c)\<lparr>om_Finalizers := om_Finalizers (cl_Meta c) @ [PipelineFinalizerName]\<rparr>"
  from True have "addClusterFinalizer k c = bnd (k_UpdateCluster k (c\<lparr>cl_Meta := ?m\<rparr>)) (\<lambda>r. case r of
      Inl err \<Rightarrow> ret (Inl (errAddFinalizer (om_Name (cl_Meta c)) err))
    | Inr answer \<Rightarrow> ret (Inr answer))"
    by (simp add: addClusterFinalizer_def lacksFinalizer_def finalizer_laws_add [OF assms(2)])
  with True show ?thesis
    using logged_cluster [OF assms(1), of "c\<lparr>cl_Meta := ?m\<rparr>" w]
    by (auto simp: finalizerWrites_def intro!: performs_call split: sum.split)
next
  case False
  have "finalizerWrites [c] = []" using False by (simp add: finalizerWrites_def)
  moreover have "\<exists>c'. addClusterFinalizer k c = ret (Inr c')" using False
    by (auto simp: addClusterFinalizer_def lacksFinalizer_def finalizer_laws_add [OF assms(2)])
  ultimately show ?thesis by auto
qed

lemma addClusterFinalizer_same:
  assumes "faithful_updates k" and "addClusterFinalizer k c w = (Ret (Inr c'), w')"
  shows "om_Name (cl_Meta c') = om_Name (cl_Meta c) \<and> cl_Spec c' = cl_Spec c \<and>
    om_DeletionTimestamp (cl_Meta c') = om_DeletionTimestamp (cl_Meta c)"
proof -
  from assms(1) have u: "k_UpdateCluster k c w = (Ret (Inr c'), w') \<Longrightarrow>
        om_Name (cl_Meta c') = om_Name (cl_Meta c) \<and> cl_Spec c' = cl_Spec c \<and>
        om_DeletionTimestamp (cl_Meta c') = om_DeletionTimestamp (cl_Meta c)" for c w c' w'
    unfolding faithful_updates_def by blast
  from assms(2) show ?thesis
    by (auto simp: addClusterFinalizer_def Let_def split: if_splits prod.splits sum.splits
        elim!: bnd_RetE dest!: u)
qed

lemma clusterLoop_fold:
  "faithful_updates k \<Longrightarrow> clusterLoop k cs t ch w = (Ret (Inr r), w') \<Longrightarrow> foldVars cs t ch = Some r"
proof (induction cs arbitrary: t ch w)
  case Nil
  then show ?case by simp
next
  case (Cons c cs)
  from Cons.prems(2) obtain c' w1 where a: "addClusterFinalizer k c w = (Ret (Inr c'), w1)"
    and rest: "(if gt_RepoType (Cluster_GetGitTemplate c') = UnmanagedRepoType
         then clusterLoop k cs t ch
         else (case ensureClusterCiVariable t c' of
             None \<Rightarrow> crash NilDeref
           | Some (t', b) \<Rightarrow> clusterLoop k cs t' (b \<or> ch))) w1 = (Ret (Inr r), w')"
    by (auto elim!: bnd_RetE split: sum.splits)
  have same: "ensureClusterCiVariable t c' = ensureClusterCiVariable t c \<and>
     Cluster_GetGitTemplate c' = Cluster_GetGitTemplate c"
    using addClusterFinalizer_same [OF Cons.prems(1) a] ensureClusterCiVariable_cong by blast
  with rest show ?case
    using Cons.IH [OF Cons.prems(1)] by (auto split: if_splits option.splits)
qed

lemma clusterLoop_performs:
  assumes "logged k log" and "finalizer_laws k"
  shows "performs log (clusterLoop k cs t ch) w (finalizerWrites cs) (\<lambda>r. \<not> isl r)"
proof (induction cs arbitrary: t ch w)
  case Nil
  then show ?case by (simp add: finalizerWrites_simps)
next
  case (Cons c cs)
  show ?case
    unfolding clusterLoop.simps finalizerWrites_simps(2) [of c cs]
    by (rule performs_bnd [OF addClusterFinalizer_performs [OF assms]])
      (auto intro: Cons.IH split: option.split sum.split)
qed

lemma releaseLoop_performs:
  assumes "logged k log" and "finalizer_laws k"
  shows "performs log (releaseLoop k cs) w (releaseWrites cs) (\<lambda>r. r = None)"
proof (induction cs arbitrary: w)
  case Nil
  then show ?case by (simp add: releaseWrites_simps)
next
  case (Cons c cs)
  let ?m = "(cl_Meta c)\<lparr>om_Finalizers :=
     filter (\<lambda>f. f \<noteq> PipelineFinalizerName) (om_Finalizers (cl_Meta c))\<rparr>"
  show ?case
  proof (cases "awaitsRelease c")
    case True
    then have eq: "releaseLoop k (c # cs) = bnd (k_UpdateCluster k (c\<lparr>cl_Meta := ?m\<rparr>)) (\<lambda>r. case r of
        Inl err \<Rightarrow> ret (Some (errRemoveFinalizer (om_Name (cl_Meta c)) err))
      | Inr _ \<Rightarrow> releaseLoop k cs)"
      by (auto simp: awaitsRelease_def finalizer_laws_remove [OF assms(2)])
    have "performs log (k_UpdateCluster k (c\<lparr>cl_Meta := ?m\<rparr>)) w (releaseWrites [c]) (\<lambda>r. \<not> isl r)"
      using True logged_cluster [OF assms(1), of "c\<lparr>cl_Meta := ?m\<rparr>" w]
      by (simp add: releaseWrites_def performs_one)
    then show ?thesis
      unfolding eq releaseWrites_simps(2) [of c cs]
      by (rule performs_bnd) (auto intro: Cons.IH split: sum.split)
  next
    case False
    then have "releaseLoop k (c # cs) = releaseLoop k cs"
      by (auto simp: awaitsRelease_def finalizer_laws_remove [OF assms(2)])
    moreover have "releaseWrites (c # cs) = releaseWrites cs" using False by (simp add: releaseWrites_def)
    ultimately show ?thesis using Cons.IH by (simp only:)
  qed
qed

lemma storeVars_same: "storeVars t u = (t', ch) \<Longrightarrow> sameTenant t t'"
  by (auto simp: storeVars_def Let_def sameTenant_trans [OF sameTenant_GetGitTemplate sameTenant_put]
      split: if_splits)

lemma ensureClusterCiVariable_same: "ensureClusterCiVariable t c = Some (t', b) \<Longrightarrow> sameTenant t t'"
  by (auto simp: ensureClusterCiVariable_store dest: storeVars_same)

lemma foldVars_same: "foldVars cs t ch = Some (t', ch') \<Longrightarrow> sameTenant t t'"
  by (induction cs arbitrary: t ch)
    (auto split: if_splits option.splits dest: ensureClusterCiVariable_same intro: sameTenant_trans)

lemma wantedTenant_same: "wantedTenant url t cs = Some (t', ch) \<Longrightarrow> sameTenant t t'"
  by (auto simp: wantedTenant_def ensureCiVariables_store ensureCiVariablesAbsent_store
      dest: storeVars_same split: if_splits)

lemma pipelineStatus_same:
  "tn_Status t' = tn_Status t \<Longrightarrow> Tenant_GetCompilePipelineStatus t' = Tenant_GetCompilePipelineStatus t"
  "tn_Spec t' = tn_Spec t \<Longrightarrow> Tenant_GetCompilePipelineSpec t' = Tenant_GetCompilePipelineSpec t"
  by (simp_all add: Tenant_GetCompilePipelineStatus_def Tenant_GetCompilePipelineSpec_def)

lemma writeTenant_performs:
  "logged k log \<Longrightarrow> performs log (writeTenant k ch t) w
     (if ch then [TenantVariables (civars t)] else []) (\<lambda>r. \<not> isl r)"
  by (auto simp: writeTenant_def logged_def intro!: performs_call split: sum.split)

lemma faithful_tenant:
  "faithful_updates k \<Longrightarrow> k_UpdateTenant k t w = (Ret (Inr t'), w') \<Longrightarrow>
     tn_Spec t' = tn_Spec t \<and> tn_Status t' = tn_Status t"
  unfolding faithful_updates_def by blast

lemma writeTenant_same:
  "faithful_updates k \<Longrightarrow> writeTenant k ch t w = (Ret (Inr t'), w') \<Longrightarrow>
     tn_Spec t' = tn_Spec t \<and> tn_Status t' = tn_Status t"
  by (auto simp: writeTenant_def split: if_splits sum.splits elim!: bnd_RetE dest: faithful_tenant)

lemma wantedClusters_eq:
  "sortedClusterNames (filterDeletedClusters (if cps_Enabled (Tenant_GetCompilePipelineSpec t)
     then filter (\<lambda>c. cs_EnableCompilePipeline (cl_Spec c)) cs else [])) = wantedClusters t cs"
  by (simp add: wantedClusters_def sortedClusterNames_def filterDeletedClusters_def conj_commute)

lemma writeStatus_performs:
  assumes "logged k log" and "tn_Status t' = tn_Status t"
    and "Tenant_GetCompilePipelineSpec t' = Tenant_GetCompilePipelineSpec t"
  shows "performs log (writeStatus k (filter (\<lambda>c. cs_EnableCompilePipeline (cl_Spec c)) cs) t') w
     (if cpst_Clusters (Tenant_GetCompilePipelineStatus t) = wantedClusters t cs then []
      else [TenantClusters (wantedClusters t cs)]) (\<lambda>r. r = None)"
proof (cases "cpst_Clusters (Tenant_GetCompilePipelineStatus t) = wantedClusters t cs")
  case True
  then show ?thesis
    using wantedClusters_eq [of t' cs]
    by (simp add: writeStatus_def ensureStatus_def Let_def pipelineStatus_same(1) [OF assms(2)]
        wantedClusters_def assms(3))
next
  case False
  let ?t = "t'\<lparr>tn_Status := (tn_Status t')
              \<lparr>tst_CompilePipeline := Some \<lparr>cpst_Clusters = wantedClusters t cs\<rparr>\<rparr>\<rparr>"
  have "wantedClusters t' cs = wantedClusters t cs" by (simp add: wantedClusters_def assms(3))
  with False have eq: "writeStatus k (filter (\<lambda>c. cs_EnableCompilePipeline (cl_Spec c)) cs) t' =
     bnd (k_StatusUpdateTenant k ?t) (\<lambda>r. case r of
             Inl err \<Rightarrow> ret (Some (Wrap ''error updating tenant status: '' err))
           | Inr _ \<Rightarrow> ret None)"
    using wantedClusters_eq [of t' cs] pipelineStatus_same(1) [OF assms(2)]
    by (simp add: writeStatus_def ensureStatus_def Let_def)
  have "log (snd (k_StatusUpdateTenant k ?t w)) = log w @ (if accepted (fst (k_StatusUpdateTenant k ?t w))
      then [TenantClusters (wantedClusters t cs)] else [])"
    using assms(1) by (simp add: logged_def Tenant_GetCompilePipelineStatus_def)
  with False show ?thesis unfolding eq by (auto intro!: performs_call split: sum.split)
qed

lemma syncTenant_performs:
  assumes "logged k log" and "finalizer_laws k" and "faithful_updates k"
  shows "performs log (syncTenant k url t cs) w (syncPlan url t cs) (\<lambda>r. r = None)"
proof (cases "wantedTenant url t cs")
  case None
  then show ?thesis
    by (simp add: syncTenant_def syncPlan_def wantedTenant_def Let_def split: if_splits)
next
  case (Some p)
  obtain t1 ch1 where p: "p = (t1, ch1)" by fastforce
  let ?en = "filter (\<lambda>c. cs_EnableCompilePipeline (cl_Spec c)) cs"
  let ?after = "\<lambda>t2 ch. (if ch then [TenantVariables (civars t2)] else []) @
      (if cpst_Clusters (Tenant_GetCompilePipelineStatus t) = wantedClusters t cs then []
       else [TenantClusters (wantedClusters t cs)]) @ releaseWrites cs"
  have eq: "syncTenant k url t cs = bnd (clusterLoop k cs t1 ch1) (\<lambda>r. case r of
      Inl err \<Rightarrow> ret (Some err)
    | Inr (t2, ch) \<Rightarrow> bnd (writeTenant k ch t2) (\<lambda>r. case r of
        Inl err \<Rightarrow> ret (Some err)
      | Inr t3 \<Rightarrow> bnd (writeStatus k ?en t3) (\<lambda>e. case e of
            Some err \<Rightarrow> ret (Some err) | None \<Rightarrow> releaseLoop k cs)))"
    using Some p by (simp add: syncTenant_def wantedTenant_def Let_def split: if_splits)
  have tail: "performs log (bnd (writeTenant k ch t2) (\<lambda>r. case r of
        Inl err \<Rightarrow> ret (Some err)
      | Inr t3 \<Rightarrow> bnd (writeStatus k ?en t3) (\<lambda>e. case e of
            Some err \<Rightarrow> ret (Some err) | None \<Rightarrow> releaseLoop k cs))) w' (?after t2 ch) (\<lambda>r. r = None)"
    if s: "sameTenant t t2" for t2 ch w'
  proof (rule performs_bnd [OF writeTenant_performs [OF assms(1)]])
    fix r w2 assume r: "writeTenant k ch t2 w' = (Ret r, w2)" "\<not> isl r"
    then obtain t3 where t3: "r = Inr t3" by (cases r) auto
    from r have "writeTenant k ch t2 w' = (Ret (Inr t3), w2)" by (simp only: t3)
    from writeTenant_same [OF assms(3) this]
    have "tn_Spec t3 = tn_Spec t2" "tn_Status t3 = tn_Status t2" by (rule conjunct1, rule conjunct2)
    then have same: "tn_Status t3 = tn_Status t"
      "Tenant_GetCompilePipelineSpec t3 = Tenant_GetCompilePipelineSpec t"
      using sameTenantD(2,3) [OF s] pipelineStatus_same(2) [of t3 t2] by (metis, metis)
    show "performs log (case r of Inl err \<Rightarrow> ret (Some err)
      | Inr t3 \<Rightarrow> bnd (writeStatus k ?en t3) (\<lambda>e. case e of
            Some err \<Rightarrow> ret (Some err) | None \<Rightarrow> releaseLoop k cs)) w2
      ((if cpst_Clusters (Tenant_GetCompilePipelineStatus t) = wantedClusters t cs then []
        else [TenantClusters (wantedClusters t cs)]) @ releaseWrites cs) (\<lambda>r. r = None)"
      unfolding t3 sum.case
      by (rule performs_bnd [OF writeStatus_performs [OF assms(1) same]])
        (auto intro: releaseLoop_performs [OF assms(1,2)])
  qed (auto split: sum.split)
  show ?thesis
  proof (cases "foldVars cs t1 ch1")
    case None
    then have "syncPlan url t cs = finalizerWrites cs @ []" using Some p by (simp add: syncPlan_def)
    moreover have "performs log (bnd (clusterLoop k cs t1 ch1) f) w (finalizerWrites cs @ []) (\<lambda>r. r = None)"
      if f: "\<And>err. f (Inl err) = ret (Some err)" for f
    proof (rule performs_bnd [OF clusterLoop_performs [OF assms(1,2)]])
      fix r w' assume r: "clusterLoop k cs t1 ch1 w = (Ret r, w')" "\<not> isl r"
      then obtain x where "r = Inr x" by (cases r) auto
      with r None clusterLoop_fold [OF assms(3), of cs t1 ch1 w x w'] have False by simp
      then show "performs log (f r) w' [] (\<lambda>r. r = None)" ..
    next
      fix r :: "gerr + Tenant \<times> bool" and w' assume "\<not> \<not> isl r"
      then obtain err where "r = Inl err" by (cases r) auto
      then show "\<exists>b. f r w' = (Ret b, w') \<and> b \<noteq> None" by (simp add: f)
    qed
    ultimately show ?thesis unfolding eq by simp
  next
    case (Some q)
    obtain t2 ch where q: "q = (t2, ch)" by fastforce
    then have "syncPlan url t cs = finalizerWrites cs @ ?after t2 ch"
      using Some \<open>wantedTenant url t cs = Some p\<close> p by (simp add: syncPlan_def)
    moreover have same: "sameTenant t t2"
      using wantedTenant_same foldVars_same Some q \<open>wantedTenant url t cs = Some p\<close> p sameTenant_trans
      by metis
    ultimately show ?thesis
      unfolding eq
    proof (simp only:, intro performs_bnd [OF clusterLoop_performs [OF assms(1,2)]])
      fix r w' assume r: "clusterLoop k cs t1 ch1 w = (Ret r, w')" "\<not> isl r"
      then have "r = Inr (t2, ch)"
        using clusterLoop_fold [OF assms(3), of cs t1 ch1 w _ w'] Some q by (cases r) auto
      then show "performs log (case r of Inl err \<Rightarrow> ret (Some err)
        | Inr (t2, ch) \<Rightarrow> bnd (writeTenant k ch t2) (\<lambda>r. case r of
            Inl err \<Rightarrow> ret (Some err)
          | Inr t3 \<Rightarrow> bnd (writeStatus k ?en t3) (\<lambda>e. case e of
                Some err \<Rightarrow> ret (Some err) | None \<Rightarrow> releaseLoop k cs))) w' (?after t2 ch) (\<lambda>r. r = None)"
        using tail [OF same] by simp
    qed (auto split: sum.split)
  qed
qed

lemma Reconcile_performs:
  assumes "logged k log" and "finalizer_laws k" and "faithful_updates k"
    and "k_GetTenant k req w = (Ret (Inr t), w1)"
    and "k_ListClusters k (om_Namespace (tn_Meta t)) (MatchingLabel LabelNameTenant (om_Name (tn_Meta t))) w1
      = (Ret (Inr cs), w2)"
  shows "performs log (CompilePipeline_Reconcile k apiUrl req) w (syncPlan apiUrl t cs)
    (\<lambda>r. r = (ctrlDone, None))"
proof -
  have log: "log w2 = log w"
    using assms(1,4,5) unfolding logged_def by (metis snd_conv)
  have eq: "CompilePipeline_Reconcile k apiUrl req w =
      bnd (syncTenant k apiUrl t cs) (\<lambda>err. ret (ctrlDone, err)) w2"
    using assms(4,5) by (simp add: CompilePipeline_Reconcile_def)
  have "performs log (syncTenant k apiUrl t cs) w2 (syncPlan apiUrl t cs) (\<lambda>r. r = None)"
    by (rule syncTenant_performs [OF assms(1-3)])
  then show ?thesis
    unfolding performs_def eq log [symmetric]
    by (cases rule: outcome_world_cases [of "syncTenant k apiUrl t cs" w2]) auto
qed

section \<open>The variables of all clusters\<close>

lemma clusterVarName_inject:
  "CHR ''_'' \<notin> set a \<Longrightarrow> CHR ''_'' \<notin> set b \<Longrightarrow> clusterVarName a = clusterVarName b \<longleftrightarrow> a = b"
  by (auto simp: clusterVarName_def dest: replaceChar_inject)

definition managed :: "Cluster \<Rightarrow> bool" where
  "managed c \<longleftrightarrow> gt_RepoType (Cluster_GetGitTemplate c) \<noteq> UnmanagedRepoType"

text \<open>Names as the API server admits them have no underscore, and are unique in a namespace.\<close>

definition properNames :: "Cluster list \<Rightarrow> bool" where
  "properNames cs \<longleftrightarrow> distinct (map (\<lambda>c. om_Name (cl_Meta c)) cs) \<and>
     (\<forall>c \<in> set cs. CHR ''_'' \<notin> set (om_Name (cl_Meta c)))"

lemma properNames_Cons [simp]:
  "properNames (c # cs) \<longleftrightarrow> properNames cs \<and> CHR ''_'' \<notin> set (om_Name (cl_Meta c)) \<and>
     (\<forall>d \<in> set cs. om_Name (cl_Meta d) \<noteq> om_Name (cl_Meta c))"
  unfolding properNames_def by (auto simp: image_iff)

lemma clusterVarRight_cong:
  "lookEnv (clusterVarName (om_Name (cl_Meta c))) xs = lookEnv (clusterVarName (om_Name (cl_Meta c))) ys \<Longrightarrow>
     clusterVarRight t c xs = clusterVarRight t c ys"
  by (simp add: clusterVarRight_def)

lemma clusterVarRight_same: "sameTenant t t' \<Longrightarrow> clusterVarRight t' c xs = clusterVarRight t c xs"
  by (simp add: clusterVarRight_def removesToken_same)

lemma foldVars_facts:
  assumes "foldVars cs t ch = Some (t', ch')" and "namesDistinct (civars t)" and "properNames cs"
  shows "(\<forall>c \<in> set cs. managed c \<longrightarrow> clusterVarRight t c (civars t')) \<and> namesDistinct (civars t') \<and>
    (\<forall>n. (\<forall>c \<in> set cs. managed c \<longrightarrow> n \<noteq> clusterVarName (om_Name (cl_Meta c))) \<longrightarrow>
        lookEnv n (civars t') = lookEnv n (civars t))"
  using assms
proof (induction cs arbitrary: t ch)
  case Nil
  then show ?case by simp
next
  case (Cons c cs)
  show ?case
  proof (cases "managed c")
    case False
    with Cons show ?thesis by (simp add: managed_def)
  next
    case True
    with Cons.prems(1) obtain t1 b where e: "ensureClusterCiVariable t c = Some (t1, b)"
      and f: "foldVars cs t1 (b \<or> ch) = Some (t', ch')"
      by (auto simp: managed_def split: option.splits)
    note facts = ensureClusterCiVariable_facts [OF e Cons.prems(2)]
    from Cons.IH [OF f facts(2)] Cons.prems(3)
    have IH: "\<forall>c \<in> set cs. managed c \<longrightarrow> clusterVarRight t1 c (civars t')" "namesDistinct (civars t')"
      "\<And>n. (\<forall>c \<in> set cs. managed c \<longrightarrow> n \<noteq> clusterVarName (om_Name (cl_Meta c))) \<Longrightarrow>
         lookEnv n (civars t') = lookEnv n (civars t1)"
      by auto
    have "\<forall>d \<in> set cs. clusterVarName (om_Name (cl_Meta c)) \<noteq> clusterVarName (om_Name (cl_Meta d))"
      using Cons.prems(3) by (auto simp: clusterVarName_inject properNames_def)
    then have "clusterVarRight t c (civars t')"
      using facts(1) IH(3) clusterVarRight_cong by metis
    moreover have "\<forall>d \<in> set cs. managed d \<longrightarrow> clusterVarRight t d (civars t')"
      using IH(1) clusterVarRight_same [OF facts(4)] by simp
    moreover have "lookEnv n (civars t') = lookEnv n (civars t)"
      if "\<forall>d \<in> set (c # cs). managed d \<longrightarrow> n \<noteq> clusterVarName (om_Name (cl_Meta d))" for n
      using that True facts(3) IH(3) by simp
    ultimately show ?thesis using IH(2) by simp
  qed
qed

lemma foldVars_settled:
  assumes "\<forall>c \<in> set cs. managed c \<longrightarrow> clusterVarRight t c (civars t)"
    and "snd (Tenant_GetGitTemplate t) = t"
  shows "foldVars cs t ch = Some (t, ch)"
  using assms(1)
proof (induction cs)
  case (Cons c cs)
  have "ensureClusterCiVariable t c = Some (t, False)" if "managed c"
    using clusterVars_settled [of t c "civars t"] Cons.prems that assms(2)
    by (simp add: ensureClusterCiVariable_store storeVars_def)
  with Cons show ?case by (auto simp: managed_def)
qed simp

lemma foldVars_template:
  "foldVars cs t ch = Some (t', ch') \<Longrightarrow> snd (Tenant_GetGitTemplate t) = t \<Longrightarrow>
     snd (Tenant_GetGitTemplate t') = t'"
proof (induction cs arbitrary: t ch)
  case (Cons c cs)
  have "snd (Tenant_GetGitTemplate t1) = t1" if "ensureClusterCiVariable t c = Some (t1, b)" for t1 b
    using that by (auto simp: ensureClusterCiVariable_store storeVars_def Let_def split: if_splits)
  with Cons show ?case by (auto split: if_splits option.splits)
qed simp

section \<open>The state after a pass\<close>

text \<open>
  Documented behaviour of the API server, for the tenant of a request and the clusters that are listed
  for it. A read shows what is stored, or fails without a not found. An accepted update of a cluster
  stores what it answers with, which is what was sent up to the resource version and the like; a
  cluster that is being deleted goes with its last finalizer. An accepted update of the tenant stores
  its specification, one of its status the status. A refused call changes nothing.
\<close>

definition sameCluster :: "Cluster \<Rightarrow> Cluster \<Rightarrow> bool" where
  "sameCluster c d \<longleftrightarrow> om_Name (cl_Meta d) = om_Name (cl_Meta c) \<and> cl_Spec d = cl_Spec c \<and>
     om_DeletionTimestamp (cl_Meta d) = om_DeletionTimestamp (cl_Meta c)"

definition kept :: "Cluster \<Rightarrow> Cluster list" where
  "kept c = (if om_DeletionTimestamp (cl_Meta c) \<noteq> None \<and> om_Finalizers (cl_Meta c) = [] then [] else [c])"

definition putCluster :: "Cluster \<Rightarrow> Cluster list \<Rightarrow> Cluster list" where
  "putCluster c cs = concat (map (\<lambda>d. if om_Name (cl_Meta d) = om_Name (cl_Meta c) then kept c else [d]) cs)"

definition pipeline_store :: "'w Client \<Rightarrow> NamespacedName \<Rightarrow> ('w \<Rightarrow> Tenant) \<Rightarrow> ('w \<Rightarrow> Cluster list) \<Rightarrow> bool" where
  "pipeline_store k req tn cls \<longleftrightarrow>
     (\<forall>w r w'. k_GetTenant k req w = (Ret r, w') \<longrightarrow> tn w' = tn w \<and> cls w' = cls w \<and>
        (case r of Inr t \<Rightarrow> t = tn w | Inl e \<Rightarrow> \<not> IsNotFound e)) \<and>
     (\<forall>w r w'. k_ListClusters k (om_Namespace (tn_Meta (tn w)))
           (MatchingLabel LabelNameTenant (om_Name (tn_Meta (tn w)))) w = (Ret r, w') \<longrightarrow>
        tn w' = tn w \<and> cls w' = cls w \<and> (case r of Inr cs \<Rightarrow> cs = cls w | Inl e \<Rightarrow> True)) \<and>
     (\<forall>c w r w'. k_UpdateCluster k c w = (Ret r, w') \<longrightarrow> tn w' = tn w \<and> (case r of
        Inl e \<Rightarrow> cls w' = cls w
      | Inr c' \<Rightarrow> sameCluster c c' \<and> om_Finalizers (cl_Meta c') = om_Finalizers (cl_Meta c) \<and>
          cls w' = putCluster c' (cls w))) \<and>
     (\<forall>t w r w'. k_UpdateTenant k t w = (Ret r, w') \<longrightarrow> cls w' = cls w \<and> (case r of
        Inl e \<Rightarrow> tn w' = tn w
      | Inr t' \<Rightarrow> tn w' = t' \<and> om_Name (tn_Meta t') = om_Name (tn_Meta t) \<and> tn_Spec t' = tn_Spec t \<and>
          tn_Status t' = tn_Status (tn w))) \<and>
     (\<forall>t w r w'. k_StatusUpdateTenant k t w = (Ret r, w') \<longrightarrow> cls w' = cls w \<and> (case r of
        Inl e \<Rightarrow> tn w' = tn w
      | Inr t' \<Rightarrow> tn w' = t' \<and> om_Name (tn_Meta t') = om_Name (tn_Meta (tn w)) \<and>
          tn_Spec t' = tn_Spec (tn w) \<and> tn_Status t' = tn_Status t))"

lemma store_get:
  assumes "pipeline_store k req tn cls" and "k_GetTenant k req w = (Ret r, w')"
  shows "tn w' = tn w \<and> cls w' = cls w \<and> (case r of Inr t \<Rightarrow> t = tn w | Inl e \<Rightarrow> \<not> IsNotFound e)"
  using assms(1) [unfolded pipeline_store_def, THEN conjunct1, rule_format, OF assms(2)] .

lemma store_list:
  assumes "pipeline_store k req tn cls" and "k_ListClusters k (om_Namespace (tn_Meta (tn w)))
      (MatchingLabel LabelNameTenant (om_Name (tn_Meta (tn w)))) w = (Ret r, w')"
  shows "tn w' = tn w \<and> cls w' = cls w \<and> (case r of Inr cs \<Rightarrow> cs = cls w | Inl e \<Rightarrow> True)"
  using assms(1) [unfolded pipeline_store_def, THEN conjunct2, THEN conjunct1, rule_format, OF assms(2)] .

lemma store_cluster:
  assumes "pipeline_store k req tn cls" and "k_UpdateCluster k c w = (Ret (Inr c'), w')"
  shows "tn w' = tn w \<and> sameCluster c c' \<and>
    om_Finalizers (cl_Meta c') = om_Finalizers (cl_Meta c) \<and> cls w' = putCluster c' (cls w)"
  using assms(1) [unfolded pipeline_store_def, THEN conjunct2, THEN conjunct2, THEN conjunct1, rule_format,
      OF assms(2)] by simp

lemma store_tenant:
  assumes "pipeline_store k req tn cls" and "k_UpdateTenant k t w = (Ret (Inr t'), w')"
  shows "cls w' = cls w \<and> tn w' = t' \<and> om_Name (tn_Meta t') = om_Name (tn_Meta t) \<and> tn_Spec t' = tn_Spec t \<and>
    tn_Status t' = tn_Status (tn w)"
  using assms(1) [unfolded pipeline_store_def, THEN conjunct2, THEN conjunct2, THEN conjunct2, THEN conjunct1,
      rule_format, OF assms(2)] by simp

lemma store_status:
  assumes "pipeline_store k req tn cls" and "k_StatusUpdateTenant k t w = (Ret (Inr t'), w')"
  shows "cls w' = cls w \<and> tn w' = t' \<and> om_Name (tn_Meta t') = om_Name (tn_Meta (tn w)) \<and>
    tn_Spec t' = tn_Spec (tn w) \<and> tn_Status t' = tn_Status t"
  using assms(1) [unfolded pipeline_store_def, THEN conjunct2, THEN conjunct2, THEN conjunct2, THEN conjunct2,
      rule_format, OF assms(2)] by simp

abbreviation clusterNames :: "Cluster list \<Rightarrow> string list" where
  "clusterNames cs \<equiv> map (\<lambda>c. om_Name (cl_Meta c)) cs"

lemma putCluster_other: "om_Name (cl_Meta c) \<notin> set (clusterNames cs) \<Longrightarrow> putCluster c cs = cs"
  by (induction cs) (auto simp: putCluster_def)

lemma putCluster_here:
  assumes "distinct (clusterNames (pre @ d # post))" and "om_Name (cl_Meta c) = om_Name (cl_Meta d)"
  shows "putCluster c (pre @ d # post) = pre @ kept c @ post"
proof -
  have "om_Name (cl_Meta c) \<notin> set (clusterNames pre)" "om_Name (cl_Meta c) \<notin> set (clusterNames post)"
    using assms by auto
  then have "putCluster c pre = pre" "putCluster c post = post" by (simp_all add: putCluster_other)
  then show ?thesis using assms(2) by (simp add: putCluster_def)
qed

text \<open>A cluster as the loop over the clusters leaves it, and as the release leaves it, if at all.\<close>

definition finalized :: "Cluster \<Rightarrow> Cluster \<Rightarrow> bool" where
  "finalized c d \<longleftrightarrow> sameCluster c d \<and> (if lacksFinalizer c
     then om_Finalizers (cl_Meta d) = om_Finalizers (cl_Meta c) @ [PipelineFinalizerName] else d = c)"

definition released :: "Cluster \<Rightarrow> Cluster list \<Rightarrow> bool" where
  "released c ds \<longleftrightarrow> (\<forall>d \<in> set ds. sameCluster c d \<and> \<not> lacksFinalizer d \<and> \<not> awaitsRelease d) \<and> length ds \<le> 1 \<and>
     (om_DeletionTimestamp (cl_Meta c) = None \<longrightarrow> ds \<noteq> [])"

lemma sameCluster_refl [simp]: "sameCluster c c"
  by (simp add: sameCluster_def)

lemma sameCluster_fins: "sameCluster (c\<lparr>cl_Meta := (cl_Meta c)\<lparr>om_Finalizers := fs\<rparr>\<rparr>) d \<longleftrightarrow> sameCluster c d"
  by (simp add: sameCluster_def)

lemma finalizer_store:
  assumes "pipeline_store k req tn cls" and "finalizer_laws k"
    and "addClusterFinalizer k c w = (Ret (Inr d), w')"
    and "cls w = pre @ c # post" and "distinct (clusterNames (cls w))"
  shows "tn w' = tn w \<and> cls w' = pre @ d # post \<and> finalized c d"
proof (cases "lacksFinalizer c")
  case False
  then have "addClusterFinalizer k c = ret (Inr c)"
    by (auto simp: addClusterFinalizer_def lacksFinalizer_def finalizer_laws_add [OF assms(2)])
  with assms(3) have "d = c \<and> w' = w" by simp
  with False assms(4) show ?thesis by (simp add: finalized_def)
next
  case True
  let ?c = "c\<lparr>cl_Meta := (cl_Meta c)\<lparr>om_Finalizers := om_Finalizers (cl_Meta c) @ [PipelineFinalizerName]\<rparr>\<rparr>"
  have u: "k_UpdateCluster k ?c w = (Ret (Inr d), w')"
    using assms(3) True
    by (auto simp: addClusterFinalizer_def lacksFinalizer_def finalizer_laws_add [OF assms(2)]
        elim!: bnd_RetE split: sum.splits)
  from store_cluster [OF assms(1) u] have s: "tn w' = tn w" "sameCluster c d"
    "om_Finalizers (cl_Meta d) = om_Finalizers (cl_Meta c) @ [PipelineFinalizerName]" "cls w' = putCluster d (cls w)"
    by (simp_all add: sameCluster_def)
  then have "kept d = [d]" by (simp add: kept_def)
  then have "cls w' = pre @ d # post"
    using putCluster_here [of pre c post d] assms(4,5) s(2,4) by (simp add: sameCluster_def)
  with s True show ?thesis by (simp add: finalized_def)
qed

lemma clusterLoop_store:
  assumes "pipeline_store k req tn cls" and "finalizer_laws k"
  shows "clusterLoop k cs t ch w = (Ret (Inr r), w') \<Longrightarrow> cls w = pre @ cs \<Longrightarrow> distinct (clusterNames (cls w)) \<Longrightarrow>
    tn w' = tn w \<and> (\<exists>ds. cls w' = pre @ ds \<and> list_all2 finalized cs ds)"
proof (induction cs arbitrary: t ch w pre)
  case Nil
  then show ?case by auto
next
  case (Cons c cs)
  from Cons.prems(1) obtain d w1 t1 ch1 where a: "addClusterFinalizer k c w = (Ret (Inr d), w1)"
    and rest: "clusterLoop k cs t1 ch1 w1 = (Ret (Inr r), w')"
    by (auto elim!: bnd_RetE split: sum.splits if_splits option.splits)
  from finalizer_store [OF assms a Cons.prems(2,3)]
  have s: "tn w1 = tn w" "cls w1 = (pre @ [d]) @ cs" "finalized c d" by auto
  have "distinct (clusterNames (cls w1))"
    using Cons.prems(2,3) s(2,3) by (simp add: finalized_def sameCluster_def)
  from Cons.IH [OF rest s(2) this] obtain ds where "tn w' = tn w1" "cls w' = pre @ d # ds" "list_all2 finalized cs ds"
    by auto
  with s show ?case by (intro conjI exI [of _ "d # ds"]) simp_all
qed

lemma release_one:
  assumes "pipeline_store k req tn cls" and "finalizer_laws k" and "finalized c d"
    and "releaseLoop k (c # cs) w = (Ret None, w')" and "cls w = pre @ d # post" and "distinct (clusterNames (cls w))"
  shows "\<exists>ds w1. tn w1 = tn w \<and> cls w1 = pre @ ds @ post \<and> released c ds \<and> releaseLoop k cs w1 = (Ret None, w')"
proof (cases "awaitsRelease c")
  case False
  have "releaseLoop k cs w = (Ret None, w')"
    using False assms(4) by (auto simp: awaitsRelease_def finalizer_laws_remove [OF assms(2)] split: if_splits)
  moreover have "released c [d]"
    using False assms(3)
    by (auto simp: released_def finalized_def lacksFinalizer_def awaitsRelease_def sameCluster_def split: if_splits)
  ultimately show ?thesis using assms(5) by (intro exI [of _ "[d]"] exI [of _ w]) simp
next
  case True
  then have d: "d = c" using assms(3) by (simp add: finalized_def awaitsRelease_def lacksFinalizer_def)
  let ?fs = "filter (\<lambda>f. f \<noteq> PipelineFinalizerName) (om_Finalizers (cl_Meta c))"
  obtain c' w1 where u: "k_UpdateCluster k (c\<lparr>cl_Meta := (cl_Meta c)\<lparr>om_Finalizers := ?fs\<rparr>\<rparr>) w = (Ret (Inr c'), w1)"
    and rest: "releaseLoop k cs w1 = (Ret None, w')"
    using assms(4) True
    by (auto simp: awaitsRelease_def finalizer_laws_remove [OF assms(2)] elim!: bnd_RetE split: sum.splits)
  from store_cluster [OF assms(1) u] have s: "tn w1 = tn w" "sameCluster c c'" "om_Finalizers (cl_Meta c') = ?fs"
    "cls w1 = putCluster c' (cls w)" by (simp_all add: sameCluster_def)
  have "cls w1 = pre @ kept c' @ post"
    using putCluster_here [of pre d post c'] assms(5,6) s(2,4) d by (simp add: sameCluster_def)
  moreover have "released c (kept c')"
    using True s(2,3) by (auto simp: released_def kept_def lacksFinalizer_def awaitsRelease_def sameCluster_def)
  ultimately show ?thesis using s(1) rest by blast
qed

lemma releaseLoop_store:
  assumes "pipeline_store k req tn cls" and "finalizer_laws k"
  shows "list_all2 finalized cs ds \<Longrightarrow> releaseLoop k cs w = (Ret None, w') \<Longrightarrow> cls w = pre @ ds \<Longrightarrow>
    distinct (clusterNames (cls w)) \<Longrightarrow> tn w' = tn w \<and> (\<exists>dss. cls w' = pre @ concat dss \<and> list_all2 released cs dss)"
proof (induction cs ds arbitrary: w pre rule: list_all2_induct)
  case Nil
  then show ?case by auto
next
  case (Cons c cs d ds)
  from release_one [OF assms Cons.hyps(1) Cons.prems] obtain es w1 where
    e: "tn w1 = tn w" "cls w1 = (pre @ es) @ ds" "released c es" "releaseLoop k cs w1 = (Ret None, w')" by auto
  have "om_Name (cl_Meta x) = om_Name (cl_Meta d)" if "x \<in> set es" for x
    using that e(3) Cons.hyps(1) by (auto simp: released_def finalized_def sameCluster_def)
  then have "clusterNames es = [] \<or> clusterNames es = [om_Name (cl_Meta d)]"
    using e(3) by (cases es) (auto simp: released_def)
  then have "distinct (clusterNames (cls w1))"
    using Cons.prems(2,3) unfolding e(2) by (elim disjE) simp_all
  from Cons.IH [OF e(4,2) this] obtain dss where
    "tn w' = tn w1" "cls w' = pre @ concat (es # dss)" "list_all2 released cs dss" by auto
  with e(1,3) show ?case by (intro conjI exI [of _ "es # dss"]) simp_all
qed

lemma absentVars_settled:
  assumes "\<forall>n \<in> {CI_VARIABLE_API_URL, CI_VARIABLE_API_TOKEN, CI_VARIABLE_CLUSTERS}. lookEnv n xs = None"
  shows "absentVars xs = (xs, False)"
proof -
  have "removeEnvVar n xs = (xs, False)" if "lookEnv n xs = None" for n
    using val.rem_absent [OF that] val.rem_changed [of n xs] that by (metis prod.collapse)
  with assms show ?thesis by (simp add: absentVars_def)
qed

text \<open>The clusters that are left: who they are, and that nothing is to be done to them.\<close>

lemma released_live:
  "list_all2 released cs dss \<Longrightarrow>
   clusterNames (filterDeletedClusters (filter (\<lambda>c. cs_EnableCompilePipeline (cl_Spec c)) (concat dss))) =
   clusterNames (filterDeletedClusters (filter (\<lambda>c. cs_EnableCompilePipeline (cl_Spec c)) cs))"
proof (induction rule: list_all2_induct)
  case Nil
  show ?case by simp
next
  case (Cons c cs ds dss)
  then show ?case
    by (cases ds) (auto simp: released_def sameCluster_def filterDeletedClusters_def)
qed

lemma released_each:
  "list_all2 released cs dss \<Longrightarrow> d \<in> set (concat dss) \<Longrightarrow>
     \<exists>c \<in> set cs. sameCluster c d \<and> \<not> lacksFinalizer d \<and> \<not> awaitsRelease d"
  by (induction rule: list_all2_induct) (auto simp: released_def)

lemma clusterLoop_quiet:
  assumes "finalizer_laws k"
  shows "\<forall>d \<in> set ds. \<not> lacksFinalizer d \<Longrightarrow> foldVars ds t ch = Some r \<Longrightarrow> clusterLoop k ds t ch = ret (Inr r)"
proof (induction ds arbitrary: t ch)
  case Nil
  then show ?case by simp
next
  case (Cons d ds)
  have "addClusterFinalizer k d = ret (Inr d)"
    using Cons.prems(1) by (auto simp: addClusterFinalizer_def lacksFinalizer_def finalizer_laws_add [OF assms])
  with Cons show ?case by (auto split: if_splits option.splits)
qed

lemma releaseLoop_quiet:
  assumes "finalizer_laws k"
  shows "\<forall>d \<in> set ds. \<not> awaitsRelease d \<Longrightarrow> releaseLoop k ds = ret None"
  by (induction ds) (auto simp: awaitsRelease_def finalizer_laws_remove [OF assms])

lemma sync_nothing:
  assumes "finalizer_laws k" and "\<forall>d \<in> set ds. \<not> lacksFinalizer d \<and> \<not> awaitsRelease d"
    and "wantedTenant url t ds = Some (t', False)" and "foldVars ds t' False = Some (t', False)"
    and "cpst_Clusters (Tenant_GetCompilePipelineStatus t') = wantedClusters t' ds"
  shows "syncTenant k url t ds = ret None"
proof -
  have "clusterLoop k ds t' False = ret (Inr (t', False))" "releaseLoop k ds = ret None"
    using assms(1,2,4) by (simp_all add: clusterLoop_quiet releaseLoop_quiet)
  moreover have "writeStatus k (filter (\<lambda>c. cs_EnableCompilePipeline (cl_Spec c)) ds) t' = ret None"
    using wantedClusters_eq [of t' ds] assms(5) by (simp add: writeStatus_def ensureStatus_def Let_def)
  ultimately show ?thesis
    using assms(3) by (simp add: syncTenant_def wantedTenant_def writeTenant_def Let_def split: if_splits)
qed

text \<open>What a pass leaves: the variables as computed, the status as wanted, the clusters released.\<close>

lemma civars_spec: "tn_Spec t' = tn_Spec t \<Longrightarrow> civars t' = civars t"
  by (simp add: Tenant_GetGitTemplate_def split: option.split)

lemma storeVars_unchanged:
  "storeVars t u = (t', False) \<Longrightarrow> civars t' = civars t"
  by (auto simp: storeVars_def Let_def split: if_splits)

lemma wantedTenant_unchanged: "wantedTenant url t cs = Some (t', False) \<Longrightarrow> civars t' = civars t"
  by (auto simp: wantedTenant_def ensureCiVariables_store ensureCiVariablesAbsent_store
      dest: storeVars_unchanged split: if_splits)

lemma foldVars_unchanged: "foldVars cs t ch = Some (t', False) \<Longrightarrow> \<not> ch \<and> civars t' = civars t"
proof (induction cs arbitrary: t ch)
  case Nil
  then show ?case by simp
next
  case (Cons c cs)
  show ?case
  proof (cases "gt_RepoType (Cluster_GetGitTemplate c) = UnmanagedRepoType")
    case True
    with Cons.IH [of t ch] Cons.prems show ?thesis by simp
  next
    case False
    with Cons.prems obtain t1 b where e: "ensureClusterCiVariable t c = Some (t1, b)"
      and f: "foldVars cs t1 (b \<or> ch) = Some (t', False)"
      by (auto split: option.splits)
    from Cons.IH [OF f] e show ?thesis
      by (auto simp: ensureClusterCiVariable_store dest: storeVars_unchanged)
  qed
qed

lemma writeTenant_store:
  assumes "pipeline_store k req tn cls" and "writeTenant k ch t2 w = (Ret (Inr t3), w')" and "sameTenant (tn w) t2"
    and "\<not> ch \<Longrightarrow> civars t2 = civars (tn w)"
  shows "cls w' = cls w \<and> om_Name (tn_Meta (tn w')) = om_Name (tn_Meta (tn w)) \<and> civars (tn w') = civars t2 \<and>
    Tenant_GetCompilePipelineSpec (tn w') = Tenant_GetCompilePipelineSpec (tn w) \<and>
    tn_Status t3 = tn_Status (tn w') \<and> tn_Status (tn w') = tn_Status (tn w) \<and>
    Tenant_GetCompilePipelineSpec t3 = Tenant_GetCompilePipelineSpec (tn w)"
proof (cases ch)
  case True
  with assms(2) have "k_UpdateTenant k t2 w = (Ret (Inr t3), w')"
    by (auto simp: writeTenant_def elim!: bnd_RetE split: sum.splits)
  from store_tenant [OF assms(1) this] show ?thesis
    using sameTenantD [OF assms(3)] civars_spec [of t3 t2] pipelineStatus_same(2) [of t3 t2] by simp
next
  case False
  with assms show ?thesis using sameTenantD [OF assms(3)] by (simp add: writeTenant_def)
qed

lemma writeStatus_store:
  assumes "pipeline_store k req tn cls"
    and "writeStatus k (filter (\<lambda>c. cs_EnableCompilePipeline (cl_Spec c)) cs) t3 w = (Ret None, w')"
    and "tn_Status t3 = tn_Status (tn w)"
  shows "cls w' = cls w \<and> om_Name (tn_Meta (tn w')) = om_Name (tn_Meta (tn w)) \<and> tn_Spec (tn w') = tn_Spec (tn w) \<and>
    cpst_Clusters (Tenant_GetCompilePipelineStatus (tn w')) = wantedClusters t3 cs"
proof (cases "cpst_Clusters (Tenant_GetCompilePipelineStatus t3) = wantedClusters t3 cs")
  case True
  with assms(2) wantedClusters_eq [of t3 cs] have "w' = w"
    by (simp add: writeStatus_def ensureStatus_def Let_def)
  with True assms(3) show ?thesis using pipelineStatus_same(1) [of t3 "tn w"] by simp
next
  case False
  let ?t = "t3\<lparr>tn_Status := (tn_Status t3)
              \<lparr>tst_CompilePipeline := Some \<lparr>cpst_Clusters = wantedClusters t3 cs\<rparr>\<rparr>\<rparr>"
  from False assms(2) wantedClusters_eq [of t3 cs] obtain t4 where "k_StatusUpdateTenant k ?t w = (Ret (Inr t4), w')"
    by (auto simp: writeStatus_def ensureStatus_def Let_def elim!: bnd_RetE split: sum.splits)
  from store_status [OF assms(1) this] show ?thesis
    using pipelineStatus_same(1) [of t4 ?t] by (simp add: Tenant_GetCompilePipelineStatus_def)
qed

lemma syncTenant_eq:
  assumes "wantedTenant url t cs = Some (t1, ch1)"
  shows "syncTenant k url t cs = bnd (clusterLoop k cs t1 ch1) (\<lambda>r. case r of
      Inl err \<Rightarrow> ret (Some err)
    | Inr (t2, ch) \<Rightarrow> bnd (writeTenant k ch t2) (\<lambda>r. case r of
        Inl err \<Rightarrow> ret (Some err)
      | Inr t3 \<Rightarrow> bnd (writeStatus k (filter (\<lambda>c. cs_EnableCompilePipeline (cl_Spec c)) cs) t3) (\<lambda>e. case e of
            Some err \<Rightarrow> ret (Some err) | None \<Rightarrow> releaseLoop k cs)))"
  using assms by (simp add: syncTenant_def wantedTenant_def Let_def split: if_splits)

lemma syncTenant_wanted:
  "syncTenant k url t cs w = (Ret r, w') \<Longrightarrow> \<exists>t1 ch1. wantedTenant url t cs = Some (t1, ch1)"
  by (cases "wantedTenant url t cs") (auto simp: syncTenant_def wantedTenant_def Let_def split: if_splits)

lemma pass_store:
  assumes "pipeline_store k req tn cls" and "finalizer_laws k" and "faithful_updates k"
    and "syncTenant k url (tn w) (cls w) w = (Ret None, w')" and "distinct (clusterNames (cls w))"
  obtains t1 ch1 t2 ch2 dss where "wantedTenant url (tn w) (cls w) = Some (t1, ch1)"
    and "foldVars (cls w) t1 ch1 = Some (t2, ch2)"
    and "cls w' = concat dss" and "list_all2 released (cls w) dss" and "civars (tn w') = civars t2"
    and "om_Name (tn_Meta (tn w')) = om_Name (tn_Meta (tn w))"
    and "Tenant_GetCompilePipelineSpec (tn w') = Tenant_GetCompilePipelineSpec (tn w)"
    and "cpst_Clusters (Tenant_GetCompilePipelineStatus (tn w')) = wantedClusters (tn w) (cls w)"
proof -
  let ?en = "filter (\<lambda>c. cs_EnableCompilePipeline (cl_Spec c)) (cls w)"
  from syncTenant_wanted [OF assms(4)] obtain t1 ch1 where
    wt: "wantedTenant url (tn w) (cls w) = Some (t1, ch1)" by blast
  from assms(4) [unfolded syncTenant_eq [OF wt]] obtain t2 ch2 t3 w1 w2 w3 where
    loop: "clusterLoop k (cls w) t1 ch1 w = (Ret (Inr (t2, ch2)), w1)"
    and wr: "writeTenant k ch2 t2 w1 = (Ret (Inr t3), w2)"
    and st: "writeStatus k ?en t3 w2 = (Ret None, w3)" and rel: "releaseLoop k (cls w) w3 = (Ret None, w')"
    by (auto elim!: bnd_RetE split: option.splits sum.splits)
  note fold = clusterLoop_fold [OF assms(3) loop]
  obtain ds where l: "tn w1 = tn w" "cls w1 = ds" "list_all2 finalized (cls w) ds"
    using clusterLoop_store [OF assms(1,2) loop _ assms(5), of "[]"] by auto
  have "sameTenant (tn w1) t2"
    using sameTenant_trans [OF wantedTenant_same [OF wt] foldVars_same [OF fold]] l(1) by simp
  moreover have "civars t2 = civars (tn w1)" if "\<not> ch2"
    using foldVars_unchanged [of "cls w" t1 ch1 t2] wantedTenant_unchanged [of url "tn w" "cls w" t1] fold wt that l(1)
    by simp
  ultimately have t: "cls w2 = ds" "om_Name (tn_Meta (tn w2)) = om_Name (tn_Meta (tn w))" "civars (tn w2) = civars t2"
    "Tenant_GetCompilePipelineSpec (tn w2) = Tenant_GetCompilePipelineSpec (tn w)" "tn_Status t3 = tn_Status (tn w2)"
    "Tenant_GetCompilePipelineSpec t3 = Tenant_GetCompilePipelineSpec (tn w)"
    using writeTenant_store [OF assms(1) wr] l(1,2) by simp_all
  from writeStatus_store [OF assms(1) st t(5)] t have s: "cls w3 = ds" "om_Name (tn_Meta (tn w3)) = om_Name (tn_Meta (tn w))"
    "tn_Spec (tn w3) = tn_Spec (tn w2)"
    "cpst_Clusters (Tenant_GetCompilePipelineStatus (tn w3)) = wantedClusters (tn w) (cls w)"
    by (simp_all add: wantedClusters_def)
  have "clusterNames ds = clusterNames (cls w)"
    using l(3) by (induction rule: list_all2_induct) (auto simp: finalized_def sameCluster_def)
  then have "distinct (clusterNames (cls w3))" using assms(5) s(1) by simp
  from releaseLoop_store [OF assms(1,2) l(3) rel, of "[]"] s(1) this obtain dss where
    "tn w' = tn w3" "cls w' = concat dss" "list_all2 released (cls w) dss" by auto
  then show thesis
    using that [OF wt fold] s t civars_spec [OF s(3)] pipelineStatus_same(2) [OF s(3)] by simp
qed

lemma wantedTenant_names:
  assumes "namesDistinct (civars t)" and "wantedTenant url t cs = Some (t1, ch1)"
  shows "namesDistinct (civars t1)"
proof (cases "cps_Enabled (Tenant_GetCompilePipelineSpec t)")
  case True
  with assms(2) obtain l ys b where p: "presentVars url l (om_Name (tn_Meta t)) (civars t) = Some (ys, b)"
    and s: "storeVars t (ys, b) = (t1, ch1)"
    by (auto simp: wantedTenant_def ensureCiVariables_store)
  have "\<not> b \<Longrightarrow> ys = civars t" using p presentVars_unchanged by (cases b) auto
  with storeVars_facts [OF s] presentVars_facts(5) [OF p assms(1)] show ?thesis by auto
next
  case False
  with assms(2) have s: "storeVars t (absentVars (civars t)) = (t1, ch1)"
    by (simp add: wantedTenant_def ensureCiVariablesAbsent_store)
  from storeVars_facts [OF s] absentVars_unchanged absentVars_facts(2) [OF assms(1)] show ?thesis by auto
qed

lemma wantedTenant_settled:
  assumes "namesDistinct (civars t)" and "wantedTenant url t cs = Some (t1, ch1)"
    and T: "\<And>n. (\<forall>m. n \<noteq> clusterVarName m) \<Longrightarrow> lookEnv n (civars T) = lookEnv n (civars t1)"
    and same: "om_Name (tn_Meta T) = om_Name (tn_Meta t)"
      "Tenant_GetCompilePipelineSpec T = Tenant_GetCompilePipelineSpec t"
    and names: "clusterNames (filterDeletedClusters (filter (\<lambda>c. cs_EnableCompilePipeline (cl_Spec c)) ds)) =
      clusterNames (filterDeletedClusters (filter (\<lambda>c. cs_EnableCompilePipeline (cl_Spec c)) cs))"
  shows "wantedTenant url T ds = Some (snd (Tenant_GetGitTemplate T), False)"
proof -
  have keep: "lookEnv n (civars T) = lookEnv n (civars t1)"
    if "n \<in> {CI_VARIABLE_API_URL, CI_VARIABLE_API_TOKEN, CI_VARIABLE_CLUSTERS}" for n
    using T [of n] that names_distinct' by auto
  show ?thesis
  proof (cases "cps_Enabled (Tenant_GetCompilePipelineSpec t)")
    case True
    let ?l = "joinWith '' '' (sortedClusterNames (filterDeletedClusters
      (filter (\<lambda>c. cs_EnableCompilePipeline (cl_Spec c)) cs)))"
    from True assms(2) obtain ys b where p: "presentVars url ?l (om_Name (tn_Meta t)) (civars t) = Some (ys, b)"
      and s: "storeVars t (ys, b) = (t1, ch1)"
      by (auto simp: wantedTenant_def ensureCiVariables_store)
    have "\<not> b \<Longrightarrow> ys = civars t" using p presentVars_unchanged by (cases b) auto
    with storeVars_facts [OF s] have ys: "civars t1 = ys" by auto
    note facts = presentVars_facts [OF p]
    have "presentVars url ?l (om_Name (tn_Meta T)) (civars T) = Some (civars T, False)"
      using presentVars_settled [of "civars T"] facts(1-3) keep ys same(1) by simp
    then show ?thesis
      using True same names by (simp add: wantedTenant_def ensureCiVariables_store storeVars_def sortedClusterNames_def)
  next
    case False
    with assms(2) have s: "storeVars t (absentVars (civars t)) = (t1, ch1)"
      by (simp add: wantedTenant_def ensureCiVariablesAbsent_store)
    from storeVars_facts [OF s] absentVars_unchanged
    have vars: "civars t1 = fst (absentVars (civars t))" by auto
    have "absentVars (civars T) = (civars T, False)"
      by (rule absentVars_settled) (use keep absentVars_facts(1) [OF assms(1)] vars in auto)
    then show ?thesis
      using False same by (simp add: wantedTenant_def ensureCiVariablesAbsent_store storeVars_def)
  qed
qed

lemma settled_sync:
  assumes "pipeline_store k req tn cls" and "finalizer_laws k" and "faithful_updates k"
    and "namesDistinct (civars (tn w))" and "properNames (cls w)"
    and "syncTenant k url (tn w) (cls w) w = (Ret None, w')"
  shows "syncTenant k url (tn w') (cls w') = ret None"
proof -
  have "distinct (clusterNames (cls w))" using assms(5) by (simp add: properNames_def)
  from pass_store [OF assms(1-3,6) this] obtain t1 ch1 t2 ch2 dss where
    wt: "wantedTenant url (tn w) (cls w) = Some (t1, ch1)" and fold: "foldVars (cls w) t1 ch1 = Some (t2, ch2)"
    and cls: "cls w' = concat dss" "list_all2 released (cls w) dss" and vars: "civars (tn w') = civars t2"
    and same: "om_Name (tn_Meta (tn w')) = om_Name (tn_Meta (tn w))"
      "Tenant_GetCompilePipelineSpec (tn w') = Tenant_GetCompilePipelineSpec (tn w)"
    and st: "cpst_Clusters (Tenant_GetCompilePipelineStatus (tn w')) = wantedClusters (tn w) (cls w)" .
  let ?T = "snd (Tenant_GetGitTemplate (tn w'))"
  note T = sameTenantD [OF sameTenant_GetGitTemplate [of "tn w'"]]
  note f = foldVars_facts [OF fold wantedTenant_names [OF assms(4) wt] assms(5)]
  note live = released_live [OF cls(2), folded cls(1)]
  have each: "\<exists>c \<in> set (cls w). sameCluster c d \<and> \<not> lacksFinalizer d \<and> \<not> awaitsRelease d" if "d \<in> set (cls w')" for d
    using released_each [OF cls(2)] that cls(1) by simp
  have "clusterVarRight ?T d (civars ?T)" if "d \<in> set (cls w')" and "managed d" for d
  proof -
    from each [OF that(1)] obtain c where c: "c \<in> set (cls w)" "sameCluster c d" by blast
    then have "Cluster_GetGitTemplate d = Cluster_GetGitTemplate c"
      by (simp add: sameCluster_def Cluster_GetGitTemplate_def)
    with f c that(2) show ?thesis
      using sameTenantD(3) [OF wantedTenant_same [OF wt]] same(2) T(3) vars
      by (auto simp: managed_def clusterVarRight_def removesToken_def sameCluster_def)
  qed
  then have "foldVars (cls w') ?T False = Some (?T, False)" by (intro foldVars_settled) auto
  moreover have "wantedTenant url (tn w') (cls w') = Some (?T, False)"
    by (rule wantedTenant_settled [OF assms(4) wt _ same live]) (use f vars in auto)
  moreover have "wantedClusters ?T (cls w') = wantedClusters (tn w) (cls w)"
    using wantedClusters_eq [of ?T "cls w'"] wantedClusters_eq [of "tn w" "cls w"] live same(2) T(3)
    by (simp add: sortedClusterNames_def split: if_splits)
  moreover have "cpst_Clusters (Tenant_GetCompilePipelineStatus ?T) = wantedClusters (tn w) (cls w)"
    using pipelineStatus_same(1) [OF T(2)] st by simp
  ultimately show ?thesis using each by (intro sync_nothing [OF assms(2)]) auto
qed

section \<open>Properties of the compile pipeline\<close>

text \<open>When \<open>ensureCiVariables\<close> returns, the API URL and the list of the clusters' names are
  set, the API token refers to the key \<open>token\<close> of the secret named like the tenant, every
  other variable and the rest of the tenant are untouched, and a second call changes nothing.\<close>

theorem ensureCiVariables_correct:
  assumes "ensureCiVariables apiUrl t clusters = Some (t', changed)"
  shows "(\<exists>e. lookEnv ''COMMODORE_API_URL'' (civars t') = Some e \<and> ev_Value e = apiUrl) \<and>
    (\<exists>e. lookEnv ''CLUSTERS'' (civars t') = Some e \<and>
        ev_Value e = joinWith '' '' (sort (map (\<lambda>c. om_Name (cl_Meta c)) clusters))) \<and>
    (\<exists>e ref. lookEnv ''COMMODORE_API_TOKEN'' (civars t') = Some e \<and> secretKeyRef e = Some ref \<and>
        sks_Name ref = om_Name (tn_Meta t) \<and> sks_Key ref = ''token'') \<and>
    (\<forall>n. n \<notin> {''COMMODORE_API_URL'', ''COMMODORE_API_TOKEN'', ''CLUSTERS''} \<longrightarrow>
        lookEnv n (civars t') = lookEnv n (civars t)) \<and>
    sameTenant t t' \<and> (\<not> changed \<longrightarrow> civars t' = civars t) \<and>
    ensureCiVariables apiUrl t' clusters = Some (t', False)"
proof -
  let ?l = "joinWith '' '' (sortedClusterNames clusters)"
  from assms obtain ys b where p: "presentVars apiUrl ?l (om_Name (tn_Meta t)) (civars t) = Some (ys, b)"
    and s: "storeVars t (ys, b) = (t', changed)"
    by (auto simp: ensureCiVariables_store)
  have unch: "\<not> b \<Longrightarrow> ys = civars t" using p presentVars_unchanged by (cases b) auto
  from storeVars_facts [OF s] unch
  have r: "changed = b" "civars t' = ys" "sameTenant t t'" "snd (Tenant_GetGitTemplate t') = t'" by auto
  note facts = presentVars_facts [OF p]
  have "presentVars apiUrl ?l (om_Name (tn_Meta t')) (civars t') = Some (civars t', False)"
    using presentVars_settled [OF facts(1-3)] r(2) sameTenantD(1) [OF r(3)] by simp
  then have "ensureCiVariables apiUrl t' clusters = Some (t', False)"
    using r(4) by (simp add: ensureCiVariables_store storeVars_def)
  moreover have "sameTenant t t'" by (fact r(3))
  ultimately show ?thesis
    using facts unch r(1,2)
    by (simp add: ci_constants SECRET_KEY_API_TOKEN_def holdsValue_def holdsSecret_def
        sortedClusterNames_def)
qed

lemma ensureCiVariables_correct_witness:
  "\<exists>t'. ensureCiVariables ''https://api'' sampleTenant [sampleCluster] = Some (t', True) \<and>
     (\<exists>e. lookEnv ''CLUSTERS'' (civars t') = Some e \<and> ev_Value e = ''c-prod'')"
proof -
  obtain t' where t': "ensureCiVariables ''https://api'' sampleTenant [sampleCluster] = Some (t', True)"
    by (simp add: ensureCiVariables_def updateEnvVarValue_def updateEnvVarValueFrom_def
        envVarIndex_def Tenant_GetGitTemplate_def sample_defs ci_constants)
  from ensureCiVariables_correct [OF this] show ?thesis
    using t' by (simp add: sample_defs)
qed

text \<open>\<open>ensureCiVariablesAbsent\<close> takes exactly the three variables of the pipeline out and says
  whether it did, if no variable occurs twice.\<close>

theorem ensureCiVariablesAbsent_correct:
  assumes "namesDistinct (civars t)" and "ensureCiVariablesAbsent t = (t', changed)"
  shows "(\<forall>n. lookEnv n (civars t') =
      (if n \<in> {''COMMODORE_API_URL'', ''COMMODORE_API_TOKEN'', ''CLUSTERS''} then None
       else lookEnv n (civars t))) \<and>
    sameTenant t t' \<and> (\<not> changed \<longrightarrow> civars t' = civars t) \<and> namesDistinct (civars t')"
proof -
  have s: "storeVars t (absentVars (civars t)) = (t', changed)"
    using assms(2) by (simp add: ensureCiVariablesAbsent_store)
  from storeVars_facts [OF s] absentVars_unchanged
  have "changed = snd (absentVars (civars t))" "civars t' = fst (absentVars (civars t))" "sameTenant t t'"
    by auto
  then show ?thesis
    using absentVars_facts [OF assms(1)] absentVars_unchanged by (auto simp: ci_constants)
qed

lemma ensureCiVariablesAbsent_correct_witness:
  "lookEnv ''CLUSTERS'' (civars (fst (ensureCiVariablesAbsent
     (putCIVariables [\<lparr>ev_Name = ''CLUSTERS'', ev_Value = ''c-prod'', ev_ValueFrom = None,
        ev_GitlabOptions = noGitlabOptions\<rparr>] sampleTenant)))) = None"
  using ensureCiVariablesAbsent_correct [OF _ prod.collapse [symmetric], of
      "putCIVariables [\<lparr>ev_Name = ''CLUSTERS'', ev_Value = ''c-prod'', ev_ValueFrom = None,
        ev_GitlabOptions = noGitlabOptions\<rparr>] sampleTenant"]
  by simp

text \<open>C10: After the loop over the clusters every managed cluster has its variable right: it refers
  to the key \<open>token\<close> of the cluster's access token secret if the cluster is live, has such a
  secret, and both cluster and tenant have the pipeline enabled, and there is no such variable
  otherwise. Clusters do not disturb each other, and no other variable is touched.\<close>

theorem cluster_variables_right:
  assumes "faithful_updates k" and "namesDistinct (civars t)" and "properNames cs"
    and "clusterLoop k cs t ch w = (Ret (Inr (t', ch')), w')"
  shows "(\<forall>c \<in> set cs. managed c \<longrightarrow>
      (let v = lookEnv (clusterVarName (om_Name (cl_Meta c))) (civars t');
           secret = gt_AccessTokenSecretRef (Cluster_GetGitTemplate c)
       in if om_DeletionTimestamp (cl_Meta c) = None \<and> secret \<noteq> '''' \<and>
             cps_Enabled (Tenant_GetCompilePipelineSpec t) \<and> cs_EnableCompilePipeline (cl_Spec c)
          then \<exists>e. v = Some e \<and> holdsSecret (secret, ''token'') e
          else v = None)) \<and>
    (\<forall>n. n \<notin> clusterVarName ` (\<lambda>c. om_Name (cl_Meta c)) ` {c \<in> set cs. managed c} \<longrightarrow>
      lookEnv n (civars t') = lookEnv n (civars t))"
proof -
  from clusterLoop_fold [OF assms(1,4)] have f: "foldVars cs t ch = Some (t', ch')" .
  from foldVars_facts [OF this assms(2,3)] show ?thesis
    by (auto simp: clusterVarRight_def removesToken_def Let_def SECRET_KEY_GITLAB_TOKEN_def)
qed

definition pipelineCluster :: "string \<Rightarrow> string \<Rightarrow> Cluster" where
  "pipelineCluster name secret = sampleCluster\<lparr>cl_Meta := sampleMeta name,
     cl_Spec := sampleClusterSpec\<lparr>cs_EnableCompilePipeline := True, cs_GitRepoTemplate :=
       Some (emptyGitRepoTemplate\<lparr>gt_AccessTokenSecretRef := secret\<rparr>)\<rparr>\<rparr>"

definition pipelineTenant :: Tenant where
  "pipelineTenant = sampleTenant\<lparr>tn_Spec := sampleTenantSpec\<lparr>ts_CompilePipeline :=
     Some \<lparr>cps_Enabled = True, cps_PipelineFiles = fmempty\<rparr>\<rparr>\<rparr>"

lemma idle_faithful [simp]: "faithful_updates idleClient"
  by (simp add: faithful_updates_def)

lemma cluster_variables_right_witness:
  "\<exists>t' ch'. fst (clusterLoop idleClient [pipelineCluster ''c-a'' ''tok-a'', pipelineCluster ''c-b'' '''']
        pipelineTenant False ()) = Ret (Inr (t', ch')) \<and>
     (\<exists>e. lookEnv (clusterVarName ''c-a'') (civars t') = Some e \<and> holdsSecret (''tok-a'', ''token'') e) \<and>
     lookEnv (clusterVarName ''c-b'') (civars t') = None"
proof -
  let ?cs = "[pipelineCluster ''c-a'' ''tok-a'', pipelineCluster ''c-b'' '''']"
  obtain r where r: "clusterLoop idleClient ?cs pipelineTenant False () = (Ret (Inr r), ())"
    by (simp add: addClusterFinalizer_def ensureClusterCiVariable_def Tenant_GetGitTemplate_def
        updateEnvVarValueFrom_def removeEnvVar_def envVarIndex_def removesToken_def putCIVariables_def
        Tenant_PutGitTemplate_def Cluster_GetGitTemplate_def pipelineCluster_def pipelineTenant_def
        sample_defs UnmanagedRepoType_def Tenant_GetCompilePipelineSpec_def clusterVarName_def
        replaceChar_def Let_def)
  obtain t' ch' where "r = (t', ch')" by fastforce
  with r have loop: "clusterLoop idleClient ?cs pipelineTenant False () = (Ret (Inr (t', ch')), ())" by simp
  have "civars pipelineTenant = []"
    by (simp add: pipelineTenant_def sample_defs Tenant_GetGitTemplate_def)
  then have "namesDistinct (civars pipelineTenant)" by simp
  moreover have "properNames ?cs" by (simp add: pipelineCluster_def sampleMeta_def properNames_def)
  ultimately show ?thesis
    using cluster_variables_right [OF idle_faithful _ _ loop] loop
    by (simp add: pipelineCluster_def pipelineTenant_def sample_defs managed_def
        Cluster_GetGitTemplate_def UnmanagedRepoType_def Tenant_GetCompilePipelineSpec_def)
qed

text \<open>C1: The writes of a pass that the server accepts are in a fixed order, without a gap: first
  the finalizer of every live cluster that lacks it, then the tenant's variables if they changed,
  then the list of clusters in the status if it changed, and only then the release of each
  cluster that is being deleted. A pass without an error has done all of it; a pass that fails or
  panics stops within it, so no cluster is released before the tenant is stored.\<close>

theorem compile_pipeline_writes:
  assumes "logged k log" and "finalizer_laws k" and "faithful_updates k"
    and "k_GetTenant k req w = (Ret (Inr t), w1)"
    and "k_ListClusters k (om_Namespace (tn_Meta t)) (MatchingLabel LabelNameTenant (om_Name (tn_Meta t))) w1
      = (Ret (Inr cs), w2)"
  shows "\<exists>ws. log (snd (CompilePipeline_Reconcile k apiUrl req w)) = log w @ ws \<and>
    prefix ws (syncPlan apiUrl t cs) \<and>
    (fst (CompilePipeline_Reconcile k apiUrl req w) = Ret (ctrlDone, None) \<longrightarrow> ws = syncPlan apiUrl t cs)"
  using Reconcile_performs [OF assms] unfolding performs_def by blast

text \<open>The instance: a server whose world is the log.\<close>

definition loggingClient :: "Tenant \<Rightarrow> Cluster list \<Rightarrow> apiWrite list Client" where
  "loggingClient t cs = idleClient\<lparr>k_GetTenant := \<lambda>_. ret (Inr t), k_ListClusters := \<lambda>_ _. ret (Inr cs),
     k_UpdateCluster := \<lambda>c w. (Ret (Inr c),
        w @ [ClusterFinalizers (om_Name (cl_Meta c)) (om_Finalizers (cl_Meta c))]),
     k_UpdateTenant := \<lambda>t w. (Ret (Inr t), w @ [TenantVariables (civars t)]),
     k_StatusUpdateTenant := \<lambda>t w. (Ret (Inr t),
        w @ [TenantClusters (cpst_Clusters (Tenant_GetCompilePipelineStatus t))])\<rparr>"

lemma loggingClient_laws:
  "logged (loggingClient t cs) (\<lambda>w. w)" "finalizer_laws (loggingClient t cs)"
  "faithful_updates (loggingClient t cs)"
  by (simp_all add: loggingClient_def logged_def finalizer_laws_def faithful_updates_def idleClient_def ret_def)

lemma loggingClient_reads [simp]:
  "k_GetTenant (loggingClient t cs) req = ret (Inr t)"
  "k_ListClusters (loggingClient t cs) ns sel = ret (Inr cs)"
  by (simp_all add: loggingClient_def)

definition dyingCluster :: Cluster where
  "dyingCluster = sampleCluster\<lparr>cl_Meta := (sampleMeta ''c-old'')\<lparr>om_DeletionTimestamp := Some 1,
     om_Finalizers := [PipelineFinalizerName]\<rparr>\<rparr>"

lemma compile_pipeline_writes_witness:
  "prefix (snd (CompilePipeline_Reconcile (loggingClient sampleTenant [sampleCluster, dyingCluster]) ''''
       \<lparr>nn_Namespace = '''', nn_Name = ''t-acme''\<rparr> []))
     [ClusterFinalizers ''c-prod'' [PipelineFinalizerName], ClusterFinalizers ''c-old'' []]"
proof -
  have "syncPlan '''' sampleTenant [sampleCluster, dyingCluster] =
      [ClusterFinalizers ''c-prod'' [PipelineFinalizerName], ClusterFinalizers ''c-old'' []]"
    by (simp add: syncPlan_def wantedTenant_def wantedClusters_def finalizerWrites_def releaseWrites_def
        lacksFinalizer_def awaitsRelease_def ensureCiVariablesAbsent_def removeEnvVar_def envVarIndex_def
        ensureClusterCiVariable_def removesToken_def Tenant_GetGitTemplate_def Cluster_GetGitTemplate_def
        Tenant_GetCompilePipelineSpec_def Tenant_GetCompilePipelineStatus_def
        dyingCluster_def sample_defs UnmanagedRepoType_def)
  then show ?thesis
    using compile_pipeline_writes [OF loggingClient_laws [where t = sampleTenant
          and cs = "[sampleCluster, dyingCluster]"], where w = "[]" and t = sampleTenant
        and cs = "[sampleCluster, dyingCluster]" and apiUrl = "''''"
        and req = "\<lparr>nn_Namespace = '''', nn_Name = ''t-acme''\<rparr>"]
    by auto
qed

text \<open>C11: The controller settles. After a pass without an error, from any state of the tenant and its
  clusters, the next pass over what the server then holds writes done_sync: as long as nobody else
  changes the tenant or a cluster, it reads the tenant, lists the clusters and is done, and fails only
  if a read does.\<close>

theorem compile_pipeline_settles:
  assumes "pipeline_store k req tn cls" and "finalizer_laws k" and "faithful_updates k"
    and "namesDistinct (civars (tn w))" and "properNames (cls w)"
    and "CompilePipeline_Reconcile k apiUrl req w = (Ret (ctrlDone, None), w')"
    and "tn v = tn w'" and "cls v = cls w'"
  shows "CompilePipeline_Reconcile k apiUrl req v = bnd (k_GetTenant k req) (\<lambda>r. case r of
      Inl err \<Rightarrow> ret (ctrlDone, Some err)
    | Inr t \<Rightarrow> bnd (k_ListClusters k (om_Namespace (tn_Meta t)) (MatchingLabel LabelNameTenant (om_Name (tn_Meta t))))
        (\<lambda>r. ret (ctrlDone, case r of Inl err \<Rightarrow> Some (Wrap ''error listing clusters: '' err) | Inr _ \<Rightarrow> None))) v"
proof -
  from assms(6) obtain r w1 where g: "k_GetTenant k req w = (Ret r, w1)"
    by (auto simp: CompilePipeline_Reconcile_def elim!: bnd_RetE)
  from store_get [OF assms(1) g] assms(6) g have r: "r = Inr (tn w)" "tn w1 = tn w" "cls w1 = cls w"
    by (auto simp: CompilePipeline_Reconcile_def split: sum.splits)
  from assms(6) g r obtain r2 w2 where l: "k_ListClusters k (om_Namespace (tn_Meta (tn w1)))
      (MatchingLabel LabelNameTenant (om_Name (tn_Meta (tn w1)))) w1 = (Ret r2, w2)"
    by (auto simp: CompilePipeline_Reconcile_def elim!: bnd_RetE)
  from store_list [OF assms(1) l] assms(6) g r l have w2: "r2 = Inr (cls w2)" "tn w2 = tn w" "cls w2 = cls w"
    by (auto simp: CompilePipeline_Reconcile_def split: sum.splits)
  have "syncTenant k apiUrl (tn w2) (cls w2) w2 = (Ret None, w')"
    using assms(6) g l r w2 by (auto simp: CompilePipeline_Reconcile_def elim!: bnd_RetE)
  from settled_sync [OF assms(1-3) _ _ this] w2(2,3) assms(4,5,7,8)
  have "syncTenant k apiUrl (tn v) (cls v) = ret None" by simp
  then have done_sync: "syncTenant k apiUrl (tn v) (cls v) u = (Ret None, u)" for u by (simp add: ret_apply)
  show ?thesis
  proof (cases rule: outcome_world_cases [of "k_GetTenant k req" v])
    case (Ret x v1)
    note get = store_get [OF assms(1) Ret]
    show ?thesis
    proof (cases x)
      case (Inl err)
      with Ret get show ?thesis by (simp add: CompilePipeline_Reconcile_def)
    next
      case (Inr t)
      with get have t: "t = tn v1" "tn v1 = tn v" "cls v1 = cls v" by simp_all
      let ?list = "k_ListClusters k (om_Namespace (tn_Meta (tn v1))) (MatchingLabel LabelNameTenant (om_Name (tn_Meta (tn v1))))"
      show ?thesis
      proof (cases rule: outcome_world_cases [of ?list v1])
        case (Ret y v2)
        with store_list [OF assms(1) Ret] Ret t \<open>k_GetTenant k req v = (Ret x, v1)\<close> Inr show ?thesis
          by (cases y) (simp_all add: CompilePipeline_Reconcile_def done_sync)
      qed (use t \<open>k_GetTenant k req v = (Ret x, v1)\<close> Inr in \<open>simp_all add: CompilePipeline_Reconcile_def bnd_def\<close>)
    qed
  qed (simp_all add: CompilePipeline_Reconcile_def bnd_def)
qed

text \<open>The instance: a store of a tenant and its clusters, which counts the versions of the tenant.\<close>

definition bumped :: "Tenant \<Rightarrow> Tenant" where
  "bumped t = t\<lparr>tn_Meta := (tn_Meta t)\<lparr>om_ResourceVersion := CHR ''v'' # om_ResourceVersion (tn_Meta t)\<rparr>\<rparr>"

definition storeClient :: "(Tenant \<times> Cluster list) Client" where
  "storeClient = idleClient\<lparr>k_GetTenant := \<lambda>_ w. (Ret (Inr (fst w)), w), k_ListClusters := \<lambda>_ _ w. (Ret (Inr (snd w)), w),
     k_UpdateCluster := \<lambda>c w. (Ret (Inr c), (fst w, putCluster c (snd w))),
     k_UpdateTenant := \<lambda>t w. if tn_Status t = tn_Status (fst w) then (Ret (Inr (bumped t)), (bumped t, snd w))
        else (Ret (Inl (ApiErr Conflict ''conflict'')), w),
     k_StatusUpdateTenant := \<lambda>t w. (let t' = bumped ((fst w)\<lparr>tn_Status := tn_Status t\<rparr>) in (Ret (Inr t'), (t', snd w)))\<rparr>"

lemma bumped_simps [simp]:
  "om_Name (tn_Meta (bumped t)) = om_Name (tn_Meta t)" "tn_Spec (bumped t) = tn_Spec t" "tn_Status (bumped t) = tn_Status t"
  by (simp_all add: bumped_def)

lemma storeClient_laws:
  "pipeline_store storeClient req fst snd" "finalizer_laws storeClient" "faithful_updates storeClient"
  by (auto simp: storeClient_def pipeline_store_def finalizer_laws_def faithful_updates_def idleClient_def Let_def
      split: if_splits)

lemma storeClient_simps [simp]:
  "k_GetTenant storeClient req w = (Ret (Inr (fst w)), w)" "k_ListClusters storeClient ns sel w = (Ret (Inr (snd w)), w)"
  "k_UpdateCluster storeClient c w = (Ret (Inr c), (fst w, putCluster c (snd w)))"
  "k_UpdateTenant storeClient t w = (if tn_Status t = tn_Status (fst w) then (Ret (Inr (bumped t)), (bumped t, snd w))
     else (Ret (Inl (ApiErr Conflict ''conflict'')), w))"
  "k_StatusUpdateTenant storeClient t w = (let t' = bumped ((fst w)\<lparr>tn_Status := tn_Status t\<rparr>) in (Ret (Inr t'), (t', snd w)))"
  by (simp_all add: storeClient_def)

lemma compile_pipeline_settles_witness:
  "\<exists>t cs. CompilePipeline_Reconcile storeClient ''https://api'' \<lparr>nn_Namespace = '''', nn_Name = ''t-acme''\<rparr>
      (pipelineTenant, [pipelineCluster ''c-a'' ''tok-a'', dyingCluster]) = (Ret (ctrlDone, None), (t, cs)) \<and>
    length cs = 1 \<and> length (civars t) = 4 \<and>
    CompilePipeline_Reconcile storeClient ''https://api'' \<lparr>nn_Namespace = '''', nn_Name = ''t-acme''\<rparr> (t, cs) =
      (Ret (ctrlDone, None), (t, cs))"
proof -
  let ?w = "(pipelineTenant, [pipelineCluster ''c-a'' ''tok-a'', dyingCluster])"
    and ?req = "\<lparr>nn_Namespace = '''', nn_Name = ''t-acme''\<rparr>"
  have "\<exists>t cs. CompilePipeline_Reconcile storeClient ''https://api'' ?req ?w = (Ret (ctrlDone, None), (t, cs)) \<and>
      length cs = 1 \<and> length (civars t) = 4"
    by (simp add: CompilePipeline_Reconcile_def syncTenant_def writeTenant_def writeStatus_def ensureStatus_def
        ensureCiVariables_def addClusterFinalizer_def finalizer_laws_add [OF storeClient_laws(2)]
        finalizer_laws_remove [OF storeClient_laws(2)] ensureClusterCiVariable_def Tenant_GetGitTemplate_def
        updateEnvVarValue_def updateEnvVarValueFrom_def removeEnvVar_def envVarIndex_def removesToken_def
        putCIVariables_def Tenant_PutGitTemplate_def Cluster_GetGitTemplate_def pipelineCluster_def pipelineTenant_def
        dyingCluster_def sample_defs UnmanagedRepoType_def Tenant_GetCompilePipelineSpec_def
        Tenant_GetCompilePipelineStatus_def clusterVarName_def replaceChar_def Let_def ci_constants
        filterDeletedClusters_def sortedClusterNames_def putCluster_def kept_def)
  then obtain t cs where run: "CompilePipeline_Reconcile storeClient ''https://api'' ?req ?w = (Ret (ctrlDone, None), (t, cs))"
    "length cs = 1" "length (civars t) = 4" by blast
  have wf: "namesDistinct (civars (fst ?w))" "properNames (snd ?w)"
    by (simp_all add: pipelineTenant_def sample_defs Tenant_GetGitTemplate_def pipelineCluster_def dyingCluster_def properNames_def)
  have "CompilePipeline_Reconcile storeClient ''https://api'' ?req (t, cs) = (Ret (ctrlDone, None), (t, cs))"
    using compile_pipeline_settles [OF storeClient_laws wf run(1) refl refl] by simp
  with run show ?thesis by blast
qed

text \<open>C33: A tenant with the pipeline enabled whose template already has a variable
  \<open>COMMODORE_API_TOKEN\<close> with a plain value makes the reconciler dereference a nil pointer: the
  pass panics right after listing the clusters and writes nothing.\<close>

theorem plain_api_token_panics:
  assumes "k_GetTenant k req w = (Ret (Inr t), w1)"
    and "k_ListClusters k (om_Namespace (tn_Meta t)) (MatchingLabel LabelNameTenant (om_Name (tn_Meta t))) w1
      = (Ret (Inr cs), w2)"
    and "cps_Enabled (Tenant_GetCompilePipelineSpec t)"
    and "lookEnv ''COMMODORE_API_TOKEN'' (civars t) = Some e" and "secretKeyRef e = None"
  shows "CompilePipeline_Reconcile k apiUrl req w = (Panicked NilDeref, w2)"
proof -
  have keep: "lookEnv CI_VARIABLE_API_TOKEN (fst (updateEnvVarValue n v xs)) = lookEnv CI_VARIABLE_API_TOKEN xs"
    if "n \<noteq> CI_VARIABLE_API_TOKEN" for n v xs
    using val.put_other [of n v xs "fst (updateEnvVarValue n v xs)"] that by (metis prod.collapse)
  have "presentVars apiUrl l n (civars t) = None" for l n
    using assms(4,5) keep names_distinct'
    by (auto simp: presentVars_def Let_def updateEnvVarValueFrom_panics_iff CI_VARIABLE_API_TOKEN_def
        split: prod.split) (metis CI_VARIABLE_API_TOKEN_def fst_conv)
  then have "ensureCiVariables apiUrl t cs' = None" for cs'
    by (simp add: ensureCiVariables_store)
  with assms(1-3) show ?thesis
    by (simp add: CompilePipeline_Reconcile_def syncTenant_def)
qed

definition plainTokenTenant :: Tenant where
  "plainTokenTenant = putCIVariables [\<lparr>ev_Name = ''COMMODORE_API_TOKEN'', ev_Value = ''s3cr3t'',
     ev_ValueFrom = None, ev_GitlabOptions = noGitlabOptions\<rparr>] pipelineTenant"

lemma plain_api_token_panics_witness:
  "CompilePipeline_Reconcile (loggingClient plainTokenTenant []) ''https://api''
     \<lparr>nn_Namespace = '''', nn_Name = ''t-acme''\<rparr> [] = (Panicked NilDeref, [])"
  by (rule plain_api_token_panics [where t = plainTokenTenant and cs = "[]"])
    (auto simp: plainTokenTenant_def pipelineTenant_def secretKeyRef_def ret_apply putCIVariables_def
      Tenant_PutGitTemplate_def Tenant_GetCompilePipelineSpec_def Tenant_GetGitTemplate_def)

end
