(* ===== verification/RepoApi.thy ===== *)
theory RepoApi
  imports Kube
begin

text \<open>
  What the controllers see of a repository on a git server (\<open>git/manager/manager.go\<close>): the
  interface \<open>Repo\<close>, its data, and the contract the controller relies on. An implementation is a
  record of operations on a handle of type \<open>'r\<close>, because the code calls methods on a pointer; an
  operation that may change what is behind the pointer returns the new handle.
\<close>

section \<open>Data\<close>

record ManagerGitlabOptions =
  mgo_Description :: "string option"
  mgo_Protected :: "bool option"
  mgo_Masked :: "bool option"
  mgo_Raw :: "bool option"

record ManagerEnvVar =
  mev_Name :: string
  mev_Value :: string
  mev_GitlabOptions :: ManagerGitlabOptions

record ProjectAccessToken =
  pat_UID :: string
  pat_Token :: string
  pat_ExpiresAt :: time

definition pat_Updated :: "ProjectAccessToken \<Rightarrow> bool" where
  "pat_Updated p \<longleftrightarrow> pat_Token p \<noteq> ''''"

record CommitFile =
  cf_FileName :: string
  cf_Content :: string
  cf_Delete :: bool

definition SecretTokenName :: string where
  "SecretTokenName = ''token''"

definition SecretHostKeysName :: string where
  "SecretHostKeysName = ''hostKeys''"

definition SecretEndpointName :: string where
  "SecretEndpointName = ''endpoint''"

definition SecretSSHEndpointName :: string where
  "SecretSSHEndpointName = ''sshEndpoint''"

definition DeletionMagicString :: string where
  "DeletionMagicString = ''{delete}''"

section \<open>The interface\<close>

text \<open>\<open>ri_FullURL\<close> is \<open>FullURL().String()\<close>, the only use made of the URL.\<close>

record ('r, 'w) RepoI =
  ri_Type :: "'r \<Rightarrow> string"
  ri_FullURL :: "'r \<Rightarrow> string"
  ri_Create :: "'r \<Rightarrow> ('w, 'r \<times> gerr option) go"
  ri_Update :: "'r \<Rightarrow> ('w, 'r \<times> bool \<times> gerr option) go"
  ri_Read :: "'r \<Rightarrow> ('w, 'r \<times> gerr option) go"
  ri_Remove :: "'r \<Rightarrow> ('w, 'r \<times> gerr option) go"
  ri_Connect :: "'r \<Rightarrow> ('w, 'r \<times> gerr option) go"
  ri_CommitTemplateFiles :: "'r \<Rightarrow> ('w, 'r \<times> gerr option) go"
  ri_EnsureProjectAccessToken :: "'r \<Rightarrow> string \<Rightarrow> string option \<Rightarrow> ('w, gerr + ProjectAccessToken) go"
  ri_EnsureCIVariables :: "'r \<Rightarrow> string list \<Rightarrow> ManagerEnvVar list \<Rightarrow> ('w, gerr option) go"

text \<open>
  The controller asks for the URL and the type several times during one pass and takes for granted
  that the answers agree: no operation changes where the repository is.
\<close>

locale repo_contract =
  fixes ri :: "('r, 'w) RepoI"
  assumes create_same: "ri_Create ri r w = (Ret (r', e), w') \<Longrightarrow>
      ri_FullURL ri r' = ri_FullURL ri r \<and> ri_Type ri r' = ri_Type ri r"
    and update_same: "ri_Update ri r w = (Ret (r', b, e), w') \<Longrightarrow>
      ri_FullURL ri r' = ri_FullURL ri r \<and> ri_Type ri r' = ri_Type ri r"
    and read_same: "ri_Read ri r w = (Ret (r', e), w') \<Longrightarrow>
      ri_FullURL ri r' = ri_FullURL ri r \<and> ri_Type ri r' = ri_Type ri r"
    and remove_same: "ri_Remove ri r w = (Ret (r', e), w') \<Longrightarrow>
      ri_FullURL ri r' = ri_FullURL ri r \<and> ri_Type ri r' = ri_Type ri r"
    and commit_same: "ri_CommitTemplateFiles ri r w = (Ret (r', e), w') \<Longrightarrow>
      ri_FullURL ri r' = ri_FullURL ri r \<and> ri_Type ri r' = ri_Type ri r"
begin

text \<open>Reading and then creating, or committing and then updating, leaves the repository where it
  was.\<close>

lemma read_create_same:
  "ri_Read ri r w = (Ret (r1, e1), w1) \<Longrightarrow> ri_Create ri r1 w2 = (Ret (r2, e2), w3) \<Longrightarrow>
     ri_FullURL ri r2 = ri_FullURL ri r \<and> ri_Type ri r2 = ri_Type ri r"
  using read_same create_same by metis

lemma commit_update_same:
  "ri_CommitTemplateFiles ri r w = (Ret (r1, e1), w1) \<Longrightarrow> ri_Update ri r1 w2 = (Ret (r2, b, e2), w3) \<Longrightarrow>
     ri_FullURL ri r2 = ri_FullURL ri r \<and> ri_Type ri r2 = ri_Type ri r"
  using commit_same update_same by metis

end

end
