(* ===== verification/GoTime.thy ===== *)
theory GoTime
  imports GoLib
begin

text \<open>
  What the code uses of Go's package \<open>time\<close>: \<open>ParseDuration\<close>, and \<open>Format\<close> with the layout
  RFC 3339. An instant is a number of nanoseconds since the Unix epoch, in UTC. A duration is
  an \<open>int64\<close> of nanoseconds; the limits of the machine integers are written out.
\<close>

text \<open>The zero \<open>time.Time\<close> is the first instant of the year 1.\<close>

definition zeroTime :: int where
  "zeroTime = - 62135596800 * 1000000000"

section \<open>ParseDuration\<close>

definition takeDigits :: "string \<Rightarrow> string \<times> string" where
  "takeDigits s = (takeWhile isDigit s, dropWhile isDigit s)"

definition isNumChar :: "char \<Rightarrow> bool" where
  "isNumChar c \<longleftrightarrow> c = CHR ''.'' \<or> isDigit c"

text \<open>\<open>unitMap\<close>; the micro sign and the Greek letter mu are two bytes each in UTF-8.\<close>

definition unitNanos :: "string \<Rightarrow> int option" where
  "unitNanos u =
     (if u = ''ns'' then Some 1
      else if u = ''us'' \<or> u = [CHR 0xC2, CHR 0xB5, CHR ''s''] \<or> u = [CHR 0xCE, CHR 0xBC, CHR ''s'']
        then Some 1000
      else if u = ''ms'' then Some 1000000
      else if u = ''s'' then Some 1000000000
      else if u = ''m'' then Some 60000000000
      else if u = ''h'' then Some 3600000000000
      else None)"

text \<open>
  One round of the loop: a number with an optional fraction and its unit. The fraction is computed
  exactly; the code rounds it in \<open>float64\<close>, which can differ by a nanosecond.
\<close>

definition durationTerm :: "string \<Rightarrow> (int \<times> string) option" where
  "durationTerm s =
     (if s = '''' \<or> \<not> isNumChar (hd s) then None
      else let (ds, s1) = takeDigits s;
               v = int (digitsVal ds);
               dot = s1 \<noteq> '''' \<and> hd s1 = CHR ''.'';
               (fs, s2) = (if dot then takeDigits (tl s1) else ('''', s1));
               u = takeWhile (\<lambda>c. \<not> isNumChar c) s2;
               rest = dropWhile (\<lambda>c. \<not> isNumChar c) s2
           in if v > 2 ^ 63 \<or> (ds = '''' \<and> fs = '''') \<or> u = '''' then None
              else (case unitNanos u of None \<Rightarrow> None
                | Some unit \<Rightarrow>
                    if v > 2 ^ 63 div unit then None
                    else let total = v * unit + (int (digitsVal fs) * unit) div 10 ^ length fs
                         in if total > 2 ^ 63 then None else Some (total, rest)))"

lemma durationTerm_shorter: "durationTerm s = Some (v, rest) \<Longrightarrow> length rest < length s"
proof -
  assume a: "durationTerm s = Some (v, rest)"
  define s1 where "s1 = dropWhile isDigit s"
  define s2 where "s2 = (if s1 \<noteq> '''' \<and> hd s1 = CHR ''.'' then dropWhile isDigit (tl s1) else s1)"
  have l1: "length s1 \<le> length s" by (simp add: s1_def length_dropWhile_le)
  have "length (dropWhile isDigit (tl s1)) \<le> length s1"
    by (rule order_trans [OF length_dropWhile_le]) simp
  then have l2: "length s2 \<le> length s1" by (simp add: s2_def)
  from a have r: "rest = dropWhile (\<lambda>c. \<not> isNumChar c) s2"
    and u: "takeWhile (\<lambda>c. \<not> isNumChar c) s2 \<noteq> ''''"
    by (auto simp: durationTerm_def takeDigits_def Let_def s1_def s2_def
        split: if_splits option.splits prod.splits)
  have "length (takeWhile (\<lambda>c. \<not> isNumChar c) s2) + length rest = length s2"
    unfolding r by (metis length_append takeWhile_dropWhile_id)
  with u l1 l2 show ?thesis by (cases "takeWhile (\<lambda>c. \<not> isNumChar c) s2") auto
qed

function durationTerms :: "int \<Rightarrow> string \<Rightarrow> int option" where
  "durationTerms d s =
     (if s = '''' then Some d
      else case durationTerm s of None \<Rightarrow> None
        | Some (v, rest) \<Rightarrow> if d + v > 2 ^ 63 then None else durationTerms (d + v) rest)"
  by pat_completeness auto
termination
  by (relation "measure (\<lambda>(d, s). length s)") (auto dest: durationTerm_shorter)

declare durationTerms.simps [simp del]

definition ParseDuration :: "string \<Rightarrow> int option" where
  "ParseDuration s0 =
     (let signed = s0 \<noteq> '''' \<and> (hd s0 = CHR ''-'' \<or> hd s0 = CHR ''+'');
          neg = s0 \<noteq> '''' \<and> hd s0 = CHR ''-'';
          s = (if signed then tl s0 else s0)
      in if s = ''0'' then Some 0
         else if s = '''' then None
         else case durationTerms 0 s of None \<Rightarrow> None
           | Some d \<Rightarrow> if neg then Some (- d) else if d > 2 ^ 63 - 1 then None else Some d)"

lemma unitNanos_pos: "unitNanos u = Some n \<Longrightarrow> 0 < n"
  by (auto simp: unitNanos_def split: if_splits)

lemma term_nonneg: "0 < n \<Longrightarrow> 0 \<le> int a * n + (int b * n) div 10 ^ l"
  by (simp add: pos_imp_zdiv_nonneg_iff)

lemma digitsVal_Nil [simp]: "digitsVal [] = 0"
  by (simp add: digitsVal_def)

lemma durationTerm_nonneg: "durationTerm s = Some (v, rest) \<Longrightarrow> 0 \<le> v"
  by (auto simp: durationTerm_def takeDigits_def Let_def term_nonneg unitNanos_pos less_imp_le
      split: if_splits option.splits prod.splits)

lemma durationTerms_bounds: "durationTerms d s = Some v \<Longrightarrow> 0 \<le> d \<Longrightarrow> d \<le> 2 ^ 63 \<Longrightarrow> d \<le> v \<and> v \<le> 2 ^ 63"
proof (induction d s rule: durationTerms.induct)
  case (1 d s)
  show ?case
  proof (cases "s = ''''")
    case True
    with 1 show ?thesis by (simp add: durationTerms.simps)
  next
    case False
    with 1(2) obtain u rest where t: "durationTerm s = Some (u, rest)" "\<not> d + u > 2 ^ 63"
      "durationTerms (d + u) rest = Some v"
      by (auto simp: durationTerms.simps [of d s] split: option.splits if_splits)
    with 1(1) [OF False t(1) refl] 1(3) durationTerm_nonneg [OF t(1)] show ?thesis by simp
  qed
qed

text \<open>A parsed duration fits into an \<open>int64\<close>.\<close>

lemma ParseDuration_bounds: "ParseDuration s = Some v \<Longrightarrow> - (2 ^ 63) \<le> v \<and> v < 2 ^ 63"
  using durationTerms_bounds [of 0]
  by (auto simp: ParseDuration_def Let_def split: if_splits option.splits) fastforce+

section \<open>RFC 3339\<close>

text \<open>The date of a day number, counted from 1970-01-01, in the proleptic Gregorian calendar.\<close>

definition civilDate :: "int \<Rightarrow> int \<times> int \<times> int" where
  "civilDate days =
     (let z = days + 719468;
          era = z div 146097;
          doe = z mod 146097;
          yoe = (doe - doe div 1460 + doe div 36524 - doe div 146096) div 365;
          doy = doe - (365 * yoe + yoe div 4 - yoe div 100);
          mp = (5 * doy + 2) div 153;
          d = doy - (153 * mp + 2) div 5 + 1;
          m = (if mp < 10 then mp + 3 else mp - 9)
      in (yoe + era * 400 + (if m \<le> 2 then 1 else 0), m, d))"

definition padInt :: "nat \<Rightarrow> int \<Rightarrow> string" where
  "padInt width i =
     (let ds = decNat (nat \<bar>i\<bar>)
      in (if i < 0 then ''-'' else '''') @ replicate (width - length ds) CHR ''0'' @ ds)"

definition FormatRFC3339 :: "int \<Rightarrow> string" where
  "FormatRFC3339 t =
     (let secs = t div 1000000000;
          (y, m, d) = civilDate (secs div 86400);
          r = secs mod 86400
      in padInt 4 y @ ''-'' @ padInt 2 m @ ''-'' @ padInt 2 d @ ''T'' @ padInt 2 (r div 3600) @ '':''
           @ padInt 2 (r mod 3600 div 60) @ '':'' @ padInt 2 (r mod 60) @ ''Z'')"

lemma FormatRFC3339_examples:
  "FormatRFC3339 0 = ''1970-01-01T00:00:00Z''"
  "FormatRFC3339 (1709210096 * 1000000000) = ''2024-02-29T12:34:56Z''"
  by code_simp+

lemma ParseDuration_examples:
  "ParseDuration ''24h'' = Some 86400000000000"
  "ParseDuration ''1h30m'' = Some 5400000000000"
  "ParseDuration ''-1.5s'' = Some (- 1500000000)"
  "ParseDuration ''3d'' = None" "ParseDuration '''' = None"
  by (simp_all add: ParseDuration_def durationTerms.simps durationTerm_def takeDigits_def isNumChar_def
      isDigit_def unitNanos_def digitsVal_def)

end
