(* ===== verification/GitRepo.thy ===== *)
theory GitRepo
  imports Pipeline RepoApi GoTime
begin

text \<open>
  The steps of the GitRepo controller (\<open>controllers/gitrepo/steps.go\<close>, \<open>template.go\<close>) and the
  pipeline functions for objects that own a repository (\<open>controllers/gitrepo/utils.go\<close>). What is
  not code of the repository is a parameter: the JSON encoding of the variables and the SSH key
  generator. The git client comes from a factory, as in the code.
\<close>

section \<open>Parameters\<close>

datatype KeyType = Ed25519 | RSA

record 'w Deps =
  dp_UnmarshalVars :: "string \<Rightarrow> gerr + EnvVar list"
  dp_MarshalVars :: "EnvVar list \<Rightarrow> gerr + string"
  dp_Keygen :: "string \<Rightarrow> KeyType \<Rightarrow> ('w, gerr + string \<times> string) go"

type_synonym ('r, 'w) gitClientFactory = "GitRepo \<Rightarrow> ('w, gerr + 'r \<times> string) go"

section \<open>Small helpers\<close>


definition setPhase :: "string \<Rightarrow> GitRepo \<Rightarrow> GitRepo" where
  "setPhase p g = g\<lparr>gr_Status := (gr_Status g)\<lparr>gst_Phase := Some p\<rparr>\<rparr>"

definition setURL :: "string \<Rightarrow> GitRepo \<Rightarrow> GitRepo" where
  "setURL u g = g\<lparr>gr_Status := (gr_Status g)\<lparr>gst_URL := u\<rparr>\<rparr>"

abbreviation repoTemplate :: "GitRepo \<Rightarrow> GitRepoTemplate" where
  "repoTemplate g \<equiv> gs_GitRepoTemplate (gr_Spec g)"

section \<open>template.go\<close>

text \<open>A get that finds nothing leaves an empty object, whose template pointer is nil.\<close>

definition fetchGitRepoTemplate :: "'w Client \<Rightarrow> GitRepo \<Rightarrow> ('w, GitRepo \<times> gerr option) go" where
  "fetchGitRepoTemplate k obj =
     (let key = \<lparr>nn_Namespace = om_Namespace (gr_Meta obj), nn_Name = om_Name (gr_Meta obj)\<rparr>;
          put = (\<lambda>template g. case template of None \<Rightarrow> g
                   | Some t \<Rightarrow> g\<lparr>gr_Spec := (gr_Spec g)\<lparr>gs_GitRepoTemplate := t\<rparr>\<rparr>);
          fromCluster = (\<lambda>g. bnd (k_GetCluster k key) (\<lambda>r. case r of
              Inl err \<Rightarrow> ret (g, if IsNotFound err then None else Some err)
            | Inr c \<Rightarrow> ret (put (cs_GitRepoTemplate (cl_Spec c)) g, None)))
      in bnd (k_GetTenant k key) (\<lambda>r. case r of
             Inl err \<Rightarrow> if IsNotFound err then fromCluster obj else ret (obj, Some err)
           | Inr t \<Rightarrow> fromCluster (put (ts_GitRepoTemplate (tn_Spec t)) obj)))"

section \<open>Errors and existence\<close>

definition repoExists :: "('r, 'w) RepoI \<Rightarrow> 'r \<Rightarrow> ('w, 'r \<times> (gerr + bool)) go" where
  "repoExists ri repo = bnd (ri_Read ri repo) (\<lambda>(repo', e). ret (repo', case e of
       None \<Rightarrow> Inr True
     | Some err \<Rightarrow> if isRepoNotFound err then Inr False else Inl err))"

definition handleRepoError :: "'w Client \<Rightarrow> gerr \<Rightarrow> GitRepo \<Rightarrow> ('w, GitRepo \<times> gerr) go" where
  "handleRepoError k err instance =
     (let instance' = setPhase PhaseFailed instance in
      bnd (k_StatusUpdateGitRepo k instance') (\<lambda>r. case r of
        Inl uerr \<Rightarrow> ret (instance', ErrNew (''could not set status while handling error: ''
                          @ errString uerr @ '': '' @ errString err))
      | Inr answer \<Rightarrow> ret (answer, err)))"

section \<open>Access token\<close>

definition LieutenantAccessTokenUIDAnnotation :: string where
  "LieutenantAccessTokenUIDAnnotation = ''lieutenant.syn.tools/accessTokenUID''"

definition LieutenantAccessTokenExpiresAtAnnotation :: string where
  "LieutenantAccessTokenExpiresAtAnnotation = ''lieutenant.syn.tools/accessTokenExpiresAt''"

definition emptySecret :: Secret where
  "emptySecret = \<lparr>sec_Meta = emptyMeta, sec_Type = '''', sec_Data = fmempty\<rparr>"

text \<open>The function literal that \<open>CreateOrUpdate\<close> is given.\<close>

definition mutateTokenSecret ::
  "'w Deps \<Rightarrow> 'w Client \<Rightarrow> ('r, 'w) RepoI \<Rightarrow> 'r \<Rightarrow> GitRepo \<Rightarrow> Secret \<Rightarrow> ('w, Secret \<times> gerr option) go" where
  "mutateTokenSecret dp k ri repo instance secret =
     (let uid = lookupStr (om_Annotations (sec_Meta secret)) LieutenantAccessTokenUIDAnnotation in
      bnd (ri_EnsureProjectAccessToken ri repo (om_Name (gr_Meta instance)) (Some uid)) (\<lambda>r. case r of
        Inl err \<Rightarrow> ret (secret, Some (Wrap ''error ensuring project access token: '' err))
      | Inr pat \<Rightarrow>
          let secret1 = (if pat_Updated pat
                then secret\<lparr>sec_Meta := (sec_Meta secret)\<lparr>om_Annotations :=
                         fmupd LieutenantAccessTokenExpiresAtAnnotation (FormatRFC3339 (pat_ExpiresAt pat))
                           (fmupd LieutenantAccessTokenUIDAnnotation (pat_UID pat)
                             (om_Annotations (sec_Meta secret)))\<rparr>,
                       sec_Data := fmupd ''token'' (pat_Token pat) fmempty\<rparr>
                else secret)
          in case k_SetControllerReference k (gr_Meta instance) (sec_Meta secret1) of
               Inl err \<Rightarrow> ret (secret1, Some err)
             | Inr m \<Rightarrow> ret (secret1\<lparr>sec_Meta := m\<rparr>, None)))"

definition ensureAccessToken ::
  "'w Deps \<Rightarrow> 'w Client \<Rightarrow> ('r, 'w) RepoI \<Rightarrow> 'r \<Rightarrow> GitRepo \<Rightarrow> ('w, gerr option) go" where
  "ensureAccessToken dp k ri repo instance =
     (let name = gt_AccessTokenSecretRef (repoTemplate instance) in
      if name = '''' then ret None
      else bnd (k_CreateOrUpdateSecret k
                 (emptySecret\<lparr>sec_Meta := emptyMeta\<lparr>om_Name := name,
                    om_Namespace := om_Namespace (gr_Meta instance)\<rparr>\<rparr>)
                 (mutateTokenSecret dp k ri repo instance)) (\<lambda>(op, secret, e). ret (case e of
             None \<Rightarrow> None
           | Some err \<Rightarrow> Some (Wrap ''error creating or updating access token secret: '' err))))"

section \<open>CI variables\<close>

definition valueFromEnvVar :: "'w Client \<Rightarrow> string \<Rightarrow> EnvVar \<Rightarrow> ('w, gerr + string) go" where
  "valueFromEnvVar k namespace v =
     (if ev_Value v \<noteq> '''' then
        (case ev_ValueFrom v of
           Some _ \<Rightarrow> ret (Inl (ErrNew (''envVar '' @ Quote (ev_Name v) @ '' has both value and valueFrom'')))
         | None \<Rightarrow> ret (Inr (ev_Value v)))
      else (case ev_ValueFrom v of None \<Rightarrow> ret (Inr '''')
       | Some src \<Rightarrow> (case evs_SecretKeyRef src of
           None \<Rightarrow> ret (Inl (ErrNew (''envVar '' @ Quote (ev_Name v) @ '' has no secretKeyRef'')))
         | Some ref \<Rightarrow>
             if sks_Name ref = '''' \<or> sks_Key ref = ''''
             then ret (Inl (ErrNew (''envVar '' @ Quote (ev_Name v) @ '' has incomplete secretKeyRef'')))
             else let optional = (case sks_Optional ref of None \<Rightarrow> False | Some b \<Rightarrow> b) in
               bnd (k_GetSecret k \<lparr>nn_Namespace = namespace, nn_Name = sks_Name ref\<rparr>) (\<lambda>r. case r of
                 Inl err \<Rightarrow>
                   if IsNotFound err \<and> optional then ret (Inr '''')
                   else ret (Inl (Wrap (''error getting secret '' @ Quote (sks_Name ref) @ '': '') err))
               | Inr secret \<Rightarrow> (case fmlookup (sec_Data secret) (sks_Key ref) of
                   None \<Rightarrow>
                     if optional then ret (Inr '''')
                     else ret (Inl (ErrNew (''secret '' @ Quote (sks_Name ref)
                            @ '' does not contain key '' @ Quote (sks_Key ref))))
                 | Some val \<Rightarrow> ret (Inr val))))))"

definition managerVar :: "EnvVar \<Rightarrow> string \<Rightarrow> ManagerEnvVar" where
  "managerVar v val = \<lparr>mev_Name = ev_Name v, mev_Value = val,
     mev_GitlabOptions = \<lparr>mgo_Description = Some (go_Description (ev_GitlabOptions v)),
       mgo_Protected = Some (go_Protected (ev_GitlabOptions v)),
       mgo_Masked = Some (go_Masked (ev_GitlabOptions v)),
       mgo_Raw = Some (go_Raw (ev_GitlabOptions v))\<rparr>\<rparr>"

fun collectValues :: "'w Client \<Rightarrow> string \<Rightarrow> EnvVar list \<Rightarrow> ('w, ManagerEnvVar list \<times> gerr list) go" where
  "collectValues k ns [] = ret ([], [])"
| "collectValues k ns (v # vs) =
     bnd (valueFromEnvVar k ns v) (\<lambda>r. bnd (collectValues k ns vs) (\<lambda>(vars, errs). ret (case r of
       Inl err \<Rightarrow> (vars, err # errs)
     | Inr val \<Rightarrow> (managerVar v val # vars, errs))))"

definition managedNames :: "EnvVar list \<Rightarrow> EnvVar list \<Rightarrow> string list" where
  "managedNames vars prevVars = sort (remdups (map ev_Name vars @ map ev_Name prevVars))"

definition ensureCIVariables ::
  "'w Deps \<Rightarrow> 'w Client \<Rightarrow> ('r, 'w) RepoI \<Rightarrow> 'r \<Rightarrow> GitRepo \<Rightarrow> ('w, GitRepo \<times> gerr option) go" where
  "ensureCIVariables dp k ri repo instance =
     (let vars = gt_CIVariables (repoTemplate instance);
          last = gst_LastAppliedCIVariables (gr_Status instance)
      in case (if last = '''' then Inr [] else dp_UnmarshalVars dp last) of
           Inl err \<Rightarrow> ret (instance, Some (Wrap ''error unmarshalling previous ci variables: '' err))
         | Inr prevVars \<Rightarrow>
             bnd (collectValues k (om_Namespace (gr_Meta instance)) vars) (\<lambda>(values, errs).
               case combineErrs errs of
                 Some err \<Rightarrow> ret (instance, Some (Wrap ''error collecting values for env vars: '' err))
               | None \<Rightarrow>
                   bnd (ri_EnsureCIVariables ri repo (managedNames vars prevVars) values) (\<lambda>e. case e of
                     Some err \<Rightarrow> ret (instance, Some (Wrap ''error ensuring ci variables: '' err))
                   | None \<Rightarrow> (case dp_MarshalVars dp vars of
                       Inl err \<Rightarrow> ret (instance, Some (Wrap ''error marshalling ci variables: '' err))
                     | Inr json \<Rightarrow> ret (instance\<lparr>gr_Status := (gr_Status instance)
                           \<lparr>gst_LastAppliedCIVariables := json\<rparr>\<rparr>, None)))))"

section \<open>Generated deploy keys\<close>

definition DEPLOY_KEY_NAME_INFIX :: string where
  "DEPLOY_KEY_NAME_INFIX = ''-deploy-key-''"

definition DEPLOY_KEY_SECRET_PUBKEY :: string where
  "DEPLOY_KEY_SECRET_PUBKEY = ''publicKey''"

definition DEPLOY_KEY_SECRET_PRIVKEY :: string where
  "DEPLOY_KEY_SECRET_PRIVKEY = ''privateKey''"

definition DEPLOY_KEY_GENERATED_PREFIX :: string where
  "DEPLOY_KEY_GENERATED_PREFIX = ''generated-''"

text \<open>The first loop: the errors and the status keys whose secret is gone. \<open>oldKey[n:]\<close> panics
  if the key is shorter than the prefix.\<close>

fun staleKeys :: "'w Client \<Rightarrow> string \<Rightarrow> DeployKeyTemplate gomap \<Rightarrow> (string \<times> DeployKeyStatus) list
    \<Rightarrow> ('w, gerr list \<times> string list) go" where
  "staleKeys k ns spec [] = ret ([], [])"
| "staleKeys k ns spec ((oldKey, settings) # rest) =
     (if length oldKey < length DEPLOY_KEY_GENERATED_PREFIX then crash SliceRange
      else if fmlookup spec (drop (length DEPLOY_KEY_GENERATED_PREFIX) oldKey) \<noteq> None
      then staleKeys k ns spec rest
      else bnd (k_GetSecret k \<lparr>nn_Namespace = ns, nn_Name = dks_SecretRef settings\<rparr>) (\<lambda>r. case r of
          Inl err \<Rightarrow> bnd (staleKeys k ns spec rest) (\<lambda>(errs, dels).
            ret (Wrap ''could not get deploy key secret: '' err # errs, dels))
        | Inr secret \<Rightarrow> bnd (k_DeleteSecret k secret) (\<lambda>e. case e of
            Some err \<Rightarrow> bnd (staleKeys k ns spec rest) (\<lambda>(errs, dels).
              ret (Wrap ''could not clean up deploy key secret: '' err # errs, dels))
          | None \<Rightarrow> bnd (staleKeys k ns spec rest) (\<lambda>(errs, dels). ret (errs, oldKey # dels)))))"

definition generateNewDeployKeySecret ::
  "'w Deps \<Rightarrow> 'w Client \<Rightarrow> DeployKeyTemplate \<Rightarrow> NamespacedName \<Rightarrow> GitRepo \<Rightarrow> ('w, gerr + Secret) go" where
  "generateNewDeployKeySecret dp k settings secretName owner =
     (let keyType = (if dkt_Type settings = ''ssh-rsa'' then RSA else Ed25519) in
      bnd (dp_Keygen dp (''/tmp/'' @ nn_Name secretName) keyType) (\<lambda>r. case r of
        Inl err \<Rightarrow> ret (Inl err)
      | Inr (pub, priv) \<Rightarrow>
          k_CreateSecret k (emptySecret\<lparr>sec_Meta := emptyMeta\<lparr>om_Name := nn_Name secretName,
              om_Namespace := nn_Namespace secretName,
              om_OwnerReferences := [k_NewControllerRef k (gr_Meta owner) (gr_GVK owner)]\<rparr>,
            sec_Data := fmupd DEPLOY_KEY_SECRET_PRIVKEY priv
              (fmupd DEPLOY_KEY_SECRET_PUBKEY pub fmempty)\<rparr>)))"

text \<open>The secret of a key: read, or made if it is not there.\<close>

definition deployKeySecret ::
  "'w Deps \<Rightarrow> 'w Client \<Rightarrow> DeployKeyTemplate \<Rightarrow> NamespacedName \<Rightarrow> GitRepo \<Rightarrow> ('w, gerr + Secret) go" where
  "deployKeySecret dp k settings secretName instance =
     bnd (k_GetSecret k secretName) (\<lambda>r. case r of
       Inr secret \<Rightarrow> ret (Inr secret)
     | Inl err \<Rightarrow>
         if \<not> IsNotFound err then ret (Inl (Wrap ''Could not retrieve deploy key secret: '' err))
         else bnd (generateNewDeployKeySecret dp k settings secretName instance) (\<lambda>r. case r of
           Inl err \<Rightarrow> ret (Inl (Wrap ''Could not create new deploy key secret: '' err))
         | Inr secret \<Rightarrow> ret (Inr secret)))"

text \<open>The status entry of a public key; \<open>parts[1]\<close> panics if the key has no space.\<close>

definition recordKey ::
  "DeployKeyTemplate \<Rightarrow> string \<Rightarrow> string \<Rightarrow> string \<Rightarrow> DeployKeyStatus gomap \<Rightarrow> ('w, DeployKeyStatus gomap) go" where
  "recordKey settings keyName secretName pubkey status =
     (let parts = splitOn CHR '' '' pubkey in
      if length parts < 2 then crash IndexRange
      else ret (case fmlookup status keyName of
          Some oldKey \<Rightarrow>
            if dk_Key (dks_DeployKey oldKey) \<noteq> parts ! 1
            then fmupd keyName \<lparr>dks_DeployKey = \<lparr>dk_Type = parts ! 0, dk_Key = parts ! 1,
                   dk_WriteAccess = dkt_WriteAccess settings\<rparr>, dks_SecretRef = secretName\<rparr> status
            else status
        | None \<Rightarrow> fmupd keyName \<lparr>dks_DeployKey = \<lparr>dk_Type = parts ! 0, dk_Key = parts ! 1,
                   dk_WriteAccess = dkt_WriteAccess settings\<rparr>, dks_SecretRef = secretName\<rparr> status))"

fun wantedKeys :: "'w Deps \<Rightarrow> 'w Client \<Rightarrow> GitRepo \<Rightarrow> (string \<times> DeployKeyTemplate) list
    \<Rightarrow> DeployKeyStatus gomap \<Rightarrow> ('w, gerr list \<times> DeployKeyStatus gomap) go" where
  "wantedKeys dp k instance [] status = ret ([], status)"
| "wantedKeys dp k instance ((genKey, settings) # rest) status =
     (let secretName = om_Name (gr_Meta instance) @ DEPLOY_KEY_NAME_INFIX @ genKey;
          key = \<lparr>nn_Namespace = om_Namespace (gr_Meta instance), nn_Name = secretName\<rparr>;
          failed = (\<lambda>err. bnd (wantedKeys dp k instance rest status)
                           (\<lambda>(errs, status'). ret (err # errs, status')))
      in bnd (deployKeySecret dp k settings key instance) (\<lambda>r. case r of
           Inl err \<Rightarrow> failed err
         | Inr secret \<Rightarrow> (case fmlookup (sec_Data secret) DEPLOY_KEY_SECRET_PUBKEY of
             None \<Rightarrow> failed (ErrNew (''could not retrieve deploy key from secret: missing key: ''
                       @ DEPLOY_KEY_SECRET_PUBKEY))
           | Some pubkey \<Rightarrow>
               bnd (recordKey settings (DEPLOY_KEY_GENERATED_PREFIX @ genKey) secretName pubkey status)
                 (wantedKeys dp k instance rest))))"

definition putDeployKeys :: "DeployKeyStatus gomap \<Rightarrow> GitRepo \<Rightarrow> GitRepo" where
  "putDeployKeys m g = g\<lparr>gr_Status := (gr_Status g)\<lparr>gst_GeneratedDeployKeys := m\<rparr>\<rparr>"

definition ensureGeneratedDeployKeys ::
  "'w Deps \<Rightarrow> 'w Runtime \<Rightarrow> 'w Client \<Rightarrow> GitRepo \<Rightarrow> ('w, GitRepo \<times> gerr option) go" where
  "ensureGeneratedDeployKeys dp rt k instance =
     (let status = gst_GeneratedDeployKeys (gr_Status instance);
          spec = gt_GeneratedDeployKeys (repoTemplate instance)
      in bnd (rangeOver rt status) (\<lambda>olds.
         bnd (staleKeys k (om_Namespace (gr_Meta instance)) spec olds) (\<lambda>(errs1, deletions).
         bnd (rangeOver rt spec) (\<lambda>news.
         bnd (wantedKeys dp k instance news (fold fmdrop deletions status)) (\<lambda>(errs2, status').
           ret (putDeployKeys status' instance, combineErrs (errs1 @ errs2)))))))"

section \<open>The steps\<close>

text \<open>\<open>if !exists\<close>: the repository is announced in the status and created.\<close>

definition createRepo :: "'w Client \<Rightarrow> ('r, 'w) RepoI \<Rightarrow> 'r \<Rightarrow> GitRepo
    \<Rightarrow> ('w, 'r \<times> GitRepo \<times> gerr option) go" where
  "createRepo k ri repo instance =
     (let instance1 = setPhase PhaseCreating (setURL (ri_FullURL ri repo) instance) in
      bnd (k_StatusUpdateGitRepo k instance1) (\<lambda>r. case r of
        Inl err \<Rightarrow> ret (repo, instance1,
                    Some (Wrap ''could not set status while creating repository: '' err))
      | Inr instance2 \<Rightarrow>
          bnd (ri_Create ri repo) (\<lambda>(repo', e). case e of
            None \<Rightarrow> ret (repo', instance2, None)
          | Some err \<Rightarrow> bnd (handleRepoError k err (setURL '''' instance2)) (\<lambda>(instance3, err').
              ret (repo', instance3, Some err')))))"

text \<open>From \<open>ensureAccessToken\<close> on: what is done to a live repository.\<close>

definition failWith :: "'w Client \<Rightarrow> gerr \<Rightarrow> GitRepo \<Rightarrow> ('w, GitRepo \<times> Result) go" where
  "failWith k err instance =
     bnd (handleRepoError k err instance) (\<lambda>(instance', err'). ret (instance', errResult err'))"

definition applyRepo :: "'w Deps \<Rightarrow> 'w Client \<Rightarrow> ('r, 'w) RepoI \<Rightarrow> 'r \<Rightarrow> GitRepo
    \<Rightarrow> ('w, GitRepo \<times> Result) go" where
  "applyRepo dp k ri repo instance =
     bnd (ensureAccessToken dp k ri repo instance) (\<lambda>e. case e of
       Some err \<Rightarrow> failWith k (Wrap ''ensure access token: '' err) instance
     | None \<Rightarrow>
     bnd (ensureCIVariables dp k ri repo instance) (\<lambda>(instance1, e). case e of
       Some err \<Rightarrow> failWith k (Wrap ''ensure ci variables: '' err) instance1
     | None \<Rightarrow>
     bnd (ri_CommitTemplateFiles ri repo) (\<lambda>(repo1, e). case e of
       Some err \<Rightarrow> failWith k err instance1
     | None \<Rightarrow>
     bnd (ri_Update ri repo1) (\<lambda>(repo2, changed, e). case e of
       Some err \<Rightarrow> failWith k (Wrap ''update repo: '' err) instance1
     | None \<Rightarrow> ret (instance1\<lparr>gr_Status := (gr_Status instance1)\<lparr>gst_Phase := Some PhaseCreated,
           gst_URL := ri_FullURL ri repo2, gst_Type := ri_Type ri repo2\<rparr>\<rparr>, okResult)))))"

definition notAdopted :: "('r, 'w) RepoI \<Rightarrow> 'r \<Rightarrow> GitRepo \<Rightarrow> gerr" where
  "notAdopted ri repo instance = ErrNew (''Failed to adopt repository. Repository ''
     @ Quote (ri_FullURL ri repo) @ '' already exists and is not managed by ''
     @ om_Name (gr_Meta instance) @ '' '')"

text \<open>Once the repository is there.\<close>

definition existingRepo :: "'w Deps \<Rightarrow> 'w Client \<Rightarrow> bool \<Rightarrow> ('r, 'w) RepoI \<Rightarrow> 'r \<Rightarrow> GitRepo
    \<Rightarrow> ('w, GitRepo \<times> Result) go" where
  "existingRepo dp k deleted ri repo instance =
     (if gst_URL (gr_Status instance) \<noteq> ri_FullURL ri repo
         \<and> gt_CreationPolicy (repoTemplate instance) \<noteq> AdoptPolicy
      then (if deleted then ret (instance, okResult)
            else failWith k (notAdopted ri repo (setPhase PhaseFailed instance))
                   (setPhase PhaseFailed instance))
      else if deleted then bnd (ri_Remove ri repo) (\<lambda>(_, e). case e of
             Some err \<Rightarrow> ret (instance, errResult (Wrap ''remove repo: '' err))
           | None \<Rightarrow> ret (instance, okResult))
      else applyRepo dp k ri repo instance)"

definition managedRepo :: "'w Deps \<Rightarrow> 'w Runtime \<Rightarrow> 'w Client \<Rightarrow> bool \<Rightarrow> ('r, 'w) RepoI
    \<Rightarrow> ('r, 'w) gitClientFactory \<Rightarrow> GitRepo \<Rightarrow> ('w, GitRepo \<times> Result) go" where
  "managedRepo dp rt k deleted ri getGitClient instance =
     bnd (ensureGeneratedDeployKeys dp rt k instance) (\<lambda>(instance1, e). case e of
       Some err \<Rightarrow> failWith k (Wrap ''ensure generated deploy keys: '' err) instance1
     | None \<Rightarrow>
     bnd (getGitClient instance1) (\<lambda>r. case r of
       Inl err \<Rightarrow> ret (instance1, errResult (Wrap ''get Git client: '' err))
     | Inr (repo, hostKeys) \<Rightarrow>
         let instance2 = instance1\<lparr>gr_Status := (gr_Status instance1)\<lparr>gst_HostKeys := hostKeys\<rparr>\<rparr> in
         bnd (repoExists ri repo) (\<lambda>(repo1, r). case r of
           Inl err \<Rightarrow> ret (instance2, errResult (Wrap ''failed to check if repo exists: '' err))
         | Inr True \<Rightarrow> existingRepo dp k deleted ri repo1 instance2
         | Inr False \<Rightarrow>
             bnd (createRepo k ri repo1 instance2) (\<lambda>(repo2, instance3, e). case e of
               Some err \<Rightarrow> ret (instance3, errResult err)
             | None \<Rightarrow> existingRepo dp k deleted ri repo2 instance3))))"

definition gitrepo_steps :: "'w Deps \<Rightarrow> ('r, 'w) RepoI \<Rightarrow> ('r, 'w) gitClientFactory \<Rightarrow> 'w Function" where
  "gitrepo_steps dp ri getGitClient obj data = (case obj of
       GitRepoObj instance0 \<Rightarrow>
         bnd (fetchGitRepoTemplate (ctx_Client data) instance0) (\<lambda>(instance, e). case e of
           Some err \<Rightarrow> ret (GitRepoObj instance, data, errResult (Wrap ''fetch Git repo template: '' err))
         | None \<Rightarrow>
             if gt_RepoType (repoTemplate instance) = UnmanagedRepoType
             then ret (GitRepoObj instance, data, okResult)
             else bnd (managedRepo dp (ctx_Runtime data) (ctx_Client data) (ctx_Deleted data) ri
                        getGitClient instance) (\<lambda>(instance', r). ret (GitRepoObj instance', data, r)))
     | _ \<Rightarrow> ret (obj, data, errResult (ErrNew (''object '' @ CHR 0x27 # GetNamespace obj @ ''/''
              @ GetName obj @ CHR 0x27 # '' is not of kind GitRepository''))))"

section \<open>Objects that own a repository\<close>

text \<open>The template as \<open>CreateOrUpdate\<close> fills it in: display name, policies, type.\<close>

definition orElse :: "string \<Rightarrow> string \<Rightarrow> string" where
  "orElse a b = (if a = '''' then b else a)"

definition namedTemplate :: "Object \<Rightarrow> GitRepoTemplate \<Rightarrow> GitRepoTemplate" where
  "namedTemplate obj t = t\<lparr>gt_DisplayName := orElse (gt_DisplayName t) (GetDisplayName obj)\<rparr>"

text \<open>A getter reads the object the template is written to, so a policy of a git repo is its
  template's.\<close>

definition filledTemplate :: "'w Context \<Rightarrow> Object \<Rightarrow> GitRepoTemplate \<Rightarrow> GitRepoTemplate" where
  "filledTemplate data obj t = t\<lparr>
     gt_DeletionPolicy := orElse (gt_DeletionPolicy t)
       (orElse (GetDeletionPolicy obj) (ctx_DefaultDeletionPolicy data)),
     gt_CreationPolicy := orElse (gt_CreationPolicy t)
       (orElse (GetCreationPolicy obj) (ctx_DefaultCreationPolicy data)),
     gt_RepoType := (if gt_RepoType t = DefaultRepoType then AutoRepoType else gt_RepoType t)\<rparr>"

definition CreateOrUpdate :: "'w Function" where
  "CreateOrUpdate obj0 data =
     (let (template0, obj1) = GetGitTemplate obj0;
          template1 = namedTemplate obj1 template0;
          obj2 = PutGitTemplate template1 obj1;
          k = ctx_Client data
      in if GetTenantRef obj2 = ''''
         then ret (obj2, data, \<lparr>rs_Abort = True, rs_Err = Some (ErrNew ''the tenant name is empty''),
                rs_Requeue = False\<rparr>)
         else let template = filledTemplate data obj2 template1;
                  obj = PutGitTemplate template obj2;
                  repo = \<lparr>gr_GVK = \<lparr>gvk_Group = '''', gvk_Version = '''', gvk_Kind = ''''\<rparr>,
                    gr_Meta = emptyMeta\<lparr>om_Name := GetName obj, om_Namespace := GetNamespace obj,
                      om_OwnerReferences := [k_NewControllerRef k (GetMeta obj) (GroupVersionKind obj)]\<rparr>,
                    gr_Spec = \<lparr>gs_GitRepoTemplate = template, gs_TenantRef = GetTenantRef obj\<rparr>,
                    gr_Status = emptyGitRepoStatus\<rparr>
              in bnd (k_GetGitRepo k \<lparr>nn_Namespace = GetNamespace obj, nn_Name = GetName obj\<rparr>) (\<lambda>r. case r of
                   Inl err \<Rightarrow>
                     if IsNotFound err then bnd (k_CreateGitRepo k repo) (\<lambda>r. ret (obj, data,
                         \<lparr>rs_Abort = False, rs_Err = (case r of Inl e \<Rightarrow> Some e | Inr _ \<Rightarrow> None),
                          rs_Requeue = False\<rparr>))
                     else ret (obj, data, errResult err)
                 | Inr found \<Rightarrow>
                     if repoTemplate found = template then ret (obj, data, okResult)
                     else bnd (k_UpdateGitRepo k (found\<lparr>gr_Spec := (gr_Spec found)
                                 \<lparr>gs_GitRepoTemplate := template\<rparr>\<rparr>)) (\<lambda>r. case r of
                            Inl e \<Rightarrow> ret (obj, data, errResult e)
                          | Inr _ \<Rightarrow> ret (obj, data, okResult))))"

definition UpdateURLAndHostKeys :: "'w Function" where
  "UpdateURLAndHostKeys obj data =
     bnd (k_GetGitRepo (ctx_Client data) \<lparr>nn_Namespace = GetNamespace obj, nn_Name = GetName obj\<rparr>)
       (\<lambda>r. case r of
         Inl err \<Rightarrow>
           if IsNotFound err then ret (obj, data, okResult)
           else ret (obj, data, \<lparr>rs_Abort = True, rs_Err = Some (Wrap ''get gitrepo: '' err), rs_Requeue = False\<rparr>)
       | Inr gitRepo \<Rightarrow>
           if gt_RepoType (repoTemplate gitRepo) \<noteq> UnmanagedRepoType
           then ret (SetGitRepoURLAndHostKeys (gst_URL (gr_Status gitRepo)) (gst_HostKeys (gr_Status gitRepo)) obj,
                  data, okResult)
           else ret (obj, data, okResult))"

section \<open>Helper lemmas\<close>

lemma failWith_quiet: "failWith k err g w = (Ret (g', r), w') \<Longrightarrow> \<not> rs_Abort r"
  by (auto simp: failWith_def errResult_def elim!: bnd_RetE)

lemma applyRepo_quiet: "applyRepo dp k ri repo g w = (Ret (g', r), w') \<Longrightarrow> \<not> rs_Abort r"
  by (auto simp: applyRepo_def okResult_def elim!: bnd_RetE split: option.splits dest!: failWith_quiet)

lemma existingRepo_quiet: "existingRepo dp k d ri repo g w = (Ret (g', r), w') \<Longrightarrow> \<not> rs_Abort r"
  by (auto simp: existingRepo_def result_defs elim!: bnd_RetE split: option.splits if_splits
      dest!: failWith_quiet applyRepo_quiet)

lemma managedRepo_quiet: "managedRepo dp rt k d ri gf g w = (Ret (g', r), w') \<Longrightarrow> \<not> rs_Abort r"
  by (auto simp: managedRepo_def Let_def result_defs elim!: bnd_RetE
      split: option.splits if_splits sum.splits bool.splits dest!: failWith_quiet existingRepo_quiet)

lemma quiet_gitrepo_steps: "quiet (gitrepo_steps dp ri gf)"
  by (rule quietI) (auto simp: gitrepo_steps_def result_defs elim!: bnd_RetE
      split: Object.splits option.splits if_splits dest!: managedRepo_quiet)

lemma quiet_CreateOrUpdate: "quiet CreateOrUpdate"
  by (rule quietI) (auto simp: CreateOrUpdate_def Let_def result_defs elim!: bnd_RetE
      split: prod.splits if_splits sum.splits)

lemma quiet_UpdateURLAndHostKeys: "quiet UpdateURLAndHostKeys"
  by (rule quietI) (auto simp: UpdateURLAndHostKeys_def result_defs elim!: bnd_RetE
      split: if_splits sum.splits)

text \<open>No operation but a removal depends on how an implementation removes.\<close>

lemma Remove_fields:
  "ri_Type (ri\<lparr>ri_Remove := f\<rparr>) = ri_Type ri"
  "ri_FullURL (ri\<lparr>ri_Remove := f\<rparr>) = ri_FullURL ri"
  "ri_Create (ri\<lparr>ri_Remove := f\<rparr>) = ri_Create ri"
  "ri_Update (ri\<lparr>ri_Remove := f\<rparr>) = ri_Update ri"
  "ri_Read (ri\<lparr>ri_Remove := f\<rparr>) = ri_Read ri"
  "ri_CommitTemplateFiles (ri\<lparr>ri_Remove := f\<rparr>) = ri_CommitTemplateFiles ri"
  "ri_EnsureProjectAccessToken (ri\<lparr>ri_Remove := f\<rparr>) = ri_EnsureProjectAccessToken ri"
  "ri_EnsureCIVariables (ri\<lparr>ri_Remove := f\<rparr>) = ri_EnsureCIVariables ri"
  by simp_all

lemma applyRepo_Remove: "applyRepo dp k (ri\<lparr>ri_Remove := f\<rparr>) repo g = applyRepo dp k ri repo g"
  unfolding applyRepo_def ensureAccessToken_def mutateTokenSecret_def [abs_def] ensureCIVariables_def
    Remove_fields ..

lemma existingRepo_Remove:
  "existingRepo dp k False (ri\<lparr>ri_Remove := f\<rparr>) repo g = existingRepo dp k False ri repo g"
  by (simp add: existingRepo_def notAdopted_def applyRepo_Remove)

lemma managedRepo_Remove:
  "managedRepo dp rt k False (ri\<lparr>ri_Remove := f\<rparr>) gf g = managedRepo dp rt k False ri gf g"
  unfolding managedRepo_def createRepo_def repoExists_def existingRepo_Remove Remove_fields ..

section \<open>The generated deploy keys\<close>

lemma staleKeys_deletions:
  "staleKeys k ns spec olds w = (Ret ([], dels), w') \<Longrightarrow>
     set dels = {old \<in> fst ` set olds. fmlookup spec (drop (length DEPLOY_KEY_GENERATED_PREFIX) old) = None}"
proof (induction olds arbitrary: w dels)
  case Nil
  then show ?case by simp
next
  case (Cons old rest)
  obtain oldKey settings where old: "old = (oldKey, settings)" by fastforce
  show ?case
  proof (cases "fmlookup spec (drop (length DEPLOY_KEY_GENERATED_PREFIX) oldKey)")
    case (Some t)
    with Cons.prems have "staleKeys k ns spec rest w = (Ret ([], dels), w')"
      by (simp add: old split: if_splits)
    with Cons.IH Some show ?thesis by (auto simp: old)
  next
    case None
    with Cons.prems obtain dels' w1 where "staleKeys k ns spec rest w1 = (Ret ([], dels'), w')"
      "dels = oldKey # dels'"
      by (auto simp: old elim!: bnd_RetE split: if_splits sum.splits option.splits)
    with Cons.IH None show ?thesis by (auto simp: old)
  qed
qed

lemma recordKey_dom:
  "recordKey settings keyName secretName pubkey status w = (Ret status', w') \<Longrightarrow>
     fset (fmdom status') = insert keyName (fset (fmdom status))"
  by (auto simp: recordKey_def Let_def fmlookup_dom_iff split: if_splits option.splits)

lemma wantedKeys_dom:
  "wantedKeys dp k g news status w = (Ret ([], status'), w') \<Longrightarrow>
     fset (fmdom status') = fset (fmdom status) \<union> (\<lambda>n. DEPLOY_KEY_GENERATED_PREFIX @ n) ` fst ` set news"
proof (induction news arbitrary: status w)
  case Nil
  then show ?case by simp
next
  case (Cons new rest)
  obtain genKey settings where new: "new = (genKey, settings)" by fastforce
  from Cons.prems obtain pubkey status1 w1 w2 where
    r: "recordKey settings (DEPLOY_KEY_GENERATED_PREFIX @ genKey)
       (om_Name (gr_Meta g) @ DEPLOY_KEY_NAME_INFIX @ genKey) pubkey status w1 = (Ret status1, w2)"
    and rest: "wantedKeys dp k g rest status1 w2 = (Ret ([], status'), w')"
    by (auto simp: new Let_def elim!: bnd_RetE split: sum.splits option.splits)
  from Cons.IH [OF rest] recordKey_dom [OF r] show ?case by (auto simp: new)
qed

lemma fset_fold_fmdrop: "fset (fmdom (fold fmdrop ks m)) = fset (fmdom m) - set ks"
  by (induction ks arbitrary: m) auto

lemma generated_keys_dom:
  assumes "ensureGeneratedDeployKeys dp rt k g w = (Ret (g', None), w')"
    and "\<And>key. key \<in> fset (fmdom (gst_GeneratedDeployKeys (gr_Status g))) \<Longrightarrow>
           \<exists>n. key = DEPLOY_KEY_GENERATED_PREFIX @ n"
  shows "\<exists>status'. g' = putDeployKeys status' g \<and> fset (fmdom status') =
    (\<lambda>n. DEPLOY_KEY_GENERATED_PREFIX @ n) ` fset (fmdom (gt_GeneratedDeployKeys (repoTemplate g)))"
proof -
  let ?st = "gst_GeneratedDeployKeys (gr_Status g)" and ?sp = "gt_GeneratedDeployKeys (repoTemplate g)"
  from assms(1) obtain h1 h2 dels status' w1 w2 w3 w4 where
    s: "staleKeys k (om_Namespace (gr_Meta g)) ?sp (rangeMap h1 ?st) w1 = (Ret ([], dels), w2)"
    and n: "wantedKeys dp k g (rangeMap h2 ?sp) (fold fmdrop dels ?st) w3 = (Ret ([], status'), w4)"
    and g': "g' = putDeployKeys status' g"
    by (auto simp: ensureGeneratedDeployKeys_def rangeOver_def Let_def elim!: bnd_RetE)
  have olds: "fst ` set (rangeMap h ?st) = fset (fmdom ?st)" for h
    by (metis list.set_map map_fst_rangeMap set_rangeKeys)
  have news: "fst ` set (rangeMap h ?sp) = fset (fmdom ?sp)" for h
    by (metis list.set_map map_fst_rangeMap set_rangeKeys)
  have "fset (fmdom status') = (fset (fmdom ?st) - set dels) \<union>
      (\<lambda>n. DEPLOY_KEY_GENERATED_PREFIX @ n) ` fset (fmdom ?sp)"
    using wantedKeys_dom [OF n] unfolding fset_fold_fmdrop news .
  moreover have "key \<in> (\<lambda>n. DEPLOY_KEY_GENERATED_PREFIX @ n) ` fset (fmdom ?sp)"
    if "key \<in> fset (fmdom ?st) - set dels" for key
  proof -
    from that assms(2) obtain n where key: "key = DEPLOY_KEY_GENERATED_PREFIX @ n" by blast
    from that staleKeys_deletions [OF s] olds
    have "fmlookup ?sp (drop (length DEPLOY_KEY_GENERATED_PREFIX) key) \<noteq> None" by auto
    with key show ?thesis by (auto simp: fmlookup_dom_iff)
  qed
  ultimately show ?thesis using g' by auto
qed

lemma generated_only_status:
  "ensureGeneratedDeployKeys dp rt k g w = (Ret (g', e), w') \<Longrightarrow> \<exists>m. g' = putDeployKeys m g"
  by (auto simp: ensureGeneratedDeployKeys_def Let_def elim!: bnd_RetE)

section \<open>The CI variables\<close>

lemma collectValues_names:
  "collectValues k ns vs w = (Ret (vals, []), w') \<Longrightarrow> map mev_Name vals = map ev_Name vs"
  by (induction vs arbitrary: w vals)
    (fastforce elim!: bnd_RetE split: sum.splits simp: managerVar_def)+

lemma set_managedNames [simp]: "set (managedNames vs ps) = ev_Name ` set vs \<union> ev_Name ` set ps"
  by (auto simp: managedNames_def)

lemma sorted_managedNames: "sorted (managedNames vs ps) \<and> distinct (managedNames vs ps)"
  by (simp add: managedNames_def)

lemma ensureCIVariables_call:
  assumes "gst_LastAppliedCIVariables (gr_Status g) = '''' \<and> prev = [] \<or>
      gst_LastAppliedCIVariables (gr_Status g) \<noteq> '''' \<and>
      dp_UnmarshalVars dp (gst_LastAppliedCIVariables (gr_Status g)) = Inr prev"
    and "collectValues k (om_Namespace (gr_Meta g)) (gt_CIVariables (repoTemplate g)) w = (Ret (vals, []), w1)"
  shows "ensureCIVariables dp k ri repo g w =
    bnd (ri_EnsureCIVariables ri repo (managedNames (gt_CIVariables (repoTemplate g)) prev) vals)
      (\<lambda>e. case e of Some err \<Rightarrow> ret (g, Some (Wrap ''error ensuring ci variables: '' err))
        | None \<Rightarrow> (case dp_MarshalVars dp (gt_CIVariables (repoTemplate g)) of
              Inl err \<Rightarrow> ret (g, Some (Wrap ''error marshalling ci variables: '' err))
            | Inr json \<Rightarrow> ret (g\<lparr>gr_Status := (gr_Status g)\<lparr>gst_LastAppliedCIVariables := json\<rparr>\<rparr>, None))) w1"
  using assms by (auto simp: ensureCIVariables_def Let_def)

text \<open>Documented behaviour of the JSON codec: what it encodes it decodes again.\<close>

definition json_roundtrip :: "'w Deps \<Rightarrow> bool" where
  "json_roundtrip dp \<longleftrightarrow> (\<forall>vs json. dp_MarshalVars dp vs = Inr json \<longrightarrow>
     json \<noteq> '''' \<and> dp_UnmarshalVars dp json = Inr vs)"

section \<open>What a pass that succeeds leaves in the status\<close>

context repo_contract
begin

lemma applied_status:
  assumes "applyRepo dp k ri repo g w = (Ret (g', r), w')" and "rs_Err r = None"
  shows "gst_Phase (gr_Status g') = Some PhaseCreated \<and> gst_URL (gr_Status g') = ri_FullURL ri repo \<and>
    gst_Type (gr_Status g') = ri_Type ri repo"
proof -
  from assms obtain g1 repo1 repo2 ch w1 w2 w3 w4 where
    "ri_CommitTemplateFiles ri repo w1 = (Ret (repo1, None), w2)"
    "ri_Update ri repo1 w3 = (Ret (repo2, ch, None), w4)"
    "g' = g1\<lparr>gr_Status := (gr_Status g1)\<lparr>gst_Phase := Some PhaseCreated,
       gst_URL := ri_FullURL ri repo2, gst_Type := ri_Type ri repo2\<rparr>\<rparr>"
    by (auto simp: applyRepo_def failWith_def errResult_def elim!: bnd_RetE split: option.splits)
  with commit_update_same show ?thesis by simp
qed

lemma existing_status:
  assumes "existingRepo dp k False ri repo g w = (Ret (g', r), w')" and "rs_Err r = None"
  shows "gst_Phase (gr_Status g') = Some PhaseCreated \<and> gst_URL (gr_Status g') = ri_FullURL ri repo \<and>
    gst_Type (gr_Status g') = ri_Type ri repo"
  using assms applied_status
  by (auto simp: existingRepo_def failWith_def errResult_def elim!: bnd_RetE split: if_splits)

lemma managed_status:
  assumes "managedRepo dp rt k False ri gf g w = (Ret (g', r), w')" and "rs_Err r = None"
  shows "\<exists>g1 w1 repo hostKeys w2. ensureGeneratedDeployKeys dp rt k g w = (Ret (g1, None), w1) \<and>
    gf g1 w1 = (Ret (Inr (repo, hostKeys)), w2) \<and>
    gst_Phase (gr_Status g') = Some PhaseCreated \<and> gst_URL (gr_Status g') = ri_FullURL ri repo \<and>
    gst_Type (gr_Status g') = ri_Type ri repo"
proof -
  from assms obtain g1 w1 repo hk w2 repo1 ex w3 where
    gen: "ensureGeneratedDeployKeys dp rt k g w = (Ret (g1, None), w1)"
    and f: "gf g1 w1 = (Ret (Inr (repo, hk)), w2)"
    and e: "repoExists ri repo w2 = (Ret (repo1, Inr ex), w3)"
    and rest: "(if ex then existingRepo dp k False ri repo1
          (g1\<lparr>gr_Status := (gr_Status g1)\<lparr>gst_HostKeys := hk\<rparr>\<rparr>)
        else bnd (createRepo k ri repo1 (g1\<lparr>gr_Status := (gr_Status g1)\<lparr>gst_HostKeys := hk\<rparr>\<rparr>))
               (\<lambda>(repo2, g3, e). case e of Some err \<Rightarrow> ret (g3, errResult err)
                 | None \<Rightarrow> existingRepo dp k False ri repo2 g3)) w3 = (Ret (g', r), w')"
    by (auto simp: managedRepo_def Let_def failWith_def errResult_def elim!: bnd_RetE
        split: option.splits sum.splits bool.splits)
  from e have same1: "ri_FullURL ri repo1 = ri_FullURL ri repo \<and> ri_Type ri repo1 = ri_Type ri repo"
    using read_same by (auto simp: repoExists_def elim!: bnd_RetE)
  show ?thesis
  proof (cases ex)
    case True
    with rest existing_status assms(2) gen f same1 show ?thesis by fastforce
  next
    case False
    with rest assms(2) obtain repo2 g3 w4 where
      c: "createRepo k ri repo1 (g1\<lparr>gr_Status := (gr_Status g1)\<lparr>gst_HostKeys := hk\<rparr>\<rparr>) w3
        = (Ret (repo2, g3, None), w4)"
      and r: "existingRepo dp k False ri repo2 g3 w4 = (Ret (g', r), w')"
      by (auto simp: errResult_def elim!: bnd_RetE split: option.splits)
    from c have "ri_FullURL ri repo2 = ri_FullURL ri repo1 \<and> ri_Type ri repo2 = ri_Type ri repo1"
      using create_same by (auto simp: createRepo_def Let_def elim!: bnd_RetE split: sum.splits option.splits)
    with existing_status [OF r assms(2)] same1
    have "gst_Phase (gr_Status g') = Some PhaseCreated \<and> gst_URL (gr_Status g') = ri_FullURL ri repo \<and>
      gst_Type (gr_Status g') = ri_Type ri repo" by simp
    with gen f show ?thesis by (intro exI conjI) auto
  qed
qed

lemma steps_status:
  assumes "gitrepo_steps dp ri gf (GitRepoObj g0) data w0 = (Ret (GitRepoObj g', data', r), w')"
    and "rs_Err r = None" and "\<not> ctx_Deleted data"
    and "fetchGitRepoTemplate (ctx_Client data) g0 w0 = (Ret (g, None), w)"
    and "gt_RepoType (repoTemplate g) \<noteq> UnmanagedRepoType"
  shows "\<exists>g1 w1 repo hostKeys w2. ensureGeneratedDeployKeys dp (ctx_Runtime data) (ctx_Client data) g w = (Ret (g1, None), w1) \<and>
    gf g1 w1 = (Ret (Inr (repo, hostKeys)), w2) \<and>
    gst_Phase (gr_Status g') = Some PhaseCreated \<and> gst_URL (gr_Status g') = ri_FullURL ri repo \<and>
    gst_Type (gr_Status g') = ri_Type ri repo"
  using assms managed_status
  by (auto simp: gitrepo_steps_def elim!: bnd_RetE)

end

section \<open>The template of an owner\<close>

definition wantedTemplate :: "'w Context \<Rightarrow> Object \<Rightarrow> GitRepoTemplate" where
  "wantedTemplate data obj =
     (let (t, obj1) = GetGitTemplate obj; t1 = namedTemplate obj1 t
      in filledTemplate data (PutGitTemplate t1 obj1) t1)"

lemma orElse_again [simp]: "orElse (orElse a b) b = orElse a b" "orElse a a = a"
  "orElse (orElse a (orElse b c)) (orElse b c) = orElse a (orElse b c)"
  "orElse (orElse a (orElse a c)) (orElse (orElse a (orElse a c)) c) = orElse a (orElse a c)"
  by (simp_all add: orElse_def)

lemmas template_defs = wantedTemplate_def filledTemplate_def namedTemplate_def
  Cluster_GetGitTemplate_def Cluster_PutGitTemplate_def Tenant_GetGitTemplate_def
  Tenant_PutGitTemplate_def

lemma putTemplate_twice: "PutGitTemplate t (PutGitTemplate t' obj) = PutGitTemplate t obj"
  by (cases obj) (simp_all add: object_methods split: option.splits)

text \<open>Filling in what is filled in already changes nothing.\<close>

lemma wantedTemplate_again:
  "wantedTemplate data (PutGitTemplate (wantedTemplate data obj) (snd (GetGitTemplate obj))) =
     wantedTemplate data obj \<and>
   PutGitTemplate (wantedTemplate data obj)
     (snd (GetGitTemplate (PutGitTemplate (wantedTemplate data obj) (snd (GetGitTemplate obj))))) =
     PutGitTemplate (wantedTemplate data obj) (snd (GetGitTemplate obj))"
proof (cases obj)
  case (ClusterObj c)
  then show ?thesis
    by (cases "cs_GitRepoTemplate (cl_Spec c)")
      (simp_all add: template_defs Let_def DefaultRepoType_def AutoRepoType_def)
next
  case (TenantObj t)
  then show ?thesis
    by (cases "ts_GitRepoTemplate (tn_Spec t)")
      (simp_all add: template_defs Let_def DefaultRepoType_def AutoRepoType_def)
next
  case (GitRepoObj g)
  then show ?thesis by (simp add: template_defs Let_def DefaultRepoType_def AutoRepoType_def)
qed

section \<open>A repository for the witnesses\<close>

text \<open>An implementation whose handle is the URL and that accepts everything.\<close>

definition idleRepo :: "(string, 'w) RepoI" where
  "idleRepo = \<lparr>ri_Type = (\<lambda>_. GitLabType), ri_FullURL = (\<lambda>r. r), ri_Create = (\<lambda>r. ret (r, None)),
     ri_Update = (\<lambda>r. ret (r, False, None)), ri_Read = (\<lambda>r. ret (r, None)),
     ri_Remove = (\<lambda>r. ret (r, None)), ri_Connect = (\<lambda>r. ret (r, None)),
     ri_CommitTemplateFiles = (\<lambda>r. ret (r, None)),
     ri_EnsureProjectAccessToken = (\<lambda>r n u. ret (Inr \<lparr>pat_UID = ''1'', pat_Token = '''', pat_ExpiresAt = 0\<rparr>)),
     ri_EnsureCIVariables = (\<lambda>r ms vs. ret None)\<rparr>"

definition idleFactory :: "(string, 'w) gitClientFactory" where
  "idleFactory g = ret (Inr (''ssh://git@git.example.com/acme/prod.git'', ''host keys''))"

definition idleDeps :: "'w Deps" where
  "idleDeps = \<lparr>dp_UnmarshalVars = (\<lambda>s. Inr []), dp_MarshalVars = (\<lambda>vs. Inr ''[]''),
     dp_Keygen = (\<lambda>f t. ret (Inr (''ssh-ed25519 AAAA'', ''private'')))\<rparr>"

lemmas idle_repo_defs = idleRepo_def idleFactory_def idleDeps_def

definition managedGitRepo :: "string \<Rightarrow> string \<Rightarrow> GitRepo" where
  "managedGitRepo policy url = sampleGitRepo\<lparr>gr_Spec := (gr_Spec sampleGitRepo)
       \<lparr>gs_GitRepoTemplate := emptyGitRepoTemplate\<lparr>gt_RepoType := AutoRepoType, gt_CreationPolicy := policy\<rparr>\<rparr>,
     gr_Status := emptyGitRepoStatus\<lparr>gst_URL := url\<rparr>\<rparr>"

lemma idle_repo_simps [simp]:
  "ri_Type idleRepo r = GitLabType" "ri_FullURL idleRepo r = r" "ri_Create idleRepo r = ret (r, None)"
  "ri_Update idleRepo r = ret (r, False, None)" "ri_Read idleRepo r = ret (r, None)"
  "ri_Remove idleRepo r = ret (r, None)" "ri_CommitTemplateFiles idleRepo r = ret (r, None)"
  "ri_EnsureCIVariables idleRepo r ms vs = ret None"
  "idleFactory g = ret (Inr (''ssh://git@git.example.com/acme/prod.git'', ''host keys''))"
  by (simp_all add: idle_repo_defs)

lemma managedGitRepo_simps [simp]:
  "gt_RepoType (repoTemplate (managedGitRepo p u)) \<noteq> UnmanagedRepoType"
  "gt_CreationPolicy (repoTemplate (managedGitRepo p u)) = p"
  "gst_URL (gr_Status (managedGitRepo p u)) = u"
  "om_Name (gr_Meta (managedGitRepo p u)) = ''c-prod''"
  "gt_CIVariables (repoTemplate (managedGitRepo p u)) = []"
  "gt_AccessTokenSecretRef (repoTemplate (managedGitRepo p u)) = ''''"
  "gst_LastAppliedCIVariables (gr_Status (managedGitRepo p u)) = ''''"
  "om_Namespace (gr_Meta (managedGitRepo p u)) = ''lieutenant''"
  by (simp_all add: managedGitRepo_def sample_defs AutoRepoType_def UnmanagedRepoType_def)

lemma idle_generated [simp]:
  "ensureGeneratedDeployKeys dp idleRuntime k (managedGitRepo policy url) = ret (managedGitRepo policy url, None)"
  by (simp add: ensureGeneratedDeployKeys_def rangeOver_def managedGitRepo_def sample_defs putDeployKeys_def)

lemma idle_fetch [simp]: "fetchGitRepoTemplate idleClient g = ret (g, None)"
  by (simp add: fetchGitRepoTemplate_def)

section \<open>Properties of the GitRepo controller\<close>

text \<open>C5: As long as a GitRepo object is not being deleted, no pass removes anything on the git
  server: the outcome of the steps, and everything they do, is independent of what the
  implementation's \<open>Remove\<close> would do.\<close>

theorem live_repo_is_never_removed:
  assumes "\<not> ctx_Deleted data"
  shows "gitrepo_steps dp (ri\<lparr>ri_Remove := f\<rparr>) gf obj data = gitrepo_steps dp ri gf obj data"
proof -
  from assms have "ctx_Deleted data = False" by simp
  then show ?thesis unfolding gitrepo_steps_def by (simp only: managedRepo_Remove)
qed

lemma live_repo_is_never_removed_witness:
  "gitrepo_steps idleDeps (idleRepo\<lparr>ri_Remove := \<lambda>r. crash NilDeref\<rparr>) idleFactory
     (GitRepoObj (managedGitRepo CreatePolicy '''')) (sampleContext :: unit Context) =
   gitrepo_steps idleDeps idleRepo idleFactory (GitRepoObj (managedGitRepo CreatePolicy '''')) sampleContext"
  by (rule live_repo_is_never_removed) simp

text \<open>A GitRepo whose template (its own, or that of the tenant or cluster of its name) is
  unmanaged is not touched on any git server: the pass reads the tenant and the cluster and
  nothing else, and the object only takes over their template.\<close>

theorem unmanaged_repo_is_left_alone:
  assumes "fetchGitRepoTemplate (ctx_Client data) g w = (Ret (g', None), w')"
    and "gt_RepoType (repoTemplate g') = UnmanagedRepoType"
  shows "gitrepo_steps dp ri gf (GitRepoObj g) data w = (Ret (GitRepoObj g', data, okResult), w') \<and>
    g' = g\<lparr>gr_Spec := (gr_Spec g)\<lparr>gs_GitRepoTemplate := repoTemplate g'\<rparr>\<rparr>"
proof -
  have "g' = g\<lparr>gr_Spec := (gr_Spec g)\<lparr>gs_GitRepoTemplate := repoTemplate g'\<rparr>\<rparr>"
    using assms(1) by (auto simp: fetchGitRepoTemplate_def Let_def elim!: bnd_RetE
        split: sum.splits if_splits option.splits)
  with assms show ?thesis by (simp add: gitrepo_steps_def)
qed

lemma unmanaged_repo_is_left_alone_witness:
  "fst (gitrepo_steps idleDeps idleRepo (\<lambda>_. crash NilDeref) (GitRepoObj (sampleGitRepo\<lparr>gr_Spec :=
       \<lparr>gs_GitRepoTemplate = emptyGitRepoTemplate\<lparr>gt_RepoType := UnmanagedRepoType\<rparr>, gs_TenantRef = ''t-acme''\<rparr>\<rparr>))
     (sampleContext :: unit Context) ()) =
   Ret (GitRepoObj (sampleGitRepo\<lparr>gr_Spec :=
       \<lparr>gs_GitRepoTemplate = emptyGitRepoTemplate\<lparr>gt_RepoType := UnmanagedRepoType\<rparr>, gs_TenantRef = ''t-acme''\<rparr>\<rparr>),
     sampleContext, okResult)"
  using unmanaged_repo_is_left_alone [where data = "sampleContext :: unit Context" and w = "()" and w' = "()"
      and g = "sampleGitRepo\<lparr>gr_Spec :=
       \<lparr>gs_GitRepoTemplate = emptyGitRepoTemplate\<lparr>gt_RepoType := UnmanagedRepoType\<rparr>, gs_TenantRef = ''t-acme''\<rparr>\<rparr>"
      and g' = "sampleGitRepo\<lparr>gr_Spec :=
       \<lparr>gs_GitRepoTemplate = emptyGitRepoTemplate\<lparr>gt_RepoType := UnmanagedRepoType\<rparr>, gs_TenantRef = ''t-acme''\<rparr>\<rparr>"
      and dp = idleDeps and ri = idleRepo and gf = "\<lambda>_. crash NilDeref"]
  by simp

text \<open>C14: An existing repository that the object did not create (its status does not carry the URL)
  is not touched unless the policy is \<open>Adopt\<close>: once the repository has been read, the pass calls
  nothing on the git server any more. A live object is marked as failed and reports the error;
  a deleted one lets go without removing the repository.\<close>

theorem foreign_repo_is_not_adopted:
  assumes "gt_RepoType (repoTemplate g) \<noteq> UnmanagedRepoType"
    and "fetchGitRepoTemplate (ctx_Client data) g0 w0 = (Ret (g, None), w)"
    and "ensureGeneratedDeployKeys dp (ctx_Runtime data) (ctx_Client data) g w = (Ret (g1, None), w1)"
    and "gf g1 w1 = (Ret (Inr (repo, hostKeys)), w2)"
    and "ri_Read ri repo w2 = (Ret (repo', None), w3)"
    and "gst_URL (gr_Status g1) \<noteq> ri_FullURL ri repo'"
    and "gt_CreationPolicy (repoTemplate g1) \<noteq> AdoptPolicy"
  defines "g2 \<equiv> g1\<lparr>gr_Status := (gr_Status g1)\<lparr>gst_HostKeys := hostKeys\<rparr>\<rparr>"
  shows "gitrepo_steps dp ri gf (GitRepoObj g0) data w0 =
    (if ctx_Deleted data then ret (GitRepoObj g2, data, okResult) w3
     else bnd (handleRepoError (ctx_Client data) (notAdopted ri repo' g2) (setPhase PhaseFailed g2))
            (\<lambda>(g3, err). ret (GitRepoObj g3, data, errResult err)) w3)"
proof -
  have same: "notAdopted ri repo' (setPhase PhaseFailed g2) = notAdopted ri repo' g2"
    by (simp add: notAdopted_def setPhase_def)
  have "managedRepo dp (ctx_Runtime data) (ctx_Client data) (ctx_Deleted data) ri gf g w =
      existingRepo dp (ctx_Client data) (ctx_Deleted data) ri repo' g2 w3"
    using assms(3-5) by (simp add: managedRepo_def repoExists_def g2_def Let_def bnd_assoc)
  moreover have "existingRepo dp (ctx_Client data) (ctx_Deleted data) ri repo' g2 =
     (if ctx_Deleted data then ret (g2, okResult)
      else failWith (ctx_Client data) (notAdopted ri repo' g2) (setPhase PhaseFailed g2))"
    using assms(6,7) by (simp add: existingRepo_def g2_def [symmetric] same) (simp add: g2_def)
  ultimately show ?thesis
    using assms(1,2)
    by (simp add: gitrepo_steps_def bnd_def failWith_def split: prod.split outcome.split)
qed

lemma foreign_repo_is_not_adopted_witness:
  "\<exists>g3 err. gitrepo_steps idleDeps idleRepo idleFactory (GitRepoObj (managedGitRepo CreatePolicy ''''))
     (sampleContext :: unit Context) () = (Ret (GitRepoObj g3, sampleContext, errResult err), ()) \<and>
     gst_Phase (gr_Status g3) = Some PhaseFailed"
  using foreign_repo_is_not_adopted [where data = "sampleContext :: unit Context" and w = "()" and ?w0.0 = "()"
      and ?w1.0 = "()" and ?w2.0 = "()" and ?w3.0 = "()" and dp = idleDeps and ri = idleRepo and gf = idleFactory
      and g = "managedGitRepo CreatePolicy ''''" and ?g1.0 = "managedGitRepo CreatePolicy ''''"
      and ?g0.0 = "managedGitRepo CreatePolicy ''''" and hostKeys = "''host keys''"
      and repo = "''ssh://git@git.example.com/acme/prod.git''"
      and repo' = "''ssh://git@git.example.com/acme/prod.git''"]
  by (auto simp: handleRepoError_def setPhase_def CreatePolicy_def AdoptPolicy_def)

text \<open>A pass that comes as far as reading the repository: the object with its template and host keys,
  the handle, what \<open>Read\<close> reported, and the world.\<close>

definition reads_repo :: "'w Deps \<Rightarrow> ('r, 'w) RepoI \<Rightarrow> ('r, 'w) gitClientFactory \<Rightarrow> 'w Context \<Rightarrow> GitRepo \<Rightarrow> 'w
    \<Rightarrow> GitRepo \<Rightarrow> 'r \<Rightarrow> gerr option \<Rightarrow> 'w \<Rightarrow> bool" where
  "reads_repo dp ri gf data g0 w0 g2 repo e w3 \<longleftrightarrow> (\<exists>g w g1 w1 repo0 hostKeys w2.
     fetchGitRepoTemplate (ctx_Client data) g0 w0 = (Ret (g, None), w) \<and>
     gt_RepoType (repoTemplate g) \<noteq> UnmanagedRepoType \<and>
     ensureGeneratedDeployKeys dp (ctx_Runtime data) (ctx_Client data) g w = (Ret (g1, None), w1) \<and>
     gf g1 w1 = (Ret (Inr (repo0, hostKeys)), w2) \<and>
     ri_Read ri repo0 w2 = (Ret (repo, e), w3) \<and>
     g2 = g1\<lparr>gr_Status := (gr_Status g1)\<lparr>gst_HostKeys := hostKeys\<rparr>\<rparr>)"

lemma fetch_keeps:
  "fetchGitRepoTemplate k g w = (Ret (g', e), w') \<Longrightarrow> gr_Meta g' = gr_Meta g \<and> gr_Status g' = gr_Status g"
  by (auto simp: fetchGitRepoTemplate_def Let_def elim!: bnd_RetE split: sum.splits if_splits option.splits)

lemma reads_repo_keeps:
  "reads_repo dp ri gf data g0 w0 g2 repo e w3 \<Longrightarrow>
     gr_Meta g2 = gr_Meta g0 \<and> gst_URL (gr_Status g2) = gst_URL (gr_Status g0)"
  by (auto simp: reads_repo_def putDeployKeys_def dest!: fetch_keeps generated_only_status)

lemma reads_repo_there:
  "reads_repo dp ri gf data g0 w0 g2 repo None w3 \<Longrightarrow> gitrepo_steps dp ri gf (GitRepoObj g0) data w0 =
     bnd (existingRepo dp (ctx_Client data) (ctx_Deleted data) ri repo g2) (\<lambda>(g, r). ret (GitRepoObj g, data, r)) w3"
  by (auto simp: reads_repo_def gitrepo_steps_def managedRepo_def repoExists_def Let_def bnd_assoc
      split: outcome.splits)

lemma reads_repo_missing:
  "reads_repo dp ri gf data g0 w0 g2 repo (Some e) w3 \<Longrightarrow> isRepoNotFound e \<Longrightarrow>
   gitrepo_steps dp ri gf (GitRepoObj g0) data w0 =
     bnd (bnd (createRepo (ctx_Client data) ri repo g2) (\<lambda>(repo2, g3, e). case e of
         Some err \<Rightarrow> ret (g3, errResult err)
       | None \<Rightarrow> existingRepo dp (ctx_Client data) (ctx_Deleted data) ri repo2 g3))
       (\<lambda>(g, r). ret (GitRepoObj g, data, r)) w3"
  by (auto simp: reads_repo_def gitrepo_steps_def managedRepo_def repoExists_def Let_def bnd_assoc
      split: outcome.splits)

text \<open>Documented behaviour of the status of one object under optimistic locking: an update that
  carries the stored resource version sets the status, gives the object a new version and answers with
  it; any other update is refused.\<close>

definition status_store :: "'w Client \<Rightarrow> ('w \<Rightarrow> GitRepo) \<Rightarrow> bool" where
  "status_store k store \<longleftrightarrow> (\<forall>g w. \<exists>r w'. k_StatusUpdateGitRepo k g w = (Ret r, w') \<and>
     (if om_ResourceVersion (gr_Meta g) = om_ResourceVersion (gr_Meta (store w))
      then \<exists>v. r = Inr (store w') \<and> store w' = (store w)\<lparr>gr_Status := gr_Status g,
             gr_Meta := (gr_Meta (store w))\<lparr>om_ResourceVersion := v\<rparr>\<rparr>
      else (\<exists>err. r = Inl err) \<and> store w' = store w))"

lemma status_store_accepts:
  assumes "status_store k store"
    and "om_ResourceVersion (gr_Meta g) = om_ResourceVersion (gr_Meta (store w))"
  obtains v w' where "k_StatusUpdateGitRepo k g w = (Ret (Inr (store w')), w')"
    "store w' = (store w)\<lparr>gr_Status := gr_Status g,
        gr_Meta := (gr_Meta (store w))\<lparr>om_ResourceVersion := v\<rparr>\<rparr>"
proof -
  from assms(1) obtain r w' where "k_StatusUpdateGitRepo k g w = (Ret r, w')"
    "if om_ResourceVersion (gr_Meta g) = om_ResourceVersion (gr_Meta (store w))
      then \<exists>v. r = Inr (store w') \<and> store w' = (store w)\<lparr>gr_Status := gr_Status g,
             gr_Meta := (gr_Meta (store w))\<lparr>om_ResourceVersion := v\<rparr>\<rparr>
      else (\<exists>err. r = Inl err) \<and> store w' = store w"
    unfolding status_store_def by blast
  with assms(2) that show thesis by auto
qed

text \<open>The passes after a failed creation: each finds the repository, on the object as it is stored, of
  which others may have changed everything but the status since the pass before. The list has what
  every pass reported.\<close>

inductive later_passes :: "'w Deps \<Rightarrow> ('r, 'w) RepoI \<Rightarrow> ('r, 'w) gitClientFactory \<Rightarrow> 'w Context \<Rightarrow> ('w \<Rightarrow> GitRepo)
    \<Rightarrow> 'w \<Rightarrow> Result list \<Rightarrow> 'w \<Rightarrow> bool" for dp ri gf data store w where
  no_pass: "later_passes dp ri gf data store w [] w"
| one_more: "later_passes dp ri gf data store w rs w' \<Longrightarrow>
    gr_Status (store v0) = gr_Status (store w') \<Longrightarrow>
    reads_repo dp ri gf data (store v0) v0 g2 repo None v3 \<Longrightarrow> store v3 = store v0 \<Longrightarrow>
    gt_CreationPolicy (repoTemplate g2) \<noteq> AdoptPolicy \<Longrightarrow> ri_FullURL ri repo \<noteq> '''' \<Longrightarrow>
    gitrepo_steps dp ri gf (GitRepoObj (store v0)) data v0 = (Ret (obj, data', r), v4) \<Longrightarrow>
    later_passes dp ri gf data store w (rs @ [r]) v4"

lemma locked_pass:
  assumes "status_store (ctx_Client data) store" and "\<not> ctx_Deleted data"
    and "reads_repo dp ri gf data (store v0) v0 g2 repo None v3" and "store v3 = store v0"
    and "gt_CreationPolicy (repoTemplate g2) \<noteq> AdoptPolicy" and "ri_FullURL ri repo \<noteq> ''''"
    and "gst_URL (gr_Status (store v0)) = ''''"
  shows "\<exists>v4. gitrepo_steps dp ri gf (GitRepoObj (store v0)) data v0 =
      (Ret (GitRepoObj (store v4), data, errResult (notAdopted ri repo g2)), v4) \<and>
    gst_URL (gr_Status (store v4)) = ''''"
proof -
  note keeps = reads_repo_keeps [OF assms(3)]
  let ?g = "setPhase PhaseFailed (setPhase PhaseFailed g2)"
  have "om_ResourceVersion (gr_Meta ?g) = om_ResourceVersion (gr_Meta (store v3))"
    using keeps assms(4) by (simp add: setPhase_def)
  from status_store_accepts [OF assms(1) this] obtain v v4 where
    u: "k_StatusUpdateGitRepo (ctx_Client data) ?g v3 = (Ret (Inr (store v4)), v4)"
    and s: "store v4 = (store v3)\<lparr>gr_Status := gr_Status ?g,
        gr_Meta := (gr_Meta (store v3))\<lparr>om_ResourceVersion := v\<rparr>\<rparr>" .
  have "existingRepo dp (ctx_Client data) (ctx_Deleted data) ri repo g2
      = failWith (ctx_Client data) (notAdopted ri repo g2) (setPhase PhaseFailed g2)"
    using keeps assms(2,5-7) by (simp add: existingRepo_def) (simp add: notAdopted_def setPhase_def)
  with u have "gitrepo_steps dp ri gf (GitRepoObj (store v0)) data v0 =
      (Ret (GitRepoObj (store v4), data, errResult (notAdopted ri repo g2)), v4)"
    by (simp add: reads_repo_there [OF assms(3)] failWith_def handleRepoError_def Let_def)
  moreover have "gst_URL (gr_Status (store v4)) = ''''"
    using keeps assms(7) by (simp add: s setPhase_def)
  ultimately show ?thesis by blast
qed

lemma later_passes_locked:
  assumes "later_passes dp ri gf data store w rs w'" and "status_store (ctx_Client data) store"
    and "\<not> ctx_Deleted data" and "gst_URL (gr_Status (store w)) = ''''"
  shows "gst_URL (gr_Status (store w')) = '''' \<and> (\<forall>r \<in> set rs. \<exists>g repo. r = errResult (notAdopted ri repo g))"
  using assms
proof (induction rule: later_passes.induct)
  case no_pass
  then show ?case by simp
next
  case (one_more rs w' v0 g2 repo v3 obj data' r v4)
  then have "gst_URL (gr_Status (store v0)) = ''''" by simp
  from locked_pass [OF one_more.prems(1,2) one_more.hyps(3-6) this] one_more show ?case by auto
qed

text \<open>C31: A repository that is created but whose creation reports an error (a deploy key that is
  refused, say) is never taken over again. The failing pass is run on the object as it is stored, under
  optimistic locking: it ends with the error of the creation and leaves the object with the phase
  failed and no URL in the status. Every later pass over the stored object then finds a repository it
  believes to be someone else's, fails with the adoption error and leaves the URL empty, however many
  passes there are and whatever else of the object is changed in between, as long as the policy is not
  \<open>Adopt\<close>.\<close>

theorem failed_create_locks_out:
  assumes "status_store (ctx_Client data) store" and "\<not> ctx_Deleted data"
    and "reads_repo dp ri gf data (store w0) w0 g2 repo (Some nf) w3" and "isRepoNotFound nf"
    and "store w3 = store w0"
    and "\<And>w. \<exists>w'. ri_Create ri repo w = (Ret (repo2, Some err), w') \<and> store w' = store w"
  shows "\<exists>w'. gitrepo_steps dp ri gf (GitRepoObj (store w0)) data w0 =
      (Ret (GitRepoObj (store w'), data, errResult err), w') \<and>
    gst_URL (gr_Status (store w')) = '''' \<and> gst_Phase (gr_Status (store w')) = Some PhaseFailed \<and>
    (\<forall>rs w''. later_passes dp ri gf data store w' rs w'' \<longrightarrow>
       gst_URL (gr_Status (store w'')) = '''' \<and> (\<forall>r \<in> set rs. \<exists>g repo. r = errResult (notAdopted ri repo g)))"
proof -
  let ?g1 = "setPhase PhaseCreating (setURL (ri_FullURL ri repo) g2)"
  have "om_ResourceVersion (gr_Meta ?g1) = om_ResourceVersion (gr_Meta (store w3))"
    using reads_repo_keeps [OF assms(3)] assms(5) by (simp add: setPhase_def setURL_def)
  from status_store_accepts [OF assms(1) this] obtain v w4 where
    u1: "k_StatusUpdateGitRepo (ctx_Client data) ?g1 w3 = (Ret (Inr (store w4)), w4)" .
  obtain w5 where c: "ri_Create ri repo w4 = (Ret (repo2, Some err), w5)" "store w5 = store w4"
    using assms(6) by blast
  let ?g2 = "setPhase PhaseFailed (setURL '''' (store w4))"
  have "om_ResourceVersion (gr_Meta ?g2) = om_ResourceVersion (gr_Meta (store w5))"
    by (simp add: c(2) setPhase_def setURL_def)
  from status_store_accepts [OF assms(1) this] obtain v' w' where
    u2: "k_StatusUpdateGitRepo (ctx_Client data) ?g2 w5 = (Ret (Inr (store w')), w')"
    and s: "store w' = (store w5)\<lparr>gr_Status := gr_Status ?g2,
        gr_Meta := (gr_Meta (store w5))\<lparr>om_ResourceVersion := v'\<rparr>\<rparr>" .
  have "gitrepo_steps dp ri gf (GitRepoObj (store w0)) data w0 =
      (Ret (GitRepoObj (store w'), data, errResult err), w')"
    using u1 c(1) u2 by (simp add: reads_repo_missing [OF assms(3,4)] createRepo_def handleRepoError_def Let_def)
  moreover have "gst_URL (gr_Status (store w')) = ''''" "gst_Phase (gr_Status (store w')) = Some PhaseFailed"
    by (simp_all add: s setPhase_def setURL_def)
  ultimately show ?thesis using later_passes_locked [OF _ assms(1,2)] by blast
qed

text \<open>The instance: a store of the object with its versions, and whether the project is there. The
  creation makes the project and then fails on a deploy key.\<close>

definition lockClient :: "(GitRepo \<times> bool) Client" where
  "lockClient = idleClient\<lparr>k_StatusUpdateGitRepo := (\<lambda>g (s, b).
     if om_ResourceVersion (gr_Meta g) = om_ResourceVersion (gr_Meta s)
     then let s' = s\<lparr>gr_Status := gr_Status g,
            gr_Meta := (gr_Meta s)\<lparr>om_ResourceVersion := CHR ''v'' # om_ResourceVersion (gr_Meta s)\<rparr>\<rparr>
          in (Ret (Inr s'), (s', b))
     else (Ret (Inl (ApiErr Conflict ''conflict'')), (s, b)))\<rparr>"

definition lockRepo :: "(string, GitRepo \<times> bool) RepoI" where
  "lockRepo = idleRepo\<lparr>
     ri_Read := (\<lambda>r (s, b). (Ret (r, if b then None else Some ErrRepoNotFound), (s, b))),
     ri_Create := (\<lambda>r (s, b). (Ret (r, Some (ErrNew ''1 keys failed to be added'')), (s, True)))\<rparr>"

definition lockContext :: "(GitRepo \<times> bool) Context" where
  "lockContext = sampleContext\<lparr>ctx_Client := lockClient\<rparr>"

lemma lock_simps [simp]:
  "ctx_Client lockContext = lockClient" "ctx_Runtime lockContext = idleRuntime" "\<not> ctx_Deleted lockContext"
  "fetchGitRepoTemplate lockClient g = ret (g, None)"
  "ri_Read lockRepo r w = (Ret (r, if snd w then None else Some ErrRepoNotFound), w)"
  "ri_Create lockRepo r w = (Ret (r, Some (ErrNew ''1 keys failed to be added'')), (fst w, True))"
  "ri_FullURL lockRepo r = r"
  by (auto simp: lockContext_def lockClient_def lockRepo_def fetchGitRepoTemplate_def split: prod.splits)

lemma lockClient_store: "status_store lockClient fst"
  by (auto simp: status_store_def lockClient_def Let_def split: prod.splits)

lemma no_generated_keys:
  assumes "gst_GeneratedDeployKeys (gr_Status g) = fmempty" and "gt_GeneratedDeployKeys (repoTemplate g) = fmempty"
  shows "ensureGeneratedDeployKeys dp idleRuntime k g = ret (putDeployKeys fmempty g, None)"
  using assms by (simp add: ensureGeneratedDeployKeys_def rangeOver_def)

lemma lock_reads:
  assumes "gst_GeneratedDeployKeys (gr_Status (fst w)) = fmempty"
    and "repoTemplate (fst w) = repoTemplate (managedGitRepo CreatePolicy '''')"
  shows "\<exists>g2. reads_repo idleDeps lockRepo idleFactory lockContext (fst w) w g2
      ''ssh://git@git.example.com/acme/prod.git'' (if snd w then None else Some ErrRepoNotFound) w \<and>
    repoTemplate g2 = repoTemplate (managedGitRepo CreatePolicy '''') \<and>
    gst_GeneratedDeployKeys (gr_Status g2) = fmempty \<and> gr_Meta g2 = gr_Meta (fst w)"
proof -
  have "gt_GeneratedDeployKeys (repoTemplate (fst w)) = fmempty"
    by (simp add: assms(2) managedGitRepo_def sample_defs)
  then show ?thesis
    using assms managedGitRepo_simps(1) [of CreatePolicy "''''"]
    by (cases w) (auto simp: reads_repo_def no_generated_keys putDeployKeys_def)
qed

definition announced :: "(GitRepo \<times> bool) \<Rightarrow> bool" where
  "announced w \<longleftrightarrow> snd w \<and> gst_GeneratedDeployKeys (gr_Status (fst w)) = fmempty \<and>
     repoTemplate (fst w) = repoTemplate (managedGitRepo CreatePolicy '''')"

lemma failed_create_locks_out_witness:
  "\<exists>w1 rs w2. gitrepo_steps idleDeps lockRepo idleFactory (GitRepoObj (managedGitRepo CreatePolicy '''')) lockContext
      (managedGitRepo CreatePolicy '''', False) =
      (Ret (GitRepoObj (fst w1), lockContext, errResult (ErrNew ''1 keys failed to be added'')), w1) \<and> snd w1 \<and>
    later_passes idleDeps lockRepo idleFactory lockContext fst w1 rs w2 \<and> length rs = 1 \<and>
    (\<forall>r \<in> set rs. \<exists>g repo. r = errResult (notAdopted lockRepo repo g)) \<and> gst_URL (gr_Status (fst w2)) = ''''"
proof -
  let ?g = "managedGitRepo CreatePolicy ''''" and ?w = "(managedGitRepo CreatePolicy '''', False)"
  have m: "gst_GeneratedDeployKeys (gr_Status ?g) = fmempty" by (simp add: managedGitRepo_def sample_defs)
  then obtain g2 where r: "reads_repo idleDeps lockRepo idleFactory lockContext (fst ?w) ?w g2
      ''ssh://git@git.example.com/acme/prod.git'' (Some ErrRepoNotFound) ?w" and
      g2: "gst_GeneratedDeployKeys (gr_Status g2) = fmempty" "gr_Meta g2 = gr_Meta ?g"
    using lock_reads [of ?w] by auto
  have c: "\<exists>w'. ri_Create lockRepo r w = (Ret (r, Some (ErrNew ''1 keys failed to be added'')), w') \<and> fst w' = fst w"
    for r w by simp
  have nf: "isRepoNotFound ErrRepoNotFound" by simp
  obtain w1 where w1: "gitrepo_steps idleDeps lockRepo idleFactory (GitRepoObj (fst ?w)) lockContext ?w =
      (Ret (GitRepoObj (fst w1), lockContext, errResult (ErrNew ''1 keys failed to be added'')), w1)"
    and url: "gst_URL (gr_Status (fst w1)) = ''''"
    and later: "\<forall>rs w2. later_passes idleDeps lockRepo idleFactory lockContext fst w1 rs w2 \<longrightarrow>
      gst_URL (gr_Status (fst w2)) = '''' \<and> (\<forall>r \<in> set rs. \<exists>g repo. r = errResult (notAdopted lockRepo repo g))"
    using failed_create_locks_out [where store = fst and data = lockContext, unfolded lock_simps,
        OF lockClient_store _ r nf refl c] by auto
  have a: "announced w1"
    using w1 g2 unfolding reads_repo_missing [OF r nf] by (auto simp: createRepo_def handleRepoError_def lockClient_def
        announced_def Let_def setPhase_def setURL_def)
  obtain g3 where r3: "reads_repo idleDeps lockRepo idleFactory lockContext (fst w1) w1 g3
      ''ssh://git@git.example.com/acme/prod.git'' None w1" "repoTemplate g3 = repoTemplate ?g"
    using lock_reads [of w1] a by (auto simp: announced_def)
  have u: "ri_FullURL lockRepo ''ssh://git@git.example.com/acme/prod.git'' \<noteq> ''''" by simp
  have p: "gt_CreationPolicy (repoTemplate g3) \<noteq> AdoptPolicy"
    by (simp add: r3(2) CreatePolicy_def AdoptPolicy_def)
  obtain v4 where v4: "gitrepo_steps idleDeps lockRepo idleFactory (GitRepoObj (fst w1)) lockContext w1 =
      (Ret (GitRepoObj (fst v4), lockContext, errResult (notAdopted lockRepo ''ssh://git@git.example.com/acme/prod.git'' g3)), v4)"
    using locked_pass [where data = lockContext and store = fst, unfolded lock_simps, OF lockClient_store _ r3(1) refl p _ url]
    by auto
  let ?rs = "[] @ [errResult (notAdopted lockRepo ''ssh://git@git.example.com/acme/prod.git'' g3)]"
  have l: "later_passes idleDeps lockRepo idleFactory lockContext fst w1 ?rs v4"
    by (rule later_passes.one_more [where store = fst and w' = w1 and ?v0.0 = w1 and ?v3.0 = w1, OF no_pass refl r3(1) refl p u v4])
  have "length ?rs = 1" "snd w1" using a by (simp_all add: announced_def)
  moreover note later [rule_format, OF l] w1 [unfolded fst_conv] l
  ultimately show ?thesis by blast
qed

text \<open>C40: Deleting a GitRepo object whose repository is gone creates the repository anew, only to
  remove it according to the deletion policy, which may be to keep it: once the repository was found
  missing, the announcement in the status accepted (whatever else the server changed in the object it
  answers with) and the repository created, all that the pass still does is the removal.\<close>

theorem deletion_recreates_missing_repo:
  assumes "ctx_Deleted data"
    and "reads_repo dp ri gf data g0 w0 g2 repo (Some e) w3" and "isRepoNotFound e"
  defines "announcement \<equiv> g2\<lparr>gr_Status := (gr_Status g2)\<lparr>gst_URL := ri_FullURL ri repo, gst_Phase := Some PhaseCreating\<rparr>\<rparr>"
  assumes "k_StatusUpdateGitRepo (ctx_Client data) announcement w3 = (Ret (Inr answer), w4)"
    and "gr_Status answer = gr_Status announcement"
    and "ri_Create ri repo w4 = (Ret (repo2, None), w5)" and "ri_FullURL ri repo2 = ri_FullURL ri repo"
  shows "gitrepo_steps dp ri gf (GitRepoObj g0) data w0 = bnd (ri_Remove ri repo2) (\<lambda>(_, e).
      ret (GitRepoObj answer, data,
        case e of None \<Rightarrow> okResult | Some err \<Rightarrow> errResult (Wrap ''remove repo: '' err))) w5"
proof -
  have "announcement = setPhase PhaseCreating (setURL (ri_FullURL ri repo) g2)"
    by (simp add: announcement_def setPhase_def setURL_def)
  then have "createRepo (ctx_Client data) ri repo g2 w3 = (Ret (repo2, answer, None), w5)"
    using assms(5,7) by (simp add: createRepo_def Let_def)
  then have run: "gitrepo_steps dp ri gf (GitRepoObj g0) data w0 =
      bnd (existingRepo dp (ctx_Client data) True ri repo2 answer) (\<lambda>(g, r). ret (GitRepoObj g, data, r)) w5"
    using assms(1) by (simp add: reads_repo_missing [OF assms(2,3)] bnd_assoc)
  have "gst_URL (gr_Status answer) = ri_FullURL ri repo2"
    by (simp add: assms(6,8) announcement_def)
  with run show ?thesis
    by (auto simp: existingRepo_def bnd_assoc intro!: bnd_cong1 split: option.split)
qed

text \<open>The instance: a server that answers with a new version, and a journal of what is done to the
  repositories.\<close>

definition journalRepo :: "(string, string list) RepoI" where
  "journalRepo = idleRepo\<lparr>ri_Read := (\<lambda>r. ret (r, Some ErrRepoNotFound)),
     ri_Create := (\<lambda>r w. (Ret (r, None), w @ [''create''])), ri_Remove := (\<lambda>r w. (Ret (r, None), w @ [''remove'']))\<rparr>"

lemma journalRepo_simps [simp]:
  "ri_Read journalRepo r = ret (r, Some ErrRepoNotFound)" "ri_FullURL journalRepo r = r"
  "ri_Create journalRepo r w = (Ret (r, None), w @ [''create''])"
  "ri_Remove journalRepo r w = (Ret (r, None), w @ [''remove''])"
  by (simp_all add: journalRepo_def)

definition newVersion :: "GitRepo \<Rightarrow> GitRepo" where
  "newVersion g = g\<lparr>gr_Meta := (gr_Meta g)\<lparr>om_ResourceVersion := ''43''\<rparr>\<rparr>"

lemma deletion_recreates_missing_repo_witness:
  "\<exists>data g. ctx_Deleted data \<and> fst (gitrepo_steps idleDeps journalRepo idleFactory
      (GitRepoObj (managedGitRepo CreatePolicy '''')) data []) = Ret (GitRepoObj g, data, okResult) \<and>
    snd (gitrepo_steps idleDeps journalRepo idleFactory
      (GitRepoObj (managedGitRepo CreatePolicy '''')) data []) = [''create'', ''remove'']"
proof -
  let ?d = "sampleContext\<lparr>ctx_Deleted := True, ctx_Client := idleClient
      \<lparr>k_StatusUpdateGitRepo := \<lambda>g. ret (Inr (newVersion g))\<rparr>\<rparr> :: string list Context"
  let ?g2 = "(managedGitRepo CreatePolicy '''')\<lparr>gr_Status :=
      (gr_Status (managedGitRepo CreatePolicy ''''))\<lparr>gst_HostKeys := ''host keys''\<rparr>\<rparr>"
  let ?u = "''ssh://git@git.example.com/acme/prod.git''"
  have r: "reads_repo idleDeps journalRepo idleFactory ?d (managedGitRepo CreatePolicy '''') [] ?g2 ?u (Some ErrRepoNotFound) []"
    by (simp add: reads_repo_def fetchGitRepoTemplate_def)
  have "gitrepo_steps idleDeps journalRepo idleFactory (GitRepoObj (managedGitRepo CreatePolicy '''')) ?d [] =
      bnd (ri_Remove journalRepo ?u) (\<lambda>(_, e). ret (GitRepoObj (newVersion (?g2\<lparr>gr_Status := (gr_Status ?g2)
          \<lparr>gst_URL := ri_FullURL journalRepo ?u, gst_Phase := Some PhaseCreating\<rparr>\<rparr>)), ?d,
        case e of None \<Rightarrow> okResult | Some err \<Rightarrow> errResult (Wrap ''remove repo: '' err))) [''create'']"
    by (rule deletion_recreates_missing_repo [OF _ r, where ?w4.0 = "[]"])
      (simp_all add: newVersion_def)
  then show ?thesis by (intro exI [of _ ?d] exI conjI) simp_all
qed

text \<open>C21: When the generated deploy keys are in order, the status lists exactly the keys of the
  template: every listed key that the template no longer has is dropped (after its secret was
  deleted), every key of the template is listed, and nothing else of the object changes.\<close>

theorem generated_keys_in_sync:
  assumes "ensureGeneratedDeployKeys dp rt k g w = (Ret (g', None), w')"
    and "\<And>key. key \<in> fset (fmdom (gst_GeneratedDeployKeys (gr_Status g))) \<Longrightarrow> \<exists>n. key = ''generated-'' @ n"
  shows "fset (fmdom (gst_GeneratedDeployKeys (gr_Status g'))) =
      (\<lambda>n. ''generated-'' @ n) ` fset (fmdom (gt_GeneratedDeployKeys (repoTemplate g))) \<and>
    g' = putDeployKeys (gst_GeneratedDeployKeys (gr_Status g')) g"
  using generated_keys_dom [OF assms(1)] assms(2)
  by (auto simp: DEPLOY_KEY_GENERATED_PREFIX_def putDeployKeys_def)

definition keyedGitRepo :: GitRepo where
  "keyedGitRepo = sampleGitRepo\<lparr>gr_Spec := (gr_Spec sampleGitRepo)\<lparr>gs_GitRepoTemplate :=
     emptyGitRepoTemplate\<lparr>gt_GeneratedDeployKeys := fmupd ''argo'' \<lparr>dkt_Type = ''ssh-ed25519'',
        dkt_WriteAccess = False\<rparr> fmempty\<rparr>\<rparr>\<rparr>"

lemma distinct_singleton: "set xs = {x} \<Longrightarrow> distinct xs \<Longrightarrow> xs = [x]"
  using distinct_card [of xs] by (cases xs; cases "tl xs") auto

lemma keyed_range: "rangeMap hint (fmupd key v fmempty) = [(key, v)]"
  using distinct_singleton [OF _ distinct_rangeKeys, of hint "fmupd key v fmempty" key]
  by (simp add: rangeMap_def)

lemma generated_keys_in_sync_witness:
  "\<exists>g'. ensureGeneratedDeployKeys idleDeps idleRuntime idleClient keyedGitRepo () = (Ret (g', None), ()) \<and>
     fset (fmdom (gst_GeneratedDeployKeys (gr_Status g'))) = {''generated-argo''}"
proof -
  have "\<exists>st. ensureGeneratedDeployKeys idleDeps idleRuntime idleClient keyedGitRepo () =
      (Ret (putDeployKeys st keyedGitRepo, None), ())"
    by (simp add: ensureGeneratedDeployKeys_def keyedGitRepo_def sample_defs rangeOver_def keyed_range
        deployKeySecret_def generateNewDeployKeySecret_def idleDeps_def recordKey_def emptySecret_def
        DEPLOY_KEY_SECRET_PUBKEY_def DEPLOY_KEY_SECRET_PRIVKEY_def) (rule exI, rule refl)
  then obtain st where e: "ensureGeneratedDeployKeys idleDeps idleRuntime idleClient keyedGitRepo () =
      (Ret (putDeployKeys st keyedGitRepo, None), ())" ..
  from generated_keys_in_sync [OF e] e show ?thesis
    by (auto simp: keyedGitRepo_def sample_defs)
qed

text \<open>A change of the write access of a generated deploy key never takes effect: as long as the
  public key in the secret is the listed one, the entry keeps the access it was made with.\<close>

theorem write_access_change_is_ignored:
  assumes "fmlookup status keyName = Some old" and "splitOn CHR '' '' pubkey = keyType # dk_Key (dks_DeployKey old) # rest"
  shows "recordKey settings keyName secretName pubkey status w = (Ret status, w)"
  using assms by (simp add: recordKey_def)

lemma write_access_change_is_ignored_witness:
  "recordKey \<lparr>dkt_Type = ''ssh-ed25519'', dkt_WriteAccess = True\<rparr> ''generated-argo'' ''s'' ''ssh-ed25519 AAAA''
     (fmupd ''generated-argo'' \<lparr>dks_DeployKey = \<lparr>dk_Type = ''ssh-ed25519'', dk_Key = ''AAAA'',
        dk_WriteAccess = False\<rparr>, dks_SecretRef = ''s''\<rparr> fmempty) () =
   (Ret (fmupd ''generated-argo'' \<lparr>dks_DeployKey = \<lparr>dk_Type = ''ssh-ed25519'', dk_Key = ''AAAA'',
        dk_WriteAccess = False\<rparr>, dks_SecretRef = ''s''\<rparr> fmempty), ())"
  by (rule write_access_change_is_ignored [where rest = "[]" and keyType = "''ssh-ed25519''" and
      old = "\<lparr>dks_DeployKey = \<lparr>dk_Type = ''ssh-ed25519'', dk_Key = ''AAAA'',
        dk_WriteAccess = False\<rparr>, dks_SecretRef = ''s''\<rparr>"]) simp_all

text \<open>C18: A variable that was applied and is then taken out of the template is handed to the git
  server for removal: after a pass that stored the variables, the next pass with other variables
  names every old and every new variable as managed, in order and once, and gives values for
  exactly the new ones.\<close>

theorem removed_variable_is_handed_over:
  assumes "json_roundtrip dp"
    and "ensureCIVariables dp k ri repo g w = (Ret (g1, None), w1)"
    and "gr_Meta g2 = gr_Meta g" and "gr_Status g2 = gr_Status g1"
    and "collectValues k (om_Namespace (gr_Meta g2)) (gt_CIVariables (repoTemplate g2)) w2 = (Ret (vals, []), w3)"
  shows "\<exists>managed. ensureCIVariables dp k ri repo g2 w2 = bnd (ri_EnsureCIVariables ri repo managed vals)
      (\<lambda>e. case e of Some err \<Rightarrow> ret (g2, Some (Wrap ''error ensuring ci variables: '' err))
        | None \<Rightarrow> (case dp_MarshalVars dp (gt_CIVariables (repoTemplate g2)) of
              Inl err \<Rightarrow> ret (g2, Some (Wrap ''error marshalling ci variables: '' err))
            | Inr json \<Rightarrow> ret (g2\<lparr>gr_Status := (gr_Status g2)\<lparr>gst_LastAppliedCIVariables := json\<rparr>\<rparr>, None))) w3 \<and>
    sorted managed \<and> distinct managed \<and>
    set managed = ev_Name ` set (gt_CIVariables (repoTemplate g)) \<union> ev_Name ` set (gt_CIVariables (repoTemplate g2)) \<and>
    map mev_Name vals = map ev_Name (gt_CIVariables (repoTemplate g2))"
proof -
  from assms(2) obtain json where j: "dp_MarshalVars dp (gt_CIVariables (repoTemplate g)) = Inr json"
    and g1: "g1 = g\<lparr>gr_Status := (gr_Status g)\<lparr>gst_LastAppliedCIVariables := json\<rparr>\<rparr>"
    by (auto simp: ensureCIVariables_def Let_def elim!: bnd_RetE split: sum.splits option.splits if_splits)
  with assms(1) have u: "json \<noteq> ''''" "dp_UnmarshalVars dp json = Inr (gt_CIVariables (repoTemplate g))"
    by (auto simp: json_roundtrip_def)
  have "gst_LastAppliedCIVariables (gr_Status g2) = json" by (simp add: assms(4) g1)
  with u ensureCIVariables_call [of g2 "gt_CIVariables (repoTemplate g)" dp k w2 vals w3 ri repo] assms(5)
  have "ensureCIVariables dp k ri repo g2 w2 = bnd (ri_EnsureCIVariables ri repo
      (managedNames (gt_CIVariables (repoTemplate g2)) (gt_CIVariables (repoTemplate g))) vals)
      (\<lambda>e. case e of Some err \<Rightarrow> ret (g2, Some (Wrap ''error ensuring ci variables: '' err))
        | None \<Rightarrow> (case dp_MarshalVars dp (gt_CIVariables (repoTemplate g2)) of
              Inl err \<Rightarrow> ret (g2, Some (Wrap ''error marshalling ci variables: '' err))
            | Inr json \<Rightarrow> ret (g2\<lparr>gr_Status := (gr_Status g2)\<lparr>gst_LastAppliedCIVariables := json\<rparr>\<rparr>, None))) w3"
    by simp
  then show ?thesis
    using sorted_managedNames collectValues_names [OF assms(5)] by (intro exI conjI) auto
qed

text \<open>A codec that round trips: two documents, and an error for every other list.\<close>

definition tokenVar :: EnvVar where
  "tokenVar = \<lparr>ev_Name = ''TOKEN'', ev_Value = ''t0'', ev_ValueFrom = None,
     ev_GitlabOptions = \<lparr>go_Description = '''', go_Protected = False, go_Masked = True, go_Raw = False\<rparr>\<rparr>"

definition codecDeps :: "'w Deps" where
  "codecDeps = idleDeps\<lparr>
     dp_MarshalVars := (\<lambda>vs. if vs = [] then Inr ''[]'' else if vs = [tokenVar] then Inr ''[token]''
                             else Inl (ErrNew ''unsupported'')),
     dp_UnmarshalVars := (\<lambda>s. if s = ''[]'' then Inr [] else if s = ''[token]'' then Inr [tokenVar]
                             else Inl (ErrNew ''invalid''))\<rparr>"

lemma codec_roundtrip: "json_roundtrip codecDeps"
  by (auto simp: json_roundtrip_def codecDeps_def split: if_splits)

definition withVars :: "EnvVar list \<Rightarrow> string \<Rightarrow> GitRepo" where
  "withVars vs applied = sampleGitRepo\<lparr>gr_Spec := (gr_Spec sampleGitRepo)
       \<lparr>gs_GitRepoTemplate := emptyGitRepoTemplate\<lparr>gt_CIVariables := vs\<rparr>\<rparr>,
     gr_Status := emptyGitRepoStatus\<lparr>gst_LastAppliedCIVariables := applied\<rparr>\<rparr>"

lemma withVars_vars: "gt_CIVariables (repoTemplate (withVars vs a)) = vs"
  by (simp add: withVars_def)

lemma tokenVar_name: "ev_Name tokenVar = ''TOKEN''"
  by (simp add: tokenVar_def)

lemma removed_variable_is_handed_over_witness:
  "\<exists>managed. set managed = {''TOKEN''} \<and>
     ensureCIVariables codecDeps idleClient (idleRepo\<lparr>ri_EnsureCIVariables := \<lambda>r ms vs.
        ret (if ms = [''TOKEN''] \<and> vs = [] then Some (ErrNew ''seen'') else None)\<rparr>) ''u'' (withVars [] ''[token]'') ()
       = (Ret (withVars [] ''[token]'', Some (Wrap ''error ensuring ci variables: '' (ErrNew ''seen''))), ())"
proof -
  let ?ri = "idleRepo\<lparr>ri_EnsureCIVariables := \<lambda>r ms vs.
        ret (if ms = [''TOKEN''] \<and> vs = [] then Some (ErrNew ''seen'') else None)\<rparr> :: (string, unit) RepoI"
  have first: "ensureCIVariables codecDeps idleClient ?ri ''u'' (withVars [tokenVar] '''') ()
      = (Ret (withVars [tokenVar] ''[token]'', None), ())"
    by (simp add: ensureCIVariables_def withVars_def sample_defs codecDeps_def tokenVar_def valueFromEnvVar_def
        managedNames_def managerVar_def)
  have single: "sorted ms \<and> distinct ms \<and> set ms = {''TOKEN''} \<Longrightarrow> ms = [''TOKEN'']" for ms
    by (simp add: distinct_singleton)
  have g2: "gr_Meta (withVars [] ''[token]'') = gr_Meta (withVars [tokenVar] '''')"
    "gr_Status (withVars [] ''[token]'') = gr_Status (withVars [tokenVar] ''[token]'')"
    and none: "collectValues idleClient ns (gt_CIVariables (repoTemplate (withVars [] ''[token]''))) ()
      = (Ret ([], []), ())" for ns
    by (simp_all add: withVars_def)
  obtain managed where m: "sorted managed" "distinct managed" "set managed = {''TOKEN''}"
    and run: "ensureCIVariables codecDeps idleClient ?ri ''u'' (withVars [] ''[token]'') () =
       bnd (ri_EnsureCIVariables ?ri ''u'' managed []) (\<lambda>e. case e of
         Some err \<Rightarrow> ret (withVars [] ''[token]'', Some (Wrap ''error ensuring ci variables: '' err))
       | None \<Rightarrow> (case dp_MarshalVars (codecDeps :: unit Deps) [] of
              Inl err \<Rightarrow> ret (withVars [] ''[token]'', Some (Wrap ''error marshalling ci variables: '' err))
            | Inr json \<Rightarrow> ret ((withVars [] ''[token]'')\<lparr>gr_Status := (gr_Status (withVars [] ''[token]''))
                  \<lparr>gst_LastAppliedCIVariables := json\<rparr>\<rparr>, None))) ()"
    using removed_variable_is_handed_over [OF codec_roundtrip first g2 none, unfolded withVars_vars list.set image_insert image_empty tokenVar_name Un_empty_right]
    by (elim exE conjE) (rule that)
  from m have "managed = [''TOKEN'']" by (simp add: single)
  with run have "ensureCIVariables codecDeps idleClient ?ri ''u'' (withVars [] ''[token]'') ()
      = (Ret (withVars [] ''[token]'', Some (Wrap ''error ensuring ci variables: '' (ErrNew ''seen''))), ())"
    by simp
  with m show ?thesis by blast
qed

text \<open>Documented behaviour of the GitRepo objects of the API server: a read shows what is stored, an
  accepted creation or update stores the specification that was sent under the name of the object, and
  a refused one changes nothing.\<close>

definition repoKey :: "GitRepo \<Rightarrow> NamespacedName" where
  "repoKey g = \<lparr>nn_Namespace = om_Namespace (gr_Meta g), nn_Name = om_Name (gr_Meta g)\<rparr>"

definition repo_store :: "'w Client \<Rightarrow> ('w \<Rightarrow> NamespacedName \<Rightarrow> GitRepo option) \<Rightarrow> bool" where
  "repo_store k repos \<longleftrightarrow>
     (\<forall>key w r w'. k_GetGitRepo k key w = (Ret r, w') \<longrightarrow> repos w' = repos w \<and> (case r of
        Inr g \<Rightarrow> repos w key = Some g \<and> repoKey g = key | Inl e \<Rightarrow> IsNotFound e \<longrightarrow> repos w key = None)) \<and>
     (\<forall>g w r w'. k_CreateGitRepo k g w = (Ret r, w') \<longrightarrow> (case r of
        Inr a \<Rightarrow> gr_Spec a = gr_Spec g \<and> repos w' = (repos w)(repoKey g \<mapsto> a) | Inl e \<Rightarrow> repos w' = repos w)) \<and>
     (\<forall>g w r w'. k_UpdateGitRepo k g w = (Ret r, w') \<longrightarrow> (case r of
        Inr a \<Rightarrow> gr_Spec a = gr_Spec g \<and> repos w' = (repos w)(repoKey g \<mapsto> a) | Inl e \<Rightarrow> repos w' = repos w))"

lemma repo_store_get:
  "repo_store k repos \<Longrightarrow> k_GetGitRepo k key w = (Ret r, w') \<Longrightarrow> repos w' = repos w \<and> (case r of
     Inr g \<Rightarrow> repos w key = Some g \<and> repoKey g = key | Inl e \<Rightarrow> IsNotFound e \<longrightarrow> repos w key = None)"
  by (simp add: repo_store_def)

lemma repo_store_create:
  "repo_store k repos \<Longrightarrow> k_CreateGitRepo k g w = (Ret (Inr a), w') \<Longrightarrow>
     gr_Spec a = gr_Spec g \<and> repos w' = (repos w)(repoKey g \<mapsto> a)"
  by (fastforce simp: repo_store_def)

lemma repo_store_update:
  "repo_store k repos \<Longrightarrow> k_UpdateGitRepo k g w = (Ret (Inr a), w') \<Longrightarrow>
     gr_Spec a = gr_Spec g \<and> repos w' = (repos w)(repoKey g \<mapsto> a)"
  by (fastforce simp: repo_store_def)

lemma CreateOrUpdate_stores:
  assumes "repo_store (ctx_Client data) repos"
    and "CreateOrUpdate obj data w = (Ret (obj', data', r), w')" and "rs_Err r = None"
  shows "GetTenantRef obj \<noteq> ''''" and "obj' = PutGitTemplate (wantedTemplate data obj) (snd (GetGitTemplate obj))"
    and "\<exists>g. repos w' \<lparr>nn_Namespace = GetNamespace obj, nn_Name = GetName obj\<rparr> = Some g \<and>
      repoTemplate g = wantedTemplate data obj"
proof -
  show "GetTenantRef obj \<noteq> ''''"
    and obj': "obj' = PutGitTemplate (wantedTemplate data obj) (snd (GetGitTemplate obj))"
    using assms(2,3) by (auto simp: CreateOrUpdate_def wantedTemplate_def Let_def case_prod_beta
        putTemplate_twice errResult_def elim!: bnd_RetE split: if_splits sum.splits)
  show "\<exists>g. repos w' \<lparr>nn_Namespace = GetNamespace obj, nn_Name = GetName obj\<rparr> = Some g \<and>
      repoTemplate g = wantedTemplate data obj"
    using assms(2,3)
    by (auto simp: CreateOrUpdate_def wantedTemplate_def Let_def case_prod_beta putTemplate_twice errResult_def
        repoKey_def elim!: bnd_RetE split: if_splits sum.splits
        dest!: repo_store_get [OF assms(1)] repo_store_create [OF assms(1)] repo_store_update [OF assms(1)])
qed

text \<open>The first of several strings that is not empty.\<close>

definition firstGiven :: "string list \<Rightarrow> string" where
  "firstGiven xs = (case filter (\<lambda>x. x \<noteq> '''') xs of [] \<Rightarrow> '''' | x # _ \<Rightarrow> x)"

lemma firstGiven_simps [simp]:
  "firstGiven [] = ''''" "firstGiven (x # xs) = (if x = '''' then firstGiven xs else x)"
  by (simp_all add: firstGiven_def)

lemma wantedTemplate_fields:
  "wantedTemplate data obj = (let t = fst (GetGitTemplate obj) in t\<lparr>
     gt_DisplayName := firstGiven [gt_DisplayName t, GetDisplayName obj],
     gt_DeletionPolicy := firstGiven [gt_DeletionPolicy t, GetDeletionPolicy obj, ctx_DefaultDeletionPolicy data],
     gt_CreationPolicy := firstGiven [gt_CreationPolicy t, GetCreationPolicy obj, ctx_DefaultCreationPolicy data],
     gt_RepoType := firstGiven [gt_RepoType t, ''auto'']\<rparr>)"
proof (cases obj)
  case (ClusterObj c)
  then show ?thesis
    by (cases "cs_GitRepoTemplate (cl_Spec c)")
      (simp_all add: template_defs Let_def DefaultRepoType_def AutoRepoType_def orElse_def)
next
  case (TenantObj t)
  then show ?thesis
    by (cases "ts_GitRepoTemplate (tn_Spec t)")
      (simp_all add: template_defs Let_def DefaultRepoType_def AutoRepoType_def orElse_def)
next
  case (GitRepoObj g)
  then show ?thesis by (simp add: template_defs Let_def DefaultRepoType_def AutoRepoType_def orElse_def)
qed

text \<open>C26: A tenant or cluster and the GitRepo object it owns come to rest after one pass of
  \<open>CreateOrUpdate\<close> that succeeds, wherever it started from. The pass leaves the object with its template
  completed (the display name, the policies of the object or else of the operator, the type auto, each
  where the template gives none) and the stored GitRepo with that same template. As long as the
  stored GitRepo stays as it is, the next pass over the object makes one read, changes neither, and
  fails only if the read does.\<close>

theorem owner_and_repo_come_to_rest:
  assumes "repo_store (ctx_Client data) repos"
    and "CreateOrUpdate obj data w = (Ret (obj', data', r), w')" and "rs_Err r = None"
  defines "key \<equiv> \<lparr>nn_Namespace = GetNamespace obj, nn_Name = GetName obj\<rparr>"
    and "t \<equiv> fst (GetGitTemplate obj)"
  defines "full \<equiv> t\<lparr>gt_DisplayName := firstGiven [gt_DisplayName t, GetDisplayName obj],
     gt_DeletionPolicy := firstGiven [gt_DeletionPolicy t, GetDeletionPolicy obj, ctx_DefaultDeletionPolicy data],
     gt_CreationPolicy := firstGiven [gt_CreationPolicy t, GetCreationPolicy obj, ctx_DefaultCreationPolicy data],
     gt_RepoType := firstGiven [gt_RepoType t, ''auto'']\<rparr>"
  shows "obj' = PutGitTemplate full (snd (GetGitTemplate obj)) \<and>
    (\<exists>g. repos w' key = Some g \<and> repoTemplate g = full) \<and>
    (\<forall>v. repos v key = repos w' key \<longrightarrow> CreateOrUpdate obj' data v =
       bnd (k_GetGitRepo (ctx_Client data) key) (\<lambda>r. ret (obj', data,
         case r of Inl e \<Rightarrow> errResult e | Inr _ \<Rightarrow> okResult)) v)"
proof -
  have full: "full = wantedTemplate data obj"
    by (simp add: wantedTemplate_fields full_def t_def Let_def)
  note first = CreateOrUpdate_stores [OF assms(1-3)]
  obtain g where g: "repos w' key = Some g" "repoTemplate g = wantedTemplate data obj"
    using first(3) unfolding key_def by blast
  have key: "\<lparr>nn_Namespace = GetNamespace obj', nn_Name = GetName obj'\<rparr> = key" "GetTenantRef obj' \<noteq> ''''"
    using first(1) by (simp_all add: first(2) key_def)
  have "CreateOrUpdate obj' data v = bnd (k_GetGitRepo (ctx_Client data) key) (\<lambda>r. ret (obj', data,
         case r of Inl e \<Rightarrow> errResult e | Inr _ \<Rightarrow> okResult)) v" if v: "repos v key = Some g" for v
  proof -
    obtain x v' where x: "k_GetGitRepo (ctx_Client data) key v = (x, v')" by fastforce
    have "r = Inr g \<or> (\<exists>e. r = Inl e \<and> \<not> IsNotFound e)" if "x = Ret r" for r
      using repo_store_get [OF assms(1) x [unfolded that]] v by (cases r) auto
    then show ?thesis
      using wantedTemplate_again [of data obj] key g(2) x unfolding first(2) [symmetric]
      by (cases x) (auto simp: CreateOrUpdate_def wantedTemplate_def [of data obj'] Let_def case_prod_beta
          putTemplate_twice bnd_def)
  qed
  then show ?thesis using first(2) g by (simp add: full)
qed

text \<open>The instance: a map of GitRepo objects; the one of the tenant is there, with an old template.\<close>

type_synonym repoMap = "NamespacedName \<Rightarrow> GitRepo option"

definition mapClient :: "repoMap Client" where
  "mapClient = idleClient\<lparr>
     k_GetGitRepo := (\<lambda>key m. (Ret (case m key of None \<Rightarrow> Inl (ApiErr NotFound ''not found'')
        | Some g \<Rightarrow> if repoKey g = key then Inr g else Inl (ErrNew ''corrupt'')), m)),
     k_CreateGitRepo := (\<lambda>g m. (Ret (Inr g), m(repoKey g \<mapsto> g))),
     k_UpdateGitRepo := (\<lambda>g m. (Ret (Inr g), m(repoKey g \<mapsto> g)))\<rparr>"

lemma mapClient_store: "repo_store mapClient (\<lambda>m. m)"
  by (auto simp: repo_store_def mapClient_def split: option.splits)

definition staleRepo :: GitRepo where
  "staleRepo = sampleGitRepo\<lparr>gr_Meta := tn_Meta sampleTenant\<rparr>"

definition mapContext :: "repoMap Context" where
  "mapContext = sampleContext\<lparr>ctx_Client := mapClient\<rparr>"

lemma owner_and_repo_come_to_rest_witness:
  "\<exists>obj' m'. CreateOrUpdate (TenantObj sampleTenant) mapContext [repoKey staleRepo \<mapsto> staleRepo]
      = (Ret (obj', mapContext, okResult), m') \<and>
    (\<exists>g. m' (repoKey staleRepo) = Some g \<and> repoTemplate g \<noteq> repoTemplate staleRepo \<and>
       gt_RepoType (repoTemplate g) = ''auto'') \<and>
    CreateOrUpdate obj' mapContext m' = (Ret (obj', mapContext, okResult), m')"
proof -
  let ?m = "[repoKey staleRepo \<mapsto> staleRepo]" and ?t = "TenantObj sampleTenant"
  have k: "repoKey staleRepo = \<lparr>nn_Namespace = GetNamespace ?t, nn_Name = GetName ?t\<rparr>"
    by (simp add: repoKey_def staleRepo_def)
  have c: "ctx_Client mapContext = mapClient" by (simp add: mapContext_def)
  have "\<exists>obj' m'. CreateOrUpdate ?t mapContext ?m = (Ret (obj', mapContext, okResult), m') \<and>
      (\<forall>g. m' (repoKey staleRepo) = Some g \<longrightarrow> repoKey g = repoKey staleRepo)"
    using k by (simp add: repoKey_def CreateOrUpdate_def mapContext_def mapClient_def Let_def case_prod_beta bnd_def ret_apply
        sample_defs Tenant_GetGitTemplate_def Tenant_PutGitTemplate_def)
  then obtain obj' m' where e: "CreateOrUpdate ?t mapContext ?m = (Ret (obj', mapContext, okResult), m')"
    and kept: "\<forall>g. m' (repoKey staleRepo) = Some g \<longrightarrow> repoKey g = repoKey staleRepo" by blast
  have ok: "rs_Err okResult = None" by (simp add: okResult_def)
  note rest = owner_and_repo_come_to_rest [where repos = "\<lambda>m. m" and data = mapContext, unfolded c, OF mapClient_store e ok, folded k]
  then obtain g where g: "m' (repoKey staleRepo) = Some g" "gt_RepoType (repoTemplate g) = ''auto''"
    by (auto simp: sample_defs Tenant_GetGitTemplate_def)
  have "gt_RepoType (repoTemplate staleRepo) \<noteq> ''auto''" by (simp add: staleRepo_def sample_defs)
  with g have "repoTemplate g \<noteq> repoTemplate staleRepo" by metis
  moreover have "CreateOrUpdate obj' mapContext m' = bnd (k_GetGitRepo mapClient (repoKey staleRepo))
      (\<lambda>r. ret (obj', mapContext, case r of Inl e \<Rightarrow> errResult e | Inr _ \<Rightarrow> okResult)) m'"
    using rest by blast
  then have "CreateOrUpdate obj' mapContext m' = (Ret (obj', mapContext, okResult), m')"
    using g(1) kept by (simp add: mapClient_def bnd_def)
  ultimately show ?thesis using e g by blast
qed

end
