(* ===== verification/GoUrl.thy ===== *)
theory GoUrl
  imports GoLib
begin

text \<open>
  What the code uses of Go's package \<open>net/url\<close>: the type \<open>URL\<close>, \<open>Parse\<close> and \<open>String\<close>, with the
  escaping rules of each part of a URL. A URL that has a query or a fragment keeps them, because
  the endpoint of a git server is free text of a secret. The lemmas: escaping never loses a byte,
  and a URL of a scheme, a host and a plain path is taken apart and put together again.
\<close>

section \<open>The type\<close>

record Userinfo =
  ui_Username :: string
  ui_Password :: "string option"

record URL =
  u_Scheme :: string
  u_Opaque :: string
  u_User :: "Userinfo option"
  u_Host :: string
  u_Path :: string
  u_RawPath :: string
  u_OmitHost :: bool
  u_ForceQuery :: bool
  u_RawQuery :: string
  u_Fragment :: string
  u_RawFragment :: string

definition emptyURL :: URL where
  "emptyURL = \<lparr>u_Scheme = '''', u_Opaque = '''', u_User = None, u_Host = '''', u_Path = '''',
     u_RawPath = '''', u_OmitHost = False, u_ForceQuery = False, u_RawQuery = '''',
     u_Fragment = '''', u_RawFragment = ''''\<rparr>"

section \<open>Escaping\<close>

datatype encoding = encodePath | encodeUserPassword | encodeHost | encodeZone | encodeFragment

definition isLower :: "char \<Rightarrow> bool" where
  "isLower c \<longleftrightarrow> 97 \<le> (of_char c :: nat) \<and> (of_char c :: nat) \<le> 122"

definition isUpper :: "char \<Rightarrow> bool" where
  "isUpper c \<longleftrightarrow> 65 \<le> (of_char c :: nat) \<and> (of_char c :: nat) \<le> 90"

definition isAlnum :: "char \<Rightarrow> bool" where
  "isAlnum c \<longleftrightarrow> isLower c \<or> isUpper c \<or> isDigit c"

definition inChars :: "char \<Rightarrow> string \<Rightarrow> bool" where
  "inChars c s \<longleftrightarrow> list_ex (\<lambda>x. x = c) s"

definition quoteChar :: char where
  "quoteChar = CHR 0x27"

definition shouldEscape :: "char \<Rightarrow> encoding \<Rightarrow> bool" where
  "shouldEscape c mode =
     (if isAlnum c then False
      else if (mode = encodeHost \<or> mode = encodeZone)
              \<and> inChars c (quoteChar # CHR 0x22 # ''!$&()*+,;=:[]<>'') then False
      else if inChars c ''-_.~'' then False
      else if inChars c ''$&+,/:;=?@'' \<and> mode = encodePath then c = CHR ''?''
      else if inChars c ''$&+,/:;=?@'' \<and> mode = encodeUserPassword then inChars c ''@/?:''
      else if inChars c ''$&+,/:;=?@'' \<and> mode = encodeFragment then False
      else if mode = encodeFragment \<and> inChars c ''!()*'' then False
      else True)"

definition hexDigit :: "nat \<Rightarrow> char" where
  "hexDigit n = (if n < 10 then char_of (48 + n) else char_of (55 + n))"

definition isHex :: "char \<Rightarrow> bool" where
  "isHex c \<longleftrightarrow> isDigit c \<or> (97 \<le> (of_char c :: nat) \<and> (of_char c :: nat) \<le> 102)
     \<or> (65 \<le> (of_char c :: nat) \<and> (of_char c :: nat) \<le> 70)"

definition unHex :: "char \<Rightarrow> nat" where
  "unHex c = (if isDigit c then of_char c - 48
     else if 97 \<le> (of_char c :: nat) then of_char c - 87 else of_char c - 55)"

fun escape :: "string \<Rightarrow> encoding \<Rightarrow> string" where
  "escape [] mode = []"
| "escape (c # s) mode =
     (if shouldEscape c mode
      then CHR ''%'' # hexDigit (of_char c div 16) # hexDigit (of_char c mod 16) # escape s mode
      else c # escape s mode)"

text \<open>The bytes an escape may stand for: in a host only those beyond ASCII and the percent sign,
  in a zone also what a zone may hold literally.\<close>

definition escapeAllowed :: "char \<Rightarrow> char \<Rightarrow> encoding \<Rightarrow> bool" where
  "escapeAllowed a b mode =
     (if mode = encodeHost then unHex a \<ge> 8 \<or> (a = CHR ''2'' \<and> b = CHR ''5'')
      else if mode = encodeZone then
        (a = CHR ''2'' \<and> b = CHR ''5'') \<or> (a = CHR ''2'' \<and> b = CHR ''0'')
        \<or> \<not> shouldEscape (char_of (16 * unHex a + unHex b)) encodeHost
      else True)"

fun unescape :: "string \<Rightarrow> encoding \<Rightarrow> string option" where
  "unescape [] mode = Some []"
| "unescape (c # s) mode =
     (if c = CHR ''%'' then
        (case s of
           a # b # r \<Rightarrow>
             if isHex a \<and> isHex b \<and> escapeAllowed a b mode
             then map_option (Cons (char_of (16 * unHex a + unHex b))) (unescape r mode)
             else None
         | _ \<Rightarrow> None)
      else if (mode = encodeHost \<or> mode = encodeZone) \<and> (of_char c :: nat) < 128 \<and> shouldEscape c mode
        then None
      else map_option (Cons c) (unescape s mode))"

section \<open>Parse\<close>

text \<open>\<open>strings.Cut\<close> at a character, without the flag.\<close>

definition cutAt :: "char \<Rightarrow> string \<Rightarrow> string \<times> string" where
  "cutAt c s = (takeWhile (\<lambda>x. x \<noteq> c) s, tl (dropWhile (\<lambda>x. x \<noteq> c) s))"

text \<open>What follows the last occurrence of a character, and what precedes it.\<close>

definition afterLast :: "char \<Rightarrow> string \<Rightarrow> string" where
  "afterLast c s = rev (takeWhile (\<lambda>x. x \<noteq> c) (rev s))"

definition beforeLast :: "char \<Rightarrow> string \<Rightarrow> string" where
  "beforeLast c s = rev (tl (dropWhile (\<lambda>x. x \<noteq> c) (rev s)))"

definition hasCTLByte :: "string \<Rightarrow> bool" where
  "hasCTLByte s \<longleftrightarrow> list_ex (\<lambda>c. (of_char c :: nat) < 32 \<or> (of_char c :: nat) = 127) s"

text \<open>\<open>getScheme\<close>: the scheme and the rest; \<open>None\<close> for a leading colon.\<close>

definition isSchemeChar :: "char \<Rightarrow> bool" where
  "isSchemeChar c \<longleftrightarrow> isAlnum c \<or> inChars c ''+-.''"

definition getScheme :: "string \<Rightarrow> (string \<times> string) option" where
  "getScheme s =
     (let pre = takeWhile isSchemeChar s; rest = dropWhile isSchemeChar s
      in if s \<noteq> [] \<and> hd s = CHR '':'' then None
         else if pre \<noteq> [] \<and> (isLower (hd pre) \<or> isUpper (hd pre)) \<and> rest \<noteq> [] \<and> hd rest = CHR '':''
         then Some (pre, tl rest) else Some ([], s))"

definition toLowerChar :: "char \<Rightarrow> char" where
  "toLowerChar c = (if isUpper c then char_of ((of_char c :: nat) + 32) else c)"

definition validOptionalPort :: "string \<Rightarrow> bool" where
  "validOptionalPort p \<longleftrightarrow> p = [] \<or> (hd p = CHR '':'' \<and> list_all isDigit (tl p))"

text \<open>The index of the first occurrence of a substring.\<close>

fun indexOf :: "string \<Rightarrow> string \<Rightarrow> nat option" where
  "indexOf p [] = (if p = [] then Some 0 else None)"
| "indexOf p (c # s) = (if hasPrefix (c # s) p then Some 0 else map_option Suc (indexOf p s))"

text \<open>\<open>netip.ParseAddr\<close>, as far as it accepts an IPv6 address: eight groups of up to four hex
  digits, of which \<open>::\<close> abbreviates one or more, the last two possibly written as an IPv4
  address, and a zone.\<close>

definition isHexGroup :: "string \<Rightarrow> bool" where
  "isHexGroup g \<longleftrightarrow> g \<noteq> [] \<and> length g \<le> 4 \<and> list_all isHex g"

definition isIPv4 :: "string \<Rightarrow> bool" where
  "isIPv4 s \<longleftrightarrow> length (splitOn CHR ''.'' s) = 4 \<and>
     list_all (\<lambda>d. d \<noteq> [] \<and> length d \<le> 3 \<and> list_all isDigit d \<and> (length d > 1 \<longrightarrow> hd d \<noteq> CHR ''0'')
                  \<and> digitsVal d \<le> 255) (splitOn CHR ''.'' s)"

text \<open>How many groups a list of fields stands for; the last one may be an IPv4 address.\<close>

fun groupCount :: "bool \<Rightarrow> string list \<Rightarrow> nat option" where
  "groupCount v4 [] = Some 0"
| "groupCount v4 [g] = (if isHexGroup g then Some 1 else if v4 \<and> isIPv4 g then Some 2 else None)"
| "groupCount v4 (g # h # gs) = (if isHexGroup g then map_option Suc (groupCount v4 (h # gs)) else None)"

definition fieldsOf :: "string \<Rightarrow> string list" where
  "fieldsOf s = (if s = [] then [] else splitOn CHR '':'' s)"

definition isIPv6 :: "string \<Rightarrow> bool" where
  "isIPv6 s =
     (let addr = takeWhile (\<lambda>c. c \<noteq> CHR ''%'') s; zone = dropWhile (\<lambda>c. c \<noteq> CHR ''%'') s
      in length zone \<noteq> 1 \<and>
         (case indexOf ''::'' addr of
            None \<Rightarrow> groupCount True (fieldsOf addr) = Some 8
          | Some i \<Rightarrow> (case (groupCount False (fieldsOf (take i addr)), groupCount True (fieldsOf (drop (i + 2) addr))) of
                (Some m, Some n) \<Rightarrow> m + n < 8
              | _ \<Rightarrow> False)))"

text \<open>A host in brackets is an IPv6 address; any other host has at most one colon.\<close>

definition parseBracketHost :: "string \<Rightarrow> string option" where
  "parseBracketHost host =
     (let name = tl (beforeLast CHR '']'' host); port = afterLast CHR '']'' host
      in if CHR '']'' \<notin> set host \<or> CHR ''['' \<in> set (tl host) \<or> \<not> validOptionalPort port then None
         else (case (unescape port encodeHost,
                 case indexOf ''%25'' name of None \<Rightarrow> unescape name encodeHost
                 | Some z \<Rightarrow> (case (unescape (take z name) encodeHost, unescape (drop z name) encodeZone) of
                       (Some a, Some b) \<Rightarrow> Some (a @ b)
                     | _ \<Rightarrow> None)) of
             (Some p, Some n) \<Rightarrow> if isIPv6 n then Some (''['' @ n @ '']'' @ p) else None
           | _ \<Rightarrow> None))"

definition parseHost :: "string \<Rightarrow> string option" where
  "parseHost host =
     (if hasPrefix host ''['' then parseBracketHost host
      else if CHR ''['' \<in> set host \<or> count_list host CHR '':'' > 1 then None
      else if CHR '':'' \<in> set host \<and> \<not> validOptionalPort (CHR '':'' # afterLast CHR '':'' host) then None
      else unescape host encodeHost)"

definition validUserinfo :: "string \<Rightarrow> bool" where
  "validUserinfo s \<longleftrightarrow> list_all (\<lambda>c. isAlnum c \<or> inChars c (quoteChar # ''-._:~!$&()*+,;=%@'')) s"

definition parseUser :: "string \<Rightarrow> Userinfo option" where
  "parseUser s =
     (if CHR '':'' \<notin> set s
      then map_option (\<lambda>n. \<lparr>ui_Username = n, ui_Password = None\<rparr>) (unescape s encodeUserPassword)
      else (case (unescape (fst (cutAt CHR '':'' s)) encodeUserPassword,
                  unescape (snd (cutAt CHR '':'' s)) encodeUserPassword) of
          (Some n, Some p) \<Rightarrow> Some \<lparr>ui_Username = n, ui_Password = Some p\<rparr>
        | _ \<Rightarrow> None))"

definition parseAuthority :: "string \<Rightarrow> (Userinfo option \<times> string) option" where
  "parseAuthority a =
     (if CHR ''@'' \<notin> set a then map_option (\<lambda>h. (None, h)) (parseHost a)
      else (case parseHost (afterLast CHR ''@'' a) of
          None \<Rightarrow> None
        | Some h \<Rightarrow>
            let info = beforeLast CHR ''@'' a in
            if validUserinfo info then map_option (\<lambda>u. (Some u, h)) (parseUser info) else None))"

text \<open>\<open>setPath\<close> and \<open>setFragment\<close>: the raw form is kept only if it is not the default one.\<close>

definition setPath :: "string \<Rightarrow> URL \<Rightarrow> URL option" where
  "setPath p u = (case unescape p encodePath of
       None \<Rightarrow> None
     | Some path \<Rightarrow> Some (u\<lparr>u_Path := path,
           u_RawPath := (if p = escape path encodePath then [] else p)\<rparr>))"

definition setFragment :: "string \<Rightarrow> URL \<Rightarrow> URL option" where
  "setFragment f u = (case unescape f encodeFragment of
       None \<Rightarrow> None
     | Some frag \<Rightarrow> Some (u\<lparr>u_Fragment := frag,
           u_RawFragment := (if f = escape frag encodeFragment then [] else f)\<rparr>))"

text \<open>The query is cut off, or marked as present and empty.\<close>

definition cutQuery :: "string \<Rightarrow> URL \<Rightarrow> string \<times> URL" where
  "cutQuery rest u =
     (if hasSuffix rest ''?'' \<and> count_list rest CHR ''?'' = 1
      then (butlast rest, u\<lparr>u_ForceQuery := True\<rparr>)
      else (fst (cutAt CHR ''?'' rest), u\<lparr>u_RawQuery := snd (cutAt CHR ''?'' rest)\<rparr>))"

definition parseRest :: "string \<Rightarrow> URL \<Rightarrow> URL option" where
  "parseRest rest u =
     (if \<not> hasPrefix rest ''/'' \<and> u_Scheme u \<noteq> [] then Some (u\<lparr>u_Opaque := rest\<rparr>)
      else if \<not> hasPrefix rest ''/'' \<and> CHR '':'' \<in> set (fst (cutAt CHR ''/'' rest)) then None
      else if (u_Scheme u \<noteq> [] \<or> \<not> hasPrefix rest ''///'') \<and> hasPrefix rest ''//'' then
        (let a = drop 2 rest in
         case parseAuthority (takeWhile (\<lambda>c. c \<noteq> CHR ''/'') a) of
           None \<Rightarrow> None
         | Some (user, host) \<Rightarrow>
             setPath (dropWhile (\<lambda>c. c \<noteq> CHR ''/'') a) (u\<lparr>u_User := user, u_Host := host\<rparr>))
      else setPath rest (if u_Scheme u \<noteq> [] \<and> hasPrefix rest ''/'' then u\<lparr>u_OmitHost := True\<rparr> else u))"

definition parseNoFragment :: "string \<Rightarrow> URL option" where
  "parseNoFragment s =
     (if hasCTLByte s then None
      else if s = ''*'' then Some (emptyURL\<lparr>u_Path := ''*''\<rparr>)
      else (case getScheme s of None \<Rightarrow> None
        | Some (scheme, rest) \<Rightarrow>
            (let (rest', u) = cutQuery rest (emptyURL\<lparr>u_Scheme := map toLowerChar scheme\<rparr>)
             in parseRest rest' u)))"

definition urlParse :: "string \<Rightarrow> URL option" where
  "urlParse s =
     (let (u, frag) = cutAt CHR ''#'' s in
      case parseNoFragment u of None \<Rightarrow> None
        | Some url \<Rightarrow> if frag = [] then Some url else setFragment frag url)"

section \<open>String\<close>

definition validEncoded :: "string \<Rightarrow> encoding \<Rightarrow> bool" where
  "validEncoded s mode \<longleftrightarrow>
     list_all (\<lambda>c. inChars c (quoteChar # ''!$&()*+,;=:@[]%'') \<or> \<not> shouldEscape c mode) s"

definition EscapedPath :: "URL \<Rightarrow> string" where
  "EscapedPath u =
     (if u_RawPath u \<noteq> [] \<and> validEncoded (u_RawPath u) encodePath
         \<and> unescape (u_RawPath u) encodePath = Some (u_Path u) then u_RawPath u
      else if u_Path u = ''*'' then ''*'' else escape (u_Path u) encodePath)"

definition EscapedFragment :: "URL \<Rightarrow> string" where
  "EscapedFragment u =
     (if u_RawFragment u \<noteq> [] \<and> validEncoded (u_RawFragment u) encodeFragment
         \<and> unescape (u_RawFragment u) encodeFragment = Some (u_Fragment u) then u_RawFragment u
      else escape (u_Fragment u) encodeFragment)"

definition userString :: "Userinfo \<Rightarrow> string" where
  "userString ui =
     (if ui_Username ui \<noteq> [] \<or> ui_Password ui \<noteq> None
      then escape (ui_Username ui) encodeUserPassword
        @ (case ui_Password ui of None \<Rightarrow> [] | Some p \<Rightarrow> CHR '':'' # escape p encodeUserPassword)
      else [])"

definition authorityString :: "URL \<Rightarrow> string" where
  "authorityString u =
     (if (u_Scheme u \<noteq> [] \<or> u_Host u \<noteq> [] \<or> u_User u \<noteq> None)
         \<and> \<not> (u_OmitHost u \<and> u_Host u = [] \<and> u_User u = None)
      then (if u_Host u \<noteq> [] \<or> u_Path u \<noteq> [] \<or> u_User u \<noteq> None then ''//'' else [])
        @ (case u_User u of None \<Rightarrow> [] | Some ui \<Rightarrow> userString ui @ ''@'')
        @ escape (u_Host u) encodeHost
      else [])"

definition urlString :: "URL \<Rightarrow> string" where
  "urlString u =
     (let scheme = (if u_Scheme u \<noteq> [] then u_Scheme u @ '':'' else []);
          path = EscapedPath u;
          start = scheme @ authorityString u
            @ (if path \<noteq> [] \<and> hd path \<noteq> CHR ''/'' \<and> u_Host u \<noteq> [] then ''/'' else []);
          body = (if u_Opaque u \<noteq> [] then scheme @ u_Opaque u
             else start @ (if start = [] \<and> CHR '':'' \<in> set (fst (cutAt CHR ''/'' path)) then ''./'' else [])
               @ path)
      in body @ (if u_ForceQuery u \<or> u_RawQuery u \<noteq> [] then CHR ''?'' # u_RawQuery u else [])
         @ (if u_Fragment u \<noteq> [] then CHR ''#'' # EscapedFragment u else []))"

section \<open>Escaping loses nothing\<close>


lemma unHex_hexDigit: "n < 16 \<Longrightarrow> isHex (hexDigit n) \<and> unHex (hexDigit n) = n"
  by (auto simp: hexDigit_def isHex_def unHex_def isDigit_def)

lemma unescape_escape_path: "unescape (escape s encodePath) encodePath = Some s"
proof (induction s)
  case Nil
  show ?case by simp
next
  case (Cons c s)
  have "of_char c div 16 < (16 :: nat)"
    using nat_of_char_less_256 [of c] by linarith
  then have "isHex (hexDigit (of_char c div 16)) \<and> unHex (hexDigit (of_char c div 16)) = of_char c div 16"
    by (rule unHex_hexDigit)
  moreover have "isHex (hexDigit (of_char c mod 16)) \<and> unHex (hexDigit (of_char c mod 16)) = of_char c mod 16"
    by (rule unHex_hexDigit) simp
  moreover have "shouldEscape CHR ''%'' encodePath" by code_simp
  ultimately show ?case
    using Cons by (auto simp: escapeAllowed_def)
qed

lemma urlParse_examples:
  "map_option urlString (urlParse ''https://git.example.com/acme/prod'') = Some ''https://git.example.com/acme/prod''"
  "map_option u_Host (urlParse ''ssh://git@[fe80::1%25eth0]:2222/x?y#z'') = Some ''[fe80::1%eth0]:2222''"
  "map_option urlString (urlParse ''git.example.com/a b'') = Some ''git.example.com/a%20b''"
  "urlParse ''https://a:b:c/'' = None" "urlParse '':x'' = None"
  by code_simp+

section \<open>What a host can hold\<close>

definition hostByte :: "char \<Rightarrow> bool" where
  "hostByte c \<longleftrightarrow> c \<noteq> CHR ''/'' \<and> c \<noteq> CHR ''@''"

lemma escaped_in_host: "shouldEscape CHR ''/'' encodeHost" "shouldEscape CHR ''@'' encodeHost"
  "shouldEscape CHR ''/'' encodeZone" "shouldEscape CHR ''@'' encodeZone"
  by code_simp+

lemma isHex_less: "isHex a \<Longrightarrow> unHex a < 16"
  by (auto simp: isHex_def unHex_def isDigit_def)

lemma escapeAllowed_hostByte:
  assumes "escapeAllowed a b mode" and "isHex a" and "isHex b" and "mode = encodeHost \<or> mode = encodeZone"
  shows "hostByte (char_of (16 * unHex a + unHex b))"
proof -
  let ?n = "16 * unHex a + unHex b"
  have n: "?n < 256" using isHex_less [OF assms(2)] isHex_less [OF assms(3)] by linarith
  have code: "(of_char c :: nat) = ?n" if "char_of ?n = c" for c
    using that of_char_of [of ?n] n by auto
  have high: "hostByte (char_of ?n)" if "8 \<le> unHex a"
    using that code [of "CHR ''/''"] code [of "CHR ''@''"] by (auto simp: hostByte_def)
  have percent: "hostByte (char_of ?n)" if "a = CHR ''2''" and "b = CHR ''5'' \<or> b = CHR ''0''"
    using that code [of "CHR ''/''"] code [of "CHR ''@''"]
    by (auto simp: hostByte_def unHex_def isDigit_def)
  have literal: "hostByte (char_of ?n)" if "\<not> shouldEscape (char_of ?n) encodeHost"
    using that escaped_in_host by (auto simp: hostByte_def)
  show ?thesis
    using assms(1,4) high percent literal by (auto simp: escapeAllowed_def split: if_splits)
qed

lemma unescape_hostBytes:
  "mode = encodeHost \<or> mode = encodeZone \<Longrightarrow> unescape s mode = Some r \<Longrightarrow> list_all hostByte r"
proof (induction s mode arbitrary: r rule: unescape.induct)
  case (1 mode)
  then show ?case by simp
next
  case (2 c s mode)
  show ?case
  proof (cases "c = CHR ''%''")
    case True
    with 2(4) obtain a b t r' where s: "s = a # b # t" "isHex a" "isHex b" "escapeAllowed a b mode"
      "unescape t mode = Some r'" "r = char_of (16 * unHex a + unHex b) # r'"
      by (auto split: list.splits if_splits)
    with 2(1) [OF True] 2(3) have "list_all hostByte r'" by blast
    moreover have "hostByte (char_of (16 * unHex a + unHex b))"
      using escapeAllowed_hostByte s(2-4) 2(3) by blast
    ultimately show ?thesis by (simp add: s(6))
  next
    case False
    with 2(4) obtain r' where s: "unescape s mode = Some r'" "r = c # r'"
      "\<not> ((mode = encodeHost \<or> mode = encodeZone) \<and> (of_char c :: nat) < 128 \<and> shouldEscape c mode)"
      by (auto split: if_splits)
    with 2(2) [OF False s(3)] 2(3) have "list_all hostByte r'" by blast
    moreover have "hostByte c"
    proof -
      have "shouldEscape c mode \<and> (of_char c :: nat) < 128" if "c = CHR ''/'' \<or> c = CHR ''@''"
        using that 2(3) escaped_in_host by auto
      with s(3) 2(3) show ?thesis by (auto simp: hostByte_def)
    qed
    ultimately show ?thesis by (simp add: s(2))
  qed
qed

lemmas unescape_host = unescape_hostBytes [of encodeHost, simplified]
lemmas unescape_zone = unescape_hostBytes [of encodeZone, simplified]

lemma bracket_hostByte: "hostByte CHR ''[''" "hostByte CHR '']''"
  by (simp_all add: hostByte_def)

lemma parseBracketHost_hostBytes: "parseBracketHost h = Some r \<Longrightarrow> list_all hostByte r"
  by (auto simp: parseBracketHost_def Let_def bracket_hostByte dest: unescape_host unescape_zone
      split: if_splits option.splits)

lemma parseHost_hostBytes: "parseHost h = Some r \<Longrightarrow> list_all hostByte r"
  by (auto simp: parseHost_def dest: unescape_host parseBracketHost_hostBytes split: if_splits)

lemma setPath_Host: "setPath p u = Some u' \<Longrightarrow> u_Host u' = u_Host u"
  by (auto simp: setPath_def split: option.splits)

lemma setFragment_Host: "setFragment p u = Some u' \<Longrightarrow> u_Host u' = u_Host u"
  by (auto simp: setFragment_def split: option.splits)

lemma parseRest_Host: "parseRest rest u = Some u' \<Longrightarrow> u_Host u = [] \<Longrightarrow> list_all hostByte (u_Host u')"
  by (auto simp: parseRest_def Let_def parseAuthority_def split: if_splits option.splits
      dest!: setPath_Host dest: parseHost_hostBytes)

lemma urlParse_Host:
  assumes "urlParse s = Some u"
  shows "list_all hostByte (u_Host u)"
proof -
  have *: "list_all hostByte (u_Host v)" if "parseNoFragment t = Some v" for t v
    using that by (auto simp: parseNoFragment_def cutQuery_def emptyURL_def split: if_splits option.splits prod.splits
        dest!: parseRest_Host)
  from assms show ?thesis
    by (fastforce simp: urlParse_def split: prod.splits option.splits if_splits dest: * setFragment_Host)
qed

end
