(* ===== verification/Manager.thy ===== *)
theory Manager
  imports RepoApi GoUrl GitRepo
begin

text \<open>
  How a git client is made (\<open>git/manager/manager.go\<close>): the options of a repository, the registry of
  implementations, the endpoint of the SSH access, and \<open>GetGitClient\<close>, the factory the GitRepo
  controller uses. The text of an error of \<open>net/url\<close> is shortened to the URL it is about.
\<close>

section \<open>Options and implementations\<close>

record Credentials =
  crd_Token :: string

record 'w RepoOptions =
  ro_Credentials :: Credentials
  ro_DeployKeys :: "DeployKey gomap"
  ro_URL :: URL
  ro_SSHHost :: string
  ro_Path :: string
  ro_RepoName :: string
  ro_DisplayName :: string
  ro_TemplateFiles :: "string gomap"
  ro_DeletionPolicy :: string
  ro_Clock :: "('w, time) go option"

definition RepoOptions_Now :: "'w Runtime \<Rightarrow> 'w RepoOptions \<Rightarrow> ('w, time) go" where
  "RepoOptions_Now rt ops = (case ro_Clock ops of None \<Rightarrow> rt_Now rt | Some now \<Rightarrow> now)"

text \<open>\<open>IsType\<close> returns a flag and an error, both of which may be set.\<close>

record ('r, 'w) Implementation =
  im_IsType :: "URL \<Rightarrow> bool \<times> gerr option"
  im_New :: "'w RepoOptions \<Rightarrow> gerr + 'r"

text \<open>\<open>Register\<close> appends to the registry.\<close>

definition Register :: "('r, 'w) Implementation \<Rightarrow> ('r, 'w) Implementation list \<Rightarrow> ('r, 'w) Implementation list" where
  "Register i implementations = implementations @ [i]"

text \<open>The registered implementations are a global variable of the package, here an argument.\<close>

fun NewRepo :: "('r, 'w) Implementation list \<Rightarrow> 'w RepoOptions \<Rightarrow> gerr + 'r" where
  "NewRepo [] ops = Inl (ErrNew (''no git implementation found for given url: '' @ urlString (ro_URL ops) @ '' ''))"
| "NewRepo (imp # imps) ops = (case im_IsType imp (ro_URL ops) of
       (True, _) \<Rightarrow> im_New imp ops
     | (False, Some err) \<Rightarrow> Inl err
     | (False, None) \<Rightarrow> NewRepo imps ops)"

section \<open>The endpoint of the SSH access\<close>

definition parseError :: "string \<Rightarrow> gerr" where
  "parseError s = ErrNew (''parse '' @ Quote s)"

definition parseSSHEndpoint :: "string \<Rightarrow> gerr + string" where
  "parseSSHEndpoint raw =
     (let trimmed = TrimSpace raw in
      if trimmed = '''' then Inr ''''
      else (case urlParse trimmed of
          None \<Rightarrow> Inl (parseError trimmed)
        | Some parsed \<Rightarrow>
            if u_Host parsed \<noteq> '''' then Inr (u_Host parsed)
            else let host = TrimSpace (u_Path parsed);
                     host1 = (if CHR ''@'' \<in> set host then afterLast CHR ''@'' host else host);
                     host2 = takeWhile (\<lambda>c. c \<noteq> CHR ''/'') host1
                 in if host = '''' \<or> host2 = '''' then Inl (ErrNew ''ssh endpoint has no host'') else Inr host2))"

section \<open>GetGitClient\<close>

definition gitSecretName :: "GitRepo \<Rightarrow> NamespacedName" where
  "gitSecretName instance =
     (let ref = gt_APISecretRef (repoTemplate instance) in
      \<lparr>nn_Namespace = (if sr_Namespace ref \<noteq> '''' then sr_Namespace ref else om_Namespace (gr_Meta instance)),
       nn_Name = sr_Name ref\<rparr>)"

definition mergedDeployKeys :: "GitRepo \<Rightarrow> DeployKey gomap" where
  "mergedDeployKeys instance =
     fmmap dks_DeployKey (gst_GeneratedDeployKeys (gr_Status instance))
     ++\<^sub>f gt_DeployKeys (repoTemplate instance)"

text \<open>The options, from the secret of the git server.\<close>

definition clientOptions :: "GitRepo \<Rightarrow> Secret \<Rightarrow> gerr + 'w RepoOptions" where
  "clientOptions instance secret =
     (let sname = om_Name (sec_Meta secret); t = repoTemplate instance in
      case fmlookup (sec_Data secret) SecretEndpointName of
        None \<Rightarrow> Inl (ErrNew (''secret '' @ sname @ '' does not contain endpoint data''))
      | Some endpoint \<Rightarrow>
      (case fmlookup (sec_Data secret) SecretTokenName of
        None \<Rightarrow> Inl (ErrNew (''secret '' @ sname @ '' does not contain token''))
      | Some token \<Rightarrow>
      (let repoURL = endpoint @ ''/'' @ gt_Path t @ ''/'' @ gt_RepoName t in
       case urlParse repoURL of
        None \<Rightarrow> Inl (parseError repoURL)
      | Some url \<Rightarrow>
      (case (case fmlookup (sec_Data secret) SecretSSHEndpointName of
               None \<Rightarrow> Inr '''' | Some raw \<Rightarrow> parseSSHEndpoint raw) of
        Inl err \<Rightarrow> Inl (Wrap (''invalid ssh endpoint in secret '' @ sname @ '': '') err)
      | Inr sshHost \<Rightarrow>
          Inr \<lparr>ro_Credentials = \<lparr>crd_Token = token\<rparr>, ro_DeployKeys = mergedDeployKeys instance,
            ro_URL = url, ro_SSHHost = sshHost, ro_Path = gt_Path t, ro_RepoName = gt_RepoName t,
            ro_DisplayName = gt_DisplayName t, ro_TemplateFiles = gt_TemplateFiles t,
            ro_DeletionPolicy = gt_DeletionPolicy t, ro_Clock = None\<rparr>))))"

definition GetGitClient :: "('r, 'w) Implementation list \<Rightarrow> ('r, 'w) RepoI \<Rightarrow> 'w Client
    \<Rightarrow> ('r, 'w) gitClientFactory" where
  "GetGitClient imps ri k instance =
     bnd (k_GetSecret k (gitSecretName instance)) (\<lambda>r. case r of
       Inl err \<Rightarrow> ret (Inl (ErrNew (''error getting git secret: '' @ errString err)))
     | Inr secret \<Rightarrow>
         let hostKeys = lookupStr (sec_Data secret) SecretHostKeysName in
         (case clientOptions instance secret of
           Inl err \<Rightarrow> ret (Inl err)
         | Inr ops \<Rightarrow> (case NewRepo imps ops of
             Inl err \<Rightarrow> ret (Inl err)
           | Inr repo \<Rightarrow> bnd (ri_Connect ri repo) (\<lambda>(repo', e). ret (case e of
               Some err \<Rightarrow> Inl err
             | None \<Rightarrow> Inr (repo', hostKeys))))))"

section \<open>Helper lemmas\<close>

lemma mergedDeployKeys_lookup:
  "fmlookup (mergedDeployKeys g) name = (case fmlookup (gt_DeployKeys (repoTemplate g)) name of
     Some key \<Rightarrow> Some key
   | None \<Rightarrow> map_option dks_DeployKey (fmlookup (gst_GeneratedDeployKeys (gr_Status g)) name))"
  by (auto simp: mergedDeployKeys_def split: option.splits)

section \<open>Properties\<close>

lemma afterLast_free: "c \<notin> set (afterLast c s)"
  by (auto simp: afterLast_def dest: set_takeWhileD)

text \<open>C39: The SSH endpoint of a secret is either blank, and then there is none, or yields the
  name of a host (with a port, perhaps): it is not empty and holds neither a slash nor an at sign,
  so nothing of a path or a user name can slip into the clone URL.\<close>

theorem ssh_endpoint_is_a_host:
  assumes "parseSSHEndpoint raw = Inr h"
  shows "(h = '''' \<longleftrightarrow> TrimSpace raw = '''') \<and> CHR ''/'' \<notin> set h \<and> CHR ''@'' \<notin> set h"
proof (cases "TrimSpace raw = ''''")
  case True
  with assms show ?thesis by (simp add: parseSSHEndpoint_def)
next
  case False
  with assms obtain u where u: "urlParse (TrimSpace raw) = Some u"
    and h: "if u_Host u \<noteq> '''' then h = u_Host u
      else h \<noteq> '''' \<and> h = takeWhile (\<lambda>c. c \<noteq> CHR ''/'') (if CHR ''@'' \<in> set (TrimSpace (u_Path u))
         then afterLast CHR ''@'' (TrimSpace (u_Path u)) else TrimSpace (u_Path u))"
    by (auto simp: parseSSHEndpoint_def Let_def split: option.splits if_splits)
  show ?thesis
  proof (cases "u_Host u = ''''")
    case True
    with h afterLast_free False show ?thesis by (auto dest: set_takeWhileD split: if_splits)
  next
    case host: False
    with h urlParse_Host [OF u] False show ?thesis by (auto simp: list_all_iff hostByte_def)
  qed
qed

lemma ssh_endpoint_is_a_host_witness:
  "parseSSHEndpoint '' ssh://git@ssh.example.com:2222/x '' = Inr ''ssh.example.com:2222'' \<and>
   CHR ''/'' \<notin> set ''ssh.example.com:2222'' \<and> CHR ''@'' \<notin> set ''ssh.example.com:2222''"
proof -
  have "parseSSHEndpoint '' ssh://git@ssh.example.com:2222/x '' = Inr ''ssh.example.com:2222''"
    by code_simp
  with ssh_endpoint_is_a_host [OF this] show ?thesis by blast
qed

end
