(* ===== verification/Gitlab.thy ===== *)
theory Gitlab
  imports Manager
begin

text \<open>
  The GitLab implementation of a repository (\<open>git/gitlab/gitlab.go\<close>) and the comparison of deploy
  keys (\<open>git/helpers/helpers.go\<close>). The REST client is a library: a record of the calls the code
  makes, each a function of the world, over the fields of GitLab's objects that the code reads or
  sends. A list of pointers is a list of options, because the code checks some for nil and
  dereferences others. A handle is the struct behind the pointer; its methods return it as they
  leave it. Dereferencing a nil client or project panics.
\<close>

section \<open>GitLab's objects and calls\<close>

record GProject =
  gp_ID :: int
  gp_Name :: string
  gp_Description :: string

record GDeployKey =
  gk_ID :: int
  gk_Title :: string
  gk_Key :: string
  gk_CanPush :: bool

record GAccessToken =
  gat_ID :: int
  gat_Active :: bool
  gat_Revoked :: bool
  gat_ExpiresAt :: "time option"
  gat_Token :: string

record GVariable =
  gv_Key :: string
  gv_Value :: string
  gv_Description :: string
  gv_Protected :: bool
  gv_Masked :: bool
  gv_Raw :: bool

record CreateProjectOptions =
  cpo_Path :: string
  cpo_Name :: string
  cpo_Description :: string
  cpo_NamespaceID :: int

record CreateTokenOptions =
  cto_Name :: string
  cto_ExpiresAt :: time
  cto_Scopes :: "string list"
  cto_AccessLevel :: nat

record VariableOptions =
  vo_Value :: string
  vo_Protected :: "bool option"
  vo_Masked :: "bool option"
  vo_Raw :: "bool option"

datatype FileAction = FileCreate | FileDelete

record CommitAction =
  ca_FilePath :: string
  ca_Content :: string
  ca_Action :: FileAction

record CommitOptions =
  co_AuthorEmail :: string
  co_AuthorName :: string
  co_Branch :: string
  co_CommitMessage :: string
  co_Actions :: "CommitAction list"

record 'w GitlabAPI =
  ga_GetProject :: "string \<Rightarrow> ('w, gerr + GProject) go"
  ga_CreateProject :: "CreateProjectOptions \<Rightarrow> ('w, gerr + GProject) go"
  ga_EditProject :: "int \<Rightarrow> string \<Rightarrow> ('w, gerr + GProject) go"
  ga_ArchiveProject :: "int \<Rightarrow> ('w, gerr option) go"
  ga_DeleteProject :: "int \<Rightarrow> ('w, gerr option) go"
  ga_GetNamespace :: "string \<Rightarrow> ('w, gerr + int) go"
  ga_ListProjectDeployKeys :: "int \<Rightarrow> ('w, gerr + GDeployKey option list) go"
  ga_AddDeployKey :: "int \<Rightarrow> string \<Rightarrow> string \<Rightarrow> bool \<Rightarrow> ('w, gerr option) go"
  ga_DeleteDeployKey :: "int \<Rightarrow> int \<Rightarrow> ('w, gerr option) go"
  ga_ListTree :: "int \<Rightarrow> int \<Rightarrow> int \<Rightarrow> ('w, gerr + string option list \<times> int) go"
  ga_CreateCommit :: "int \<Rightarrow> CommitOptions \<Rightarrow> ('w, gerr option) go"
  ga_ListProjectAccessTokens :: "int \<Rightarrow> ('w, gerr + GAccessToken option list) go"
  ga_CreateProjectAccessToken :: "int \<Rightarrow> CreateTokenOptions \<Rightarrow> ('w, gerr + GAccessToken) go"
  ga_RemoveVariable :: "int \<Rightarrow> string \<Rightarrow> ('w, gerr option) go"
  ga_ListVariables :: "int \<Rightarrow> ('w, gerr + GVariable option list) go"
  ga_UpdateVariable :: "int \<Rightarrow> string \<Rightarrow> VariableOptions \<Rightarrow> ('w, gerr option) go"
  ga_CreateVariable :: "int \<Rightarrow> string \<Rightarrow> VariableOptions \<Rightarrow> ('w, gerr option) go"

text \<open>\<open>gitlab.NewClient\<close> with a token and a base URL.\<close>

type_synonym 'w NewClient = "string \<Rightarrow> string \<Rightarrow> gerr + 'w GitlabAPI"

section \<open>The handle\<close>

record 'w Gitlab =
  gl_client :: "'w GitlabAPI option"
  gl_credentials :: Credentials
  gl_project :: "GProject option"
  gl_deployKeys :: "DeployKey gomap"
  gl_ops :: "'w RepoOptions"

definition gitlabNew :: "'w RepoOptions \<Rightarrow> 'w Gitlab" where
  "gitlabNew options = \<lparr>gl_client = None, gl_credentials = ro_Credentials options, gl_project = None,
     gl_deployKeys = ro_DeployKeys options, gl_ops = options\<rparr>"

definition withClient :: "'w Gitlab \<Rightarrow> ('w GitlabAPI \<Rightarrow> ('w, 'a) go) \<Rightarrow> ('w, 'a) go" where
  "withClient g f = (case gl_client g of None \<Rightarrow> crash NilDeref | Some api \<Rightarrow> f api)"

definition withProject :: "'w Gitlab \<Rightarrow> ('w GitlabAPI \<Rightarrow> int \<Rightarrow> ('w, 'a) go) \<Rightarrow> ('w, 'a) go" where
  "withProject g f = withClient g (\<lambda>api. case gl_project g of None \<Rightarrow> crash NilDeref | Some p \<Rightarrow> f api (gp_ID p))"

definition gitlabConnect :: "'w NewClient \<Rightarrow> 'w Gitlab \<Rightarrow> ('w, 'w Gitlab \<times> gerr option) go" where
  "gitlabConnect newClient g =
     (case newClient (crd_Token (gl_credentials g))
             (u_Scheme (ro_URL (gl_ops g)) @ ''://'' @ u_Host (ro_URL (gl_ops g))) of
        Inl err \<Rightarrow> ret (g\<lparr>gl_client := None\<rparr>, Some err)
      | Inr api \<Rightarrow> ret (g\<lparr>gl_client := Some api\<rparr>, None))"

definition FullURL :: "'w Gitlab \<Rightarrow> URL" where
  "FullURL g =
     (let url = ro_URL (gl_ops g);
          ssh = url\<lparr>u_Scheme := ''ssh'', u_User := Some \<lparr>ui_Username = ''git'', ui_Password = None\<rparr>\<rparr>;
          host = ro_SSHHost (gl_ops g);
          trimmed = (if hasPrefix (u_Path url) ''/'' then tl (u_Path url) else u_Path url);
          path = (if host \<noteq> '''' \<and> u_Host url = '''' \<and> CHR ''/'' \<in> set trimmed
                  then CHR ''/'' # snd (cutAt CHR ''/'' trimmed) else u_Path url)
      in ssh\<lparr>u_Host := (if host \<noteq> '''' then host else u_Host url), u_Path := path @ ''.git''\<rparr>)"

section \<open>Comparing deploy keys\<close>

definition zeroDeployKey :: DeployKey where
  "zeroDeployKey = \<lparr>dk_Type = '''', dk_Key = '''', dk_WriteAccess = False\<rparr>"

definition trimKey :: "DeployKey \<Rightarrow> DeployKey" where
  "trimKey key = key\<lparr>dk_Key := TrimSpace (dk_Key key)\<rparr>"

definition lookupKey :: "DeployKey gomap \<Rightarrow> string \<Rightarrow> DeployKey" where
  "lookupKey m k = (case fmlookup m k of None \<Rightarrow> zeroDeployKey | Some v \<Rightarrow> v)"

definition CompareKeys :: "DeployKey gomap \<Rightarrow> DeployKey gomap \<Rightarrow> DeployKey gomap" where
  "CompareKeys keySetA keySetB =
     fmfilter (\<lambda>k. trimKey (lookupKey keySetB k) \<noteq> trimKey (lookupKey keySetA k)) keySetA"

section \<open>Projects\<close>

definition getProject :: "'w Gitlab \<Rightarrow> ('w, 'w Gitlab \<times> gerr option) go" where
  "getProject g = withClient g (\<lambda>api.
     bnd (ga_GetProject api (ro_Path (gl_ops g) @ ''/'' @ ro_RepoName (gl_ops g))) (\<lambda>r. ret (case r of
       Inl err \<Rightarrow> (g, Some (if isGitlabNotFound err then ErrRepoNotFound else err))
     | Inr project \<Rightarrow> (g\<lparr>gl_project := Some project\<rparr>, None))))"

definition getNamespaceID :: "'w Gitlab \<Rightarrow> ('w, gerr + int) go" where
  "getNamespaceID g = withClient g (\<lambda>api. ga_GetNamespace api (ro_Path (gl_ops g)))"

text \<open>The loop over the keys to add: it goes on after an error and counts the errors.\<close>

fun addDeployKeys :: "'w Gitlab \<Rightarrow> (string \<times> DeployKey) list \<Rightarrow> ('w, nat) go" where
  "addDeployKeys g [] = ret 0"
| "addDeployKeys g ((k, v) # kvs) = withProject g (\<lambda>api id.
     bnd (ga_AddDeployKey api id k (dk_Type v @ '' '' @ dk_Key v) (dk_WriteAccess v)) (\<lambda>e.
     bnd (addDeployKeys g kvs) (\<lambda>n. ret (case e of None \<Rightarrow> n | Some _ \<Rightarrow> Suc n))))"

definition setDeployKeys :: "'w Runtime \<Rightarrow> 'w Gitlab \<Rightarrow> DeployKey gomap \<Rightarrow> ('w, gerr option) go" where
  "setDeployKeys rt g localKeys = bnd (rangeOver rt localKeys) (\<lambda>kvs. bnd (addDeployKeys g kvs) (\<lambda>n.
     ret (if n > 0 then Some (ErrNew (decNat n @ '' keys failed to be added'')) else None)))"

definition gitlabCreate :: "'w Runtime \<Rightarrow> 'w Gitlab \<Rightarrow> ('w, 'w Gitlab \<times> gerr option) go" where
  "gitlabCreate rt g = bnd (getNamespaceID g) (\<lambda>r. case r of
       Inl err \<Rightarrow> ret (g, Some err)
     | Inr nsID \<Rightarrow> withClient g (\<lambda>api.
         bnd (ga_CreateProject api \<lparr>cpo_Path = ro_RepoName (gl_ops g), cpo_Name = ro_RepoName (gl_ops g),
                cpo_Description = ro_DisplayName (gl_ops g), cpo_NamespaceID = nsID\<rparr>) (\<lambda>r. case r of
           Inl err \<Rightarrow> ret (g, Some err)
         | Inr project \<Rightarrow>
             let g1 = g\<lparr>gl_project := Some project\<rparr> in
             bnd (setDeployKeys rt g1 (gl_deployKeys g)) (\<lambda>e. ret (g1, e)))))"

section \<open>Updating\<close>

text \<open>\<open>splittedKey[1]\<close> panics for a key without a space.\<close>

fun remoteKeys :: "GDeployKey option list \<Rightarrow> DeployKey gomap \<Rightarrow> ('w, DeployKey gomap) go" where
  "remoteKeys [] m = ret m"
| "remoteKeys (None # ks) m = crash NilDeref"
| "remoteKeys (Some key # ks) m =
     (let parts = splitOn CHR '' '' (gk_Key key) in
      if length parts < 2 then crash IndexRange
      else remoteKeys ks (fmupd (gk_Title key) \<lparr>dk_Type = parts ! 0, dk_Key = parts ! 1,
             dk_WriteAccess = gk_CanPush key\<rparr> m))"

definition getDeployKeys :: "'w Gitlab \<Rightarrow> ('w, gerr + DeployKey gomap) go" where
  "getDeployKeys g = withProject g (\<lambda>api id. bnd (ga_ListProjectDeployKeys api id) (\<lambda>r. case r of
       Inl err \<Rightarrow> ret (Inl err)
     | Inr ks \<Rightarrow> bnd (remoteKeys ks fmempty) (\<lambda>m. ret (Inr m))))"

text \<open>A deletion that fails is only logged.\<close>

fun deleteListed :: "'w Gitlab \<Rightarrow> DeployKey gomap \<Rightarrow> GDeployKey option list \<Rightarrow> ('w, unit) go" where
  "deleteListed g deleteKeys [] = ret ()"
| "deleteListed g deleteKeys (None # ks) = crash NilDeref"
| "deleteListed g deleteKeys (Some key # ks) =
     (if fmlookup deleteKeys (gk_Title key) \<noteq> None
      then withProject g (\<lambda>api id. bnd (ga_DeleteDeployKey api id (gk_ID key)) (\<lambda>_. deleteListed g deleteKeys ks))
      else deleteListed g deleteKeys ks)"

definition removeDeployKeys :: "'w Gitlab \<Rightarrow> DeployKey gomap \<Rightarrow> ('w, gerr option) go" where
  "removeDeployKeys g deleteKeys = withProject g (\<lambda>api id. bnd (ga_ListProjectDeployKeys api id) (\<lambda>r. case r of
       Inl err \<Rightarrow> ret (Some err)
     | Inr ks \<Rightarrow> bnd (deleteListed g deleteKeys ks) (\<lambda>_. ret None)))"

definition updateDeployKeys :: "'w Runtime \<Rightarrow> 'w Gitlab \<Rightarrow> ('w, bool \<times> gerr option) go" where
  "updateDeployKeys rt g = bnd (getDeployKeys g) (\<lambda>r. case r of
       Inl err \<Rightarrow> ret (False, Some err)
     | Inr remote \<Rightarrow>
         let deleteKeys = CompareKeys remote (gl_deployKeys g);
             deltaKeys = CompareKeys (gl_deployKeys g) remote
         in bnd (if deleteKeys \<noteq> fmempty then removeDeployKeys g deleteKeys else ret None) (\<lambda>e. case e of
              Some err \<Rightarrow> ret (False, Some err)
            | None \<Rightarrow> bnd (if deltaKeys \<noteq> fmempty then setDeployKeys rt g deltaKeys else ret None) (\<lambda>e. case e of
                Some err \<Rightarrow> ret (False, Some err)
              | None \<Rightarrow> ret (deltaKeys \<noteq> fmempty, None))))"

definition updateDisplayName :: "'w Gitlab \<Rightarrow> ('w, 'w Gitlab \<times> bool \<times> gerr option) go" where
  "updateDisplayName g = bnd (getProject g) (\<lambda>(g1, e). case e of
       Some err \<Rightarrow> ret (g1, False, Some err)
     | None \<Rightarrow> (case gl_project g1 of None \<Rightarrow> crash NilDeref
         | Some project \<Rightarrow>
             if gp_Description project \<noteq> ro_DisplayName (gl_ops g1)
             then withClient g1 (\<lambda>api. bnd (ga_EditProject api (gp_ID project) (ro_DisplayName (gl_ops g1))) (\<lambda>r. ret (case r of
                    Inl err \<Rightarrow> (g1, False, Some err)
                  | Inr project' \<Rightarrow> (g1\<lparr>gl_project := Some project'\<rparr>, True, None))))
             else ret (g1, False, None)))"

definition gitlabUpdate :: "'w Runtime \<Rightarrow> 'w Gitlab \<Rightarrow> ('w, 'w Gitlab \<times> bool \<times> gerr option) go" where
  "gitlabUpdate rt g = bnd (updateDeployKeys rt g) (\<lambda>(keysUpdated, e). case e of
       Some err \<Rightarrow> ret (g, False, Some err)
     | None \<Rightarrow> bnd (updateDisplayName g) (\<lambda>(g1, nameUpdated, e). ret (case e of
         Some err \<Rightarrow> (g1, False, Some err)
       | None \<Rightarrow> (g1, keysUpdated \<or> nameUpdated, None))))"

section \<open>Removal\<close>

definition removeWith :: "(int \<Rightarrow> 'w GitlabAPI \<Rightarrow> ('w, gerr option) go) \<Rightarrow> string \<Rightarrow> 'w Gitlab
    \<Rightarrow> ('w, 'w Gitlab \<times> gerr option) go" where
  "removeWith call verb g = bnd (getProject g) (\<lambda>(g1, e). case e of
       Some err \<Rightarrow> ret (g1, Some err)
     | None \<Rightarrow> (case gl_project g1 of
         None \<Rightarrow> ret (g1, Some (ErrNew (''no project '' @ ro_Path (gl_ops g1) @ '' found, can'' @ CHR 0x27 # ''t '' @ verb)))
       | Some project \<Rightarrow> withClient g1 (\<lambda>api. bnd (call (gp_ID project) api) (\<lambda>e. ret (g1, e)))))"

definition gitlabArchive :: "'w Gitlab \<Rightarrow> ('w, 'w Gitlab \<times> gerr option) go" where
  "gitlabArchive = removeWith (\<lambda>id api. ga_ArchiveProject api id) ''archive''"

definition gitlabDelete :: "'w Gitlab \<Rightarrow> ('w, 'w Gitlab \<times> gerr option) go" where
  "gitlabDelete = removeWith (\<lambda>id api. ga_DeleteProject api id) ''delete''"

text \<open>Every branch logs the name of the project, which must be there.\<close>

definition gitlabRemove :: "'w Gitlab \<Rightarrow> ('w, 'w Gitlab \<times> gerr option) go" where
  "gitlabRemove g = (case gl_project g of
       None \<Rightarrow> crash NilDeref
     | Some _ \<Rightarrow>
         if ro_DeletionPolicy (gl_ops g) = DeletePolicy then gitlabDelete g
         else if ro_DeletionPolicy (gl_ops g) = ArchivePolicy then gitlabArchive g
         else ret (g, None))"

section \<open>Template files\<close>

definition ListItemsPerPage :: int where
  "ListItemsPerPage = 100"

text \<open>
  The loop over the pages of the tree ends when the server names no next page, so the server
  decides how often it runs: the model runs it at most \<open>fuel\<close> times and diverges after that.
  \<open>tree.Path\<close> panics for a nil entry.
\<close>

fun treePaths :: "string option list \<Rightarrow> ('w, string list) go" where
  "treePaths [] = ret []"
| "treePaths (None # ts) = crash NilDeref"
| "treePaths (Some path # ts) = bnd (treePaths ts) (\<lambda>ps. ret (path # ps))"

fun listPages :: "nat \<Rightarrow> 'w Gitlab \<Rightarrow> int \<Rightarrow> string list \<Rightarrow> ('w, gerr + string list) go" where
  "listPages fuel g page seen =
     (if page \<le> 0 then ret (Inr seen)
      else (case fuel of 0 \<Rightarrow> diverge
        | Suc fuel' \<Rightarrow> withProject g (\<lambda>api id.
            bnd (ga_ListTree api id ListItemsPerPage page) (\<lambda>r. case r of
              Inl err \<Rightarrow> ret (Inl err)
            | Inr (trees, nextPage) \<Rightarrow> bnd (treePaths trees) (\<lambda>ps. listPages fuel' g nextPage (seen @ ps))))))"

declare listPages.simps [simp del]

definition createFile :: "string \<Rightarrow> string \<Rightarrow> CommitFile" where
  "createFile name content = \<lparr>cf_FileName = name, cf_Content = content, cf_Delete = False\<rparr>"

definition pendingFiles :: "(string \<times> string) list \<Rightarrow> CommitFile list" where
  "pendingFiles files = map (\<lambda>(n, c). createFile n c) (filter (\<lambda>(n, c). c \<noteq> DeletionMagicString) files)"

definition changedFiles :: "string list \<Rightarrow> (string \<times> string) list \<Rightarrow> CommitFile list" where
  "changedFiles present files = concat (map (\<lambda>(name, content).
     if name \<in> set present \<and> content = DeletionMagicString
     then [\<lparr>cf_FileName = name, cf_Content = content, cf_Delete = True\<rparr>]
     else if name \<notin> set present \<and> content \<noteq> DeletionMagicString then [createFile name content]
     else []) files)"

definition compareFiles :: "nat \<Rightarrow> 'w Runtime \<Rightarrow> 'w Gitlab \<Rightarrow> ('w, gerr + CommitFile list) go" where
  "compareFiles fuel rt g = bnd (listPages fuel g 1 []) (\<lambda>r. case r of
       Inl err \<Rightarrow>
         if isGitlabNotFound err
         then bnd (rangeOver rt (ro_TemplateFiles (gl_ops g))) (\<lambda>files. ret (Inr (pendingFiles files)))
         else ret (Inl (ErrNew (''cannot list files in repository: '' @ errString err)))
     | Inr present \<Rightarrow>
         bnd (rangeOver rt (ro_TemplateFiles (gl_ops g))) (\<lambda>files. ret (Inr (changedFiles present files))))"

definition getCommitOptions :: CommitOptions where
  "getCommitOptions = \<lparr>co_AuthorEmail = ''lieutenant-operator@syn.local'', co_AuthorName = ''Lieutenant Operator'',
     co_Branch = ''master'', co_CommitMessage = ''Update cluster files'', co_Actions = []\<rparr>"

definition commitAction :: "CommitFile \<Rightarrow> CommitAction" where
  "commitAction file = \<lparr>ca_FilePath = cf_FileName file, ca_Content = cf_Content file,
     ca_Action = (if cf_Delete file then FileDelete else FileCreate)\<rparr>"

definition gitlabCommitTemplateFiles ::
  "nat \<Rightarrow> 'w Runtime \<Rightarrow> 'w Gitlab \<Rightarrow> ('w, gerr option) go" where
  "gitlabCommitTemplateFiles fuel rt g =
     (if ro_TemplateFiles (gl_ops g) = fmempty then ret None
      else bnd (compareFiles fuel rt g) (\<lambda>r. case r of
        Inl err \<Rightarrow> ret (Some err)
      | Inr files \<Rightarrow>
          if files = [] then ret None
          else withProject g (\<lambda>api id. ga_CreateCommit api id
                 (getCommitOptions\<lparr>co_Actions := map commitAction files\<rparr>))))"

section \<open>Access tokens\<close>

definition day :: int where
  "day = 24 * 60 * 60 * 1000000000"

text \<open>The tokens that may still be used; the clock is read for each that gets so far.\<close>

fun validTokens :: "'w Runtime \<Rightarrow> 'w Gitlab \<Rightarrow> GAccessToken option list \<Rightarrow> ('w, GAccessToken list) go" where
  "validTokens rt g [] = ret []"
| "validTokens rt g (None # ts) = validTokens rt g ts"
| "validTokens rt g (Some token # ts) =
     (if \<not> gat_Active token \<or> gat_Revoked token then validTokens rt g ts
      else (case gat_ExpiresAt token of
          None \<Rightarrow> validTokens rt g ts
        | Some expires \<Rightarrow> bnd (RepoOptions_Now rt (gl_ops g)) (\<lambda>now.
            if expires < now - 10 * day then validTokens rt g ts
            else bnd (validTokens rt g ts) (\<lambda>rest. ret (token # rest)))))"

definition expiry :: "GAccessToken \<Rightarrow> time" where
  "expiry token = (case gat_ExpiresAt token of None \<Rightarrow> zeroTime | Some t \<Rightarrow> t)"

text \<open>\<open>slices.SortFunc\<close>, latest expiry first; it is not stable, so tokens that expire together come
  in any order.\<close>

definition sortTokens :: "'w Runtime \<Rightarrow> GAccessToken list \<Rightarrow> ('w, GAccessToken list) go" where
  "sortTokens rt ts = bnd (rt_SortHint rt) (\<lambda>hint. ret (sort_key (\<lambda>t. - expiry t) (permute hint ts)))"

definition reusableToken :: "string option \<Rightarrow> GAccessToken list \<Rightarrow> GAccessToken option" where
  "reusableToken uid ts = (case uid of
       None \<Rightarrow> (case ts of [] \<Rightarrow> None | t # _ \<Rightarrow> Some t)
     | Some u \<Rightarrow> find (\<lambda>t. FormatInt (gat_ID t) = u) ts)"

definition createToken :: "'w GitlabAPI \<Rightarrow> int \<Rightarrow> string \<Rightarrow> time \<Rightarrow> ('w, gerr + ProjectAccessToken) go" where
  "createToken api pid name now =
     bnd (ga_CreateProjectAccessToken api pid \<lparr>cto_Name = name, cto_ExpiresAt = now + 30 * day,
            cto_Scopes = [''write_repository''], cto_AccessLevel = 40\<rparr>) (\<lambda>r. ret (case r of
       Inl err \<Rightarrow> Inl (Wrap ''error response from gitlab when creating ProjectAccessToken: '' err)
     | Inr token \<Rightarrow> Inr \<lparr>pat_UID = FormatInt (gat_ID token), pat_Token = gat_Token token,
         pat_ExpiresAt = expiry token\<rparr>))"

definition gitlabEnsureProjectAccessToken ::
  "'w Runtime \<Rightarrow> 'w Gitlab \<Rightarrow> string \<Rightarrow> string option \<Rightarrow> ('w, gerr + ProjectAccessToken) go" where
  "gitlabEnsureProjectAccessToken rt g name uid = withProject g (\<lambda>api id.
     bnd (ga_ListProjectAccessTokens api id) (\<lambda>r. case r of
       Inl err \<Rightarrow> ret (Inl err)
     | Inr at \<Rightarrow>
         bnd (validTokens rt g at) (\<lambda>valid.
         bnd (sortTokens rt valid) (\<lambda>validATs. case reusableToken uid validATs of
           Some token \<Rightarrow> ret (Inr \<lparr>pat_UID = FormatInt (gat_ID token), pat_Token = '''', pat_ExpiresAt = expiry token\<rparr>)
         | None \<Rightarrow> bnd (RepoOptions_Now rt (gl_ops g)) (createToken api id name)))))"

section \<open>CI variables\<close>

fun removeVariables :: "'w Gitlab \<Rightarrow> string list \<Rightarrow> ('w, gerr list) go" where
  "removeVariables g [] = ret []"
| "removeVariables g (v # vs) = withProject g (\<lambda>api id. bnd (ga_RemoveVariable api id v) (\<lambda>e.
     bnd (removeVariables g vs) (\<lambda>errs. ret (case e of
       None \<Rightarrow> errs
     | Some err \<Rightarrow> if isGitlabNotFound err then errs
                    else Wrap (''error removing variable '' @ v @ '': '') err # errs))))"

definition varNeedsUpdate :: "GVariable \<Rightarrow> ManagerEnvVar \<Rightarrow> bool" where
  "varNeedsUpdate remote v \<longleftrightarrow>
     gv_Value remote \<noteq> mev_Value v
     \<or> (mgo_Description (mev_GitlabOptions v) \<noteq> None \<and> Some (gv_Description remote) \<noteq> mgo_Description (mev_GitlabOptions v))
     \<or> (mgo_Protected (mev_GitlabOptions v) \<noteq> None \<and> Some (gv_Protected remote) \<noteq> mgo_Protected (mev_GitlabOptions v))
     \<or> (mgo_Masked (mev_GitlabOptions v) \<noteq> None \<and> Some (gv_Masked remote) \<noteq> mgo_Masked (mev_GitlabOptions v))
     \<or> (mgo_Raw (mev_GitlabOptions v) \<noteq> None \<and> Some (gv_Raw remote) \<noteq> mgo_Raw (mev_GitlabOptions v))"

definition variableOptions :: "ManagerEnvVar \<Rightarrow> VariableOptions" where
  "variableOptions v = \<lparr>vo_Value = mev_Value v, vo_Protected = mgo_Protected (mev_GitlabOptions v),
     vo_Masked = mgo_Masked (mev_GitlabOptions v), vo_Raw = mgo_Raw (mev_GitlabOptions v)\<rparr>"

definition updateOrCreateCIVariable :: "'w Gitlab \<Rightarrow> ManagerEnvVar \<Rightarrow> ('w, gerr option) go" where
  "updateOrCreateCIVariable g v = withProject g (\<lambda>api id.
     bnd (ga_UpdateVariable api id (mev_Name v) (variableOptions v)) (\<lambda>e. case e of
       None \<Rightarrow> ret None
     | Some err \<Rightarrow>
         if \<not> isGitlabNotFound err then ret (Some (Wrap (''error updating variable '' @ mev_Name v @ '': '') err))
         else bnd (ga_CreateVariable api id (mev_Name v) (variableOptions v)) (\<lambda>e. ret (case e of
           None \<Rightarrow> None
         | Some err \<Rightarrow> Some (Wrap (''error creating variable '' @ mev_Name v @ '': '') err)))))"

definition remoteByName :: "GVariable option list \<Rightarrow> GVariable gomap" where
  "remoteByName remote = fold (\<lambda>v m. case v of None \<Rightarrow> m | Some x \<Rightarrow> fmupd (gv_Key x) x m) remote fmempty"

fun applyVariables :: "'w Gitlab \<Rightarrow> string list \<Rightarrow> GVariable gomap \<Rightarrow> ManagerEnvVar list
    \<Rightarrow> ('w, gerr list) go" where
  "applyVariables g managed byName [] = ret []"
| "applyVariables g managed byName (v # vs) =
     (if mev_Name v \<notin> set managed
         \<or> (case fmlookup byName (mev_Name v) of None \<Rightarrow> False | Some remote \<Rightarrow> \<not> varNeedsUpdate remote v)
      then applyVariables g managed byName vs
      else bnd (updateOrCreateCIVariable g v) (\<lambda>e. bnd (applyVariables g managed byName vs) (\<lambda>errs.
             ret (case e of None \<Rightarrow> errs | Some err \<Rightarrow> err # errs))))"

definition gitlabEnsureCIVariables ::
  "'w Gitlab \<Rightarrow> string list \<Rightarrow> ManagerEnvVar list \<Rightarrow> ('w, gerr option) go" where
  "gitlabEnsureCIVariables g managedVariables variables =
     (let toDelete = sort (remdups (filter (\<lambda>n. n \<notin> mev_Name ` set variables) managedVariables)) in
      bnd (removeVariables g toDelete) (\<lambda>errs1. withProject g (\<lambda>api id.
        bnd (ga_ListVariables api id) (\<lambda>r. case r of
          Inl err \<Rightarrow> ret (Some (Wrap ''error listing variables: '' err))
        | Inr remote \<Rightarrow> bnd (applyVariables g managedVariables (remoteByName remote) variables) (\<lambda>errs2.
            ret (combineErrs (errs1 @ errs2)))))))"

section \<open>The implementation\<close>

definition gitlabRepo :: "'w NewClient \<Rightarrow> nat \<Rightarrow> 'w Runtime \<Rightarrow> ('w Gitlab, 'w) RepoI" where
  "gitlabRepo newClient fuel rt = \<lparr>ri_Type = (\<lambda>_. GitLabType), ri_FullURL = (\<lambda>g. urlString (FullURL g)),
     ri_Create = gitlabCreate rt, ri_Update = gitlabUpdate rt, ri_Read = getProject, ri_Remove = gitlabRemove,
     ri_Connect = gitlabConnect newClient,
     ri_CommitTemplateFiles = (\<lambda>g. bnd (gitlabCommitTemplateFiles fuel rt g) (\<lambda>e. ret (g, e))),
     ri_EnsureProjectAccessToken = gitlabEnsureProjectAccessToken rt,
     ri_EnsureCIVariables = gitlabEnsureCIVariables\<rparr>"

definition gitlabImplementation :: "('w Gitlab, 'w) Implementation" where
  "gitlabImplementation = \<lparr>im_IsType = (\<lambda>_. (True, None)), im_New = (\<lambda>ops. Inr (gitlabNew ops))\<rparr>"

text \<open>What is registered when the operator starts: the package \<open>git\<close> imports GitLab only.\<close>

definition registeredImplementations :: "('w Gitlab, 'w) Implementation list" where
  "registeredImplementations = Register gitlabImplementation []"

lemma registeredImplementations_eq: "registeredImplementations = [gitlabImplementation]"
  by (simp add: registeredImplementations_def Register_def)

section \<open>The contract of the interface\<close>

text \<open>No method changes the options, and the options are all that the URL depends on.\<close>

lemma withClient_RetE:
  assumes "withClient g f w = (Ret a, w')"
  obtains api where "gl_client g = Some api" and "f api w = (Ret a, w')"
  using assms by (auto simp: withClient_def split: option.splits)

lemma withProject_RetE:
  assumes "withProject g f w = (Ret a, w')"
  obtains api p where "gl_client g = Some api" and "gl_project g = Some p" and "f api (gp_ID p) w = (Ret a, w')"
  using assms by (auto simp: withProject_def elim!: withClient_RetE split: option.splits)

lemma getProject_ops: "getProject g w = (Ret (g', e), w') \<Longrightarrow> gl_ops g' = gl_ops g"
  by (auto simp: getProject_def elim!: withClient_RetE bnd_RetE split: sum.splits)

lemma create_ops: "gitlabCreate rt g w = (Ret (g', e), w') \<Longrightarrow> gl_ops g' = gl_ops g"
  by (auto simp: gitlabCreate_def Let_def elim!: withClient_RetE bnd_RetE split: sum.splits)

lemma update_ops: "gitlabUpdate rt g w = (Ret (g', b, e), w') \<Longrightarrow> gl_ops g' = gl_ops g"
  by (auto simp: gitlabUpdate_def updateDisplayName_def elim!: withClient_RetE bnd_RetE
      split: sum.splits option.splits if_splits dest!: getProject_ops)

lemma remove_ops: "gitlabRemove g w = (Ret (g', e), w') \<Longrightarrow> gl_ops g' = gl_ops g"
  by (auto simp: gitlabRemove_def gitlabDelete_def gitlabArchive_def removeWith_def
      elim!: withClient_RetE bnd_RetE split: option.splits if_splits dest!: getProject_ops)

lemma FullURL_ops: "gl_ops g' = gl_ops g \<Longrightarrow> FullURL g' = FullURL g"
  by (simp add: FullURL_def)

interpretation gitlab: repo_contract "gitlabRepo newClient fuel rt"
  by unfold_locales
    (auto simp: gitlabRepo_def elim!: bnd_RetE intro!: arg_cong [where f = urlString] FullURL_ops
      dest!: create_ops update_ops getProject_ops remove_ops)

section \<open>A server for the witnesses\<close>

text \<open>A GitLab server with the one project 7, which has no keys, files, tokens or variables, and
  which accepts every call.\<close>

definition idleProject :: GProject where
  "idleProject = \<lparr>gp_ID = 7, gp_Name = ''prod'', gp_Description = ''Prod''\<rparr>"

definition idleGitlab :: "'w GitlabAPI" where
  "idleGitlab = \<lparr>ga_GetProject = (\<lambda>_. ret (Inr idleProject)), ga_CreateProject = (\<lambda>_. ret (Inr idleProject)),
     ga_EditProject = (\<lambda>_ _. ret (Inr idleProject)), ga_ArchiveProject = (\<lambda>_. ret None),
     ga_DeleteProject = (\<lambda>_. ret None), ga_GetNamespace = (\<lambda>_. ret (Inr 3)),
     ga_ListProjectDeployKeys = (\<lambda>_. ret (Inr [])), ga_AddDeployKey = (\<lambda>_ _ _ _. ret None),
     ga_DeleteDeployKey = (\<lambda>_ _. ret None), ga_ListTree = (\<lambda>_ _ _. ret (Inr ([], 0))),
     ga_CreateCommit = (\<lambda>_ _. ret None), ga_ListProjectAccessTokens = (\<lambda>_. ret (Inr [])),
     ga_CreateProjectAccessToken = (\<lambda>_ o1. ret (Inr \<lparr>gat_ID = 11, gat_Active = True, gat_Revoked = False,
        gat_ExpiresAt = Some (cto_ExpiresAt o1), gat_Token = ''glpat''\<rparr>)),
     ga_RemoveVariable = (\<lambda>_ _. ret None), ga_ListVariables = (\<lambda>_. ret (Inr [])),
     ga_UpdateVariable = (\<lambda>_ _ _. ret None), ga_CreateVariable = (\<lambda>_ _ _. ret None)\<rparr>"

lemma idleGitlab_simps [simp]:
  "ga_GetProject idleGitlab path = ret (Inr idleProject)"
  "ga_CreateProject idleGitlab opts = ret (Inr idleProject)"
  "ga_EditProject idleGitlab i d = ret (Inr idleProject)"
  "ga_ArchiveProject idleGitlab i = ret None"
  "ga_DeleteProject idleGitlab i = ret None"
  "ga_GetNamespace idleGitlab path = ret (Inr 3)"
  "ga_ListProjectDeployKeys idleGitlab i = ret (Inr [])"
  "ga_AddDeployKey idleGitlab i t key b = ret None"
  "ga_DeleteDeployKey idleGitlab i j = ret None"
  "ga_ListTree idleGitlab i n m = ret (Inr ([], 0))"
  "ga_CreateCommit idleGitlab i co = ret None"
  "ga_ListProjectAccessTokens idleGitlab i = ret (Inr [])"
  "ga_RemoveVariable idleGitlab i v = ret None"
  "ga_ListVariables idleGitlab i = ret (Inr [])"
  "ga_UpdateVariable idleGitlab i v vo = ret None"
  "ga_CreateVariable idleGitlab i v vo = ret None"
  by (simp_all add: idleGitlab_def)

definition sampleHandle :: "'w GitlabAPI \<Rightarrow> DeployKey gomap \<Rightarrow> string gomap \<Rightarrow> 'w Gitlab" where
  "sampleHandle api keys files = \<lparr>gl_client = Some api, gl_credentials = \<lparr>crd_Token = ''t''\<rparr>,
     gl_project = Some idleProject, gl_deployKeys = keys,
     gl_ops = \<lparr>ro_Credentials = \<lparr>crd_Token = ''t''\<rparr>, ro_DeployKeys = keys, ro_URL = emptyURL, ro_SSHHost = '''',
       ro_Path = ''acme'', ro_RepoName = ''prod'', ro_DisplayName = '''', ro_TemplateFiles = files,
       ro_DeletionPolicy = '''', ro_Clock = None\<rparr>\<rparr>"

lemma sampleHandle_simps [simp]:
  "gl_client (sampleHandle api keys files) = Some api" "gl_project (sampleHandle api keys files) = Some idleProject"
  "gl_deployKeys (sampleHandle api keys files) = keys"
  "ro_TemplateFiles (gl_ops (sampleHandle api keys files)) = files"
  "ro_Clock (gl_ops (sampleHandle api keys files)) = None"
  by (simp_all add: sampleHandle_def)

end
