(* ===== verification/GitlabUrl.thy ===== *)
theory GitlabUrl
  imports Gitlab
begin

text \<open>
  Which URL a repository gets: the endpoint of the secret, the path and the name of the template
  through \<open>net/url\<close>, \<open>FullURL\<close> and back to text, and what a successful pass of the GitRepo
  controller on GitLab writes into the status.
\<close>

section \<open>Plain text in a URL\<close>

definition plainChar :: "char \<Rightarrow> bool" where
  "plainChar c \<longleftrightarrow> isAlnum c \<or> inChars c ''-_.~''"

definition plainPathChar :: "char \<Rightarrow> bool" where
  "plainPathChar c \<longleftrightarrow> plainChar c \<or> c = CHR ''/''"

lemma special_not_plain: "\<not> plainPathChar CHR ''#''" "\<not> plainPathChar CHR ''?''" "\<not> plainPathChar CHR ''%''"
  "\<not> plainPathChar CHR '':''" "\<not> plainPathChar CHR ''[''" "\<not> plainPathChar CHR ''@''" "\<not> plainChar CHR ''/''"
  by code_simp+

lemma plainPath_notin:
  "list_all plainPathChar s \<Longrightarrow> CHR ''#'' \<notin> set s \<and> CHR ''?'' \<notin> set s \<and> CHR ''%'' \<notin> set s
     \<and> CHR '':'' \<notin> set s \<and> CHR ''['' \<notin> set s \<and> CHR ''@'' \<notin> set s"
  using special_not_plain by (auto simp: list_all_iff)

lemma plain_is_path: "list_all plainChar s \<Longrightarrow> list_all plainPathChar s"
  by (auto simp: list_all_iff plainPathChar_def)

lemma plain_no_slash: "list_all plainChar s \<Longrightarrow> CHR ''/'' \<notin> set s"
  using special_not_plain by (auto simp: list_all_iff)

lemma plain_not_escaped: "plainChar c \<Longrightarrow> \<not> shouldEscape c mode"
  by (auto simp: plainChar_def shouldEscape_def)

lemma slash_not_escaped: "\<not> shouldEscape CHR ''/'' encodePath"
  by code_simp

lemma plainPath_not_escaped: "plainPathChar c \<Longrightarrow> \<not> shouldEscape c encodePath"
  using slash_not_escaped by (auto simp: plainPathChar_def dest: plain_not_escaped)

lemma plainChar_not_CTL: "plainPathChar c \<Longrightarrow> \<not> ((of_char c :: nat) < 32 \<or> (of_char c :: nat) = 127)"
  by (auto simp: plainPathChar_def plainChar_def isAlnum_def isLower_def isUpper_def isDigit_def inChars_def)

lemma escape_plainPath: "list_all plainPathChar s \<Longrightarrow> escape s encodePath = s"
  by (induction s) (auto dest: plainPath_not_escaped)

lemma escape_plainHost: "list_all plainChar s \<Longrightarrow> escape s encodeHost = s"
  by (induction s) (auto dest: plain_not_escaped)

lemma unescape_plainPath: "list_all plainPathChar s \<Longrightarrow> unescape s encodePath = Some s"
  using special_not_plain(3) by (induction s) auto

lemma unescape_plainHost: "list_all plainChar s \<Longrightarrow> unescape s encodeHost = Some s"
  using special_not_plain(3) by (induction s) (auto simp: plainPathChar_def dest: plain_not_escaped)

lemma cutAt_notin: "c \<notin> set s \<Longrightarrow> cutAt c s = (s, [])"
proof -
  assume "c \<notin> set s"
  then have "takeWhile (\<lambda>x. x \<noteq> c) s = s" "dropWhile (\<lambda>x. x \<noteq> c) s = []"
    by (auto simp: takeWhile_eq_all_conv dropWhile_eq_Nil_conv)
  then show ?thesis unfolding cutAt_def by (simp only: list.sel)
qed

lemma parseHost_plain: "list_all plainChar h \<Longrightarrow> parseHost h = Some h"
  using plainPath_notin [OF plain_is_path, of h]
  by (auto simp: parseHost_def hasPrefix_iff unescape_plainHost count_list_0_iff)

lemma parse_https:
  assumes h: "list_all plainChar h" and p: "list_all plainPathChar p" and "hd p = CHR ''/''" and "p \<noteq> []"
  shows "urlParse (''https://'' @ h @ p) = Some (emptyURL\<lparr>u_Scheme := ''https'', u_Host := h, u_Path := p\<rparr>)"
proof -
  note notin = plainPath_notin [OF plain_is_path [OF h]] plainPath_notin [OF p]
  have frag: "cutAt CHR ''#'' (''https://'' @ h @ p) = (''https://'' @ h @ p, [])"
    using notin by (intro cutAt_notin) auto
  have ctl: "\<not> hasCTLByte (''https://'' @ h @ p)"
  proof -
    have "\<not> hasCTLByte ''https://''" by code_simp
    then show ?thesis
      using plain_is_path [OF h] p plainChar_not_CTL by (auto simp: hasCTLByte_def list_ex_iff list_all_iff)
  qed
  have schemeChars: "list_all isSchemeChar ''https''" "\<not> isSchemeChar CHR '':''" "isLower CHR ''h''"
    by code_simp+
  have lower: "toLowerChar CHR ''h'' = CHR ''h''" "toLowerChar CHR ''t'' = CHR ''t''"
    "toLowerChar CHR ''p'' = CHR ''p''" "toLowerChar CHR ''s'' = CHR ''s''"
    by code_simp+
  have scheme: "getScheme (''https://'' @ h @ p) = Some (''https'', ''//'' @ h @ p)"
    using schemeChars by (simp add: getScheme_def Let_def)
  have query: "cutQuery (''//'' @ h @ p) u = (''//'' @ h @ p, u\<lparr>u_RawQuery := []\<rparr>)" for u
  proof -
    have "CHR ''?'' \<notin> set (''//'' @ h @ p)" using notin by auto
    then have c: "cutAt CHR ''?'' (''//'' @ h @ p) = (''//'' @ h @ p, [])"
      and n: "count_list (''//'' @ h @ p) CHR ''?'' = 0"
      by (rule cutAt_notin, simp only: count_list_0_iff not_False_eq_True)
    show ?thesis unfolding cutQuery_def c n by simp
  qed
  from assms(3,4) obtain p' where p': "p = CHR ''/'' # p'" by (cases p) auto
  have host: "takeWhile (\<lambda>c. c \<noteq> CHR ''/'') (h @ p) = h" "dropWhile (\<lambda>c. c \<noteq> CHR ''/'') (h @ p) = p"
    using plain_no_slash [OF h] by (auto simp: p' takeWhile_append dropWhile_append3 takeWhile_eq_all_conv)
  have rest: "parseRest (''//'' @ h @ p) (emptyURL\<lparr>u_Scheme := ''https'', u_RawQuery := []\<rparr>)
      = Some (emptyURL\<lparr>u_Scheme := ''https'', u_Host := h, u_Path := p\<rparr>)"
    using host notin
    by (simp add: parseRest_def hasPrefix_def parseAuthority_def parseHost_plain h setPath_def
        unescape_plainPath escape_plainPath p emptyURL_def)
  show ?thesis
    unfolding urlParse_def frag
    using rest by (simp add: parseNoFragment_def ctl [simplified] scheme [simplified] query [simplified] lower)
qed

section \<open>The clone URL\<close>

lemma dot_git_plain: "list_all plainPathChar ''.git''"
  by code_simp

lemma FullURL_string:
  assumes "ro_URL (gl_ops g) = emptyURL\<lparr>u_Scheme := ''https'', u_Host := h, u_Path := p\<rparr>"
    and "list_all plainChar h" and "h \<noteq> []" and "list_all plainPathChar p" and "hd p = CHR ''/''" and "p \<noteq> []"
  shows "urlString (FullURL g) = ''ssh://git@'' @
    (if ro_SSHHost (gl_ops g) = '''' then h else escape (ro_SSHHost (gl_ops g)) encodeHost) @ p @ ''.git''"
proof -
  have user: "escape ''git'' encodeUserPassword = ''git''" by code_simp
  have star: "p @ ''.git'' \<noteq> ''*''" using assms(5,6) by (cases p) auto
  have path: "escape (p @ ''.git'') encodePath = p @ ''.git''"
    using assms(4) dot_git_plain by (intro escape_plainPath) simp
  have hd: "hd (p @ ''.git'') = CHR ''/''" using assms(5,6) by simp
  show ?thesis
    using user star path hd assms(3) escape_plainHost [OF assms(2)]
    by (simp add: FullURL_def assms(1) emptyURL_def urlString_def Let_def EscapedPath_def authorityString_def
        userString_def)
qed

text \<open>The URL under which a GitLab repository is cloned: for an endpoint on a plain https host
  and a plain path and name, \<open>FullURL\<close> is the SSH URL of the user \<open>git\<close> on the SSH host (the host
  of the endpoint if no other is given) with path, name and the suffix \<open>.git\<close>.\<close>

theorem clone_url:
  assumes "clientOptions g secret = Inr ops"
    and "fmlookup (sec_Data secret) SecretEndpointName = Some (''https://'' @ host)"
    and "host \<noteq> ''''" and "list_all plainChar host"
    and "list_all plainPathChar (gt_Path (repoTemplate g))" and "list_all plainPathChar (gt_RepoName (repoTemplate g))"
  shows "urlString (FullURL (gitlabNew ops)) = ''ssh://git@''
    @ (if ro_SSHHost ops = '''' then host else escape (ro_SSHHost ops) encodeHost)
    @ ''/'' @ gt_Path (repoTemplate g) @ ''/'' @ gt_RepoName (repoTemplate g) @ ''.git''"
proof -
  let ?p = "''/'' @ gt_Path (repoTemplate g) @ ''/'' @ gt_RepoName (repoTemplate g)"
  have p: "list_all plainPathChar ?p" using assms(5,6) by (simp add: plainPathChar_def)
  have "urlParse (''https://'' @ host @ ?p) = Some (emptyURL\<lparr>u_Scheme := ''https'', u_Host := host, u_Path := ?p\<rparr>)"
    by (rule parse_https [OF assms(4) p]) simp_all
  then have "ro_URL ops = emptyURL\<lparr>u_Scheme := ''https'', u_Host := host, u_Path := ?p\<rparr>"
    using assms(1,2) by (auto simp: clientOptions_def Let_def split: option.splits sum.splits)
  then show ?thesis
    using FullURL_string [where g = "gitlabNew ops" and h = host and p = ?p] assms(3,4) p
    by (simp add: gitlabNew_def)
qed

definition gitlabSecret :: Secret where
  "gitlabSecret = \<lparr>sec_Meta = sampleMeta ''gitlab'', sec_Type = '''', sec_Data = fmupd ''token'' ''s3cr3t''
     (fmupd ''sshEndpoint'' ''git@ssh.example.com'' (fmupd ''endpoint'' ''https://git.example.com'' fmempty))\<rparr>"

lemma clone_url_witness:
  "\<exists>ops :: unit RepoOptions. clientOptions sampleGitRepo gitlabSecret = Inr ops \<and>
     urlString (FullURL (gitlabNew ops)) = ''ssh://git@ssh.example.com/acme/prod.git''"
proof -
  have p: "list_all plainPathChar ''/acme/prod''" "list_all plainChar ''git.example.com''"
    "list_all plainPathChar ''acme''" "list_all plainPathChar ''prod''"
    "parseSSHEndpoint ''git@ssh.example.com'' = Inr ''ssh.example.com''"
    "escape ''ssh.example.com'' encodeHost = ''ssh.example.com''"
    by code_simp+
  have "urlParse (''https://'' @ ''git.example.com'' @ ''/acme/prod'')
      = Some (emptyURL\<lparr>u_Scheme := ''https'', u_Host := ''git.example.com'', u_Path := ''/acme/prod''\<rparr>)"
    by (rule parse_https) (use p in simp_all)
  then obtain ops :: "unit RepoOptions" where o: "clientOptions sampleGitRepo gitlabSecret = Inr ops" "ro_SSHHost ops = ''ssh.example.com''"
    using p(5) by (simp add: clientOptions_def gitlabSecret_def sample_defs SecretEndpointName_def SecretTokenName_def
        SecretSSHEndpointName_def)
  have "gt_Path (repoTemplate sampleGitRepo) = ''acme''" "gt_RepoName (repoTemplate sampleGitRepo) = ''prod''"
    "fmlookup (sec_Data gitlabSecret) SecretEndpointName = Some (''https://'' @ ''git.example.com'')"
    by (simp_all add: gitlabSecret_def sample_defs SecretEndpointName_def)
  with clone_url [OF o(1), where host = "''git.example.com''"] p o show ?thesis by auto
qed

section \<open>A pass of the controller on GitLab\<close>

abbreviation gitlabSteps :: "'w Deps \<Rightarrow> 'w NewClient \<Rightarrow> nat \<Rightarrow> 'w Function" where
  "gitlabSteps dp newClient fuel obj data \<equiv>
     gitrepo_steps dp (gitlabRepo newClient fuel (ctx_Runtime data))
       (GetGitClient registeredImplementations (gitlabRepo newClient fuel (ctx_Runtime data)) (ctx_Client data)) obj data"

lemma GetGitClient_gitlab:
  assumes "GetGitClient [gitlabImplementation] (gitlabRepo nc fuel rt) k g w = (Ret (Inr (repo, hostKeys)), w')"
  shows "\<exists>secret ops w1. k_GetSecret k (gitSecretName g) w = (Ret (Inr secret), w1) \<and>
    clientOptions g secret = Inr ops \<and> gl_ops repo = ops \<and> FullURL repo = FullURL (gitlabNew ops) \<and>
    hostKeys = lookupStr (sec_Data secret) SecretHostKeysName"
  using assms
  by (auto simp: GetGitClient_def Let_def gitlabImplementation_def gitlabRepo_def gitlabConnect_def gitlabNew_def
      FullURL_def elim!: bnd_RetE split: sum.splits option.splits)

text \<open>C27: When a pass over a live, managed GitRepo on GitLab reports no error, the status says that the
  repository is created, on GitLab, and its URL is the clone URL that the secret of the server and
  the template determine, whatever happened to the repository during the pass.\<close>

theorem gitlab_pass_status:
  fixes data :: "'w Context"
  assumes "gitlabSteps dp newClient fuel (GitRepoObj g0) data w0 = (Ret (GitRepoObj g', data', r), w')"
    and "rs_Err r = None" and "\<not> ctx_Deleted data"
    and "fetchGitRepoTemplate (ctx_Client data) g0 w0 = (Ret (g, None), w)"
    and "gt_RepoType (repoTemplate g) \<noteq> UnmanagedRepoType"
  shows "gst_Phase (gr_Status g') = Some PhaseCreated \<and> gst_Type (gr_Status g') = GitLabType \<and>
    (\<exists>generated secret (ops :: 'w RepoOptions) w1 w2. k_GetSecret (ctx_Client data) (gitSecretName g) w1 = (Ret (Inr secret), w2) \<and>
       clientOptions (putDeployKeys generated g) secret = Inr ops \<and>
       gst_URL (gr_Status g') = urlString (FullURL (gitlabNew ops)))"
proof -
  let ?ri = "gitlabRepo newClient fuel (ctx_Runtime data)"
  from gitlab.steps_status [OF assms] obtain g1 w1 repo hostKeys w2 where
    gen: "ensureGeneratedDeployKeys dp (ctx_Runtime data) (ctx_Client data) g w = (Ret (g1, None), w1)"
    and c: "GetGitClient registeredImplementations ?ri (ctx_Client data) g1 w1 = (Ret (Inr (repo, hostKeys)), w2)"
    and s: "gst_Phase (gr_Status g') = Some PhaseCreated" "gst_URL (gr_Status g') = ri_FullURL ?ri repo"
      "gst_Type (gr_Status g') = ri_Type ?ri repo"
    by blast
  from generated_only_status [OF gen] obtain m where m: "g1 = putDeployKeys m g" ..
  then have "gitSecretName g1 = gitSecretName g" by (simp add: gitSecretName_def Let_def putDeployKeys_def)
  with GetGitClient_gitlab [OF c [unfolded registeredImplementations_eq]] obtain secret w3 where
    "k_GetSecret (ctx_Client data) (gitSecretName g) w1 = (Ret (Inr secret), w3)"
    "clientOptions (putDeployKeys m g) secret = Inr (gl_ops repo)"
    "FullURL repo = FullURL (gitlabNew (gl_ops repo))"
    using m by auto
  with s show ?thesis by (auto simp: gitlabRepo_def)
qed

text \<open>A cluster with a secret for the server, and a managed repository, for the witness.\<close>

definition secretClient :: "'w Client" where
  "secretClient = idleClient\<lparr>k_GetSecret := (\<lambda>_. ret (Inr gitlabSecret))\<rparr>"

definition gitlabContext :: "unit Context" where
  "gitlabContext = sampleContext\<lparr>ctx_Client := secretClient\<rparr>"

lemma secretClient_simps [simp]:
  "k_GetSecret secretClient key = ret (Inr gitlabSecret)"
  "k_GetTenant secretClient = k_GetTenant idleClient" "k_GetCluster secretClient = k_GetCluster idleClient"
  "k_StatusUpdateGitRepo secretClient = k_StatusUpdateGitRepo idleClient"
  "ctx_Client gitlabContext = secretClient" "ctx_Deleted gitlabContext = False"
  "ctx_Runtime gitlabContext = idleRuntime"
  by (simp_all add: secretClient_def gitlabContext_def sampleContext_def)

lemma managed_options:
  "\<exists>ops :: unit RepoOptions. clientOptions (managedGitRepo p u) gitlabSecret = Inr ops \<and>
     ro_TemplateFiles ops = fmempty \<and> ro_DeployKeys ops = fmempty \<and> ro_DisplayName ops = ''''"
proof -
  have plain: "list_all plainPathChar ''//''" "list_all plainChar ''git.example.com''"
    "parseSSHEndpoint ''git@ssh.example.com'' = Inr ''ssh.example.com''"
    by code_simp+
  have "urlParse (''https://'' @ ''git.example.com'' @ ''//'')
      = Some (emptyURL\<lparr>u_Scheme := ''https'', u_Host := ''git.example.com'', u_Path := ''//''\<rparr>)"
    by (rule parse_https) (use plain in simp_all)
  with plain(3) show ?thesis
    by (simp add: clientOptions_def gitlabSecret_def sample_defs SecretEndpointName_def SecretTokenName_def
        SecretSSHEndpointName_def managedGitRepo_def mergedDeployKeys_def)
qed

lemma gitlab_pass_status_witness:
  "\<exists>g' data' r w'. gitlabSteps idleDeps (\<lambda>_ _. Inr idleGitlab) 0 (GitRepoObj (managedGitRepo AdoptPolicy ''''))
      gitlabContext () = (Ret (GitRepoObj g', data', r), w') \<and> gst_Phase (gr_Status g') = Some PhaseCreated"
proof -
  have "\<exists>g'. gitlabSteps idleDeps (\<lambda>_ _. Inr idleGitlab) 0 (GitRepoObj (managedGitRepo AdoptPolicy ''''))
      gitlabContext () = (Ret (GitRepoObj g', gitlabContext, okResult), ())"
  proof -
    obtain ops :: "unit RepoOptions" where o: "clientOptions (managedGitRepo AdoptPolicy '''') gitlabSecret = Inr ops"
      "ro_TemplateFiles ops = fmempty" "ro_DeployKeys ops = fmempty" "ro_DisplayName ops = ''''"
      using managed_options by blast
    have keys: "ensureGeneratedDeployKeys idleDeps idleRuntime secretClient (managedGitRepo AdoptPolicy '''') =
        ret (managedGitRepo AdoptPolicy '''', None)"
      by (simp add: ensureGeneratedDeployKeys_def rangeOver_def managedGitRepo_def sample_defs putDeployKeys_def)
    have fetch: "fetchGitRepoTemplate secretClient (managedGitRepo AdoptPolicy '''') = ret (managedGitRepo AdoptPolicy '''', None)"
      by (simp add: fetchGitRepoTemplate_def)
    show ?thesis
      by (simp add: gitrepo_steps_def fetch managedRepo_def keys GetGitClient_def o registeredImplementations_eq gitlabImplementation_def gitlabNew_def
        gitlabRepo_def gitlabConnect_def repoExists_def getProject_def withClient_def existingRepo_def applyRepo_def
        ensureAccessToken_def ensureCIVariables_def gitlabEnsureCIVariables_def gitlabCommitTemplateFiles_def gitlabUpdate_def
        updateDeployKeys_def getDeployKeys_def withProject_def CompareKeys_def updateDisplayName_def managedNames_def
        idleDeps_def idleProject_def Let_def)
  qed
  then obtain g' where e: "gitlabSteps idleDeps (\<lambda>_ _. Inr idleGitlab) 0 (GitRepoObj (managedGitRepo AdoptPolicy ''''))
      gitlabContext () = (Ret (GitRepoObj g', gitlabContext, okResult), ())" ..
  have "fetchGitRepoTemplate (ctx_Client gitlabContext) (managedGitRepo AdoptPolicy '''') ()
      = (Ret (managedGitRepo AdoptPolicy '''', None), ())"
    by (simp add: fetchGitRepoTemplate_def)
  from gitlab_pass_status [OF e _ _ this] e show ?thesis
    by (auto simp: okResult_def)
qed

end
