(* ===== verification/GitlabKeys.thy ===== *)
theory GitlabKeys
  imports Gitlab
begin

text \<open>
  The synchronisation of the deploy keys against a GitLab server. The server is specified by what
  its three calls do to the list of keys of the project, and that any of them may be refused;
  \<open>updateDeployKeys\<close> then makes the keys of the project, as a map from titles, equal to the keys of the
  template up to white space, as long as both fit on the one page that the code reads.
\<close>

section \<open>The server\<close>

text \<open>Documented behaviour of the deploy key API. The listing gives the first page of twenty keys. A
  call may be refused: then it returns an error, the keys stay as they are, and \<open>refused\<close>, a count
  that only the statements know, goes up.\<close>

definition key_server :: "'w GitlabAPI \<Rightarrow> int \<Rightarrow> ('w \<Rightarrow> GDeployKey list) \<Rightarrow> ('w \<Rightarrow> nat) \<Rightarrow> bool" where
  "key_server api pid ks refused \<longleftrightarrow>
     (\<forall>w. \<exists>r w'. ga_ListProjectDeployKeys api pid w = (Ret r, w') \<and> ks w' = ks w \<and> (case r of
        Inl err \<Rightarrow> refused w < refused w'
      | Inr l \<Rightarrow> refused w' = refused w \<and> l = map Some (take 20 (ks w)))) \<and>
     (\<forall>w i. \<exists>e w'. ga_DeleteDeployKey api pid i w = (Ret e, w') \<and>
        (if e = None then refused w' = refused w \<and> ks w' = filter (\<lambda>k. gk_ID k \<noteq> i) (ks w)
         else refused w < refused w' \<and> ks w' = ks w)) \<and>
     (\<forall>w t key b. \<exists>e w'. ga_AddDeployKey api pid t key b w = (Ret e, w') \<and>
        (if e = None then refused w' = refused w \<and> (\<exists>i. i \<notin> gk_ID ` set (ks w) \<and>
           ks w' = ks w @ [\<lparr>gk_ID = i, gk_Title = t, gk_Key = key, gk_CanPush = b\<rparr>])
         else refused w < refused w' \<and> ks w' = ks w))"

lemma key_server_list:
  "key_server api pid ks refused \<Longrightarrow> \<exists>r w'. ga_ListProjectDeployKeys api pid w = (Ret r, w') \<and> ks w' = ks w \<and>
     (case r of Inl err \<Rightarrow> refused w < refused w'
      | Inr l \<Rightarrow> refused w' = refused w \<and> l = map Some (take 20 (ks w)))"
  by (simp add: key_server_def)

lemma key_server_delete:
  "key_server api pid ks refused \<Longrightarrow> \<exists>e w'. ga_DeleteDeployKey api pid i w = (Ret e, w') \<and>
     (if e = None then refused w' = refused w \<and> ks w' = filter (\<lambda>k. gk_ID k \<noteq> i) (ks w)
      else refused w < refused w' \<and> ks w' = ks w)"
  by (simp add: key_server_def)

lemma key_server_add:
  "key_server api pid ks refused \<Longrightarrow> \<exists>e w'. ga_AddDeployKey api pid t key b w = (Ret e, w') \<and>
     (if e = None then refused w' = refused w \<and> (\<exists>i. i \<notin> gk_ID ` set (ks w) \<and>
        ks w' = ks w @ [\<lparr>gk_ID = i, gk_Title = t, gk_Key = key, gk_CanPush = b\<rparr>])
      else refused w < refused w' \<and> ks w' = ks w)"
  by (simp add: key_server_def)

definition parseKey :: "GDeployKey \<Rightarrow> DeployKey" where
  "parseKey k = \<lparr>dk_Type = splitOn CHR '' '' (gk_Key k) ! 0, dk_Key = splitOn CHR '' '' (gk_Key k) ! 1,
     dk_WriteAccess = gk_CanPush k\<rparr>"

definition remoteMap :: "GDeployKey list \<Rightarrow> DeployKey gomap" where
  "remoteMap ks = fold (\<lambda>k. fmupd (gk_Title k) (parseKey k)) ks fmempty"

text \<open>Keys that can be told apart: distinct titles and identifiers, a type and a key.\<close>

definition wf_remote :: "GDeployKey list \<Rightarrow> bool" where
  "wf_remote ks \<longleftrightarrow> distinct (map gk_Title ks) \<and> distinct (map gk_ID ks) \<and>
     (\<forall>k \<in> set ks. 2 \<le> length (splitOn CHR '' '' (gk_Key k)) \<and> dk_Type (parseKey k) \<noteq> '''')"

definition wf_local :: "DeployKey gomap \<Rightarrow> bool" where
  "wf_local m \<longleftrightarrow> fmpred (\<lambda>_ v. dk_Type v \<noteq> '''' \<and> CHR '' '' \<notin> set (dk_Type v) \<and> CHR '' '' \<notin> set (dk_Key v)) m"

definition calm_order :: "'w Runtime \<Rightarrow> bool" where
  "calm_order rt \<longleftrightarrow> (\<forall>w. \<exists>hint. rt_MapHint rt w = (Ret hint, w))"

section \<open>The loops\<close>

lemma remoteKeys_ret:
  "\<forall>k \<in> set ks. 2 \<le> length (splitOn CHR '' '' (gk_Key k)) \<Longrightarrow>
     remoteKeys (map Some ks) m = ret (fold (\<lambda>k. fmupd (gk_Title k) (parseKey k)) ks m)"
  by (induction ks arbitrary: m) (auto simp: parseKey_def Let_def)

lemma fold_upd_lookup:
  "distinct (map gk_Title ks) \<Longrightarrow>
     fmlookup (fold (\<lambda>k. fmupd (gk_Title k) (parseKey k)) ks m) t =
       (case find (\<lambda>k. gk_Title k = t) ks of Some k \<Rightarrow> Some (parseKey k) | None \<Rightarrow> fmlookup m t)"
proof (induction ks arbitrary: m)
  case Nil
  show ?case by simp
next
  case (Cons k ks)
  have "find (\<lambda>k'. gk_Title k' = gk_Title k) ks = None"
    using Cons.prems by (auto simp: find_None_iff image_iff)
  with Cons show ?case by (auto split: option.splits)
qed

lemma remoteMap_Some_iff:
  assumes "distinct (map gk_Title ks)"
  shows "fmlookup (remoteMap ks) t = Some v \<longleftrightarrow> (\<exists>k \<in> set ks. gk_Title k = t \<and> parseKey k = v)"
proof -
  have m: "fmlookup (remoteMap ks) t = map_option parseKey (find (\<lambda>k. gk_Title k = t) ks)"
    using fold_upd_lookup [OF assms, of fmempty t] by (simp add: remoteMap_def split: option.splits)
  have "find (\<lambda>k. gk_Title k = t) ks = Some k \<longleftrightarrow> k \<in> set ks \<and> gk_Title k = t" for k
    using assms by (induction ks) (force simp: image_iff)+
  then show ?thesis unfolding m map_option_eq_Some by blast
qed

lemma getDeployKeys_ret:
  assumes g: "gl_client g = Some api" "gl_project g = Some p" and s: "key_server api (gp_ID p) ks refused"
    and wf: "wf_remote (ks w)" and page: "length (ks w) \<le> 20"
  shows "\<exists>r w'. getDeployKeys g w = (Ret r, w') \<and> ks w' = ks w \<and> (case r of
      Inl err \<Rightarrow> refused w < refused w' | Inr m \<Rightarrow> refused w' = refused w \<and> m = remoteMap (ks w))"
proof -
  from key_server_list [OF s, of w] obtain r w' where
    r: "ga_ListProjectDeployKeys api (gp_ID p) w = (Ret r, w')" "ks w' = ks w" "case r of
        Inl err \<Rightarrow> refused w < refused w'
      | Inr l \<Rightarrow> refused w' = refused w \<and> l = map Some (take 20 (ks w))"
    by blast
  have "getDeployKeys g w = (Ret (case r of Inl err \<Rightarrow> Inl err | Inr l \<Rightarrow> Inr (remoteMap (ks w))), w')"
    using r g wf page
    by (auto simp: getDeployKeys_def withProject_def withClient_def wf_remote_def remoteKeys_ret remoteMap_def
        split: sum.splits)
  with r show ?thesis by (auto split: sum.splits)
qed

lemma deleteListed_ret:
  assumes g: "gl_client g = Some api" "gl_project g = Some p" and s: "key_server api (gp_ID p) ks refused"
  shows "\<exists>w'. deleteListed g ds (map Some l) w = (Ret (), w') \<and> refused w \<le> refused w' \<and>
    (refused w' = refused w \<longrightarrow>
       ks w' = filter (\<lambda>k. gk_ID k \<notin> gk_ID ` {x \<in> set l. fmlookup ds (gk_Title x) \<noteq> None}) (ks w))"
proof (induction l arbitrary: w)
  case Nil
  show ?case by simp
next
  case (Cons x l)
  show ?case
  proof (cases "fmlookup ds (gk_Title x)")
    case None
    then have "{y \<in> set (x # l). fmlookup ds (gk_Title y) \<noteq> None} = {y \<in> set l. fmlookup ds (gk_Title y) \<noteq> None}"
      by auto
    with Cons.IH [of w] None show ?thesis by simp
  next
    case (Some v)
    from key_server_delete [OF s, of "gk_ID x" w] obtain e w1 where
      d: "ga_DeleteDeployKey api (gp_ID p) (gk_ID x) w = (Ret e, w1)" and e: "if e = None
        then refused w1 = refused w \<and> ks w1 = filter (\<lambda>k. gk_ID k \<noteq> gk_ID x) (ks w)
        else refused w < refused w1 \<and> ks w1 = ks w"
      by blast
    from Cons.IH [of w1] obtain w2 where l: "deleteListed g ds (map Some l) w1 = (Ret (), w2)" "refused w1 \<le> refused w2"
      "refused w2 = refused w1 \<longrightarrow>
         ks w2 = filter (\<lambda>k. gk_ID k \<notin> gk_ID ` {y \<in> set l. fmlookup ds (gk_Title y) \<noteq> None}) (ks w1)"
      by blast
    have "deleteListed g ds (map Some (x # l)) w = (Ret (), w2)"
      using Some d l(1) g by (simp add: withProject_def withClient_def)
    moreover have "refused w \<le> refused w2" using e l(2) by (simp split: if_splits)
    moreover have "ks w2 = filter (\<lambda>k. gk_ID k \<notin> gk_ID ` {y \<in> set (x # l). fmlookup ds (gk_Title y) \<noteq> None}) (ks w)"
      if "refused w2 = refused w"
    proof -
      have "refused w2 = refused w1" "ks w1 = filter (\<lambda>k. gk_ID k \<noteq> gk_ID x) (ks w)"
        using that e l(2) by (auto split: if_splits)
      then show ?thesis using l(3) Some by (simp add: filter_filter) (intro filter_cong, auto)
    qed
    ultimately show ?thesis by blast
  qed
qed

definition sameKey :: "string \<times> DeployKey \<Rightarrow> GDeployKey \<Rightarrow> bool" where
  "sameKey kv k \<longleftrightarrow> gk_Title k = fst kv \<and> gk_Key k = dk_Type (snd kv) @ '' '' @ dk_Key (snd kv)
     \<and> gk_CanPush k = dk_WriteAccess (snd kv)"

text \<open>Keys that were added: \<open>old\<close> with one new key for every pair, under new identifiers.\<close>

definition added :: "(string \<times> DeployKey) list \<Rightarrow> GDeployKey list \<Rightarrow> GDeployKey list \<Rightarrow> bool" where
  "added kvs old now \<longleftrightarrow> (\<exists>new. now = old @ new \<and> list_all2 sameKey kvs new \<and>
     (distinct (map gk_ID old) \<longrightarrow> distinct (map gk_ID now)))"

lemma added_Nil [simp]: "added [] ks ks' \<longleftrightarrow> ks' = ks"
  by (auto simp: added_def)

lemma added_Cons:
  assumes "i \<notin> gk_ID ` set old" and "sameKey kv k" and "gk_ID k = i" and "added kvs (old @ [k]) now"
  shows "added (kv # kvs) old now"
proof -
  from assms(4) obtain new where "now = (old @ [k]) @ new" "list_all2 sameKey kvs new"
    "distinct (map gk_ID (old @ [k])) \<longrightarrow> distinct (map gk_ID now)"
    unfolding added_def by blast
  with assms(1-3) show ?thesis
    unfolding added_def by (intro exI [of _ "k # new"]) auto
qed

lemma addDeployKeys_ret:
  assumes g: "gl_client g = Some api" "gl_project g = Some p" and s: "key_server api (gp_ID p) ks refused"
  shows "\<exists>n w'. addDeployKeys g kvs w = (Ret n, w') \<and> refused w \<le> refused w' \<and>
    (refused w' = refused w \<longrightarrow> n = 0 \<and> added kvs (ks w) (ks w'))"
proof (induction kvs arbitrary: w)
  case Nil
  show ?case by simp
next
  case (Cons kv kvs)
  obtain k v where kv: "kv = (k, v)" by fastforce
  let ?new = "\<lambda>i. \<lparr>gk_ID = i, gk_Title = k, gk_Key = dk_Type v @ '' '' @ dk_Key v, gk_CanPush = dk_WriteAccess v\<rparr>"
  from key_server_add [OF s, of k "dk_Type v @ '' '' @ dk_Key v" "dk_WriteAccess v" w] obtain e w1 where
    a: "ga_AddDeployKey api (gp_ID p) k (dk_Type v @ '' '' @ dk_Key v) (dk_WriteAccess v) w = (Ret e, w1)"
    and e: "if e = None then refused w1 = refused w \<and> (\<exists>i. i \<notin> gk_ID ` set (ks w) \<and> ks w1 = ks w @ [?new i])
      else refused w < refused w1 \<and> ks w1 = ks w"
    by blast
  from Cons.IH [of w1] obtain n w2 where n: "addDeployKeys g kvs w1 = (Ret n, w2)" "refused w1 \<le> refused w2"
    "refused w2 = refused w1 \<longrightarrow> n = 0 \<and> added kvs (ks w1) (ks w2)"
    by blast
  have run: "addDeployKeys g (kv # kvs) w = (Ret (case e of None \<Rightarrow> n | Some _ \<Rightarrow> Suc n), w2)"
    using a n(1) g by (simp add: kv withProject_def withClient_def)
  have mono: "refused w \<le> refused w2" using e n(2) by (simp split: if_splits)
  have "e = None \<and> n = 0 \<and> added (kv # kvs) (ks w) (ks w2)" if "refused w2 = refused w"
  proof -
    have same: "refused w2 = refused w1" "e = None" using that e n(2) by (auto split: if_splits)
    with e obtain i where "i \<notin> gk_ID ` set (ks w)" "ks w1 = ks w @ [?new i]" by auto
    with n(3) same have "added (kv # kvs) (ks w) (ks w2)"
      by (intro added_Cons [where i = i and k = "?new i"]) (simp_all add: kv sameKey_def)
    with n(3) same show ?thesis by simp
  qed
  with run mono show ?case by (intro exI [of _ "case e of None \<Rightarrow> n | Some _ \<Rightarrow> Suc n"] exI [of _ w2]) auto
qed

section \<open>Comparing\<close>

lemma CompareKeys_lookup:
  "fmlookup (CompareKeys a b) t = Some v \<longleftrightarrow>
     fmlookup a t = Some v \<and> trimKey (lookupKey b t) \<noteq> trimKey v"
  by (auto simp: CompareKeys_def lookupKey_def split: if_splits)

lemma CompareKeys_None:
  "fmlookup a t = Some v \<Longrightarrow> fmlookup (CompareKeys a b) t = None \<longleftrightarrow> trimKey (lookupKey b t) = trimKey v"
  by (auto simp: CompareKeys_def lookupKey_def)

lemma trim_type [simp]: "dk_Type (trimKey v) = dk_Type v" "dk_Type (trimKey zeroDeployKey) = ''''"
  by (simp_all add: trimKey_def zeroDeployKey_def)

lemma CompareKeys_same:
  assumes "\<And>t. map_option trimKey (fmlookup a t) = map_option trimKey (fmlookup b t)"
  shows "CompareKeys a b = fmempty"
proof (rule gomap_eqI)
  fix t
  show "fmlookup (CompareKeys a b) t = fmlookup fmempty t"
  proof (cases "fmlookup a t")
    case None
    then show ?thesis by (simp add: CompareKeys_def)
  next
    case (Some v)
    with assms [of t] obtain u where "fmlookup b t = Some u" "trimKey u = trimKey v"
      by (metis (no_types) map_option_eq_Some option.simps(9))
    with Some show ?thesis by (simp add: CompareKeys_None lookupKey_def)
  qed
qed

section \<open>One synchronisation\<close>

text \<open>A remote key that is not deleted agrees with the template, and is not added again.\<close>

lemma kept_key:
  assumes "wf_remote ks" and "k \<in> set ks" and "fmlookup (CompareKeys (remoteMap ks) l) (gk_Title k) = None"
  shows "\<exists>v. fmlookup l (gk_Title k) = Some v \<and> trimKey v = trimKey (parseKey k) \<and>
    fmlookup (CompareKeys l (remoteMap ks)) (gk_Title k) = None"
proof -
  from assms(1,2) have r: "fmlookup (remoteMap ks) (gk_Title k) = Some (parseKey k)"
    by (subst remoteMap_Some_iff) (auto simp: wf_remote_def)
  with assms(3) have t: "trimKey (lookupKey l (gk_Title k)) = trimKey (parseKey k)"
    by (simp add: CompareKeys_None)
  have "dk_Type (parseKey k) \<noteq> ''''" using assms(1,2) by (simp add: wf_remote_def)
  then have "lookupKey l (gk_Title k) \<noteq> zeroDeployKey"
    using t trim_type by metis
  then obtain v where v: "fmlookup l (gk_Title k) = Some v"
    by (auto simp: lookupKey_def split: option.splits)
  with t have "trimKey v = trimKey (parseKey k)" by (simp add: lookupKey_def)
  moreover from this v r have "fmlookup (CompareKeys l (remoteMap ks)) (gk_Title k) = None"
    by (simp add: CompareKeys_None lookupKey_def)
  ultimately show ?thesis using v by blast
qed

lemma missing_key:
  assumes "wf_remote ks" and "wf_local l" and "fmlookup l t = Some v"
    and "fmlookup (CompareKeys l (remoteMap ks)) t = None"
  shows "\<exists>k \<in> set ks. gk_Title k = t \<and> trimKey (parseKey k) = trimKey v \<and>
    fmlookup (CompareKeys (remoteMap ks) l) t = None"
proof -
  from assms(3,4) have t: "trimKey (lookupKey (remoteMap ks) t) = trimKey v"
    by (simp add: CompareKeys_None)
  have "dk_Type v \<noteq> ''''" using fmpredD [OF assms(2) [unfolded wf_local_def] assms(3)] by simp
  then have "lookupKey (remoteMap ks) t \<noteq> zeroDeployKey"
    using t trim_type by metis
  then obtain u where u: "fmlookup (remoteMap ks) t = Some u"
    by (auto simp: lookupKey_def split: option.splits)
  then obtain k where k: "k \<in> set ks" "gk_Title k = t" "parseKey k = u"
    using assms(1) remoteMap_Some_iff by (auto simp: wf_remote_def)
  with t u assms(3) show ?thesis by (auto simp: lookupKey_def CompareKeys_None)
qed

lemma added_key:
  assumes "wf_local l" and "fmlookup (CompareKeys l r) (fst kv) = Some (snd kv)" and "sameKey kv k"
  shows "fmlookup l (gk_Title k) = Some (parseKey k) \<and> 2 \<le> length (splitOn CHR '' '' (gk_Key k))
    \<and> dk_Type (parseKey k) \<noteq> ''''"
proof -
  from assms(2) have l: "fmlookup l (fst kv) = Some (snd kv)" by (simp add: CompareKeys_lookup)
  with assms(1) have "CHR '' '' \<notin> set (dk_Type (snd kv))" "CHR '' '' \<notin> set (dk_Key (snd kv))" "dk_Type (snd kv) \<noteq> ''''"
    by (auto simp: wf_local_def dest: fmpredD)
  then have "splitOn CHR '' '' (gk_Key k) = [dk_Type (snd kv), dk_Key (snd kv)]"
    using assms(3) by (simp add: sameKey_def splitOn_append splitOn_no_sep)
  with assms(3) l \<open>dk_Type (snd kv) \<noteq> ''''\<close> show ?thesis by (simp add: parseKey_def sameKey_def)
qed

text \<open>The keys after a synchronisation, as a function of the keys before.\<close>

definition synced :: "GDeployKey list \<Rightarrow> DeployKey gomap \<Rightarrow> GDeployKey list \<Rightarrow> bool" where
  "synced ks l ks' \<longleftrightarrow> (\<exists>new kvs.
     ks' = filter (\<lambda>k. fmlookup (CompareKeys (remoteMap ks) l) (gk_Title k) = None) ks @ new \<and>
     list_all2 sameKey kvs new \<and> distinct (map fst kvs) \<and>
     set kvs = {(t, v). fmlookup (CompareKeys l (remoteMap ks)) t = Some v} \<and> distinct (map gk_ID ks'))"

lemma synced_keys:
  assumes "wf_remote ks" and "wf_local l" and "synced ks l ks'"
  shows "wf_remote ks'" and "map_option trimKey (fmlookup (remoteMap ks') t) = map_option trimKey (fmlookup l t)"
proof -
  let ?E = "CompareKeys l (remoteMap ks)"
  let ?kept = "filter (\<lambda>k. fmlookup (CompareKeys (remoteMap ks) l) (gk_Title k) = None) ks"
  from assms(3) obtain new kvs where ks': "ks' = ?kept @ new" and new: "list_all2 sameKey kvs new"
    and kvs: "distinct (map fst kvs)" "set kvs = {(t, v). fmlookup ?E t = Some v}" and ids: "distinct (map gk_ID ks')"
    unfolding synced_def by blast
  have titles: "map gk_Title new = map fst kvs"
    using new by (induction rule: list_all2_induct) (auto simp: sameKey_def)
  have added: "\<exists>kv \<in> set kvs. sameKey kv k" if "k \<in> set new" for k
    using new that by (induction rule: list_all2_induct) auto
  have newkey: "fmlookup l (gk_Title k) = Some (parseKey k) \<and> 2 \<le> length (splitOn CHR '' '' (gk_Key k))
    \<and> dk_Type (parseKey k) \<noteq> '''' \<and> fmlookup ?E (gk_Title k) \<noteq> None" if k: "k \<in> set new" for k
  proof -
    from added [OF k] obtain kv where kv: "kv \<in> set kvs" "sameKey kv k" by blast
    then have "fmlookup ?E (fst kv) = Some (snd kv)" using kvs(2) by auto
    with added_key [OF assms(2) _ kv(2)] kv(2) show ?thesis by (auto simp: sameKey_def)
  qed
  have "gk_Title k \<noteq> gk_Title j" if "k \<in> set ?kept" and "j \<in> set new" for k j
    using that newkey [of j] kept_key [OF assms(1), of k l] by auto
  then have "set (map gk_Title ?kept) \<inter> set (map gk_Title new) = {}"
    by auto
  moreover have "distinct (map gk_Title ?kept)"
    using assms(1) by (simp add: wf_remote_def distinct_map_filter)
  ultimately have "distinct (map gk_Title ks')"
    using kvs(1) titles unfolding ks' map_append distinct_append by simp
  then show wf': "wf_remote ks'"
    using ids newkey assms(1) by (auto simp: ks' wf_remote_def)
  show "map_option trimKey (fmlookup (remoteMap ks') t) = map_option trimKey (fmlookup l t)"
  proof (cases "fmlookup (remoteMap ks') t")
    case (Some v)
    with wf' obtain k where k: "k \<in> set ks'" "gk_Title k = t" "parseKey k = v"
      using remoteMap_Some_iff by (auto simp: wf_remote_def)
    from k(1) ks' have "k \<in> set new \<or> (k \<in> set ks \<and> fmlookup (CompareKeys (remoteMap ks) l) (gk_Title k) = None)"
      by auto
    then obtain u where "fmlookup l t = Some u" "trimKey u = trimKey v"
      using newkey [of k] kept_key [OF assms(1), of k l] k(2,3) by metis
    with Some show ?thesis by simp
  next
    case None
    have "fmlookup l t = None"
    proof (rule ccontr)
      assume "fmlookup l t \<noteq> None"
      then obtain v where v: "fmlookup l t = Some v" by auto
      have "\<exists>k \<in> set ks'. gk_Title k = t"
      proof (cases "fmlookup ?E t")
        case None
        with missing_key [OF assms(1,2) v] show ?thesis by (auto simp: ks')
      next
        case (Some u)
        then have "t \<in> set (map gk_Title new)" unfolding titles using kvs(2) by force
        then show ?thesis by (auto simp: ks')
      qed
      with None wf' remoteMap_Some_iff show False by (metis option.distinct(1) wf_remote_def)
    qed
    with None show ?thesis by simp
  qed
qed

lemma removal_ret:
  assumes g: "gl_client g = Some api" "gl_project g = Some p" and s: "key_server api (gp_ID p) ks refused"
    and wf: "wf_remote (ks w)" and page: "length (ks w) \<le> 20"
  shows "\<exists>e w'. (if ds \<noteq> fmempty then removeDeployKeys g ds else ret None) w = (Ret e, w') \<and> refused w \<le> refused w' \<and>
    (refused w' = refused w \<longrightarrow> e = None \<and> ks w' = filter (\<lambda>k. fmlookup ds (gk_Title k) = None) (ks w))"
proof (cases "ds = fmempty")
  case True
  then show ?thesis by simp
next
  case False
  have ids: "distinct (map gk_ID (ks w))" using wf by (simp add: wf_remote_def)
  have gone: "filter (\<lambda>k. gk_ID k \<notin> gk_ID ` {x \<in> set (ks w). fmlookup ds (gk_Title x) \<noteq> None}) (ks w)
      = filter (\<lambda>k. fmlookup ds (gk_Title k) = None) (ks w)"
  proof (rule filter_cong [OF refl])
    fix x assume x: "x \<in> set (ks w)"
    have "inj_on gk_ID (set (ks w))" using ids by (simp add: distinct_map)
    then have "gk_ID x \<in> gk_ID ` {x \<in> set (ks w). fmlookup ds (gk_Title x) \<noteq> None}
        \<longleftrightarrow> x \<in> {x \<in> set (ks w). fmlookup ds (gk_Title x) \<noteq> None}"
      using x by (rule inj_on_image_mem_iff) blast
    with x show "gk_ID x \<notin> gk_ID ` {x \<in> set (ks w). fmlookup ds (gk_Title x) \<noteq> None}
        \<longleftrightarrow> fmlookup ds (gk_Title x) = None" by simp
  qed
  from key_server_list [OF s, of w] obtain r w1 where
    r: "ga_ListProjectDeployKeys api (gp_ID p) w = (Ret r, w1)" "ks w1 = ks w" "case r of
        Inl err \<Rightarrow> refused w < refused w1
      | Inr l \<Rightarrow> refused w1 = refused w \<and> l = map Some (take 20 (ks w))"
    by blast
  show ?thesis
  proof (cases r)
    case (Inl err)
    with r False g show ?thesis by (simp add: removeDeployKeys_def withProject_def withClient_def)
  next
    case (Inr l)
    obtain w2 where "deleteListed g ds (map Some (ks w)) w1 = (Ret (), w2)" "refused w1 \<le> refused w2"
      "refused w2 = refused w1 \<longrightarrow> ks w2 = filter (\<lambda>k. fmlookup ds (gk_Title k) = None) (ks w)"
      using deleteListed_ret [OF g s, of ds "ks w" w1] gone r(2) by auto
    with r Inr False page g show ?thesis by (simp add: removeDeployKeys_def withProject_def withClient_def)
  qed
qed

lemma addition_ret:
  assumes g: "gl_client g = Some api" "gl_project g = Some p" and s: "key_server api (gp_ID p) ks refused"
    and rt: "calm_order rt"
  shows "\<exists>e w'. (if new \<noteq> fmempty then setDeployKeys rt g new else ret None) w = (Ret e, w') \<and>
    refused w \<le> refused w' \<and> (refused w' = refused w \<longrightarrow> e = None \<and>
      (\<exists>kvs. distinct (map fst kvs) \<and> set kvs = {(t, v). fmlookup new t = Some v} \<and> added kvs (ks w) (ks w')))"
proof (cases "new = fmempty")
  case True
  then show ?thesis by (auto intro: exI [of _ "[]"])
next
  case False
  obtain hint where h: "rt_MapHint rt w = (Ret hint, w)" using rt unfolding calm_order_def by blast
  obtain n w1 where n: "addDeployKeys g (rangeMap hint new) w = (Ret n, w1)" "refused w \<le> refused w1"
    "refused w1 = refused w \<longrightarrow> n = 0 \<and> added (rangeMap hint new) (ks w) (ks w1)"
    using addDeployKeys_ret [OF g s] by blast
  have "setDeployKeys rt g new w
      = (Ret (if n > 0 then Some (ErrNew (decNat n @ '' keys failed to be added'')) else None), w1)"
    using h n(1) by (simp add: setDeployKeys_def rangeOver_def)
  moreover have "distinct (map fst (rangeMap hint new)) \<and> set (rangeMap hint new) = {(t, v). fmlookup new t = Some v}"
    by auto
  then have "\<exists>kvs. distinct (map fst kvs) \<and> set kvs = {(t, v). fmlookup new t = Some v} \<and> added kvs (ks w) (ks w1)"
    if "refused w1 = refused w"
    using n(3) that by blast
  ultimately show ?thesis using False n(2,3) by auto
qed

lemma updateDeployKeys_synced:
  assumes g: "gl_client g = Some api" "gl_project g = Some p" and s: "key_server api (gp_ID p) ks refused"
    and wf: "wf_remote (ks w)" and page: "length (ks w) \<le> 20" and rt: "calm_order rt"
  shows "\<exists>changed e w'. updateDeployKeys rt g w = (Ret (changed, e), w') \<and>
    (refused w' = refused w \<longrightarrow> e = None \<and> synced (ks w) (gl_deployKeys g) (ks w'))"
proof -
  let ?D = "CompareKeys (remoteMap (ks w)) (gl_deployKeys g)" and ?E = "CompareKeys (gl_deployKeys g) (remoteMap (ks w))"
  from getDeployKeys_ret [OF g s wf page] obtain r w0 where
    r: "getDeployKeys g w = (Ret r, w0)" "ks w0 = ks w" "case r of
      Inl err \<Rightarrow> refused w < refused w0 | Inr m \<Rightarrow> refused w0 = refused w \<and> m = remoteMap (ks w)"
    by blast
  from removal_ret [OF g s, of w0 ?D] wf page r(2) obtain e1 w1 where
    w1: "(if ?D \<noteq> fmempty then removeDeployKeys g ?D else ret None) w0 = (Ret e1, w1)" "refused w0 \<le> refused w1"
    "refused w1 = refused w0 \<longrightarrow> e1 = None \<and> ks w1 = filter (\<lambda>k. fmlookup ?D (gk_Title k) = None) (ks w)"
    by auto
  from addition_ret [OF g s rt, of ?E w1] obtain e2 w2 where
    w2: "(if ?E \<noteq> fmempty then setDeployKeys rt g ?E else ret None) w1 = (Ret e2, w2)" "refused w1 \<le> refused w2"
    "refused w2 = refused w1 \<longrightarrow> e2 = None \<and>
      (\<exists>kvs. distinct (map fst kvs) \<and> set kvs = {(t, v). fmlookup ?E t = Some v} \<and> added kvs (ks w1) (ks w2))"
    by blast
  show ?thesis
  proof (cases "r = Inr (remoteMap (ks w)) \<and> e1 = None")
    case False
    then obtain err w' where "updateDeployKeys rt g w = (Ret (False, Some err), w')" "refused w' \<noteq> refused w"
    proof (cases r)
      case (Inl err)
      with r show thesis by (intro that [of err w0]) (simp_all add: updateDeployKeys_def)
    next
      case (Inr m)
      with False r obtain err where "e1 = Some err" by auto
      with Inr r w1 show thesis
        by (intro that [of err w1]) (auto simp: updateDeployKeys_def Let_def)
    qed
    then show ?thesis by blast
  next
    case True
    have run: "updateDeployKeys rt g w = (Ret (case e2 of Some err \<Rightarrow> (False, Some err) | None \<Rightarrow> (?E \<noteq> fmempty, None)), w2)"
      using True r(1) w1(1) w2(1) by (simp add: updateDeployKeys_def Let_def split: option.splits)
    have "e2 = None \<and> synced (ks w) (gl_deployKeys g) (ks w2)" if "refused w2 = refused w"
    proof -
      have "refused w1 = refused w0" "refused w2 = refused w1" using that r(3) True w1(2) w2(2) by auto
      with w1(3) w2(3) obtain kvs where "e2 = None" "distinct (map fst kvs)" "set kvs = {(t, v). fmlookup ?E t = Some v}"
        "added kvs (ks w1) (ks w2)" and ks1: "ks w1 = filter (\<lambda>k. fmlookup ?D (gk_Title k) = None) (ks w)"
        by blast
      moreover have "distinct (map gk_ID (ks w1))" using wf by (simp add: ks1 wf_remote_def distinct_map_filter)
      ultimately show ?thesis by (auto simp: synced_def added_def)
    qed
    with run show ?thesis by (cases e2) auto
  qed
qed

text \<open>The titles on both sides are then the same, so that the keys fit on a page if the template's do.\<close>

lemma length_remote:
  assumes "wf_remote ks" and "\<And>t. map_option trimKey (fmlookup (remoteMap ks) t) = map_option trimKey (fmlookup l t)"
  shows "length ks = fcard (fmdom l)"
proof -
  have d: "distinct (map gk_Title ks)" using assms(1) by (simp add: wf_remote_def)
  have "t \<in> set (map gk_Title ks) \<longleftrightarrow> t |\<in>| fmdom l" for t
  proof -
    have "t \<in> set (map gk_Title ks) \<longleftrightarrow> (\<exists>v. fmlookup (remoteMap ks) t = Some v)"
      by (auto simp: remoteMap_Some_iff [OF d])
    also have "\<dots> \<longleftrightarrow> (\<exists>v. fmlookup l t = Some v)"
      using assms(2) [of t] by (metis map_option_eq_Some)
    also have "\<dots> \<longleftrightarrow> t |\<in>| fmdom l" by (auto simp: fmlookup_dom_iff)
    finally show ?thesis .
  qed
  then have "set (map gk_Title ks) = fset (fmdom l)" by auto
  then have "fcard (fmdom l) = card (set (map gk_Title ks))" by (simp add: fcard.rep_eq)
  also have "\<dots> = length ks" using distinct_card [OF d] by simp
  finally show ?thesis by simp
qed

section \<open>Properties\<close>

text \<open>C8: \<open>updateDeployKeys\<close> against a server that may refuse any call, for a project and a template
  of at most twenty keys, which is what the one page holds that the code reads. If no call is refused,
  the call succeeds and the project has exactly the deploy keys of the template: under every title that
  the template names the key of the template (up to white space around it), and no other title; then
  calling it again changes nothing and reports no change, and an error only if its listing is refused.
  (A refused deletion is only logged, so that without an error alone nothing is said.)\<close>

theorem deploy_keys_in_sync:
  assumes "gl_client g = Some api" and "gl_project g = Some p" and "key_server api (gp_ID p) ks refused"
    and "wf_remote (ks w)" and "wf_local (gl_deployKeys g)" and "calm_order rt"
    and "length (ks w) \<le> 20" and "fcard (fmdom (gl_deployKeys g)) \<le> 20"
  shows "\<exists>changed e w'. updateDeployKeys rt g w = (Ret (changed, e), w') \<and> (refused w' = refused w \<longrightarrow>
    e = None \<and> fmmap trimKey (remoteMap (ks w')) = fmmap trimKey (gl_deployKeys g) \<and>
    (\<exists>e2 w2. updateDeployKeys rt g w' = (Ret (False, e2), w2) \<and> ks w2 = ks w' \<and>
       (e2 = None \<longleftrightarrow> refused w2 = refused w')))"
proof -
  from updateDeployKeys_synced [OF assms(1-4,7,6)] obtain changed e w' where
    u: "updateDeployKeys rt g w = (Ret (changed, e), w')"
    and s: "refused w' = refused w \<longrightarrow> e = None \<and> synced (ks w) (gl_deployKeys g) (ks w')"
    by blast
  have "e = None \<and> fmmap trimKey (remoteMap (ks w')) = fmmap trimKey (gl_deployKeys g) \<and>
    (\<exists>e2 w2. updateDeployKeys rt g w' = (Ret (False, e2), w2) \<and> ks w2 = ks w' \<and> (e2 = None \<longleftrightarrow> refused w2 = refused w'))"
    if ok: "refused w' = refused w"
  proof -
    have e: "e = None" and "synced (ks w) (gl_deployKeys g) (ks w')" using s ok by simp_all
    note sync = synced_keys [OF assms(4,5) this(2)]
    have same: "CompareKeys (remoteMap (ks w')) (gl_deployKeys g) = fmempty"
      "CompareKeys (gl_deployKeys g) (remoteMap (ks w')) = fmempty"
      using sync(2) by (simp_all add: CompareKeys_same)
    have "length (ks w') \<le> 20" using length_remote [OF sync] assms(8) by simp
    from getDeployKeys_ret [OF assms(1-3) sync(1) this] obtain r w2 where
      "getDeployKeys g w' = (Ret r, w2)" "ks w2 = ks w'" "case r of
         Inl err \<Rightarrow> refused w' < refused w2 | Inr m \<Rightarrow> refused w2 = refused w' \<and> m = remoteMap (ks w')"
      by blast
    with same have "\<exists>e2 w2. updateDeployKeys rt g w' = (Ret (False, e2), w2) \<and> ks w2 = ks w' \<and>
        (e2 = None \<longleftrightarrow> refused w2 = refused w')"
      by (cases r) (auto simp: updateDeployKeys_def)
    moreover have "fmmap trimKey (remoteMap (ks w')) = fmmap trimKey (gl_deployKeys g)"
      using sync(2) by (intro gomap_eqI) simp
    ultimately show ?thesis using e by blast
  qed
  with u show ?thesis by blast
qed

text \<open>The instance: a server whose world is the list of keys, and which numbers new keys above all
  others.\<close>

definition keyGitlab :: "GDeployKey list GitlabAPI" where
  "keyGitlab = idleGitlab\<lparr>ga_ListProjectDeployKeys := (\<lambda>_ ks. (Ret (Inr (map Some (take 20 ks))), ks)),
     ga_DeleteDeployKey := (\<lambda>_ i ks. (Ret None, filter (\<lambda>k. gk_ID k \<noteq> i) ks)),
     ga_AddDeployKey := (\<lambda>_ t key b ks. (Ret None, ks @ [\<lparr>gk_ID = sum_list (map (\<lambda>k. \<bar>gk_ID k\<bar>) ks) + 1,
        gk_Title = t, gk_Key = key, gk_CanPush = b\<rparr>]))\<rparr>"

lemma below_sum: "k \<in> set ks \<Longrightarrow> gk_ID k \<le> sum_list (map (\<lambda>k. \<bar>gk_ID k\<bar>) ks)"
proof (induction ks)
  case Nil
  then show ?case by simp
next
  case (Cons x ks)
  have "0 \<le> sum_list (map (\<lambda>k. \<bar>gk_ID k\<bar>) ks)" by (rule sum_list_nonneg) auto
  with Cons show ?case by fastforce
qed

lemma keyGitlab_server: "key_server keyGitlab pid (\<lambda>ks. ks) (\<lambda>_. 0)"
  using below_sum by (fastforce simp: key_server_def keyGitlab_def)

lemma deploy_keys_in_sync_witness:
  "\<exists>changed ks'. updateDeployKeys idleRuntime (sampleHandle keyGitlab
       (fmupd ''ci'' \<lparr>dk_Type = ''ssh-ed25519'', dk_Key = ''AAAA'', dk_WriteAccess = True\<rparr> fmempty) fmempty)
      [\<lparr>gk_ID = 1, gk_Title = ''old'', gk_Key = ''ssh-rsa BBBB'', gk_CanPush = False\<rparr>] = (Ret (changed, None), ks') \<and>
     fmlookup (remoteMap ks') ''old'' = None \<and> fmlookup (remoteMap ks') ''ci'' \<noteq> None"
proof -
  let ?l = "fmupd ''ci'' \<lparr>dk_Type = ''ssh-ed25519'', dk_Key = ''AAAA'', dk_WriteAccess = True\<rparr> fmempty"
  let ?g = "sampleHandle keyGitlab ?l fmempty"
  let ?w = "[\<lparr>gk_ID = 1, gk_Title = ''old'', gk_Key = ''ssh-rsa BBBB'', gk_CanPush = False\<rparr>]"
  have l: "wf_local ?l" "fcard (fmdom ?l) \<le> 20" by (auto simp: wf_local_def fmpred_iff fcard.rep_eq split: if_splits)
  have "\<exists>changed e w'. updateDeployKeys idleRuntime ?g ?w = (Ret (changed, e), w') \<and> ((0::nat) = 0 \<longrightarrow>
      e = None \<and> fmmap trimKey (remoteMap w') = fmmap trimKey ?l \<and>
      (\<exists>e2 w2. updateDeployKeys idleRuntime ?g w' = (Ret (False, e2), w2) \<and> w2 = w' \<and> (e2 = None \<longleftrightarrow> (0::nat) = 0)))"
    using deploy_keys_in_sync [where g = ?g and api = keyGitlab and p = idleProject and ks = "\<lambda>ks. ks" and w = ?w
        and rt = idleRuntime and refused = "\<lambda>_. 0"] keyGitlab_server l
    by (simp add: wf_remote_def parseKey_def calm_order_def)
  then obtain changed w' where u: "updateDeployKeys idleRuntime ?g ?w = (Ret (changed, None), w')"
    "fmmap trimKey (remoteMap w') = fmmap trimKey ?l" by auto
  from u(2) have "map_option trimKey (fmlookup (remoteMap w') t) = map_option trimKey (fmlookup ?l t)" for t
    by (metis fmlookup_map)
  from this [of "''old''"] this [of "''ci''"] u(1) show ?thesis by auto
qed

end
