(* ===== verification/GitlabVars.thy ===== *)
theory GitlabVars
  imports Gitlab
begin

text \<open>
  The CI variables, the access token and the template files of a project. As for the deploy keys,
  the server is specified by what its calls do to an abstract state; the theorems say what the
  state is after the code has run, and that it runs to an end.
\<close>

section \<open>CI variables\<close>

text \<open>What an update sends replaces the stored values; the description is never sent.\<close>

definition stored :: "VariableOptions \<Rightarrow> GVariable \<Rightarrow> GVariable" where
  "stored vo x = x\<lparr>gv_Value := vo_Value vo,
     gv_Protected := (case vo_Protected vo of None \<Rightarrow> gv_Protected x | Some b \<Rightarrow> b),
     gv_Masked := (case vo_Masked vo of None \<Rightarrow> gv_Masked x | Some b \<Rightarrow> b),
     gv_Raw := (case vo_Raw vo of None \<Rightarrow> gv_Raw x | Some b \<Rightarrow> b)\<rparr>"

definition freshVariable :: "string \<Rightarrow> GVariable" where
  "freshVariable n = \<lparr>gv_Key = n, gv_Value = '''', gv_Description = '''', gv_Protected = False,
     gv_Masked = False, gv_Raw = False\<rparr>"

text \<open>Documented behaviour of the variable API. The listing is a page of the variables of the
  project. A call may be refused: then it returns an error, the variables stay as they are, and
  \<open>refused\<close>, a count that only the statements know, goes up. An answer 404 says that there is no such
  variable.\<close>

definition var_server :: "'w GitlabAPI \<Rightarrow> int \<Rightarrow> ('w \<Rightarrow> GVariable gomap) \<Rightarrow> ('w \<Rightarrow> nat) \<Rightarrow> bool" where
  "var_server api pid vs refused \<longleftrightarrow>
     (\<forall>w. \<exists>r w'. ga_ListVariables api pid w = (Ret r, w') \<and> vs w' = vs w \<and> (case r of
        Inl err \<Rightarrow> refused w < refused w'
      | Inr l \<Rightarrow> refused w' = refused w \<and>
          (\<forall>n x. fmlookup (remoteByName l) n = Some x \<longrightarrow> fmlookup (vs w) n = Some x))) \<and>
     (\<forall>w n. \<exists>e w'. ga_RemoveVariable api pid n w = (Ret e, w') \<and>
        (if (\<forall>err. e = Some err \<longrightarrow> isGitlabNotFound err) then vs w' = fmdrop n (vs w) \<and> refused w' = refused w
         else vs w' = vs w \<and> refused w < refused w')) \<and>
     (\<forall>w n vo. \<exists>e w'. ga_UpdateVariable api pid n vo w = (Ret e, w') \<and> (case e of
        None \<Rightarrow> refused w' = refused w \<and> (\<exists>x. fmlookup (vs w) n = Some x \<and> vs w' = fmupd n (stored vo x) (vs w))
      | Some err \<Rightarrow> vs w' = vs w \<and> (if isGitlabNotFound err then fmlookup (vs w) n = None \<and> refused w' = refused w
          else refused w < refused w'))) \<and>
     (\<forall>w n vo. fmlookup (vs w) n = None \<longrightarrow> (\<exists>e w'. ga_CreateVariable api pid n vo w = (Ret e, w') \<and> (case e of
        None \<Rightarrow> refused w' = refused w \<and> vs w' = fmupd n (stored vo (freshVariable n)) (vs w)
      | Some err \<Rightarrow> vs w' = vs w \<and> refused w < refused w')))"

lemma var_server_list:
  "var_server api pid vs refused \<Longrightarrow> \<exists>r w'. ga_ListVariables api pid w = (Ret r, w') \<and> vs w' = vs w \<and> (case r of
        Inl err \<Rightarrow> refused w < refused w'
      | Inr l \<Rightarrow> refused w' = refused w \<and>
          (\<forall>n x. fmlookup (remoteByName l) n = Some x \<longrightarrow> fmlookup (vs w) n = Some x))"
  by (simp add: var_server_def)

lemma var_server_remove:
  "var_server api pid vs refused \<Longrightarrow> \<exists>e w'. ga_RemoveVariable api pid n w = (Ret e, w') \<and>
        (if (\<forall>err. e = Some err \<longrightarrow> isGitlabNotFound err) then vs w' = fmdrop n (vs w) \<and> refused w' = refused w
         else vs w' = vs w \<and> refused w < refused w')"
  by (simp add: var_server_def)

lemma var_server_update:
  "var_server api pid vs refused \<Longrightarrow> \<exists>e w'. ga_UpdateVariable api pid n vo w = (Ret e, w') \<and> (case e of
        None \<Rightarrow> refused w' = refused w \<and> (\<exists>x. fmlookup (vs w) n = Some x \<and> vs w' = fmupd n (stored vo x) (vs w))
      | Some err \<Rightarrow> vs w' = vs w \<and> (if isGitlabNotFound err then fmlookup (vs w) n = None \<and> refused w' = refused w
          else refused w < refused w'))"
  by (simp add: var_server_def)

lemma var_server_create:
  "var_server api pid vs refused \<Longrightarrow> fmlookup (vs w) n = None \<Longrightarrow>
     \<exists>e w'. ga_CreateVariable api pid n vo w = (Ret e, w') \<and> (case e of
        None \<Rightarrow> refused w' = refused w \<and> vs w' = fmupd n (stored vo (freshVariable n)) (vs w)
      | Some err \<Rightarrow> vs w' = vs w \<and> refused w < refused w')"
  by (simp add: var_server_def)

text \<open>What a loop of calls does to the counter: the errors it gives are the calls refused.\<close>

definition reported :: "bool \<Rightarrow> nat \<Rightarrow> nat \<Rightarrow> bool" where
  "reported ok m n \<longleftrightarrow> (if ok then n = m else m < n)"

lemma reported_conj: "reported a m n \<Longrightarrow> reported b n k \<Longrightarrow> c = (a \<and> b) \<Longrightarrow> reported c m k"
  by (auto simp: reported_def split: if_splits)

lemma removeVariables_ret:
  assumes g: "gl_client g = Some api" "gl_project g = Some p" and s: "var_server api (gp_ID p) vs refused"
  shows "\<exists>errs w'. removeVariables g ns w = (Ret errs, w') \<and> reported (errs = []) (refused w) (refused w') \<and>
    (errs = [] \<longrightarrow> vs w' = fold fmdrop ns (vs w)) \<and> (\<forall>n. n \<notin> set ns \<longrightarrow> fmlookup (vs w') n = fmlookup (vs w) n)"
proof (induction ns arbitrary: w)
  case Nil
  show ?case by (simp add: reported_def)
next
  case (Cons n ns)
  from var_server_remove [OF s, of n w] obtain e w1 where r: "ga_RemoveVariable api (gp_ID p) n w = (Ret e, w1)"
    and e: "if (\<forall>err. e = Some err \<longrightarrow> isGitlabNotFound err) then vs w1 = fmdrop n (vs w) \<and> refused w1 = refused w
         else vs w1 = vs w \<and> refused w < refused w1"
    by blast
  let ?ok = "\<forall>err. e = Some err \<longrightarrow> isGitlabNotFound err"
  from Cons.IH [of w1] obtain errs w2 where l: "removeVariables g ns w1 = (Ret errs, w2)"
    "reported (errs = []) (refused w1) (refused w2)" "errs = [] \<longrightarrow> vs w2 = fold fmdrop ns (vs w1)"
    "\<forall>n. n \<notin> set ns \<longrightarrow> fmlookup (vs w2) n = fmlookup (vs w1) n"
    by blast
  obtain errs' where run: "removeVariables g (n # ns) w = (Ret errs', w2)" and errs': "errs' = [] \<longleftrightarrow> ?ok \<and> errs = []"
    using r l(1) g by (simp add: withProject_def withClient_def split: option.splits)
  have "reported ?ok (refused w) (refused w1)" using e by (simp add: reported_def split: if_splits)
  from reported_conj [OF this l(2) errs'] run l(3,4) errs' e show ?case
    by (intro exI [of _ errs'] exI [of _ w2]) (auto split: if_splits)
qed

definition setVariable :: "ManagerEnvVar \<Rightarrow> GVariable gomap \<Rightarrow> GVariable gomap" where
  "setVariable v m = fmupd (mev_Name v) (stored (variableOptions v)
     (case fmlookup m (mev_Name v) of None \<Rightarrow> freshVariable (mev_Name v) | Some x \<Rightarrow> x)) m"

lemma updateOrCreate_ret:
  assumes g: "gl_client g = Some api" "gl_project g = Some p" and s: "var_server api (gp_ID p) vs refused"
  shows "\<exists>e w'. updateOrCreateCIVariable g v w = (Ret e, w') \<and> reported (e = None) (refused w) (refused w') \<and>
    vs w' = (if e = None then setVariable v (vs w) else vs w)"
proof -
  let ?n = "mev_Name v" and ?vo = "variableOptions v"
  from var_server_update [OF s, of ?n ?vo w] obtain e w1 where
    u: "ga_UpdateVariable api (gp_ID p) ?n ?vo w = (Ret e, w1)" and e: "case e of
        None \<Rightarrow> refused w1 = refused w \<and> (\<exists>x. fmlookup (vs w) ?n = Some x \<and> vs w1 = fmupd ?n (stored ?vo x) (vs w))
      | Some err \<Rightarrow> vs w1 = vs w \<and> (if isGitlabNotFound err then fmlookup (vs w) ?n = None \<and> refused w1 = refused w
          else refused w < refused w1)"
    by blast
  show ?thesis
  proof (cases "\<exists>err. e = Some err \<and> isGitlabNotFound err")
    case False
    with u e g show ?thesis
      by (auto simp: updateOrCreateCIVariable_def withProject_def withClient_def reported_def setVariable_def
          split: option.splits)
  next
    case True
    then obtain err where err: "e = Some err" "isGitlabNotFound err" by blast
    with e have none: "fmlookup (vs w1) ?n = None" "vs w1 = vs w" "refused w1 = refused w" by auto
    from var_server_create [OF s none(1), of ?vo] obtain e2 w2 where
      "ga_CreateVariable api (gp_ID p) ?n ?vo w1 = (Ret e2, w2)" "case e2 of
        None \<Rightarrow> refused w2 = refused w1 \<and> vs w2 = fmupd ?n (stored ?vo (freshVariable ?n)) (vs w1)
      | Some err \<Rightarrow> vs w2 = vs w1 \<and> refused w1 < refused w2"
      by blast
    with u err g none show ?thesis
      by (auto simp: updateOrCreateCIVariable_def withProject_def withClient_def reported_def setVariable_def
          split: option.splits)
  qed
qed

text \<open>A variable of the project that is what a variable of the template asks for, its description
  apart.\<close>

definition satisfies :: "GVariable \<Rightarrow> ManagerEnvVar \<Rightarrow> bool" where
  "satisfies x v \<longleftrightarrow> gv_Value x = mev_Value v
     \<and> (\<forall>b. mgo_Protected (mev_GitlabOptions v) = Some b \<longrightarrow> gv_Protected x = b)
     \<and> (\<forall>b. mgo_Masked (mev_GitlabOptions v) = Some b \<longrightarrow> gv_Masked x = b)
     \<and> (\<forall>b. mgo_Raw (mev_GitlabOptions v) = Some b \<longrightarrow> gv_Raw x = b)"

lemma stored_satisfies: "satisfies (stored (variableOptions v) x) v"
  by (auto simp: satisfies_def stored_def variableOptions_def)

lemma not_needed_satisfies: "\<not> varNeedsUpdate x v \<Longrightarrow> satisfies x v"
  by (auto simp: satisfies_def varNeedsUpdate_def)

lemma stored_description [simp]: "gv_Description (stored vo x) = gv_Description x"
  by (simp add: stored_def)

definition described :: "GVariable gomap \<Rightarrow> string \<Rightarrow> string" where
  "described m n = (case fmlookup m n of None \<Rightarrow> '''' | Some x \<Rightarrow> gv_Description x)"

lemma setVariable_described [simp]: "described (setVariable v m) n = described m n"
  by (auto simp: described_def setVariable_def freshVariable_def split: option.splits)

lemma applyVariables_ret:
  assumes g: "gl_client g = Some api" "gl_project g = Some p" and s: "var_server api (gp_ID p) vs refused"
  shows "distinct (map mev_Name l) \<Longrightarrow>
    (\<And>v x. v \<in> set l \<Longrightarrow> fmlookup byName (mev_Name v) = Some x \<Longrightarrow> fmlookup (vs w) (mev_Name v) = Some x) \<Longrightarrow>
    \<exists>errs w'. applyVariables g managed byName l w = (Ret errs, w') \<and> reported (errs = []) (refused w) (refused w') \<and>
      (errs = [] \<longrightarrow> (\<forall>v \<in> set l. mev_Name v \<in> set managed \<longrightarrow>
         (\<exists>x. fmlookup (vs w') (mev_Name v) = Some x \<and> satisfies x v))) \<and>
      (\<forall>n. n \<notin> mev_Name ` set l \<or> n \<notin> set managed \<longrightarrow> fmlookup (vs w') n = fmlookup (vs w) n) \<and>
      (\<forall>n. described (vs w') n = described (vs w) n)"
proof (induction l arbitrary: w)
  case Nil
  show ?case by (auto simp: reported_def)
next
  case (Cons v l)
  let ?skip = "mev_Name v \<notin> set managed
      \<or> (case fmlookup byName (mev_Name v) of None \<Rightarrow> False | Some remote \<Rightarrow> \<not> varNeedsUpdate remote v)"
  have nv: "mev_Name v \<notin> mev_Name ` set l" and dl: "distinct (map mev_Name l)" using Cons.prems(1) by auto
  obtain e w1 where w1: "(if ?skip then ret None else updateOrCreateCIVariable g v) w = (Ret e, w1)"
    "reported (e = None) (refused w) (refused w1)"
    "vs w1 = (if ?skip \<or> e \<noteq> None then vs w else setVariable v (vs w))"
    using updateOrCreate_ret [OF g s, of v w] by (cases ?skip) (auto simp: reported_def split: if_splits)
  have same: "fmlookup (vs w1) n = fmlookup (vs w) n" if "n \<noteq> mev_Name v" for n
    using that by (simp add: w1(3) setVariable_def)
  have "fmlookup (vs w1) (mev_Name u) = Some x"
    if "u \<in> set l" and "fmlookup byName (mev_Name u) = Some x" for u x
  proof -
    have "mev_Name u \<noteq> mev_Name v" using nv that(1) by (metis image_eqI)
    with same Cons.prems(2) [of u] that show ?thesis by simp
  qed
  from Cons.IH [OF dl this] obtain errs w2 where w2: "applyVariables g managed byName l w1 = (Ret errs, w2)"
    "reported (errs = []) (refused w1) (refused w2)"
    "errs = [] \<longrightarrow> (\<forall>v \<in> set l. mev_Name v \<in> set managed \<longrightarrow> (\<exists>x. fmlookup (vs w2) (mev_Name v) = Some x \<and> satisfies x v))"
    "\<forall>n. n \<notin> mev_Name ` set l \<or> n \<notin> set managed \<longrightarrow> fmlookup (vs w2) n = fmlookup (vs w1) n"
    "\<forall>n. described (vs w2) n = described (vs w1) n"
    by blast
  obtain errs' where run: "applyVariables g managed byName (v # l) w = (Ret errs', w2)"
    and errs': "errs' = [] \<longleftrightarrow> e = None \<and> errs = []"
    using w1(1) w2(1) by (cases ?skip) (auto split: option.splits)
  have here: "\<exists>x. fmlookup (vs w1) (mev_Name v) = Some x \<and> satisfies x v" if m: "mev_Name v \<in> set managed" and "e = None"
  proof (cases ?skip)
    case True
    with m Cons.prems(2) [of v] show ?thesis
      by (auto simp: w1(3) split: option.splits dest: not_needed_satisfies)
  next
    case False
    with that show ?thesis by (simp add: w1(3) setVariable_def stored_satisfies)
  qed
  have "fmlookup (vs w2) (mev_Name v) = fmlookup (vs w1) (mev_Name v)" using w2(4) nv by blast
  with here w2(3) errs' have sat: "errs' = [] \<longrightarrow> (\<forall>u \<in> set (v # l). mev_Name u \<in> set managed \<longrightarrow>
      (\<exists>x. fmlookup (vs w2) (mev_Name u) = Some x \<and> satisfies x u))" by auto
  have "fmlookup (vs w2) n = fmlookup (vs w) n" if "n \<notin> mev_Name ` set (v # l) \<or> n \<notin> set managed" for n
  proof -
    have "fmlookup (vs w2) n = fmlookup (vs w1) n" using w2(4) that by auto
    moreover have "fmlookup (vs w1) n = fmlookup (vs w) n"
      using that by (cases "n = mev_Name v") (auto simp: w1(3) setVariable_def)
    ultimately show ?thesis by simp
  qed
  moreover have "described (vs w2) n = described (vs w) n" for n
    using w2(5) by (simp add: w1(3))
  ultimately show ?case using run sat reported_conj [OF w1(2) w2(2) errs'] by blast
qed

lemma fold_fmdrop_lookup: "fmlookup (fold fmdrop ns m) n = (if n \<in> set ns then None else fmlookup m n)"
  by (induction ns arbitrary: m) auto

lemma ensureCIVariables_ret:
  assumes g: "gl_client g = Some api" "gl_project g = Some p" and s: "var_server api (gp_ID p) vs refused"
    and d: "distinct (map mev_Name variables)"
  shows "\<exists>e w'. gitlabEnsureCIVariables g managed variables w = (Ret e, w') \<and> (e = None \<longleftrightarrow> refused w' = refused w) \<and>
    (e = None \<longrightarrow> (\<forall>v \<in> set variables. mev_Name v \<in> set managed \<longrightarrow> (\<exists>x. fmlookup (vs w') (mev_Name v) = Some x
        \<and> satisfies x v \<and> gv_Description x = described (vs w) (mev_Name v)))) \<and>
    (e = None \<longrightarrow> (\<forall>n \<in> set managed. n \<notin> mev_Name ` set variables \<longrightarrow> fmlookup (vs w') n = None)) \<and>
    (\<forall>n. n \<notin> set managed \<longrightarrow> fmlookup (vs w') n = fmlookup (vs w) n)"
proof -
  let ?del = "sort (remdups (filter (\<lambda>n. n \<notin> mev_Name ` set variables) managed))"
  obtain errs1 w1 where w1: "removeVariables g ?del w = (Ret errs1, w1)" "reported (errs1 = []) (refused w) (refused w1)"
    "errs1 = [] \<longrightarrow> vs w1 = fold fmdrop ?del (vs w)" "\<forall>n. n \<notin> set ?del \<longrightarrow> fmlookup (vs w1) n = fmlookup (vs w) n"
    using removeVariables_ret [OF g s] by blast
  have gone: "errs1 = [] \<Longrightarrow> n \<in> set managed \<Longrightarrow> n \<notin> mev_Name ` set variables \<Longrightarrow> fmlookup (vs w1) n = None" for n
    using w1(3) by (simp add: fold_fmdrop_lookup)
  have kept: "n \<notin> set managed \<or> n \<in> mev_Name ` set variables \<Longrightarrow> fmlookup (vs w1) n = fmlookup (vs w) n" for n
    using w1(4) by auto
  obtain r w2 where l: "ga_ListVariables api (gp_ID p) w1 = (Ret r, w2)" "vs w2 = vs w1" and r: "case r of
        Inl err \<Rightarrow> refused w1 < refused w2
      | Inr l \<Rightarrow> refused w2 = refused w1 \<and>
          (\<forall>n x. fmlookup (remoteByName l) n = Some x \<longrightarrow> fmlookup (vs w1) n = Some x)"
    using var_server_list [OF s, of w1] by blast
  show ?thesis
  proof (cases r)
    case (Inl err)
    have "gitlabEnsureCIVariables g managed variables w = (Ret (Some (Wrap ''error listing variables: '' err)), w2)"
      using w1(1) l Inl g by (simp add: gitlabEnsureCIVariables_def Let_def withProject_def withClient_def)
    moreover have "refused w2 \<noteq> refused w" using w1(2) r Inl by (simp add: reported_def split: if_splits)
    ultimately show ?thesis using kept l(2) by auto
  next
    case (Inr ls)
    with r have page: "fmlookup (remoteByName ls) n = Some x \<Longrightarrow> fmlookup (vs w2) n = Some x" for n x
      by (simp add: l(2))
    obtain errs2 w3 where w3: "applyVariables g managed (remoteByName ls) variables w2 = (Ret errs2, w3)"
      "reported (errs2 = []) (refused w2) (refused w3)"
      "errs2 = [] \<longrightarrow> (\<forall>v \<in> set variables. mev_Name v \<in> set managed \<longrightarrow>
         (\<exists>x. fmlookup (vs w3) (mev_Name v) = Some x \<and> satisfies x v))"
      "\<forall>n. n \<notin> mev_Name ` set variables \<or> n \<notin> set managed \<longrightarrow> fmlookup (vs w3) n = fmlookup (vs w2) n"
      "\<forall>n. described (vs w3) n = described (vs w2) n"
      using applyVariables_ret [OF g s d, of "remoteByName ls" w2 managed] page by blast
    have run: "gitlabEnsureCIVariables g managed variables w = (Ret (combineErrs (errs1 @ errs2)), w3)"
      using w1(1) w3(1) l Inr g by (simp add: gitlabEnsureCIVariables_def Let_def withProject_def withClient_def)
    have "reported (errs1 = []) (refused w) (refused w2)" using w1(2) r Inr by simp
    from reported_conj [OF this w3(2) refl]
    have ok: "combineErrs (errs1 @ errs2) = None \<longleftrightarrow> refused w3 = refused w" by (auto simp: reported_def split: if_splits)
    have "gv_Description x = described (vs w) (mev_Name v)"
      if "v \<in> set variables" and "fmlookup (vs w3) (mev_Name v) = Some x" for v x
      using w3(5) kept [of "mev_Name v"] that by (auto simp: described_def l(2) dest!: spec [of _ "mev_Name v"])
    then have desc: "combineErrs (errs1 @ errs2) = None \<longrightarrow> (\<forall>v \<in> set variables. mev_Name v \<in> set managed \<longrightarrow>
        (\<exists>x. fmlookup (vs w3) (mev_Name v) = Some x \<and> satisfies x v \<and> gv_Description x = described (vs w) (mev_Name v)))"
      using w3(3) by fastforce
    moreover have "fmlookup (vs w3) n = None"
      if "combineErrs (errs1 @ errs2) = None" and "n \<in> set managed" and "n \<notin> mev_Name ` set variables" for n
      using that w3(4) gone [of n] by (simp add: l(2))
    moreover have "fmlookup (vs w3) n = fmlookup (vs w) n" if "n \<notin> set managed" for n
      using that w3(4) kept [of n] by (simp add: l(2))
    ultimately show ?thesis using run ok
      by (intro exI [of _ "combineErrs (errs1 @ errs2)"] exI [of _ w3]) blast
  qed
qed

text \<open>C9: \<open>EnsureCIVariables\<close> against a server that may refuse any call. It reports an error exactly
  when a call was refused. Without an error the CI variables of the project are in sync: every variable
  that is given and managed is there with its value and with the protected, masked and raw flags it
  asks for, and every managed one that is not given is gone. The description is the one option that is
  never sent: a variable keeps the one it had, or the empty one. No variable that is not managed is
  touched, error or not.\<close>

theorem ci_variables_in_sync:
  assumes "gl_client g = Some api" and "gl_project g = Some p" and "var_server api (gp_ID p) vs refused"
    and "distinct (map mev_Name variables)"
  shows "\<exists>e w'. gitlabEnsureCIVariables g managed variables w = (Ret e, w') \<and> (e = None \<longleftrightarrow> refused w' = refused w) \<and>
    (e = None \<longrightarrow> (\<forall>v \<in> set variables. mev_Name v \<in> set managed \<longrightarrow> (\<exists>x. fmlookup (vs w') (mev_Name v) = Some x
        \<and> satisfies x v \<and> gv_Description x = described (vs w) (mev_Name v)))) \<and>
    (e = None \<longrightarrow> (\<forall>n \<in> set managed. n \<notin> mev_Name ` set variables \<longrightarrow> fmlookup (vs w') n = None)) \<and>
    (\<forall>n. n \<notin> set managed \<longrightarrow> fmlookup (vs w') n = fmlookup (vs w) n)"
  by (rule ensureCIVariables_ret [OF assms])

text \<open>The instance: a server whose world is a journal of variables, of which the last entry of a
  name counts.\<close>

definition journal :: "GVariable list \<Rightarrow> GVariable gomap" where
  "journal xs = remoteByName (map Some xs)"

definition varGitlab :: "GVariable list GitlabAPI" where
  "varGitlab = idleGitlab\<lparr>
     ga_ListVariables := (\<lambda>_ xs. (Ret (Inr (map Some xs)), xs)),
     ga_RemoveVariable := (\<lambda>_ n xs. (Ret None, filter (\<lambda>x. gv_Key x \<noteq> n) xs)),
     ga_UpdateVariable := (\<lambda>_ n vo xs. case fmlookup (journal xs) n of
          None \<Rightarrow> (Ret (Some ErrGitlabNotFound), xs)
        | Some x \<Rightarrow> (Ret None, xs @ [stored vo x])),
     ga_CreateVariable := (\<lambda>_ n vo xs. (Ret None, xs @ [stored vo (freshVariable n)]))\<rparr>"

lemma journal_snoc: "journal (xs @ [x]) = fmupd (gv_Key x) x (journal xs)"
  by (simp add: journal_def remoteByName_def)

lemma journal_Nil [simp]: "journal [] = fmempty"
  by (simp add: journal_def remoteByName_def)

lemma journal_key: "fmlookup (journal xs) n = Some x \<Longrightarrow> gv_Key x = n"
  by (induction xs arbitrary: x rule: rev_induct) (auto simp: journal_snoc split: if_splits)

lemma journal_filter: "journal (filter (\<lambda>x. gv_Key x \<noteq> n) xs) = fmdrop n (journal xs)"
proof (induction xs rule: rev_induct)
  case Nil
  show ?case by simp
next
  case (snoc x xs)
  then show ?case by (intro gomap_eqI) (auto simp: journal_snoc)
qed

lemma stored_key [simp]: "gv_Key (stored vo x) = gv_Key x" "gv_Key (freshVariable n) = n"
  by (simp_all add: stored_def freshVariable_def)

lemma varGitlab_server: "var_server varGitlab pid journal (\<lambda>_. 0)"
proof -
  have u: "\<exists>e w'. ga_UpdateVariable varGitlab pid n vo w = (Ret e, w') \<and> (case e of
        None \<Rightarrow> (0::nat) = 0 \<and> (\<exists>x. fmlookup (journal w) n = Some x \<and> journal w' = fmupd n (stored vo x) (journal w))
      | Some err \<Rightarrow> journal w' = journal w \<and> (if isGitlabNotFound err then fmlookup (journal w) n = None \<and> (0::nat) = 0
          else (0::nat) < 0))" for w n vo
    by (cases "fmlookup (journal w) n") (simp_all add: varGitlab_def journal_snoc journal_key)
  show ?thesis
    unfolding var_server_def
    by (intro conjI allI u) (auto simp: varGitlab_def journal_def [symmetric] journal_filter journal_snoc)
qed

definition varHandle :: "GVariable list Gitlab" where
  "varHandle = sampleHandle varGitlab fmempty fmempty"

lemma varHandle_simps [simp]: "gl_client varHandle = Some varGitlab" "gl_project varHandle = Some idleProject"
  by (simp_all add: varHandle_def)

definition describedVar :: ManagerEnvVar where
  "describedVar = \<lparr>mev_Name = ''A'', mev_Value = ''1'', mev_GitlabOptions = \<lparr>mgo_Description = Some ''the first'',
     mgo_Protected = None, mgo_Masked = Some True, mgo_Raw = None\<rparr>\<rparr>"

lemma describedVar_simps [simp]: "mev_Name describedVar = ''A''" "mev_Value describedVar = ''1''"
  "mgo_Description (mev_GitlabOptions describedVar) = Some ''the first''"
  by (simp_all add: describedVar_def)

lemma ci_variables_in_sync_witness:
  "\<exists>w'. gitlabEnsureCIVariables varHandle [''A'', ''B''] [describedVar]
      [freshVariable ''B'', freshVariable ''C''] = (Ret None, w') \<and>
    (\<exists>x. fmlookup (journal w') ''A'' = Some x \<and> gv_Value x = ''1'' \<and> gv_Masked x \<and> gv_Description x = '''') \<and>
    fmlookup (journal w') ''B'' = None \<and> fmlookup (journal w') ''C'' = Some (freshVariable ''C'')"
proof -
  have c: "fmlookup (journal [freshVariable ''B'', freshVariable ''C'']) ''C'' = Some (freshVariable ''C'')"
    "described (journal [freshVariable ''B'', freshVariable ''C'']) ''A'' = ''''"
    by (simp_all add: journal_def remoteByName_def described_def)
  have d: "distinct (map mev_Name [describedVar])" by simp
  from ci_variables_in_sync [OF varHandle_simps varGitlab_server d, of "[''A'', ''B'']" "[freshVariable ''B'', freshVariable ''C'']"]
  obtain e w' where w': "gitlabEnsureCIVariables varHandle [''A'', ''B''] [describedVar]
      [freshVariable ''B'', freshVariable ''C''] = (Ret e, w')" and "e = None \<longleftrightarrow> (0::nat) = 0"
    and set: "e = None \<longrightarrow> (\<forall>v \<in> set [describedVar]. mev_Name v \<in> set [''A'', ''B''] \<longrightarrow>
      (\<exists>x. fmlookup (journal w') (mev_Name v) = Some x \<and> satisfies x v
         \<and> gv_Description x = described (journal [freshVariable ''B'', freshVariable ''C'']) (mev_Name v)))"
    and gone: "e = None \<longrightarrow> (\<forall>n \<in> set [''A'', ''B'']. n \<notin> mev_Name ` set [describedVar] \<longrightarrow> fmlookup (journal w') n = None)"
    and other: "\<forall>n. n \<notin> set [''A'', ''B''] \<longrightarrow> fmlookup (journal w') n = fmlookup (journal [freshVariable ''B'', freshVariable ''C'']) n"
    by (elim exE conjE) (rule that)
  then have e: "e = None" by simp
  have "\<exists>x. fmlookup (journal w') ''A'' = Some x \<and> gv_Value x = ''1'' \<and> gv_Masked x \<and> gv_Description x = ''''"
    using set e by (auto simp: satisfies_def c describedVar_def)
  moreover have "fmlookup (journal w') ''B'' = None" using gone e by simp
  moreover have "fmlookup (journal w') ''C'' = Some (freshVariable ''C'')" using other c by simp
  ultimately show ?thesis using w' e by blast
qed

text \<open>The description of a CI variable never reaches GitLab. If it differs from the one on the
  server, a pass of \<open>EnsureCIVariables\<close> that no call refuses updates the variable and reports success,
  but afterwards the variable still has the description it had and still needs the update, pass after
  pass.\<close>

theorem description_never_applied:
  assumes "gl_client g = Some api" and "gl_project g = Some p" and "var_server api (gp_ID p) vs refused"
    and "distinct (map mev_Name variables)" and "v \<in> set variables" and "mev_Name v \<in> set managed"
    and "mgo_Description (mev_GitlabOptions v) = Some d" and "described (vs w) (mev_Name v) \<noteq> d"
  shows "\<exists>e w'. gitlabEnsureCIVariables g managed variables w = (Ret e, w') \<and> (e = None \<longleftrightarrow> refused w' = refused w) \<and>
    (e = None \<longrightarrow> (\<exists>x. fmlookup (vs w') (mev_Name v) = Some x \<and> satisfies x v \<and> varNeedsUpdate x v))"
proof -
  from ensureCIVariables_ret [OF assms(1-4), of managed w] assms(5,6) obtain e w' where
    "gitlabEnsureCIVariables g managed variables w = (Ret e, w')" "e = None \<longleftrightarrow> refused w' = refused w"
    "e = None \<longrightarrow> (\<exists>x. fmlookup (vs w') (mev_Name v) = Some x \<and> satisfies x v
       \<and> gv_Description x = described (vs w) (mev_Name v))"
    by blast
  moreover have "varNeedsUpdate x v" if "gv_Description x = described (vs w) (mev_Name v)" for x
    using that assms(7,8) by (simp add: varNeedsUpdate_def)
  ultimately show ?thesis by blast
qed

lemma description_never_applied_witness:
  "\<exists>w' x. gitlabEnsureCIVariables varHandle [''A''] [describedVar] [] = (Ret None, w') \<and>
    fmlookup (journal w') ''A'' = Some x \<and> varNeedsUpdate x describedVar"
proof -
  have d: "distinct (map mev_Name [describedVar])" "describedVar \<in> set [describedVar]"
    "mev_Name describedVar \<in> set [''A'']" "described (journal []) (mev_Name describedVar) \<noteq> ''the first''"
    by (simp_all add: described_def)
  from description_never_applied [OF varHandle_simps varGitlab_server d(1-3) describedVar_simps(3) d(4)]
  show ?thesis by auto
qed

end
