(* ===== verification/GitlabFiles.thy ===== *)
theory GitlabFiles
  imports Gitlab
begin

text \<open>
  The template files and the access token of a GitLab project: the walk over the pages of the
  repository tree ends and sees all of it, the commit holds exactly the files that are missing or
  to be deleted, and an access token is made only if the known one cannot be used any more.
\<close>

section \<open>The repository tree\<close>

text \<open>Documented behaviour of the tree API: the pages from 1 on, each naming the next one.\<close>

definition tree_server :: "'w GitlabAPI \<Rightarrow> int \<Rightarrow> string list list \<Rightarrow> bool" where
  "tree_server api pid pages \<longleftrightarrow> pages \<noteq> [] \<and> (\<forall>w i. i < length pages \<longrightarrow>
     ga_ListTree api pid ListItemsPerPage (int i + 1) w =
       (Ret (Inr (map Some (pages ! i), if Suc i < length pages then int i + 2 else 0)), w))"

lemma treePaths_ret: "treePaths (map Some ps) = ret ps"
  by (induction ps) simp_all

lemma listPages_from:
  assumes g: "gl_client g = Some api" "gl_project g = Some p" and s: "tree_server api (gp_ID p) pages"
  shows "i < length pages \<Longrightarrow> length pages - i \<le> fuel \<Longrightarrow>
    listPages fuel g (int i + 1) seen w = (Ret (Inr (seen @ concat (drop i pages))), w)"
proof (induction "length pages - i" arbitrary: i fuel seen)
  case 0
  then show ?case by simp
next
  case (Suc n)
  then obtain f where f: "fuel = Suc f" by (cases fuel) auto
  from s Suc.prems(1) have page: "ga_ListTree api (gp_ID p) ListItemsPerPage (int i + 1) w =
      (Ret (Inr (map Some (pages ! i), if Suc i < length pages then int i + 2 else 0)), w)"
    unfolding tree_server_def by blast
  have step: "listPages fuel g (int i + 1) seen w =
      listPages f g (if Suc i < length pages then int i + 2 else 0) (seen @ pages ! i) w"
    using page g f by (simp add: listPages.simps [of "Suc f"] withProject_def withClient_def treePaths_ret)
  have cons: "drop i pages = pages ! i # drop (Suc i) pages"
    using Suc.prems(1) by (simp add: Cons_nth_drop_Suc)
  show ?case
  proof (cases "Suc i < length pages")
    case True
    have eq: "int (Suc i) + 1 = int i + 2" by simp
    have rec: "listPages f g (int (Suc i) + 1) (seen @ pages ! i) w
        = (Ret (Inr ((seen @ pages ! i) @ concat (drop (Suc i) pages))), w)"
      using Suc.hyps Suc.prems f True by (intro Suc.hyps(1)) auto
    from True have "(if Suc i < length pages then int i + 2 else 0) = int i + 2" by (rule if_P)
    then show ?thesis unfolding step cons using rec [unfolded eq] by (simp only: concat.simps append_assoc)
  next
    case False
    then have "drop (Suc i) pages = []" by simp
    with False step cons show ?thesis by (simp add: listPages.simps [of f])
  qed
qed

text \<open>Code that ends: it returns or panics.\<close>

definition ends :: "('w, 'a) go \<Rightarrow> 'w \<Rightarrow> bool" where
  "ends m w \<longleftrightarrow> fst (m w) \<noteq> Diverged"

lemma ends_ret [simp]: "ends (ret a) w" "ends (crash p) w"
  by (simp_all add: ends_def)

lemma ends_bnd: "ends m w \<Longrightarrow> (\<And>a w'. m w = (Ret a, w') \<Longrightarrow> ends (f a) w') \<Longrightarrow> ends (bnd m f) w"
  by (cases rule: outcome_world_cases [of m w]) (simp_all add: ends_def)

lemma ends_withProject: "(\<And>api p. gl_client g = Some api \<Longrightarrow> gl_project g = Some p \<Longrightarrow> ends (f api (gp_ID p)) w) \<Longrightarrow>
    ends (withProject g f) w"
  by (simp add: withProject_def withClient_def split: option.split)

lemma ends_treePaths: "ends (treePaths ts) w"
  by (induction ts arbitrary: w rule: treePaths.induct) (auto intro: ends_bnd)

lemma listPages_ends:
  assumes g: "gl_client g = Some api" "gl_project g = Some p"
    and e: "\<And>page w. ends (ga_ListTree api (gp_ID p) ListItemsPerPage page) w"
    and n: "\<And>page w trees nextPage w'. ga_ListTree api (gp_ID p) ListItemsPerPage page w = (Ret (Inr (trees, nextPage)), w')
      \<Longrightarrow> nextPage \<le> 0 \<or> page < nextPage \<and> nextPage \<le> bound"
  shows "page \<le> bound \<Longrightarrow> nat (bound + 1 - page) \<le> fuel \<Longrightarrow> ends (listPages fuel g page seen) w"
proof (induction fuel arbitrary: page seen w)
  case 0
  then show ?case by (simp add: listPages.simps [of 0])
next
  case (Suc fuel)
  show ?case
  proof (cases "page \<le> 0")
    case True
    then show ?thesis by (simp add: listPages.simps [of "Suc fuel"])
  next
    case False
    have "ends (listPages fuel g nextPage s) w'"
      if a: "ga_ListTree api (gp_ID p) ListItemsPerPage page w0 = (Ret (Inr (trees, nextPage)), w0')" for w0 trees nextPage w0' s w'
    proof (cases "nextPage \<le> 0")
      case True
      then show ?thesis by (simp add: listPages.simps [of fuel])
    next
      case False
      with n [OF a] Suc.prems show ?thesis by (intro Suc.IH) auto
    qed
    with False g e show ?thesis
      by (auto simp: listPages.simps [of "Suc fuel"] intro!: ends_withProject ends_bnd ends_treePaths split: sum.split)
  qed
qed

text \<open>C37: Committing the template files ends for every server that, as GitLab does, only ever names
  a later page of the tree, up to some last page: the loop over the pages then needs no more rounds
  than there are pages, and nothing else in the function can go on for ever.\<close>

theorem committing_files_ends:
  assumes "gl_client g = Some api" and "gl_project g = Some p"
    and "\<And>page w. ends (ga_ListTree api (gp_ID p) ListItemsPerPage page) w"
    and "\<And>page w trees nextPage w'. ga_ListTree api (gp_ID p) ListItemsPerPage page w = (Ret (Inr (trees, nextPage)), w')
      \<Longrightarrow> nextPage \<le> 0 \<or> page < nextPage \<and> nextPage \<le> lastPage"
    and "\<And>co w. ends (ga_CreateCommit api (gp_ID p) co) w" and "\<And>w. ends (rt_MapHint rt) w"
    and "1 \<le> lastPage" and "nat lastPage \<le> fuel"
  shows "ends (gitlabCommitTemplateFiles fuel rt g) w"
proof -
  have "ends (listPages fuel g 1 []) w" for w
    using listPages_ends [OF assms(1-4), where page = 1 and fuel = fuel] assms(7,8) by simp
  then have "ends (compareFiles fuel rt g) w" for w
    using assms(6) by (auto simp: compareFiles_def rangeOver_def intro!: ends_bnd split: sum.split)
  with assms(1,2,5) show ?thesis
    by (auto simp: gitlabCommitTemplateFiles_def intro!: ends_bnd ends_withProject split: sum.split)
qed

definition treeGitlab :: "'w GitlabAPI" where
  "treeGitlab = idleGitlab\<lparr>ga_ListTree := (\<lambda>_ _ page. if page = 1 then ret (Inr ([Some ''common.yml''], 2))
     else ret (Inr ([Some ''old.yml''], 0)))\<rparr>"

definition treeHandle :: "'w Gitlab" where
  "treeHandle = sampleHandle treeGitlab fmempty (fmupd ''new.yml'' ''x'' (fmupd ''old.yml'' DeletionMagicString fmempty))"

lemma treeGitlab_simps [simp]:
  "ga_ListTree treeGitlab i n page = (if page = 1 then ret (Inr ([Some ''common.yml''], 2))
     else ret (Inr ([Some ''old.yml''], 0)))"
  "ga_CreateCommit treeGitlab i co = ret None"
  by (simp_all add: treeGitlab_def)

lemma treeHandle_simps [simp]: "gl_client treeHandle = Some treeGitlab" "gl_project treeHandle = Some idleProject"
  by (simp_all add: treeHandle_def)

lemma committing_files_ends_witness:
  "ends (gitlabCommitTemplateFiles 2 idleRuntime treeHandle) ()"
proof (rule committing_files_ends [OF treeHandle_simps, where lastPage = 2])
  fix page :: int and w :: unit
  show "ends (ga_ListTree treeGitlab (gp_ID idleProject) ListItemsPerPage page) w"
    by (cases "page = 1") simp_all
  fix trees nextPage w'
  assume "ga_ListTree treeGitlab (gp_ID idleProject) ListItemsPerPage page w = (Ret (Inr (trees, nextPage)), w')"
  then show "nextPage \<le> 0 \<or> page < nextPage \<and> nextPage \<le> 2"
    by (cases "page = 1") auto
qed simp_all

section \<open>The commit\<close>

lemma file_names:
  "map cf_FileName (changedFiles present files)
     = map fst (filter (\<lambda>(n, c). (n \<in> set present) = (c = DeletionMagicString)) files)"
proof (induction files)
  case Nil
  show ?case by (simp add: changedFiles_def)
next
  case (Cons nc files)
  then show ?case
    by (cases nc; cases "fst nc \<in> set present"; cases "snd nc = DeletionMagicString")
      (simp_all add: changedFiles_def createFile_def)
qed

lemma changedFiles_set:
  "set (changedFiles present files) =
     {createFile n c |n c. (n, c) \<in> set files \<and> n \<notin> set present \<and> c \<noteq> DeletionMagicString} \<union>
     {\<lparr>cf_FileName = n, cf_Content = c, cf_Delete = True\<rparr> |n c. (n, c) \<in> set files \<and> n \<in> set present \<and> c = DeletionMagicString}"
  by (auto simp: changedFiles_def split: if_splits)

lemma image_Collect2: "f ` {h n c |n c. P n c} = {f (h n c) |n c. P n c}"
  by blast

text \<open>C19: What is committed: one commit, or none if nothing is to be done, that creates every template
  file which the root of the repository does not list on any page, and deletes every listed one whose
  content is the deletion mark; a file that is there is never written again.\<close>

theorem template_files_committed:
  assumes "gl_client g = Some api" and "gl_project g = Some p" and "tree_server api (gp_ID p) pages"
    and "length pages \<le> fuel" and "rt_MapHint rt w = (Ret hint, w)"
  shows "\<exists>actions. gitlabCommitTemplateFiles fuel rt g w = (if actions = [] then (Ret None, w)
      else ga_CreateCommit api (gp_ID p) (getCommitOptions\<lparr>co_Actions := actions\<rparr>) w) \<and>
    distinct (map ca_FilePath actions) \<and>
    set actions =
      {\<lparr>ca_FilePath = n, ca_Content = c, ca_Action = FileCreate\<rparr> |n c.
         fmlookup (ro_TemplateFiles (gl_ops g)) n = Some c \<and> n \<notin> set (concat pages) \<and> c \<noteq> DeletionMagicString} \<union>
      {\<lparr>ca_FilePath = n, ca_Content = DeletionMagicString, ca_Action = FileDelete\<rparr> |n.
         fmlookup (ro_TemplateFiles (gl_ops g)) n = Some DeletionMagicString \<and> n \<in> set (concat pages)}"
proof -
  let ?T = "ro_TemplateFiles (gl_ops g)"
  let ?files = "changedFiles (concat pages) (rangeMap hint ?T)"
  have "0 < length pages" using assms(3) by (simp add: tree_server_def)
  then have "listPages fuel g 1 [] w = (Ret (Inr (concat pages)), w)"
    using listPages_from [OF assms(1-3), of 0 fuel "[]" w] assms(4) by simp
  then have c: "compareFiles fuel rt g w = (Ret (Inr ?files), w)"
    using assms(5) by (simp add: compareFiles_def rangeOver_def)
  have e: "?files = []" if "?T = fmempty"
    using that by (simp add: changedFiles_def)
  have run: "gitlabCommitTemplateFiles fuel rt g w = (if map commitAction ?files = [] then (Ret None, w)
      else ga_CreateCommit api (gp_ID p) (getCommitOptions\<lparr>co_Actions := map commitAction ?files\<rparr>) w)"
    using c e assms(1,2) by (simp add: gitlabCommitTemplateFiles_def withProject_def withClient_def ret_apply)
  have "distinct (map ca_FilePath (map commitAction ?files))"
    using file_names [of "concat pages" "rangeMap hint ?T"] distinct_rangeMap [of hint ?T]
    by (simp add: comp_def commitAction_def distinct_map_filter del: map_fst_rangeMap distinct_rangeMap)
  moreover have "set (map commitAction ?files) =
      {\<lparr>ca_FilePath = n, ca_Content = c, ca_Action = FileCreate\<rparr> |n c.
         fmlookup ?T n = Some c \<and> n \<notin> set (concat pages) \<and> c \<noteq> DeletionMagicString} \<union>
      {\<lparr>ca_FilePath = n, ca_Content = DeletionMagicString, ca_Action = FileDelete\<rparr> |n.
         fmlookup ?T n = Some DeletionMagicString \<and> n \<in> set (concat pages)}"
    unfolding set_map changedFiles_set set_rangeMap image_Un image_Collect2
    by (simp add: commitAction_def createFile_def)
  ultimately show ?thesis using run by blast
qed

lemma template_files_committed_witness:
  "\<exists>actions. gitlabCommitTemplateFiles 2 idleRuntime treeHandle () = (Ret None, ()) \<and>
    set actions = {\<lparr>ca_FilePath = ''new.yml'', ca_Content = ''x'', ca_Action = FileCreate\<rparr>,
      \<lparr>ca_FilePath = ''old.yml'', ca_Content = DeletionMagicString, ca_Action = FileDelete\<rparr>}"
proof -
  have s: "tree_server treeGitlab pid [[''common.yml''], [''old.yml'']]" for pid
    unfolding tree_server_def by (auto simp: less_Suc_eq)
  have h: "rt_MapHint idleRuntime () = (Ret [], ())" by (simp add: ret_apply)
  have T: "fmlookup (ro_TemplateFiles (gl_ops (treeHandle :: unit Gitlab))) n = Some c \<longleftrightarrow>
      n = ''new.yml'' \<and> c = ''x'' \<or> n = ''old.yml'' \<and> c = DeletionMagicString" for n c
    by (auto simp: treeHandle_def)
  have len: "length [[''common.yml''], [''old.yml'']] \<le> 2" by simp
  have magic: "''x'' \<noteq> DeletionMagicString" by (simp add: DeletionMagicString_def)
  obtain actions where a: "gitlabCommitTemplateFiles 2 idleRuntime treeHandle () = (if actions = [] then (Ret None, ())
      else ga_CreateCommit treeGitlab (gp_ID idleProject) (getCommitOptions\<lparr>co_Actions := actions\<rparr>) ())"
    and set: "set actions =
      {\<lparr>ca_FilePath = n, ca_Content = c, ca_Action = FileCreate\<rparr> |n c.
         fmlookup (ro_TemplateFiles (gl_ops (treeHandle :: unit Gitlab))) n = Some c \<and> n \<notin> set (concat [[''common.yml''], [''old.yml'']])
           \<and> c \<noteq> DeletionMagicString} \<union>
      {\<lparr>ca_FilePath = n, ca_Content = DeletionMagicString, ca_Action = FileDelete\<rparr> |n.
         fmlookup (ro_TemplateFiles (gl_ops (treeHandle :: unit Gitlab))) n = Some DeletionMagicString
           \<and> n \<in> set (concat [[''common.yml''], [''old.yml'']])}"
    using template_files_committed [OF treeHandle_simps s len h] by (elim exE conjE) (rule that)
  have "set actions = {\<lparr>ca_FilePath = ''new.yml'', ca_Content = ''x'', ca_Action = FileCreate\<rparr>,
      \<lparr>ca_FilePath = ''old.yml'', ca_Content = DeletionMagicString, ca_Action = FileDelete\<rparr>}"
    unfolding set T using magic by auto
  with a show ?thesis by (intro exI [of _ actions]) (simp add: ret_apply)
qed

section \<open>Access tokens\<close>

definition usable :: "time \<Rightarrow> GAccessToken \<Rightarrow> bool" where
  "usable now t \<longleftrightarrow> gat_Active t \<and> \<not> gat_Revoked t \<and>
     (case gat_ExpiresAt t of None \<Rightarrow> False | Some e \<Rightarrow> now - 10 * day \<le> e)"

lemma validTokens_ret:
  assumes "\<And>w. RepoOptions_Now rt (gl_ops g) w = (Ret now, w)"
  shows "validTokens rt g ts w = (Ret (filter (usable now) (List.map_filter id ts)), w)"
  using assms
proof (induction ts arbitrary: w)
  case Nil
  show ?case by (simp add: ret_apply List.map_filter_simps)
next
  case (Cons t ts)
  show ?case
  proof (cases t)
    case None
    with Cons show ?thesis by (simp add: List.map_filter_simps)
  next
    case (Some token)
    with Cons show ?thesis
      by (cases "gat_ExpiresAt token") (auto simp: usable_def ret_apply List.map_filter_simps)
  qed
qed

lemma find_SomeD: "find P xs = Some x \<Longrightarrow> x \<in> set xs \<and> P x"
  by (induction xs) (auto split: if_splits)

text \<open>C28: The access token for a known identifier: a token with this identifier that is active, not revoked
  and whose expiry is not more than ten days in the past is kept, no call but the listing is made and no
  token is returned for the secret. Otherwise one token is made that expires in thirty days. The bound is
  the code's, and is at odds with its comments, which have an expired token replaced: as far as the code
  goes a token that GitLab still calls active is kept for ten days after it has expired, and none is
  replaced ahead of its expiry.\<close>

theorem access_token_kept_or_made:
  fixes uid :: string
  assumes "gl_client g = Some api" and "gl_project g = Some p"
    and "ga_ListProjectAccessTokens api (gp_ID p) w = (Ret (Inr tokens), w)"
    and "\<And>w. RepoOptions_Now rt (gl_ops g) w = (Ret now, w)" and "rt_SortHint rt w = (Ret hint, w)"
  defines "kept \<equiv> {t. Some t \<in> set tokens \<and> FormatInt (gat_ID t) = uid \<and> gat_Active t \<and> \<not> gat_Revoked t \<and>
    (\<exists>e. gat_ExpiresAt t = Some e \<and> now - 10 * day \<le> e)}"
  shows "if kept = {}
    then gitlabEnsureProjectAccessToken rt g name (Some uid) w =
      bnd (ga_CreateProjectAccessToken api (gp_ID p) \<lparr>cto_Name = name, cto_ExpiresAt = now + 30 * day,
             cto_Scopes = [''write_repository''], cto_AccessLevel = 40\<rparr>) (\<lambda>r. ret (case r of
          Inl err \<Rightarrow> Inl (Wrap ''error response from gitlab when creating ProjectAccessToken: '' err)
        | Inr token \<Rightarrow> Inr \<lparr>pat_UID = FormatInt (gat_ID token), pat_Token = gat_Token token,
            pat_ExpiresAt = expiry token\<rparr>)) w
    else \<exists>t \<in> kept. gitlabEnsureProjectAccessToken rt g name (Some uid) w =
          (Ret (Inr \<lparr>pat_UID = uid, pat_Token = '''', pat_ExpiresAt = expiry t\<rparr>), w)"
proof -
  have kept: "kept = {t. Some t \<in> set tokens \<and> FormatInt (gat_ID t) = uid \<and> usable now t}"
    by (auto simp: kept_def usable_def split: option.splits)
  let ?ts = "sort_key (\<lambda>t. - expiry t) (permute hint (filter (usable now) (List.map_filter id tokens)))"
  have set_ts: "t \<in> set ?ts \<longleftrightarrow> Some t \<in> set tokens \<and> usable now t" for t
    by (auto simp: List.map_filter_def image_iff)
  have valid: "validTokens rt g tokens w = (Ret (filter (usable now) (List.map_filter id tokens)), w)"
    by (rule validTokens_ret) (rule assms(4))
  have sorted: "sortTokens rt xs w = (Ret (sort_key (\<lambda>t. - expiry t) (permute hint xs)), w)" for xs
    using assms(5) by (simp add: sortTokens_def)
  show ?thesis
  proof (cases "find (\<lambda>t. FormatInt (gat_ID t) = uid) ?ts")
    case None
    then have "kept = {}" using set_ts by (auto simp: kept find_None_iff)
    moreover have "gitlabEnsureProjectAccessToken rt g name (Some uid) w = createToken api (gp_ID p) name now w"
      using assms(1-3) valid sorted None assms(4) [of w]
      by (simp add: gitlabEnsureProjectAccessToken_def withProject_def withClient_def reusableToken_def)
    ultimately show ?thesis by (simp add: createToken_def)
  next
    case (Some t)
    then have "t \<in> set ?ts" "FormatInt (gat_ID t) = uid"
      by (blast dest: find_SomeD)+
    with set_ts have t: "t \<in> kept" by (simp add: kept)
    have "gitlabEnsureProjectAccessToken rt g name (Some uid) w =
        (Ret (Inr \<lparr>pat_UID = uid, pat_Token = '''', pat_ExpiresAt = expiry t\<rparr>), w)"
      using assms(1-3) valid sorted Some \<open>FormatInt (gat_ID t) = uid\<close>
      by (simp add: gitlabEnsureProjectAccessToken_def withProject_def withClient_def reusableToken_def)
    with t show ?thesis by auto
  qed
qed

text \<open>The instance: a token that expired a day ago is kept.\<close>

definition oldToken :: GAccessToken where
  "oldToken = \<lparr>gat_ID = 11, gat_Active = True, gat_Revoked = False, gat_ExpiresAt = Some (- day), gat_Token = ''''\<rparr>"

definition tokenGitlab :: "'w GitlabAPI" where
  "tokenGitlab = idleGitlab\<lparr>ga_ListProjectAccessTokens := (\<lambda>_. ret (Inr [None, Some oldToken]))\<rparr>"

definition tokenHandle :: "'w Gitlab" where
  "tokenHandle = sampleHandle tokenGitlab fmempty fmempty"

lemma access_token_kept_or_made_witness:
  "gitlabEnsureProjectAccessToken idleRuntime tokenHandle ''ci'' (Some ''11'') () =
    (Ret (Inr \<lparr>pat_UID = ''11'', pat_Token = '''', pat_ExpiresAt = - day\<rparr>), ())"
proof -
  have num: "FormatInt 11 = ''11''" by code_simp
  have now: "RepoOptions_Now idleRuntime (gl_ops tokenHandle) w = (Ret 0, w)" for w
    by (simp add: RepoOptions_Now_def tokenHandle_def ret_apply)
  have kept: "{t. Some t \<in> set [None, Some oldToken] \<and> FormatInt (gat_ID t) = ''11'' \<and> gat_Active t \<and>
      \<not> gat_Revoked t \<and> (\<exists>e. gat_ExpiresAt t = Some e \<and> 0 - 10 * day \<le> e)} = {oldToken}"
    using num by (auto simp: oldToken_def day_def)
  have "gl_client tokenHandle = Some tokenGitlab" "gl_project tokenHandle = Some idleProject"
    "ga_ListProjectAccessTokens tokenGitlab (gp_ID idleProject) () = (Ret (Inr [None, Some oldToken]), ())"
    "rt_SortHint idleRuntime () = (Ret [], ())"
    by (simp_all add: tokenHandle_def tokenGitlab_def ret_apply)
  from access_token_kept_or_made [OF this(1-3) now this(4), of "''11''" "''ci''"]
  show ?thesis unfolding kept by (simp add: expiry_def oldToken_def)
qed

end
