(* ===== verification/Vault.thy ===== *)
theory Vault
  imports Pipeline
begin

text \<open>
  The secrets of clusters in Vault: the client (\<open>vault/client.go\<close>), the two steps of the cluster
  pipeline that use it (\<open>vault/reconcile_steps.go\<close>), and the sort order of secrets
  (\<open>collection/values.go\<close>). The Vault API client is a library: a record of the calls the code
  makes. \<open>RemoveSecrets\<close> walks a tree of directories that the server lists, so it has fuel for
  the depth; \<open>removal_of_a_tree\<close> shows how much is enough.
\<close>

section \<open>The Vault API\<close>

text \<open>
  A decoded JSON value, as \<open>map[string]interface{}\<close> holds it; \<open>JInts\<close> is the \<open>[]int\<close> that the
  code itself puts into such a map. The data of a secret may be a nil map, which can be read but
  not written.
\<close>

datatype json =
    JNull
  | JBool bool
  | JNum string
  | JStr string
  | JList "json list"
  | JMap "(string, json) fmap"
  | JInts "int list"

record ApiSecret =
  as_Data :: "json gomap option"

text \<open>\<open>client.RawClient().Logical()\<close> and \<open>SetToken\<close>. A path that does not exist is answered with no
  secret and no error.\<close>

record 'w VaultAPI =
  va_Read :: "string \<Rightarrow> ('w, gerr + ApiSecret option) go"
  va_Write :: "string \<Rightarrow> json gomap \<Rightarrow> ('w, gerr + ApiSecret option) go"
  va_List :: "string \<Rightarrow> ('w, gerr + ApiSecret option) go"
  va_Delete :: "string \<Rightarrow> ('w, gerr + ApiSecret option) go"
  va_SetToken :: "string \<Rightarrow> ('w, unit) go"

text \<open>Reading a key of the data, which may be nil.\<close>

definition dataLookup :: "json gomap option \<Rightarrow> string \<Rightarrow> json option" where
  "dataLookup d k = (case d of None \<Rightarrow> None | Some m \<Rightarrow> fmlookup m k)"

section \<open>The client\<close>

definition tokenName :: string where
  "tokenName = ''token''"

record VaultSecret =
  vs_Path :: string
  vs_Value :: string

record 'w BankVaultClient =
  bv_client :: "'w VaultAPI"
  bv_secretEngine :: string
  bv_deletionPolicy :: string

text \<open>
  What \<open>NewClient\<close> uses of the outside: the constructor of the \<open>bank-vaults\<close> library (address, path
  of the authentication, role), the environment, whether \<open>os.Stat\<close> of the service account token
  says that the file is missing, and the package variable \<open>instanceClient\<close>. The library's
  \<open>NewData\<close> builds the body of a write.
\<close>

record 'w VaultEnv =
  ve_NewClientFromConfig :: "string \<Rightarrow> string \<Rightarrow> string \<Rightarrow> ('w, gerr + 'w VaultAPI) go"
  ve_Getenv :: "string \<Rightarrow> ('w, string) go"
  ve_TokenFileMissing :: "('w, bool) go"
  ve_GetInstance :: "('w, 'w BankVaultClient option) go"
  ve_SetInstance :: "'w BankVaultClient \<Rightarrow> ('w, unit) go"
  ve_NewData :: "int \<Rightarrow> json gomap \<Rightarrow> json gomap"

definition SetDeletionPolicy :: "string \<Rightarrow> 'w BankVaultClient \<Rightarrow> 'w BankVaultClient" where
  "SetDeletionPolicy deletionPolicy b = b\<lparr>bv_deletionPolicy := deletionPolicy\<rparr>"

definition newBankVaultClient :: "'w VaultEnv \<Rightarrow> string \<Rightarrow> ('w, gerr + 'w BankVaultClient) go" where
  "newBankVaultClient env deletionPolicy =
     bnd (ve_Getenv env ''VAULT_ADDR'') (\<lambda>addr.
     bnd (ve_Getenv env ''VAULT_AUTH_PATH'') (\<lambda>authPath.
     bnd (ve_NewClientFromConfig env addr authPath ''lieutenant-operator'') (\<lambda>r. case r of
       Inl err \<Rightarrow> ret (Inl err)
     | Inr client \<Rightarrow>
         bnd (ve_TokenFileMissing env) (\<lambda>missing.
         bnd (if missing then bnd (ve_Getenv env ''VAULT_TOKEN'') (va_SetToken client) else ret ()) (\<lambda>_.
         bnd (ve_Getenv env ''VAULT_SECRET_ENGINE_PATH'') (\<lambda>engine.
           ret (Inr \<lparr>bv_client = client, bv_secretEngine = (if engine = '''' then ''kv'' else engine),
                     bv_deletionPolicy = deletionPolicy\<rparr>)))))))"

text \<open>The client is made once and kept in a package variable; the pointer that is returned is the
  one that is kept, so the new policy is the policy of both.\<close>

definition NewClient :: "'w VaultEnv \<Rightarrow> string \<Rightarrow> ('w, gerr + 'w BankVaultClient) go" where
  "NewClient env deletionPolicy =
     bnd (ve_GetInstance env) (\<lambda>inst. case inst of
       Some c \<Rightarrow>
         (let c' = SetDeletionPolicy deletionPolicy c
          in bnd (ve_SetInstance env c') (\<lambda>_. ret (Inr c')))
     | None \<Rightarrow>
         bnd (newBankVaultClient env deletionPolicy) (\<lambda>r. case r of
           Inl err \<Rightarrow> ret (Inl err)
         | Inr c \<Rightarrow> bnd (ve_SetInstance env c) (\<lambda>_. ret (Inr c))))"

text \<open>The error of a call whose answer is not used.\<close>

definition errOf :: "gerr + 'a \<Rightarrow> gerr option" where
  "errOf r = (case r of Inl e \<Rightarrow> Some e | Inr _ \<Rightarrow> None)"

definition addSecret :: "'w VaultEnv \<Rightarrow> 'w BankVaultClient \<Rightarrow> string \<Rightarrow> string \<Rightarrow> ('w, gerr option) go" where
  "addSecret env b secretPath token =
     (let api = bv_client b;
          queryPath = pathJoin [bv_secretEngine b, ''data'', secretPath]
      in bnd (va_Read api queryPath) (\<lambda>r. case r of
           Inl err \<Rightarrow> ret (Some err)
         | Inr None \<Rightarrow>
             bnd (va_Write api queryPath (ve_NewData env 0 (fmupd tokenName (JStr token) fmempty)))
               (\<lambda>r. ret (errOf r))
         | Inr (Some secret) \<Rightarrow>
             (let old = (case dataLookup (as_Data secret) ''data'' of Some (JMap m) \<Rightarrow> Some m | _ \<Rightarrow> None);
                  secretData = (case old of Some m \<Rightarrow> m | None \<Rightarrow> fmempty)
              in if old = None \<or> fmlookup secretData tokenName \<noteq> Some (JStr token)
                 then (case as_Data secret of
                         None \<Rightarrow> crash NilMapWrite
                       | Some d \<Rightarrow>
                           bnd (va_Write api queryPath
                                 (fmupd ''data'' (JMap (fmupd tokenName (JStr token) secretData)) d))
                             (\<lambda>r. ret (errOf r)))
                 else ret None)))"

fun AddSecrets :: "'w VaultEnv \<Rightarrow> 'w BankVaultClient \<Rightarrow> VaultSecret list \<Rightarrow> ('w, gerr option) go" where
  "AddSecrets env b [] = ret None"
| "AddSecrets env b (s # ss) =
     bnd (addSecret env b (vs_Path s) (vs_Value s)) (\<lambda>err. case err of
       Some e \<Rightarrow> ret (Some e)
     | None \<Rightarrow> AddSecrets env b ss)"

definition isDirectory :: "string \<Rightarrow> bool" where
  "isDirectory p = hasSuffix p ''/''"

text \<open>All values must be strings: the loop of \<open>listSecrets\<close>.\<close>

fun asStrings :: "json list \<Rightarrow> string list option" where
  "asStrings [] = Some []"
| "asStrings (JStr s # js) = map_option (Cons s) (asStrings js)"
| "asStrings (j # js) = None"

definition listSecrets :: "'w BankVaultClient \<Rightarrow> string \<Rightarrow> ('w, gerr + string list) go" where
  "listSecrets b secretPath =
     bnd (va_List (bv_client b) (pathJoin [bv_secretEngine b, ''metadata'', secretPath])) (\<lambda>r. case r of
       Inl err \<Rightarrow> ret (Inl err)
     | Inr None \<Rightarrow> crash NilDeref
     | Inr (Some secrets) \<Rightarrow>
         (case dataLookup (as_Data secrets) ''keys'' of
            Some (JList keys) \<Rightarrow>
              (case asStrings keys of
                 Some ks \<Rightarrow> ret (Inr ks)
               | None \<Rightarrow> ret (Inl (ErrNew ''list of secrets can't be decoded'')))
          | _ \<Rightarrow> ret (Inl (ErrNew ''list of secrets can't be decoded''))))"

text \<open>\<open>getVersionList\<close> ranges over a map; the first key that is no number ends it.\<close>

fun parseVersions :: "string list \<Rightarrow> gerr + int list" where
  "parseVersions [] = Inr []"
| "parseVersions (k # ks) = (case Atoi k of
       None \<Rightarrow> Inl (ErrNew (''strconv.Atoi: parsing '' @ Quote k @ '': invalid syntax''))
     | Some v \<Rightarrow> map_sum id (Cons v) (parseVersions ks))"

definition getVersionList :: "'w Runtime \<Rightarrow> json gomap option \<Rightarrow> ('w, gerr + json gomap) go" where
  "getVersionList rt data = (case dataLookup data ''versions'' of
       None \<Rightarrow> ret (Inr (fmupd ''versions'' (JInts []) fmempty))
     | Some (JMap version) \<Rightarrow>
         bnd (rangeOver rt version) (\<lambda>vs. ret (case parseVersions (map fst vs) of
           Inl err \<Rightarrow> Inl err
         | Inr versionlist \<Rightarrow> Inr (fmupd ''versions'' (JInts (sort versionlist)) fmempty)))
     | Some _ \<Rightarrow> ret (Inl (ErrNew ''can't parse versions from secret'')))"

definition destroyToken :: "'w BankVaultClient \<Rightarrow> string \<Rightarrow> ('w, gerr option) go" where
  "destroyToken b secretPath = bnd (va_Delete (bv_client b) secretPath) (\<lambda>r. ret (errOf r))"

definition deleteToken :: "'w BankVaultClient \<Rightarrow> string \<Rightarrow> json gomap \<Rightarrow> ('w, gerr option) go" where
  "deleteToken b secretPath versions =
     bnd (va_Write (bv_client b) secretPath versions) (\<lambda>r. ret (errOf r))"

text \<open>What happens to one secret of a listing.\<close>

definition removeOne :: "'w Runtime \<Rightarrow> 'w BankVaultClient \<Rightarrow> string \<Rightarrow> string \<Rightarrow> ('w, gerr option) go" where
  "removeOne rt b dir secret =
     bnd (va_Read (bv_client b) (pathJoin [bv_secretEngine b, ''metadata'', dir, secret])) (\<lambda>r. case r of
       Inl err \<Rightarrow> ret (Some err)
     | Inr None \<Rightarrow> crash NilDeref
     | Inr (Some s) \<Rightarrow>
         bnd (getVersionList rt (as_Data s)) (\<lambda>vr. case vr of
           Inl err \<Rightarrow> ret (Some err)
         | Inr versions \<Rightarrow>
             if bv_deletionPolicy b = ArchivePolicy
             then deleteToken b (pathJoin [bv_secretEngine b, ''delete'', dir, secret]) versions
             else if bv_deletionPolicy b = DeletePolicy
             then destroyToken b (pathJoin [bv_secretEngine b, ''metadata'', dir, secret])
             else ret (Some (ErrNew ''unknown DeletionPolicy, skipping''))))"

text \<open>A loop that returns at the first error.\<close>

fun untilError :: "('a \<Rightarrow> ('w, gerr option) go) \<Rightarrow> 'a list \<Rightarrow> ('w, gerr option) go" where
  "untilError f [] = ret None"
| "untilError f (x # xs) = bnd (f x) (\<lambda>err. case err of
       Some e \<Rightarrow> ret (Some e)
     | None \<Rightarrow> untilError f xs)"

fun removeSecret :: "nat \<Rightarrow> 'w Runtime \<Rightarrow> 'w BankVaultClient \<Rightarrow> string \<Rightarrow> ('w, gerr option) go" where
  "removeSecret 0 rt b dir = diverge"
| "removeSecret (Suc fuel) rt b dir =
     bnd (listSecrets b dir) (\<lambda>r. case r of
       Inl err \<Rightarrow> ret (Some err)
     | Inr secrets \<Rightarrow>
         untilError (\<lambda>secret.
           if isDirectory secret then removeSecret fuel rt b (pathJoin [dir, secret])
           else removeOne rt b dir secret) secrets)"

definition RemoveSecrets :: "nat \<Rightarrow> 'w Runtime \<Rightarrow> 'w BankVaultClient \<Rightarrow> VaultSecret list \<Rightarrow> ('w, gerr option) go" where
  "RemoveSecrets fuel rt b secrets = untilError (\<lambda>s. removeSecret fuel rt b (vs_Path s)) secrets"

section \<open>The steps of the cluster pipeline\<close>

text \<open>\<open>collection.SecretSortList\<close>: by creation time, then by name.\<close>

definition secretLess :: "Secret \<Rightarrow> Secret \<Rightarrow> bool" where
  "secretLess a b =
     (if om_CreationTimestamp (sec_Meta a) = om_CreationTimestamp (sec_Meta b)
      then om_Name (sec_Meta a) < om_Name (sec_Meta b)
      else om_CreationTimestamp (sec_Meta a) < om_CreationTimestamp (sec_Meta b))"

text \<open>\<open>sort.Sort(sort.Reverse(l))\<close> is not stable: secrets that neither precede the other come in any
  order, which the hint picks.\<close>

definition sortSecrets :: "nat list \<Rightarrow> Secret list \<Rightarrow> Secret list" where
  "sortSecrets hint secrets =
     rev (sort_key (\<lambda>s. om_CreationTimestamp (sec_Meta s))
       (sort_key (\<lambda>s. om_Name (sec_Meta s)) (permute hint secrets)))"

definition ServiceAccountNameKey :: string where
  "ServiceAccountNameKey = ''kubernetes.io/service-account.name''"

definition SecretTypeServiceAccountToken :: string where
  "SecretTypeServiceAccountToken = ''kubernetes.io/service-account-token''"

fun findToken :: "string \<Rightarrow> Secret list \<Rightarrow> gerr + string" where
  "findToken name [] = Inl (ErrNew ''no matching secrets found'')"
| "findToken name (s # ss) =
     (if sec_Type s \<noteq> SecretTypeServiceAccountToken then findToken name ss
      else if lookupStr (om_Annotations (sec_Meta s)) ServiceAccountNameKey = name
      then if lookupStr (sec_Data s) ''token'' = '''' then findToken name ss
           else Inr (lookupStr (sec_Data s) ''token'')
      else findToken name ss)"

definition GetServiceAccountToken :: "Object \<Rightarrow> 'w Context \<Rightarrow> ('w, gerr + string) go" where
  "GetServiceAccountToken obj data =
     bnd (k_ListSecrets (ctx_Client data)) (\<lambda>r. case r of
       Inl err \<Rightarrow> ret (Inl err)
     | Inr secrets \<Rightarrow>
         bnd (rt_SortHint (ctx_Runtime data)) (\<lambda>hint.
           ret (findToken (GetName obj) (sortSecrets hint secrets))))"

definition getVaultClient :: "'w VaultEnv \<Rightarrow> 'w Context \<Rightarrow> ('w, gerr + 'w BankVaultClient) go" where
  "getVaultClient env data = NewClient env (ctx_DefaultDeletionPolicy data)"

definition stewardPath :: "Object \<Rightarrow> string" where
  "stewardPath obj = pathJoin [GetTenantRef obj, GetName obj, ''steward'']"

definition CreateOrUpdateVault :: "'w VaultEnv \<Rightarrow> 'w Function" where
  "CreateOrUpdateVault env obj data =
     (if \<not> ctx_UseVault data then ret (obj, data, okResult)
      else bnd (GetServiceAccountToken obj data) (\<lambda>r. case r of
        Inl err \<Rightarrow> ret (obj, data, errResult (Wrap ''get SA token: '' err))
      | Inr token \<Rightarrow>
          bnd (getVaultClient env data) (\<lambda>r. case r of
            Inl err \<Rightarrow> ret (obj, data, errResult (Wrap ''get vault client: '' err))
          | Inr vaultClient \<Rightarrow>
              bnd (AddSecrets env vaultClient [\<lparr>vs_Path = stewardPath obj, vs_Value = token\<rparr>]) (\<lambda>err.
                case err of
                  Some e \<Rightarrow> ret (obj, data, errResult (Wrap (''add vault secret '' @ [CHR 0x27] @ stewardPath obj @ [CHR 0x27] @ '': '') e))
                | None \<Rightarrow> ret (obj, data, okResult)))))"

definition HandleVaultDeletion :: "nat \<Rightarrow> 'w VaultEnv \<Rightarrow> 'w Function" where
  "HandleVaultDeletion fuel env obj data =
     (if \<not> ctx_UseVault data then ret (obj, data, okResult)
      else if ctx_Deleted data then
        bnd (getVaultClient env data) (\<lambda>r. case r of
          Inl err \<Rightarrow> ret (obj, data, errResult (Wrap ''get vault client: '' err))
        | Inr vaultClient \<Rightarrow>
            bnd (RemoveSecrets fuel (ctx_Runtime data) vaultClient
                   [\<lparr>vs_Path = pathDir (stewardPath obj), vs_Value = ''''\<rparr>]) (\<lambda>err.
              case err of
                Some e \<Rightarrow> ret (obj, data, errResult (Wrap ''remove secret: '' e))
              | None \<Rightarrow> ret (obj, data, okResult)))
      else ret (obj, data, okResult))"
section \<open>The token of a cluster\<close>

lemma sorted_rev_wrt: "sorted_wrt P (rev xs) \<longleftrightarrow> sorted_wrt (\<lambda>x y. P y x) xs"
  by (induction xs) (auto simp: sorted_wrt_append)

lemma sort_key_wrt:
  "sorted_wrt (\<lambda>a b. f a < f b \<or> f a = f b \<and> R a b) (insort_key f x xs)"
  if "sorted_wrt (\<lambda>a b. f a < f b \<or> f a = f b \<and> R a b) xs" and "\<forall>y \<in> set xs. R x y"
  for f :: "'a \<Rightarrow> 'b :: linorder"
  using that by (induction xs) (auto simp: set_insort_key)

lemma sort_key_stable_wrt:
  fixes f :: "'a \<Rightarrow> 'b :: linorder"
  shows "sorted_wrt R xs \<Longrightarrow> sorted_wrt (\<lambda>a b. f a < f b \<or> f a = f b \<and> R a b) (sort_key f xs)"
proof (induction xs)
  case (Cons x xs)
  then show ?case using sort_key_wrt [of f R "sort_key f xs" x] by simp
qed simp

text \<open>What \<open>sort.Sort(sort.Reverse(l))\<close> promises: no later secret is greater than an earlier one.\<close>

lemma sortSecrets_sorted: "sorted_wrt (\<lambda>a b. \<not> secretLess a b) (sortSecrets hint secrets)"
proof -
  have "sorted_wrt (\<lambda>a b. om_Name (sec_Meta a) \<le> om_Name (sec_Meta b))
          (sort_key (\<lambda>s. om_Name (sec_Meta s)) (permute hint secrets))"
    by (metis sorted_map sorted_sort_key)
  from sort_key_stable_wrt [OF this, of "\<lambda>s. om_CreationTimestamp (sec_Meta s)"] show ?thesis
    unfolding sortSecrets_def sorted_rev_wrt
    by (rule sorted_wrt_mono_rel [rotated]) (auto simp: secretLess_def)
qed

lemma set_sortSecrets [simp]: "set (sortSecrets hint secrets) = set secrets"
  by (simp add: sortSecrets_def)

text \<open>A secret that can be the token of a cluster.\<close>

definition usableToken :: "string \<Rightarrow> Secret \<Rightarrow> bool" where
  "usableToken name s \<longleftrightarrow> sec_Type s = SecretTypeServiceAccountToken
     \<and> lookupStr (om_Annotations (sec_Meta s)) ServiceAccountNameKey = name
     \<and> lookupStr (sec_Data s) ''token'' \<noteq> ''''"

lemma findToken_find: "findToken name ss = (case find (usableToken name) ss of
    None \<Rightarrow> Inl (ErrNew ''no matching secrets found'') | Some s \<Rightarrow> Inr (lookupStr (sec_Data s) ''token''))"
  by (induction ss) (auto simp: usableToken_def)

lemma find_sorted:
  assumes "sorted_wrt R xs" and "find P xs = Some x"
  shows "x \<in> set xs \<and> P x \<and> (\<forall>y \<in> set xs. P y \<longrightarrow> y = x \<or> R x y)"
  using assms by (induction xs) (auto split: if_splits)

text \<open>C24: The token that is stored for a cluster is the one of a newest service account token secret
  that is annotated with the cluster's name and has a token; when no secret qualifies there is an
  error, in whatever order the API server lists the secrets.\<close>

theorem newest_token_is_used:
  assumes "k_ListSecrets (ctx_Client data) w = (Ret (Inr secrets), w1)"
    and "GetServiceAccountToken obj data w = (Ret r, w')"
  shows "case r of
      Inr token \<Rightarrow> token \<noteq> '''' \<and> (\<exists>s \<in> set secrets. usableToken (GetName obj) s \<and> lookupStr (sec_Data s) ''token'' = token
         \<and> (\<forall>s' \<in> set secrets. usableToken (GetName obj) s' \<longrightarrow> \<not> secretLess s s'))
    | Inl e \<Rightarrow> (\<forall>s \<in> set secrets. \<not> usableToken (GetName obj) s)"
proof -
  from assms obtain hint where r: "r = findToken (GetName obj) (sortSecrets hint secrets)"
    by (auto simp: GetServiceAccountToken_def elim!: bnd_RetE)
  show ?thesis
  proof (cases "find (usableToken (GetName obj)) (sortSecrets hint secrets)")
    case None
    then have "\<forall>s \<in> set secrets. \<not> usableToken (GetName obj) s" by (simp add: find_None_iff)
    with None show ?thesis by (simp add: r findToken_find)
  next
    case (Some s)
    have refl: "\<not> secretLess s s" by (simp add: secretLess_def)
    from find_sorted [OF sortSecrets_sorted Some] refl
    have s: "s \<in> set secrets" "usableToken (GetName obj) s"
      "\<forall>s' \<in> set secrets. usableToken (GetName obj) s' \<longrightarrow> \<not> secretLess s s'"
      by auto
    have "r = Inr (lookupStr (sec_Data s) ''token'')"
      by (simp add: r findToken_find Some)
    with s show ?thesis by (auto simp: usableToken_def)
  qed
qed

definition tokenSecret :: "string \<Rightarrow> time \<Rightarrow> string \<Rightarrow> Secret" where
  "tokenSecret name t token = \<lparr>
     sec_Meta = (sampleMeta (name @ ''-token''))\<lparr>om_CreationTimestamp := t,
       om_Annotations := fmupd ServiceAccountNameKey name fmempty\<rparr>,
     sec_Type = SecretTypeServiceAccountToken, sec_Data = fmupd ''token'' token fmempty\<rparr>"

lemma newest_token_is_used_witness:
  "\<exists>data :: unit Context. GetServiceAccountToken (ClusterObj sampleCluster) data () = (Ret (Inr ''new''), ())"
proof -
  let ?ss = "[tokenSecret ''c-prod'' 1 ''old'', tokenSecret ''c-prod'' 3 '''', tokenSecret ''c-prod'' 2 ''new'']"
  let ?d = "sampleContext\<lparr>ctx_Client := idleClient\<lparr>k_ListSecrets := ret (Inr ?ss)\<rparr>\<rparr> :: unit Context"
  have run: "\<exists>r. GetServiceAccountToken (ClusterObj sampleCluster) ?d () = (Ret r, ())"
    by (simp add: GetServiceAccountToken_def sampleContext_def)
  then obtain r where r: "GetServiceAccountToken (ClusterObj sampleCluster) ?d () = (Ret r, ())" ..
  have name: "om_Name (cl_Meta sampleCluster) = ''c-prod''"
    by (simp add: sampleCluster_def sampleMeta_def)
  have "r = Inr ''new''"
    using newest_token_is_used [OF _ r, of ?ss "()"]
    by (auto simp: name usableToken_def tokenSecret_def sampleMeta_def emptyMeta_def lookupStr_def
        secretLess_def split: sum.splits)
  with r show ?thesis by blast
qed
section \<open>What is written to Vault\<close>

text \<open>
  A key-value store as Vault documents it for one path: reading changes nothing, and after a write
  that is accepted the path is there with the data of the write. The library's \<open>NewData\<close> puts the
  given values under \<open>data\<close>.
\<close>

definition kv_store :: "'w VaultAPI \<Rightarrow> bool" where
  "kv_store api \<longleftrightarrow>
     (\<forall>p w r w'. va_Read api p w = (Ret r, w') \<longrightarrow> w' = w) \<and>
     (\<forall>p d w r w'. va_Write api p d w = (Ret (Inr r), w') \<longrightarrow>
        (\<exists>s. va_Read api p w' = (Ret (Inr (Some s)), w')
             \<and> dataLookup (as_Data s) ''data'' = fmlookup d ''data''))"

definition new_data_law :: "'w VaultEnv \<Rightarrow> bool" where
  "new_data_law env \<longleftrightarrow> (\<forall>cas m. fmlookup (ve_NewData env cas m) ''data'' = Some (JMap m))"

text \<open>The values stored at a path in a world, if there are any.\<close>

definition storedAt :: "'w VaultAPI \<Rightarrow> string \<Rightarrow> 'w \<Rightarrow> json gomap option" where
  "storedAt api p w = (case fst (va_Read api p w) of
       Ret (Inr (Some s)) \<Rightarrow> (case dataLookup (as_Data s) ''data'' of Some (JMap m) \<Rightarrow> Some m | _ \<Rightarrow> None)
     | _ \<Rightarrow> None)"

lemma addSecret_stored:
  assumes kv: "kv_store (bv_client b)" and new: "new_data_law env"
    and add: "addSecret env b path token w = (Ret None, w')"
  defines "p \<equiv> pathJoin [bv_secretEngine b, ''data'', path]"
  shows "storedAt (bv_client b) p w' = Some (fmupd tokenName (JStr token)
           (case storedAt (bv_client b) p w of None \<Rightarrow> fmempty | Some m \<Rightarrow> m))"
proof -
  from add obtain r w1 where read: "va_Read (bv_client b) p w = (Ret r, w1)"
    by (auto simp: addSecret_def Let_def p_def elim: bnd_RetE)
  with kv have [simp]: "w1 = w" unfolding kv_store_def by blast
  have wr: "fmlookup d ''data'' = Some (JMap m) \<Longrightarrow>
      bnd (va_Write (bv_client b) p d) (\<lambda>r. ret (errOf r)) w = (Ret None, w') \<Longrightarrow>
      storedAt (bv_client b) p w' = Some m" for d m
    using kv by (fastforce elim!: bnd_RetE simp: errOf_def kv_store_def storedAt_def split: sum.splits)
  show ?thesis
  proof (cases r)
    case (Inl e)
    with add read show ?thesis by (simp add: addSecret_def Let_def p_def)
  next
    case (Inr s)
    show ?thesis
    proof (cases s)
      case None
      from add read have "bnd (va_Write (bv_client b) p (ve_NewData env 0 (fmupd tokenName (JStr token) fmempty)))
          (\<lambda>r. ret (errOf r)) w = (Ret None, w')"
        by (simp add: addSecret_def Let_def p_def Inr None)
      from wr [OF _ this] new read show ?thesis
        by (simp add: new_data_law_def storedAt_def Inr None)
    next
      case (Some sec)
      let ?old = "case dataLookup (as_Data sec) ''data'' of Some (JMap m) \<Rightarrow> Some m | _ \<Rightarrow> None"
      let ?m = "case ?old of None \<Rightarrow> fmempty | Some m \<Rightarrow> m"
      have old: "storedAt (bv_client b) p w = ?old"
        using read by (simp add: storedAt_def Inr Some)
      show ?thesis
      proof (cases "?old = None \<or> fmlookup ?m tokenName \<noteq> Some (JStr token)")
        case True
        with add read obtain d where
          "bnd (va_Write (bv_client b) p (fmupd ''data'' (JMap (fmupd tokenName (JStr token) ?m)) d))
             (\<lambda>r. ret (errOf r)) w = (Ret None, w')"
          by (cases "as_Data sec") (simp_all add: addSecret_def Let_def p_def Inr Some)
        from wr [OF _ this] show ?thesis by (simp add: old)
      next
        case False
        with add read have "w' = w" by (auto simp: addSecret_def Let_def p_def Inr Some)
        with False old show ?thesis by (auto intro!: fmap_ext)
      qed
    qed
  qed
qed

lemma addSecret_same:
  assumes kv: "kv_store (bv_client b)"
    and "storedAt (bv_client b) (pathJoin [bv_secretEngine b, ''data'', path]) w = Some m"
    and "fmlookup m tokenName = Some (JStr token)"
  shows "addSecret env b path token w = (Ret None, w)"
proof -
  let ?p = "pathJoin [bv_secretEngine b, ''data'', path]"
  from assms(2) obtain s w1 where read: "va_Read (bv_client b) ?p w = (Ret (Inr (Some s)), w1)"
    and d: "dataLookup (as_Data s) ''data'' = Some (JMap m)"
    unfolding storedAt_def
    by (cases "va_Read (bv_client b) ?p w")
      (auto split: outcome.splits sum.splits option.splits json.splits)
  from read kv have "w1 = w" unfolding kv_store_def by blast
  with read d assms(3) show ?thesis by (simp add: addSecret_def Let_def)
qed
text \<open>C22: The token of a cluster is stored for good: once \<open>AddSecrets\<close> has succeeded, the token is
  what is read back at the cluster's path, every other key that was stored there before is kept,
  and a second call with the same token writes nothing.\<close>

theorem vault_token_round_trip:
  assumes "kv_store (bv_client b)" and "new_data_law env"
    and "AddSecrets env b [\<lparr>vs_Path = path, vs_Value = token\<rparr>] w = (Ret None, w')"
  defines "p \<equiv> pathJoin [bv_secretEngine b, ''data'', path]"
  shows "storedAt (bv_client b) p w' = Some (fmupd tokenName (JStr token)
           (case storedAt (bv_client b) p w of None \<Rightarrow> fmempty | Some m \<Rightarrow> m))
    \<and> AddSecrets env b [\<lparr>vs_Path = path, vs_Value = token\<rparr>] w' = (Ret None, w')"
proof -
  from assms(3) have add: "addSecret env b path token w = (Ret None, w')"
    by (auto elim!: bnd_RetE split: option.splits)
  note stored = addSecret_stored [OF assms(1,2) add, folded p_def]
  have "addSecret env b path token w' = (Ret None, w')"
    by (rule addSecret_same [OF assms(1) stored [unfolded p_def]]) simp
  with stored show ?thesis by simp
qed

text \<open>The instance: a world that is the map from paths to the data stored there.\<close>

definition kvRead :: "string \<Rightarrow> ((string, json gomap) fmap, gerr + ApiSecret option) go" where
  "kvRead p w = (Ret (Inr (map_option (\<lambda>d. \<lparr>as_Data = Some d\<rparr>) (fmlookup w p))), w)"

definition kvWrite :: "string \<Rightarrow> json gomap \<Rightarrow> ((string, json gomap) fmap, gerr + ApiSecret option) go" where
  "kvWrite p d w = (Ret (Inr None), fmupd p d w)"

definition kvAPI :: "(string, json gomap) fmap VaultAPI" where
  "kvAPI = \<lparr>va_Read = kvRead, va_Write = kvWrite, va_List = (\<lambda>_. ret (Inr None)),
     va_Delete = (\<lambda>p w. (Ret (Inr None), fmdrop p w)), va_SetToken = (\<lambda>_. ret ())\<rparr>"

definition kvEnv :: "'w VaultAPI \<Rightarrow> 'w VaultEnv" where
  "kvEnv api = \<lparr>ve_NewClientFromConfig = (\<lambda>_ _ _. ret (Inr api)), ve_Getenv = (\<lambda>_. ret ''''),
     ve_TokenFileMissing = ret False, ve_GetInstance = ret None, ve_SetInstance = (\<lambda>_. ret ()),
     ve_NewData = (\<lambda>_ m. fmupd ''data'' (JMap m) fmempty)\<rparr>"

lemma kv_store_kvAPI: "kv_store kvAPI"
  by (simp add: kv_store_def kvAPI_def kvRead_def kvWrite_def dataLookup_def)

lemma new_data_law_kvEnv: "new_data_law (kvEnv api)"
  by (simp add: new_data_law_def kvEnv_def)

lemma vault_token_round_trip_witness:
  "storedAt kvAPI ''kv/data/acme/prod/steward'' (snd (AddSecrets (kvEnv kvAPI)
      \<lparr>bv_client = kvAPI, bv_secretEngine = ''kv'', bv_deletionPolicy = ''Archive''\<rparr>
      [\<lparr>vs_Path = ''acme/prod/steward'', vs_Value = ''tok''\<rparr>] fmempty))
   = Some (fmupd tokenName (JStr ''tok'') fmempty)"
proof -
  let ?b = "\<lparr>bv_client = kvAPI, bv_secretEngine = ''kv'', bv_deletionPolicy = ''Archive''\<rparr>"
  let ?s = "[\<lparr>vs_Path = ''acme/prod/steward'', vs_Value = ''tok''\<rparr>]"
  have p: "pathJoin [''kv'', ''data'', ''acme/prod/steward''] = ''kv/data/acme/prod/steward''"
    by code_simp
  have "AddSecrets (kvEnv kvAPI) ?b ?s fmempty = (Ret None, snd (AddSecrets (kvEnv kvAPI) ?b ?s fmempty))"
    by (simp add: addSecret_def Let_def kvAPI_def kvRead_def kvWrite_def errOf_def bnd_def ret_def)
  from vault_token_round_trip [OF _ new_data_law_kvEnv this] kv_store_kvAPI
  show ?thesis by (simp add: p) (simp add: storedAt_def kvAPI_def kvRead_def)
qed

section \<open>What is removed from Vault\<close>

text \<open>
  The tree of secrets below a path: a server lists the names of a directory, those of directories
  with a slash at the end. \<open>leaves\<close> are the directory and the name of every secret, in the order
  of the listings.
\<close>

datatype vtree = Leaf string | Dir string "vtree list"

fun treeKey :: "vtree \<Rightarrow> string" where
  "treeKey (Leaf k) = k"
| "treeKey (Dir d ts) = d @ ''/''"

fun leavesOf :: "string \<Rightarrow> vtree \<Rightarrow> (string \<times> string) list" where
  "leavesOf p (Leaf k) = [(p, k)]"
| "leavesOf p (Dir d ts) = concat (map (leavesOf (pathJoin [p, d @ ''/''])) ts)"

definition leaves :: "string \<Rightarrow> vtree list \<Rightarrow> (string \<times> string) list" where
  "leaves p ts = concat (map (leavesOf p) ts)"

text \<open>How deep the directories are nested.\<close>

fun depthOf :: "vtree \<Rightarrow> nat" where
  "depthOf (Leaf k) = 0"
| "depthOf (Dir d ts) = Suc (foldr max (map depthOf ts) 0)"

definition depth :: "vtree list \<Rightarrow> nat" where
  "depth ts = foldr max (map depthOf ts) 0"

text \<open>The server lists the tree \<open>ts\<close> below \<open>p\<close>, and its listings do not change (a soft deletion keeps
  the metadata that is listed).\<close>

definition listsAs :: "'w BankVaultClient \<Rightarrow> string \<Rightarrow> vtree list \<Rightarrow> bool" where
  "listsAs b p ts \<longleftrightarrow> (\<forall>w. va_List (bv_client b) (pathJoin [bv_secretEngine b, ''metadata'', p]) w =
      (Ret (Inr (Some \<lparr>as_Data = Some (fmupd ''keys'' (JList (map (\<lambda>t. JStr (treeKey t)) ts)) fmempty)\<rparr>)), w))"

fun servesTree :: "'w BankVaultClient \<Rightarrow> string \<Rightarrow> vtree \<Rightarrow> bool" where
  "servesTree b p (Leaf k) \<longleftrightarrow> \<not> isDirectory k"
| "servesTree b p (Dir d ts) \<longleftrightarrow> listsAs b (pathJoin [p, d @ ''/'']) ts
     \<and> (\<forall>t \<in> set ts. servesTree b (pathJoin [p, d @ ''/'']) t)"

definition serves :: "'w BankVaultClient \<Rightarrow> string \<Rightarrow> vtree list \<Rightarrow> bool" where
  "serves b p ts \<longleftrightarrow> listsAs b p ts \<and> (\<forall>t \<in> set ts. servesTree b p t)"

lemma serves_Dir: "servesTree b p (Dir d ts) \<longleftrightarrow> serves b (pathJoin [p, d @ ''/'']) ts"
  by (simp add: serves_def)

lemma leavesOf_Dir: "leavesOf p (Dir d ts) = leaves (pathJoin [p, d @ ''/'']) ts"
  by (simp add: leaves_def)

lemma depth_Dir: "depthOf (Dir d ts) = Suc (depth ts)"
  by (simp add: depth_def)

lemma depth_member: "t \<in> set ts \<Longrightarrow> depthOf t \<le> depth ts"
  unfolding depth_def by (induction ts) auto

lemma isDirectory_Dir [simp]: "isDirectory (d @ ''/'')"
  by (simp add: isDirectory_def hasSuffix_def hasPrefix_def)

lemma asStrings_JStr [simp]: "asStrings (map (\<lambda>t. JStr (f t)) ts) = Some (map f ts)"
  by (induction ts) simp_all

lemma listSecrets_listsAs: "listsAs b p ts \<Longrightarrow> listSecrets b p = ret (Inr (map treeKey ts))"
  by (rule ext) (simp add: listSecrets_def listsAs_def dataLookup_def)

lemma untilError_append:
  "untilError f (xs @ ys) = bnd (untilError f xs) (\<lambda>err. case err of Some e \<Rightarrow> ret (Some e) | None \<Rightarrow> untilError f ys)"
proof (induction xs)
  case (Cons x xs)
  show ?case
    by (auto simp: bnd_assoc Cons intro!: bnd_cong_all split: option.splits)
qed simp

lemma untilError_concat: "untilError f (concat xss) = untilError (untilError f) xss"
  by (induction xss) (auto simp: untilError_append intro!: bnd_cong_all split: option.split)

lemma untilError_cong: "(\<And>x. x \<in> set xs \<Longrightarrow> f x = g x) \<Longrightarrow> untilError f xs = untilError g xs"
proof (induction xs)
  case (Cons x xs)
  then show ?case by simp
qed simp

lemma untilError_map: "untilError f (map h xs) = untilError (\<lambda>x. f (h x)) xs"
  by (induction xs) simp_all

text \<open>The recursion over directories is one loop over the secrets below the path.\<close>

lemma removeSecret_leaves:
  assumes "serves b p ts" and "depth ts < fuel"
  shows "removeSecret fuel rt b p = untilError (\<lambda>(d, k). removeOne rt b d k) (leaves p ts)"
  using assms
proof (induction fuel arbitrary: p ts)
  case (Suc fuel)
  have one: "(if isDirectory (treeKey t) then removeSecret fuel rt b (pathJoin [p, treeKey t])
              else removeOne rt b p (treeKey t)) = untilError (\<lambda>(d, k). removeOne rt b d k) (leavesOf p t)"
    if t: "t \<in> set ts" for t
  proof (cases t)
    case (Leaf k)
    with t Suc.prems have "\<not> isDirectory k" by (auto simp: serves_def)
    with Leaf show ?thesis
      by (simp add: fun_eq_iff bnd_def ret_def split: prod.split outcome.split option.split)
  next
    case (Dir d us)
    with t Suc.prems have "serves b (pathJoin [p, d @ ''/'']) us"
      unfolding serves_def by fastforce
    moreover have "depth us < fuel"
      using depth_member [OF t] Suc.prems by (simp add: Dir depth_Dir del: depthOf.simps)
    ultimately show ?thesis by (simp add: Dir leavesOf_Dir Suc.IH del: leavesOf.simps)
  qed
  have "listSecrets b p = ret (Inr (map treeKey ts))"
    using Suc.prems by (simp add: serves_def listSecrets_listsAs)
  then have "removeSecret (Suc fuel) rt b p = untilError (\<lambda>t. if isDirectory (treeKey t)
      then removeSecret fuel rt b (pathJoin [p, treeKey t]) else removeOne rt b p (treeKey t)) ts"
    by (simp add: untilError_map)
  also have "\<dots> = untilError (\<lambda>t. untilError (\<lambda>(d, k). removeOne rt b d k) (leavesOf p t)) ts"
    by (rule untilError_cong) (rule one)
  also have "\<dots> = untilError (\<lambda>(d, k). removeOne rt b d k) (leaves p ts)"
    by (simp add: leaves_def untilError_concat untilError_map)
  finally show ?case .
qed simp
text \<open>
  The metadata of the secret at every leaf names its versions; the order in which the runtime
  ranges over a map is the only thing that can vary.
\<close>

definition metadataOf :: "'w BankVaultClient \<Rightarrow> (string \<times> string \<Rightarrow> int list) \<Rightarrow> (string \<times> string) list \<Rightarrow> bool" where
  "metadataOf b versions ls \<longleftrightarrow> (\<forall>(d, k) \<in> set ls. \<exists>m s.
     (\<forall>w. va_Read (bv_client b) (pathJoin [bv_secretEngine b, ''metadata'', d, k]) w = (Ret (Inr (Some s)), w))
     \<and> dataLookup (as_Data s) ''versions'' = Some (JMap m)
     \<and> distinct (versions (d, k)) \<and> fset (fmdom m) = FormatInt ` set (versions (d, k))
     \<and> (\<forall>v \<in> set (versions (d, k)). - (2 ^ 63) \<le> v \<and> v < 2 ^ 63))"

definition quietHints :: "'w Runtime \<Rightarrow> bool" where
  "quietHints rt \<longleftrightarrow> (\<forall>w. \<exists>hint. rt_MapHint rt w = (Ret hint, w))"

lemma parseVersions_FormatInt:
  "\<forall>v \<in> set vs. - (2 ^ 63) \<le> v \<and> v < 2 ^ 63 \<Longrightarrow> parseVersions (map FormatInt vs) = Inr vs"
  by (induction vs) (simp_all add: Atoi_FormatInt)

lemma FormatInt_list: "set ks = FormatInt ` V \<Longrightarrow> distinct ks \<Longrightarrow> \<exists>vs. ks = map FormatInt vs \<and> distinct vs \<and> set vs = V"
proof -
  assume "set ks = FormatInt ` V" and "distinct ks"
  then have "\<forall>k \<in> set ks. \<exists>v. k = FormatInt v" by auto
  then obtain vs where vs: "ks = map FormatInt vs"
    by (metis (no_types) ex_map_conv)
  with \<open>distinct ks\<close> have "distinct vs" by (simp add: distinct_map)
  moreover have "set vs = V"
    using \<open>set ks = FormatInt ` V\<close> by (simp add: vs inj_image_eq_iff inj_def)
  ultimately show ?thesis using vs by blast
qed

lemma getVersionList_sorted:
  assumes "quietHints rt" and "dataLookup data ''versions'' = Some (JMap m)"
    and "distinct vs" and "fset (fmdom m) = FormatInt ` set vs"
    and "\<forall>v \<in> set vs. - (2 ^ 63) \<le> v \<and> v < 2 ^ 63"
  shows "getVersionList rt data w = (Ret (Inr (fmupd ''versions'' (JInts (sort vs)) fmempty)), w)"
proof -
  from assms(1) obtain hint where hint: "rt_MapHint rt w = (Ret hint, w)"
    unfolding quietHints_def by blast
  have "set (rangeKeys hint m) = FormatInt ` set vs" and "distinct (rangeKeys hint m)"
    using assms(4) by simp_all
  from FormatInt_list [OF this] obtain us where us: "rangeKeys hint m = map FormatInt us"
    "distinct us" "set us = set vs" by blast
  with assms(5) have "parseVersions (rangeKeys hint m) = Inr us"
    by (simp add: parseVersions_FormatInt)
  moreover have "sort us = sort vs"
    using us(2,3) assms(3) by (simp add: sorted_distinct_set_unique)
  ultimately show ?thesis
    using assms(2) hint by (simp add: getVersionList_def rangeOver_def bnd_assoc)
qed

lemma RemoveSecrets_one:
  "RemoveSecrets fuel rt b [\<lparr>vs_Path = p, vs_Value = v\<rparr>] = removeSecret fuel rt b p"
  by (simp add: RemoveSecrets_def fun_eq_iff bnd_def ret_def split: prod.split outcome.split option.split)

lemma removeSecret_archive:
  assumes "bv_deletionPolicy b = ArchivePolicy" and "serves b p ts" and "depth ts < fuel"
    and "metadataOf b versions (leaves p ts)" and "quietHints rt"
  shows "removeSecret fuel rt b p =
    untilError (\<lambda>(d, k). deleteToken b (pathJoin [bv_secretEngine b, ''delete'', d, k])
        (fmupd ''versions'' (JInts (sort (versions (d, k)))) fmempty)) (leaves p ts)"
proof -
  have "removeOne rt b d k w = deleteToken b (pathJoin [bv_secretEngine b, ''delete'', d, k])
        (fmupd ''versions'' (JInts (sort (versions (d, k)))) fmempty) w"
    if "(d, k) \<in> set (leaves p ts)" for d k w
  proof -
    from assms(4) that obtain m s where
      "\<forall>w. va_Read (bv_client b) (pathJoin [bv_secretEngine b, ''metadata'', d, k]) w = (Ret (Inr (Some s)), w)"
      "dataLookup (as_Data s) ''versions'' = Some (JMap m)" "distinct (versions (d, k))"
      "fset (fmdom m) = FormatInt ` set (versions (d, k))"
      "\<forall>v \<in> set (versions (d, k)). - (2 ^ 63) \<le> v \<and> v < 2 ^ 63"
      unfolding metadataOf_def by blast
    with assms(1) getVersionList_sorted [OF assms(5), of "as_Data s" m "versions (d, k)" w]
    show ?thesis by (simp add: removeOne_def)
  qed
  then have "untilError (\<lambda>(d, k). removeOne rt b d k) (leaves p ts) =
      untilError (\<lambda>(d, k). deleteToken b (pathJoin [bv_secretEngine b, ''delete'', d, k])
        (fmupd ''versions'' (JInts (sort (versions (d, k)))) fmempty)) (leaves p ts)"
    by (intro untilError_cong) (auto simp: fun_eq_iff)
  with removeSecret_leaves [OF assms(2,3)] show ?thesis by simp
qed

text \<open>C12: With the policy \<open>Archive\<close>, removing a path is one soft deletion per secret below it: the
  run writes, in the order of the listings and up to the first refusal, the sorted version numbers
  of each secret at its delete path. Directories nested less deep than the fuel are all visited,
  and the run ends.\<close>

theorem removal_of_a_tree:
  assumes "bv_deletionPolicy b = ArchivePolicy" and "serves b p ts" and "depth ts < fuel"
    and "metadataOf b versions (leaves p ts)" and "quietHints rt"
  shows "RemoveSecrets fuel rt b [\<lparr>vs_Path = p, vs_Value = v\<rparr>] =
    untilError (\<lambda>(d, k). deleteToken b (pathJoin [bv_secretEngine b, ''delete'', d, k])
        (fmupd ''versions'' (JInts (sort (versions (d, k)))) fmempty)) (leaves p ts)"
  unfolding RemoveSecrets_one using assms by (rule removeSecret_archive)

text \<open>The instance: \<open>acme/prod\<close> holds \<open>steward\<close> and, in \<open>sub/\<close>, \<open>deep\<close>; the world is the list of the
  paths that were written.\<close>

definition treeSecret :: "string \<Rightarrow> json \<Rightarrow> ApiSecret" where
  "treeSecret k j = \<lparr>as_Data = Some (fmupd k j fmempty)\<rparr>"

definition treeAPI :: "string list VaultAPI" where
  "treeAPI = \<lparr>
     va_Read = (\<lambda>_. ret (Inr (Some (treeSecret ''versions'' (JMap (fmupd ''2'' JNull (fmupd ''1'' JNull fmempty))))))),
     va_Write = (\<lambda>p _ w. (Ret (Inr None), w @ [p])),
     va_List = (\<lambda>p. ret (Inr (if p = ''kv/metadata/acme/prod''
        then Some (treeSecret ''keys'' (JList [JStr ''steward'', JStr ''sub/'']))
        else if p = ''kv/metadata/acme/prod/sub'' then Some (treeSecret ''keys'' (JList [JStr ''deep''])) else None))),
     va_Delete = (\<lambda>p w. (Ret (Inr None), w @ [p])), va_SetToken = (\<lambda>_. ret ())\<rparr>"

definition treeClient :: "string \<Rightarrow> string list BankVaultClient" where
  "treeClient policy = \<lparr>bv_client = treeAPI, bv_secretEngine = ''kv'', bv_deletionPolicy = policy\<rparr>"

lemma tree_paths:
  "pathJoin [''kv'', ''metadata'', ''acme/prod''] = ''kv/metadata/acme/prod''"
  "pathJoin [''acme/prod'', ''sub/''] = ''acme/prod/sub''"
  "pathJoin [''kv'', ''metadata'', ''acme/prod/sub''] = ''kv/metadata/acme/prod/sub''"
  "pathJoin [''kv'', ''delete'', ''acme/prod'', ''steward''] = ''kv/delete/acme/prod/steward''"
  "pathJoin [''kv'', ''delete'', ''acme/prod/sub'', ''deep''] = ''kv/delete/acme/prod/sub/deep''"
  by code_simp+

lemma tree_served: "serves (treeClient policy) ''acme/prod'' [Leaf ''steward'', Dir ''sub'' [Leaf ''deep'']]"
  by (simp add: serves_def listsAs_def treeClient_def treeAPI_def tree_paths treeSecret_def
      isDirectory_def hasSuffix_def hasPrefix_def)

lemma tree_leaves: "leaves ''acme/prod'' [Leaf ''steward'', Dir ''sub'' [Leaf ''deep'']] =
    [(''acme/prod'', ''steward''), (''acme/prod/sub'', ''deep'')]"
  by (simp add: leaves_def tree_paths)

lemma tree_metadata: "metadataOf (treeClient policy) (\<lambda>_. [1, 2])
    [(''acme/prod'', ''steward''), (''acme/prod/sub'', ''deep'')]"
proof -
  have "FormatInt 1 = ''1''" "FormatInt 2 = ''2''" by code_simp+
  then show ?thesis
    by (auto simp: metadataOf_def treeClient_def treeAPI_def treeSecret_def dataLookup_def)
qed

lemma quietHints_idle [simp]: "quietHints idleRuntime"
  by (simp add: quietHints_def)

lemma removal_of_a_tree_witness:
  "RemoveSecrets 2 idleRuntime (treeClient ArchivePolicy) [\<lparr>vs_Path = ''acme/prod'', vs_Value = ''''\<rparr>] [] =
     (Ret None, [''kv/delete/acme/prod/steward'', ''kv/delete/acme/prod/sub/deep''])"
proof -
  have "RemoveSecrets 2 idleRuntime (treeClient ArchivePolicy) [\<lparr>vs_Path = ''acme/prod'', vs_Value = ''''\<rparr>] =
    untilError (\<lambda>(d, k). deleteToken (treeClient ArchivePolicy) (pathJoin [bv_secretEngine (treeClient ArchivePolicy), ''delete'', d, k])
        (fmupd ''versions'' (JInts (sort [1, 2])) fmempty))
      (leaves ''acme/prod'' [Leaf ''steward'', Dir ''sub'' [Leaf ''deep'']])"
    by (rule removal_of_a_tree [where versions = "\<lambda>_. [1, 2]", OF _ tree_served])
      (simp_all add: treeClient_def depth_def tree_leaves tree_metadata [unfolded treeClient_def])
  then show ?thesis
    by (simp add: tree_leaves deleteToken_def treeClient_def treeAPI_def tree_paths errOf_def bnd_def ret_def)
qed
section \<open>The policy that removes nothing\<close>

lemma NewClient_policy: "NewClient env policy w = (Ret (Inr b), w') \<Longrightarrow> bv_deletionPolicy b = policy"
  by (auto simp: NewClient_def newBankVaultClient_def SetDeletionPolicy_def Let_def
      elim!: bnd_RetE split: option.splits sum.splits)

lemma removeOne_unknown:
  assumes "bv_deletionPolicy b \<noteq> ArchivePolicy" and "bv_deletionPolicy b \<noteq> DeletePolicy"
    and "metadataOf b versions ls" and "(d, k) \<in> set ls" and "quietHints rt"
  shows "removeOne rt b d k w = (Ret (Some (ErrNew ''unknown DeletionPolicy, skipping'')), w)"
proof -
  from assms(3,4) obtain m s where
    "\<forall>w. va_Read (bv_client b) (pathJoin [bv_secretEngine b, ''metadata'', d, k]) w = (Ret (Inr (Some s)), w)"
    "dataLookup (as_Data s) ''versions'' = Some (JMap m)" "distinct (versions (d, k))"
    "fset (fmdom m) = FormatInt ` set (versions (d, k))"
    "\<forall>v \<in> set (versions (d, k)). - (2 ^ 63) \<le> v \<and> v < 2 ^ 63"
    unfolding metadataOf_def by blast
  with assms(1,2) getVersionList_sorted [OF assms(5), of "as_Data s" m "versions (d, k)" w]
  show ?thesis by (simp add: removeOne_def)
qed

text \<open>C32: A cluster whose secrets are in Vault cannot be deleted under the default policy \<open>Retain\<close>
  (or any value but the other two): instead of leaving the secrets where they are, the deletion
  step fails before it has written anything, whatever policy the cluster itself asks for.\<close>

theorem retain_fails_the_deletion:
  assumes "ctx_UseVault data" and "ctx_Deleted data"
    and "ctx_DefaultDeletionPolicy data \<notin> {ArchivePolicy, DeletePolicy}"
    and "NewClient env (ctx_DefaultDeletionPolicy data) w = (Ret (Inr b), w1)"
    and "serves b (pathDir (stewardPath obj)) ts" and "depth ts < fuel"
    and "leaves (pathDir (stewardPath obj)) ts \<noteq> []"
    and "metadataOf b versions (leaves (pathDir (stewardPath obj)) ts)" and "quietHints (ctx_Runtime data)"
  shows "HandleVaultDeletion fuel env obj data w = (Ret (obj, data,
    errResult (Wrap ''remove secret: '' (ErrNew ''unknown DeletionPolicy, skipping''))), w1)"
proof -
  let ?p = "pathDir (stewardPath obj)"
  from assms(7) obtain d k ls where ls: "leaves ?p ts = (d, k) # ls" by (cases "leaves ?p ts") auto
  from NewClient_policy [OF assms(4)] assms(3)
  have "bv_deletionPolicy b \<noteq> ArchivePolicy" "bv_deletionPolicy b \<noteq> DeletePolicy" by auto
  from removeOne_unknown [OF this assms(8) _ assms(9), of d k]
  have "removeSecret fuel (ctx_Runtime data) b ?p w1 = (Ret (Some (ErrNew ''unknown DeletionPolicy, skipping'')), w1)"
    by (simp add: removeSecret_leaves [OF assms(5,6)] ls)
  with assms(1,2,4) show ?thesis
    by (simp add: HandleVaultDeletion_def getVaultClient_def RemoveSecrets_def)
qed

lemma retain_fails_the_deletion_witness:
  "\<exists>data :: string list Context. ctx_DefaultDeletionPolicy data = RetainPolicy \<and>
     HandleVaultDeletion 2 (kvEnv treeAPI) (ClusterObj (sampleCluster\<lparr>cl_Meta := sampleMeta ''prod'',
        cl_Spec := sampleClusterSpec\<lparr>cs_TenantRef := ''acme''\<rparr>\<rparr>)) data [] =
     (Ret (ClusterObj (sampleCluster\<lparr>cl_Meta := sampleMeta ''prod'',
        cl_Spec := sampleClusterSpec\<lparr>cs_TenantRef := ''acme''\<rparr>\<rparr>), data,
      errResult (Wrap ''remove secret: '' (ErrNew ''unknown DeletionPolicy, skipping''))), [])"
proof -
  let ?d = "sampleContext\<lparr>ctx_UseVault := True, ctx_Deleted := True,
     ctx_DefaultDeletionPolicy := RetainPolicy\<rparr> :: string list Context"
  let ?c = "ClusterObj (sampleCluster\<lparr>cl_Meta := sampleMeta ''prod'',
     cl_Spec := sampleClusterSpec\<lparr>cs_TenantRef := ''acme''\<rparr>\<rparr>)"
  have path: "pathDir (pathJoin [''acme'', ''prod'', ''steward'']) = ''acme/prod''" by code_simp
  then have p: "pathDir (stewardPath ?c) = ''acme/prod''"
    by (simp add: stewardPath_def sampleMeta_def)
  have rt: "ctx_Runtime ?d = idleRuntime" by (simp add: sampleContext_def)
  have new: "NewClient (kvEnv treeAPI) RetainPolicy [] = (Ret (Inr (treeClient RetainPolicy)), [])"
    by (simp add: NewClient_def kvEnv_def newBankVaultClient_def treeClient_def)
  have "HandleVaultDeletion 2 (kvEnv treeAPI) ?c ?d [] = (Ret (?c, ?d,
      errResult (Wrap ''remove secret: '' (ErrNew ''unknown DeletionPolicy, skipping''))), [])"
    by (rule retain_fails_the_deletion [where b = "treeClient RetainPolicy" and versions = "\<lambda>_. [1, 2]"
        and ts = "[Leaf ''steward'', Dir ''sub'' [Leaf ''deep'']]"])
      (simp_all only: p rt tree_leaves tree_served tree_metadata new quietHints_idle,
       simp_all add: api_constants depth_def new [unfolded api_constants])
  then show ?thesis by (intro exI [of _ ?d]) simp
qed
text \<open>The two steps never ask for a requeue.\<close>

lemma quiet_vault: "quiet (CreateOrUpdateVault env)" "quiet (HandleVaultDeletion fuel env)"
  by (rule quietI, auto simp: CreateOrUpdateVault_def HandleVaultDeletion_def result_defs
      elim!: bnd_RetE split: if_splits sum.splits option.splits)+

end
