(* ===== verification/GoBase64.thy ===== *)
theory GoBase64
  imports GoLib "HOL-Library.Word"
begin

text \<open>
  \<open>base64.URLEncoding\<close> of Go's \<open>encoding/base64\<close>: three bytes are four characters of the URL
  alphabet, with padding at the end. \<open>urlDecode\<close> is the reference the encoding is checked
  against.
\<close>

definition urlAlphabet :: string where
  "urlAlphabet = ''ABCDEFGHIJKLMNOPQRSTUVWXYZabcdefghijklmnopqrstuvwxyz0123456789-_''"

text \<open>The characters of a 24-bit group, most significant first.\<close>

definition sextet :: "nat \<Rightarrow> nat \<Rightarrow> char" where
  "sextet v k = urlAlphabet ! (v div 64 ^ k mod 64)"

fun EncodeToString :: "8 word list \<Rightarrow> string" where
  "EncodeToString [] = ''''"
| "EncodeToString [a] =
     (let v = unat a * 65536 in [sextet v 3, sextet v 2, CHR ''='', CHR ''=''])"
| "EncodeToString [a, b] =
     (let v = unat a * 65536 + unat b * 256 in [sextet v 3, sextet v 2, sextet v 1, CHR ''=''])"
| "EncodeToString (a # b # c # r) =
     (let v = unat a * 65536 + unat b * 256 + unat c
      in [sextet v 3, sextet v 2, sextet v 1, sextet v 0] @ EncodeToString r)"

definition sextetVal :: "char \<Rightarrow> nat" where
  "sextetVal c = length (takeWhile (\<lambda>x. x \<noteq> c) urlAlphabet)"

text \<open>The value of a group of four characters; padding counts as zero bits.\<close>

definition groupVal :: "char \<Rightarrow> char \<Rightarrow> char \<Rightarrow> char \<Rightarrow> nat" where
  "groupVal p q r s = (let val = (\<lambda>c. if c = CHR ''='' then 0 else sextetVal c)
     in ((val p * 64 + val q) * 64 + val r) * 64 + val s)"

fun urlDecode :: "string \<Rightarrow> 8 word list" where
  "urlDecode (p # q # r # s # rest) =
     (let v = groupVal p q r s;
          bs = [of_nat (v div 65536), of_nat (v div 256 mod 256), of_nat (v mod 256)]
      in (if r = CHR ''='' then take 1 bs else if s = CHR ''='' then take 2 bs else bs) @ urlDecode rest)"
| "urlDecode _ = []"

lemma length_urlAlphabet: "length urlAlphabet = 64"
  by (simp add: urlAlphabet_def)

lemma distinct_urlAlphabet: "distinct urlAlphabet"
  unfolding urlAlphabet_def by code_simp

lemma pad_not_in_alphabet: "CHR ''='' \<notin> set urlAlphabet"
  unfolding urlAlphabet_def by code_simp

lemma takeWhile_nth:
  assumes "distinct xs" and "i < length xs"
  shows "takeWhile (\<lambda>x. x \<noteq> xs ! i) xs = take i xs"
  using assms by (intro takeWhile_eq_take_P_nth) (auto simp: nth_eq_iff_index_eq)

lemma sextetVal_nth: "i < 64 \<Longrightarrow> sextetVal (urlAlphabet ! i) = i"
  by (simp add: sextetVal_def takeWhile_nth distinct_urlAlphabet length_urlAlphabet)

lemma sextet_in_alphabet: "sextet v k \<in> set urlAlphabet"
  by (simp add: sextet_def length_urlAlphabet)

lemma sextet_not_pad [simp]: "sextet v k \<noteq> CHR ''=''"
  using sextet_in_alphabet [of v k] pad_not_in_alphabet by metis

lemma sextetVal_sextet [simp]: "sextetVal (sextet v k) = v div 64 ^ k mod 64"
  by (simp add: sextet_def sextetVal_nth)
lemma sextets:
  assumes "v < 16777216"
  shows "((v div 64 ^ 3 mod 64 * 64 + v div 64 ^ 2 mod 64) * 64 + v div 64 mod 64) * 64 + v mod 64 = (v :: nat)"
proof -
  have p2: "v div 64 ^ 2 = v div 64 div 64" and p3: "v div 64 ^ 3 = v div 64 div 64 div 64"
    by (simp_all add: div_mult2_eq [symmetric])
  have "v div 64 div 64 div 64 < 64"
    using assms by (simp add: div_mult2_eq [symmetric] less_mult_imp_div_less)
  then show ?thesis
    unfolding p2 p3 by (metis div_mult_mod_eq mod_less)
qed

lemma unat_byte: "unat (a :: 8 word) < 256"
  using unsigned_less [of a] by simp

lemma groupVal_sextets:
  "v < 16777216 \<Longrightarrow> groupVal (sextet v 3) (sextet v 2) (sextet v (Suc 0)) (sextet v 0) = v"
  "v < 16777216 \<Longrightarrow> v mod 64 = 0 \<Longrightarrow> groupVal (sextet v 3) (sextet v 2) (sextet v (Suc 0)) CHR ''='' = v"
  "v < 16777216 \<Longrightarrow> v mod 64 = 0 \<Longrightarrow> v div 64 mod 64 = 0 \<Longrightarrow> groupVal (sextet v 3) (sextet v 2) CHR ''='' CHR ''='' = v"
  using sextets [of v] by (simp_all add: groupVal_def Let_def)

lemma bytes_of:
  assumes "a < 256" and "b < 256" and "c < 256"
  shows "a * 65536 + b * 256 + c < (16777216 :: nat)"
    and "(a * 65536 + b * 256 + c) div 65536 = (a :: nat)"
    and "(a * 65536 + b * 256 + c) div 256 mod 256 = (b :: nat)"
    and "(a * 65536 + b * 256 + c) mod 256 = (c :: nat)"
proof -
  have v: "a * 65536 + b * 256 + c = c + 256 * (b + 256 * a)" by simp
  have d: "(a * 65536 + b * 256 + c) div 256 = b + 256 * a"
    unfolding v using assms by simp
  show "a * 65536 + b * 256 + c < 16777216" using assms by simp
  show "(a * 65536 + b * 256 + c) mod 256 = c"
    unfolding v mod_mult_self2 using assms by simp
  show "(a * 65536 + b * 256 + c) div 256 mod 256 = b" unfolding d using assms by simp
  have "(a * 65536 + b * 256 + c) div 65536 = (a * 65536 + b * 256 + c) div 256 div 256"
    by (simp add: div_mult2_eq [symmetric])
  also have "\<dots> = a" unfolding d using assms by simp
  finally show "(a * 65536 + b * 256 + c) div 65536 = a" .
qed

text \<open>Decoding gives the bytes back, so different bytes have different encodings.\<close>

lemma urlDecode_EncodeToString: "urlDecode (EncodeToString bs) = bs"
proof (induction bs rule: EncodeToString.induct)
  case 1
  then show ?case by simp
next
  case (2 a)
  have v: "unat a * 65536 = unat a * 1024 * 64" by simp
  have "unat a * 65536 mod 64 = 0" "unat a * 65536 div 64 mod 64 = 0"
    unfolding v by simp_all
  with bytes_of [OF unat_byte [of a], of 0 0] show ?case
    by (simp add: Let_def groupVal_sextets)
next
  case (3 a b)
  have v: "unat a * 65536 + unat b * 256 = (unat a * 1024 + unat b * 4) * 64" by simp
  have "(unat a * 65536 + unat b * 256) mod 64 = 0"
    unfolding v by simp
  with bytes_of [OF unat_byte [of a] unat_byte [of b], of 0]
  have "groupVal (sextet (unat a * 65536 + unat b * 256) 3) (sextet (unat a * 65536 + unat b * 256) 2)
      (sextet (unat a * 65536 + unat b * 256) (Suc 0)) CHR ''='' = unat a * 65536 + unat b * 256"
    by (intro groupVal_sextets) simp_all
  with bytes_of [OF unat_byte [of a] unat_byte [of b], of 0] show ?case
    by (simp add: Let_def)
next
  case (4 a b c r)
  with bytes_of [OF unat_byte [of a] unat_byte [of b] unat_byte [of c]] show ?case
    by (simp add: Let_def groupVal_sextets)
qed

lemma EncodeToString_inject: "EncodeToString bs = EncodeToString cs \<longleftrightarrow> bs = cs"
  by (metis urlDecode_EncodeToString)

lemma length_EncodeToString: "length (EncodeToString bs) = 4 * ((length bs + 2) div 3)"
proof (induction bs rule: EncodeToString.induct)
  case (4 a b c r)
  have "length (a # b # c # r) + 2 = (length r + 2) + 3" by simp
  then have "(length (a # b # c # r) + 2) div 3 = Suc ((length r + 2) div 3)"
    by simp
  with 4 show ?case by (simp add: Let_def)
qed (simp_all add: Let_def)

lemma EncodeToString_chars: "set (EncodeToString bs) \<subseteq> insert CHR ''='' (set urlAlphabet)"
  by (induction bs rule: EncodeToString.induct) (simp_all add: Let_def sextet_in_alphabet)

end
