(* ===== verification/Cluster.thy ===== *)
theory Cluster
  imports Vault GitRepo GoBase64
begin

text \<open>
  The Cluster controller: the steps of \<open>controllers/cluster\<close> (bootstrap token, RBAC, tenant owner,
  cluster template) and \<open>controllers/cluster_controller.go\<close>. Parameters are the libraries that
  render and merge templates: \<open>go-structparse\<close>, \<open>text/template\<close> and \<open>mergo\<close>.
\<close>

section \<open>Bootstrap token (bootstrap_token.go)\<close>

definition generateToken :: "'w Runtime \<Rightarrow> ('w, gerr + string) go" where
  "generateToken rt = bnd (rt_RandRead rt 16) (\<lambda>r. ret (case r of
     Inl err \<Rightarrow> Inl err
   | Inr b \<Rightarrow> Inr (EncodeToString b)))"

definition putBootstrapToken :: "BootstrapToken \<Rightarrow> Cluster \<Rightarrow> Cluster" where
  "putBootstrapToken t c = c\<lparr>cl_Status := (cl_Status c)\<lparr>cst_BootstrapToken := Some t\<rparr>\<rparr>"

definition newClusterStatus :: "'w Runtime \<Rightarrow> Cluster \<Rightarrow> ('w, gerr + Cluster) go" where
  "newClusterStatus rt cluster =
     (let parseTime = (if cs_TokenLifeTime (cl_Spec cluster) \<noteq> '''' then cs_TokenLifeTime (cl_Spec cluster)
                       else ''24h'')
      in case ParseDuration parseTime of
           None \<Rightarrow> ret (Inl (ErrNew (''time: invalid duration '' @ Quote parseTime)))
         | Some duration \<Rightarrow>
             bnd (rt_Now rt) (\<lambda>now.
             bnd (generateToken rt) (\<lambda>r. ret (case r of
               Inl err \<Rightarrow> Inl err
             | Inr token \<Rightarrow> Inr (putBootstrapToken \<lparr>bt_Token = token, bt_ValidUntil = now + duration,
                 bt_TokenValid = True\<rparr> cluster)))))"

definition expireToken :: "time \<Rightarrow> BootstrapToken \<Rightarrow> BootstrapToken" where
  "expireToken now t = (if now > bt_ValidUntil t then t\<lparr>bt_TokenValid := False\<rparr> else t)"

definition setBootstrapToken :: "'w Function" where
  "setBootstrapToken obj data = (case obj of
       ClusterObj instance \<Rightarrow>
         bnd (if cst_BootstrapToken (cl_Status instance) = None
              then newClusterStatus (ctx_Runtime data) instance else ret (Inr instance)) (\<lambda>r. case r of
           Inl err \<Rightarrow> ret (obj, data, errResult (Wrap ''setting initial status on cluster: '' err))
         | Inr instance' \<Rightarrow>
             bnd (rt_Now (ctx_Runtime data)) (\<lambda>now.
               case cst_BootstrapToken (cl_Status instance') of
                 None \<Rightarrow> crash NilDeref
               | Some t \<Rightarrow> ret (ClusterObj (putBootstrapToken (expireToken now t) instance'), data, okResult)))
     | _ \<Rightarrow> ret (obj, data, errResult (ErrNew (GetName obj @ '' is not a cluster object''))))"

section \<open>RBAC (rbac.go)\<close>

text \<open>An error of \<open>Create\<close> that says the object is there already is none.\<close>

definition unlessExists :: "gerr + 'a \<Rightarrow> gerr option" where
  "unlessExists r = (case r of
       Inl err \<Rightarrow> if IsAlreadyExists err then None else Some err
     | Inr _ \<Rightarrow> None)"

text \<open>A create that succeeds decodes the answer into the account.\<close>

definition createClusterSA :: "'w Client \<Rightarrow> ObjectMeta \<Rightarrow> bool \<Rightarrow> ('w, gerr option) go" where
  "createClusterSA k objMeta createTokenSecret =
     bnd (k_CreateServiceAccount k \<lparr>sa_Meta = objMeta\<rparr>) (\<lambda>r. case unlessExists r of
       Some err \<Rightarrow> ret (Some err)
     | None \<Rightarrow>
         (let saName = (case r of Inr sa \<Rightarrow> om_Name (sa_Meta sa) | Inl _ \<Rightarrow> om_Name objMeta)
          in if createTokenSecret
             then bnd (k_CreateSecret k \<lparr>
                    sec_Meta = objMeta\<lparr>om_Annotations := fmupd ServiceAccountNameKey saName fmempty\<rparr>,
                    sec_Type = SecretTypeServiceAccountToken, sec_Data = fmempty\<rparr>)
                    (\<lambda>r. ret (unlessExists r))
             else ret None))"

definition clusterRules :: "string \<Rightarrow> PolicyRule list" where
  "clusterRules name = [\<lparr>pr_APIGroups = [SynGroup], pr_Resources = [''clusters'', ''clusters/status''],
     pr_Verbs = [''get'', ''update'', ''patch''], pr_ResourceNames = [name]\<rparr>]"

definition keyOf :: "ObjectMeta \<Rightarrow> NamespacedName" where
  "keyOf m = \<lparr>nn_Namespace = om_Namespace m, nn_Name = om_Name m\<rparr>"

definition createOrUpdateClusterRole :: "'w Client \<Rightarrow> ObjectMeta \<Rightarrow> ('w, gerr option) go" where
  "createOrUpdateClusterRole k objMeta =
     (let role = \<lparr>role_Meta = objMeta, role_Rules = clusterRules (om_Name objMeta)\<rparr>
      in bnd (k_GetRole k (keyOf objMeta)) (\<lambda>r. case r of
           Inl err \<Rightarrow>
             if IsNotFound err then bnd (k_CreateRole k role) (\<lambda>r. ret (errOf r)) else ret (Some err)
         | Inr found \<Rightarrow>
             if role_Rules found \<noteq> role_Rules role
             then bnd (k_UpdateRole k (found\<lparr>role_Rules := role_Rules role\<rparr>)) (\<lambda>r. ret (errOf r))
             else ret None))"

definition clusterBinding :: "ObjectMeta \<Rightarrow> RoleBinding" where
  "clusterBinding objMeta = \<lparr>rb_Meta = objMeta,
     rb_RoleRef = \<lparr>rr_APIGroup = '''', rr_Kind = ''Role'', rr_Name = om_Name objMeta\<rparr>,
     rb_Subjects = [\<lparr>sub_Kind = ''ServiceAccount'', sub_Name = om_Name objMeta,
       sub_Namespace = om_Namespace objMeta\<rparr>]\<rparr>"

definition createOrUpdateClusterRoleBinding :: "'w Client \<Rightarrow> ObjectMeta \<Rightarrow> ('w, gerr option) go" where
  "createOrUpdateClusterRoleBinding k objMeta =
     (let roleBinding = clusterBinding objMeta
      in bnd (k_GetRoleBinding k (keyOf objMeta)) (\<lambda>r. case r of
           Inl err \<Rightarrow>
             if IsNotFound err then bnd (k_CreateRoleBinding k roleBinding) (\<lambda>r. ret (errOf r))
             else ret (Some err)
         | Inr found \<Rightarrow>
             if rb_RoleRef found \<noteq> rb_RoleRef roleBinding \<or> rb_Subjects found \<noteq> rb_Subjects roleBinding
             then bnd (k_UpdateRoleBinding k (found\<lparr>rb_RoleRef := rb_RoleRef roleBinding,
                    rb_Subjects := rb_Subjects roleBinding\<rparr>)) (\<lambda>r. ret (errOf r))
             else ret None))"

definition clusterObjMeta :: "'w Client \<Rightarrow> Object \<Rightarrow> ObjectMeta" where
  "clusterObjMeta k obj = emptyMeta\<lparr>om_Name := GetName obj, om_Namespace := GetNamespace obj,
     om_OwnerReferences := [k_NewControllerRef k (GetMeta obj)
       \<lparr>gvk_Group = SynGroup, gvk_Version = ''v1alpha1'', gvk_Kind = ''Cluster''\<rparr>]\<rparr>"

definition createClusterRBAC :: "'w Function" where
  "createClusterRBAC obj data =
     (let k = ctx_Client data; objMeta = clusterObjMeta k obj
      in bnd (createClusterSA k objMeta (ctx_CreateSATokenSecret data)) (\<lambda>e. case e of
           Some err \<Rightarrow> ret (obj, data, errResult err)
         | None \<Rightarrow> bnd (createOrUpdateClusterRole k objMeta) (\<lambda>e. case e of
           Some err \<Rightarrow> ret (obj, data, errResult err)
         | None \<Rightarrow> bnd (createOrUpdateClusterRoleBinding k objMeta) (\<lambda>e. case e of
           Some err \<Rightarrow> ret (obj, data, errResult err)
         | None \<Rightarrow> ret (obj, data, okResult)))))"

section \<open>Template and tenant (template.go, tenant.go)\<close>

text \<open>
  \<open>structparse.Strings\<close> calls the parser on every string of the struct; the parser is a function of
  its own state, the error it has recorded. A template that is parsed is a value of type \<open>'t\<close>.
\<close>

record 't ClusterDeps =
  cd_Strings :: "(string \<Rightarrow> gerr option \<Rightarrow> string \<times> gerr option) \<Rightarrow> ClusterSpec \<Rightarrow> gerr option
     \<Rightarrow> ClusterSpec \<times> gerr option"
  cd_Parse :: "string \<Rightarrow> gerr + 't"
  cd_Execute :: "'t \<Rightarrow> Cluster \<Rightarrow> Tenant \<Rightarrow> gerr + string"
  cd_Merge :: "ClusterSpec \<Rightarrow> ClusterSpec \<Rightarrow> ClusterSpec \<times> gerr option"

definition RenderTemplate :: "'t ClusterDeps \<Rightarrow> string \<Rightarrow> Cluster \<Rightarrow> Tenant \<Rightarrow> gerr + string" where
  "RenderTemplate cd tmpl cluster tenant = (case cd_Parse cd tmpl of
       Inl err \<Rightarrow> Inl (Wrap ''could not parse template: '' err)
     | Inr tmp \<Rightarrow> (case cd_Execute cd tmp cluster tenant of
         Inl err \<Rightarrow> Inl (Wrap ''could not render template: '' err)
       | Inr s \<Rightarrow> Inr s))"

definition ParseString :: "'t ClusterDeps \<Rightarrow> Cluster \<Rightarrow> Tenant \<Rightarrow> string \<Rightarrow> gerr option \<Rightarrow> string \<times> gerr option" where
  "ParseString cd cluster tenant inp e =
     (if e \<noteq> None \<or> inp = '''' then (inp, e)
      else case RenderTemplate cd inp cluster tenant of
             Inl err \<Rightarrow> (inp, Some err)
           | Inr str \<Rightarrow> (str, e))"

text \<open>A merge that fails may leave its destination half merged.\<close>

definition applyClusterTemplate :: "'t ClusterDeps \<Rightarrow> Cluster \<Rightarrow> Tenant \<Rightarrow> Cluster \<times> gerr option" where
  "applyClusterTemplate cd cluster tenant = (case ts_ClusterTemplate (tn_Spec tenant) of
       None \<Rightarrow> (cluster, None)
     | Some template \<Rightarrow>
         (case cd_Strings cd (ParseString cd cluster tenant) template None of
            (_, Some err) \<Rightarrow> (cluster, Some (Wrap ''An error occured during template manifestation: '' err))
          | (rendered, None) \<Rightarrow>
              (case cd_Merge cd (cl_Spec cluster) rendered of
                 (spec, Some err) \<Rightarrow> (cluster\<lparr>cl_Spec := spec\<rparr>,
                   Some (Wrap ''an error occured during cluster template merging: '' err))
               | (spec, None) \<Rightarrow> (cluster\<lparr>cl_Spec := spec\<rparr>, None))))"

definition tenantKey :: "Object \<Rightarrow> NamespacedName" where
  "tenantKey obj = \<lparr>nn_Namespace = GetNamespace obj, nn_Name = GetTenantRef obj\<rparr>"

definition setTenantOwner :: "'w Function" where
  "setTenantOwner obj data =
     bnd (k_GetTenant (ctx_Client data) (tenantKey obj)) (\<lambda>r. case r of
       Inl err \<Rightarrow> ret (obj, data, errResult (Wrap ''get tenant: '' err))
     | Inr tenant \<Rightarrow>
         ret (SetMeta ((GetMeta obj)\<lparr>om_OwnerReferences :=
                [k_NewControllerRef (ctx_Client data) (tn_Meta tenant) (tn_GVK tenant)]\<rparr>) obj,
              data, okResult))"

definition applyClusterTemplateFromTenant :: "'t ClusterDeps \<Rightarrow> 'w Function" where
  "applyClusterTemplateFromTenant cd obj data =
     bnd (k_GetTenant (ctx_Client data) (tenantKey obj)) (\<lambda>r. case r of
       Inl err \<Rightarrow> ret (obj, data, errResult (Wrap (''couldn't find tenant: '') err))
     | Inr tenant \<Rightarrow> (case obj of
         ClusterObj instance \<Rightarrow>
           (case applyClusterTemplate cd instance tenant of
              (instance', Some err) \<Rightarrow>
                ret (ClusterObj instance', data, errResult (Wrap ''apply cluster template: '' err))
            | (instance', None) \<Rightarrow> ret (ClusterObj instance', data, okResult))
       | _ \<Rightarrow> ret (obj, data, errResult (ErrNew ''object is not a cluster''))))"

section \<open>The controller (steps.go, cluster_controller.go)\<close>

definition clusterSteps :: "nat \<Rightarrow> 'w VaultEnv \<Rightarrow> 't ClusterDeps \<Rightarrow> 'w Step list" where
  "clusterSteps fuel env cd =
     [\<lparr>step_Name = ''create cluster RBAC'', step_F = createClusterRBAC\<rparr>,
      \<lparr>step_Name = ''deletion check'', step_F = CheckIfDeleted\<rparr>,
      \<lparr>step_Name = ''set bootstrap token'', step_F = setBootstrapToken\<rparr>,
      \<lparr>step_Name = ''create or update vault'', step_F = CreateOrUpdateVault env\<rparr>,
      \<lparr>step_Name = ''delete vault entries'', step_F = HandleVaultDeletion fuel env\<rparr>,
      \<lparr>step_Name = ''set tenant owner'', step_F = setTenantOwner\<rparr>,
      \<lparr>step_Name = ''apply cluster template from tenant'', step_F = applyClusterTemplateFromTenant cd\<rparr>]"

definition SpecificSteps :: "nat \<Rightarrow> 'w VaultEnv \<Rightarrow> 't ClusterDeps \<Rightarrow> 'w Function" where
  "SpecificSteps fuel env cd obj data = RunPipeline obj data (clusterSteps fuel env cd)"

record 'w ClusterReconciler =
  cr_Client :: "'w Client"
  cr_Runtime :: "'w Runtime"
  cr_CreateSATokenSecret :: bool
  cr_DefaultCreationPolicy :: string
  cr_DefaultDeletionPolicy :: string
  cr_UseVault :: bool
  cr_DeleteProtection :: bool

definition clusterContext :: "'w ClusterReconciler \<Rightarrow> 'w Context" where
  "clusterContext r = \<lparr>ctx_FinalizerName = FinalizerName, ctx_Client = cr_Client r,
     ctx_Runtime = cr_Runtime r, ctx_Deleted = False, ctx_originalObject = None,
     ctx_CreateSATokenSecret = cr_CreateSATokenSecret r,
     ctx_DefaultCreationPolicy = cr_DefaultCreationPolicy r,
     ctx_DefaultDeletionPolicy = cr_DefaultDeletionPolicy r, ctx_DefaultGlobalGitRepoUrl = '''',
     ctx_UseVault = cr_UseVault r, ctx_UseDeletionProtection = cr_DeleteProtection r\<rparr>"

definition clusterPipeline :: "nat \<Rightarrow> 'w VaultEnv \<Rightarrow> 't ClusterDeps \<Rightarrow> 'w Step list" where
  "clusterPipeline fuel env cd =
     [\<lparr>step_Name = ''copy original object'', step_F = DeepCopyOriginal\<rparr>,
      \<lparr>step_Name = ''cluster specific steps'', step_F = SpecificSteps fuel env cd\<rparr>,
      \<lparr>step_Name = ''create git repo'', step_F = CreateOrUpdate\<rparr>,
      \<lparr>step_Name = ''set gitrepo url and hostkeys'', step_F = UpdateURLAndHostKeys\<rparr>,
      \<lparr>step_Name = ''add tenant label'', step_F = AddTenantLabel\<rparr>,
      \<lparr>step_Name = ''Common'', step_F = Common\<rparr>]"

definition ClusterReconcile ::
  "nat \<Rightarrow> 'w VaultEnv \<Rightarrow> 't ClusterDeps \<Rightarrow> 'w ClusterReconciler \<Rightarrow> NamespacedName
     \<Rightarrow> ('w, CtrlResult \<times> gerr option) go" where
  "ClusterReconcile fuel env cd r request =
     bnd (k_GetCluster (cr_Client r) request) (\<lambda>g. case g of
       Inl err \<Rightarrow> if IsNotFound err then ret (ctrlDone, None) else ret (ctrlDone, Some err)
     | Inr instance \<Rightarrow>
         bnd (RunPipeline (ClusterObj instance) (clusterContext r) (clusterPipeline fuel env cd))
           (\<lambda>(_, _, res). ret (ctrlDone\<lparr>cr_Requeue := rs_Requeue res\<rparr>, rs_Err res)))"

text \<open>The clusters that a change of a tenant concerns: those with its label.\<close>

definition enqueueClustersForTenant :: "'w Client \<Rightarrow> ObjectMeta \<Rightarrow> ('w, NamespacedName list) go" where
  "enqueueClustersForTenant k obj =
     bnd (k_ListClusters k (om_Namespace obj) (MatchingLabel LabelNameTenant (om_Name obj))) (\<lambda>r. ret (case r of
       Inl err \<Rightarrow> []
     | Inr clusters \<Rightarrow> map (\<lambda>c. keyOf (cl_Meta c)) clusters))"
section \<open>Steps that do not abort, and what they keep\<close>

lemma unaborted_clusterSteps: "\<forall>s \<in> set (clusterSteps fuel env cd). unaborted (step_F s)"
proof -
  have "unaborted createClusterRBAC"
    by (rule unabortedI) (auto simp: createClusterRBAC_def Let_def result_defs elim!: bnd_RetE split: option.splits)
  moreover have "unaborted CheckIfDeleted"
    by (rule unabortedI) (auto simp: CheckIfDeleted_def result_defs split: if_splits)
  moreover have "unaborted setBootstrapToken"
    by (rule unabortedI) (auto simp: setBootstrapToken_def result_defs elim!: bnd_RetE
        split: Object.splits sum.splits option.splits)
  moreover have "unaborted (CreateOrUpdateVault env)"
    by (rule unabortedI) (auto simp: CreateOrUpdateVault_def result_defs elim!: bnd_RetE
        split: if_splits sum.splits option.splits)
  moreover have "unaborted (HandleVaultDeletion fuel env)"
    by (rule unabortedI) (auto simp: HandleVaultDeletion_def result_defs elim!: bnd_RetE
        split: if_splits sum.splits option.splits)
  moreover have "unaborted setTenantOwner"
    by (rule unabortedI) (auto simp: setTenantOwner_def result_defs elim!: bnd_RetE split: sum.splits)
  moreover have "unaborted (applyClusterTemplateFromTenant cd)"
    by (rule unabortedI) (auto simp: applyClusterTemplateFromTenant_def result_defs elim!: bnd_RetE
        split: sum.splits Object.splits prod.splits option.splits)
  ultimately show ?thesis by (simp add: clusterSteps_def)
qed

lemma quiet_SpecificSteps: "quiet (SpecificSteps fuel env cd)"
  unfolding SpecificSteps_def
  using unaborted_clusterSteps unaborted_quiet by (intro quiet_pipeline) blast

text \<open>What the cluster's own steps leave: the identity of the object, its annotations, and the
  context (the deletion check apart).\<close>

definition sameObject :: "ObjectMeta \<Rightarrow> 'w Context \<Rightarrow> Object \<Rightarrow> 'w Context \<Rightarrow> bool" where
  "sameObject m data0 obj data \<longleftrightarrow>
     om_Name (GetMeta obj) = om_Name m \<and> om_Annotations (GetMeta obj) = om_Annotations m
     \<and> om_Finalizers (GetMeta obj) = om_Finalizers m
     \<and> om_DeletionTimestamp (GetMeta obj) = om_DeletionTimestamp m
     \<and> data\<lparr>ctx_Deleted := ctx_Deleted data0\<rparr> = data0"

lemma putBootstrapToken_fields [simp]:
  "cl_Meta (putBootstrapToken t c) = cl_Meta c" "cl_Spec (putBootstrapToken t c) = cl_Spec c"
  "cst_BootstrapToken (cl_Status (putBootstrapToken t c)) = Some t"
  by (simp_all add: putBootstrapToken_def)

lemma newClusterStatus_fields:
  "newClusterStatus rt c w = (Ret (Inr c'), w') \<Longrightarrow> cl_Meta c' = cl_Meta c \<and> cl_Spec c' = cl_Spec c"
  by (auto simp: newClusterStatus_def Let_def elim!: bnd_RetE split: option.splits sum.splits)

lemma applyClusterTemplate_meta: "cl_Meta (fst (applyClusterTemplate cd c t)) = cl_Meta c"
  by (auto simp: applyClusterTemplate_def split: option.splits prod.splits)

lemma clusterSteps_sameObject:
  assumes "s \<in> set (clusterSteps fuel env cd)" and "sameObject m data0 obj data"
    and "step_F s obj data w = (Ret (obj', data', r), w')"
  shows "sameObject m data0 obj' data'"
proof -
  consider "step_F s = createClusterRBAC" | "step_F s = CheckIfDeleted" | "step_F s = setBootstrapToken"
    | "step_F s = CreateOrUpdateVault env" | "step_F s = HandleVaultDeletion fuel env"
    | "step_F s = setTenantOwner" | "step_F s = applyClusterTemplateFromTenant cd"
    using assms(1) by (auto simp: clusterSteps_def)
  then show ?thesis
  proof cases
    case 1
    with assms(2,3) show ?thesis
      by (auto simp: createClusterRBAC_def Let_def elim!: bnd_RetE split: option.splits)
  next
    case 2
    with assms(2,3) show ?thesis by (auto simp: CheckIfDeleted_def sameObject_def split: if_splits)
  next
    case 3
    with assms(2,3) show ?thesis
      by (auto simp: setBootstrapToken_def sameObject_def elim!: bnd_RetE
          split: Object.splits sum.splits option.splits if_splits dest!: newClusterStatus_fields)
  next
    case 4
    with assms(2,3) show ?thesis
      by (auto simp: CreateOrUpdateVault_def elim!: bnd_RetE split: if_splits sum.splits option.splits)
  next
    case 5
    with assms(2,3) show ?thesis
      by (auto simp: HandleVaultDeletion_def elim!: bnd_RetE split: if_splits sum.splits option.splits)
  next
    case 6
    with assms(2,3) show ?thesis
      by (auto simp: setTenantOwner_def sameObject_def elim!: bnd_RetE split: sum.splits)
  next
    case 7
    have "cl_Meta c' = cl_Meta c" if "applyClusterTemplate cd c t = (c', e)" for c t c' e
      using applyClusterTemplate_meta [of cd c t] that by simp
    with 7 assms(2,3) show ?thesis
      by (auto simp: applyClusterTemplateFromTenant_def sameObject_def elim!: bnd_RetE
          split: sum.splits Object.splits prod.splits option.splits)
  qed
qed
lemma clusterSteps_tenantRef:
  assumes "s \<in> set (take 5 (clusterSteps fuel env cd))"
    and "step_F s obj data w = (Ret (obj', data', r), w')"
  shows "GetTenantRef obj' = GetTenantRef obj"
proof -
  consider "step_F s = createClusterRBAC" | "step_F s = CheckIfDeleted" | "step_F s = setBootstrapToken"
    | "step_F s = CreateOrUpdateVault env" | "step_F s = HandleVaultDeletion fuel env"
    using assms(1) by (auto simp: clusterSteps_def)
  then show ?thesis
  proof cases
    case 1
    with assms(2) show ?thesis
      by (auto simp: createClusterRBAC_def Let_def elim!: bnd_RetE split: option.splits)
  next
    case 2
    with assms(2) show ?thesis by (auto simp: CheckIfDeleted_def split: if_splits)
  next
    case 3
    with assms(2) show ?thesis
      by (auto simp: setBootstrapToken_def elim!: bnd_RetE
          split: Object.splits sum.splits option.splits if_splits dest!: newClusterStatus_fields)
  next
    case 4
    with assms(2) show ?thesis
      by (auto simp: CreateOrUpdateVault_def elim!: bnd_RetE split: if_splits sum.splits option.splits)
  next
    case 5
    with assms(2) show ?thesis
      by (auto simp: HandleVaultDeletion_def elim!: bnd_RetE split: if_splits sum.splits option.splits)
  qed
qed

lemma HandleVaultDeletion_removes:
  assumes "HandleVaultDeletion fuel env obj data w = (Ret (obj', data', r), w')" and "rs_Err r = None"
    and "ctx_UseVault data" and "ctx_Deleted data"
  shows "\<exists>b w1. NewClient env (ctx_DefaultDeletionPolicy data) w = (Ret (Inr b), w1) \<and>
    RemoveSecrets fuel (ctx_Runtime data) b [\<lparr>vs_Path = pathDir (stewardPath obj), vs_Value = ''''\<rparr>] w1 = (Ret None, w') \<and>
    obj' = obj \<and> data' = data"
  using assms
  by (auto simp: HandleVaultDeletion_def getVaultClient_def errResult_def elim!: bnd_RetE
      split: sum.splits option.splits)

lemma sameObject_context:
  assumes "sameObject m data0 obj data"
  shows "ctx_UseVault data = ctx_UseVault data0" and "ctx_Runtime data = ctx_Runtime data0"
    and "ctx_DefaultDeletionPolicy data = ctx_DefaultDeletionPolicy data0"
    and "ctx_FinalizerName data = ctx_FinalizerName data0"
proof -
  have d: "data0 = data\<lparr>ctx_Deleted := ctx_Deleted data0\<rparr>" using assms by (simp add: sameObject_def)
  show "ctx_UseVault data = ctx_UseVault data0" "ctx_Runtime data = ctx_Runtime data0"
    "ctx_DefaultDeletionPolicy data = ctx_DefaultDeletionPolicy data0"
    "ctx_FinalizerName data = ctx_FinalizerName data0"
    by (subst d, simp)+
qed

text \<open>The steps of a deleted cluster before the removal from Vault leave a context that knows it.\<close>

lemma clusterSteps_deleted:
  assumes "RunPipeline obj data (take 4 (clusterSteps fuel env cd)) w = (Ret (obj', data', okResult), w')"
    and "om_DeletionTimestamp (GetMeta obj) \<noteq> None"
  shows "ctx_Deleted data'"
proof -
  let ?rbac = "\<lparr>step_Name = ''create cluster RBAC'', step_F = createClusterRBAC\<rparr>"
  let ?check = "\<lparr>step_Name = ''deletion check'', step_F = CheckIfDeleted\<rparr>"
  let ?rest = "[\<lparr>step_Name = ''set bootstrap token'', step_F = setBootstrapToken\<rparr>,
      \<lparr>step_Name = ''create or update vault'', step_F = CreateOrUpdateVault env\<rparr>]"
  have steps: "take 4 (clusterSteps fuel env cd) = [?rbac] @ ?check # ?rest"
    by (simp add: clusterSteps_def)
  have sub: "set (take 4 (clusterSteps fuel env cd)) \<subseteq> set (clusterSteps fuel env cd)"
    by (rule set_take_subset)
  obtain o1 d1 w1 o2 d2 r2 w2 where
    a: "RunPipeline obj data [?rbac] w = (Ret (o1, d1, okResult), w1)"
    and c: "step_F ?check o1 d1 w1 = (Ret (o2, d2, r2), w2)"
    and b: "RunPipeline o2 d2 ?rest w2 = (Ret (obj', data', okResult), w')"
    by (rule RunPipeline_through [OF assms(1) [unfolded steps]])
      (use unaborted_clusterSteps [of fuel env cd] in \<open>simp_all add: clusterSteps_def okResult_def\<close>)
  have "sameObject (GetMeta obj) data o1 d1"
    by (rule RunPipeline_invariant [OF _ _ a], rule clusterSteps_sameObject [of _ fuel env cd])
      (auto simp: clusterSteps_def sameObject_def)
  with c assms(2) have "ctx_Deleted d2" by (auto simp: CheckIfDeleted_def sameObject_def)
  have keep: "ctx_Deleted d'" if "s \<in> set ?rest" "ctx_Deleted d" "step_F s x d w = (Ret (x', d', r), w')"
    for s x d w x' d' r w'
  proof -
    from that(1) consider "step_F s = setBootstrapToken" | "step_F s = CreateOrUpdateVault env" by auto
    then show ?thesis
      using that(2,3)
      by cases (auto simp: setBootstrapToken_def CreateOrUpdateVault_def elim!: bnd_RetE
          split: Object.splits sum.splits option.splits if_splits)
  qed
  show ?thesis
    by (rule RunPipeline_invariant [where P = "\<lambda>_ d. ctx_Deleted d", OF _ \<open>ctx_Deleted d2\<close> b]) (rule keep)
qed

text \<open>C7: Deletion protection does not cover Vault. When the cluster's own steps succeed for a cluster
  that is being deleted and still carries the protection annotation, then between the first four of them
  and the last two a Vault client with the operator's default policy has been asked to remove what lies
  below the path of the cluster, and has done so; only afterwards do the shared steps refuse to let the
  cluster go.\<close>

theorem protection_does_not_cover_vault:
  assumes "SpecificSteps fuel env cd (ClusterObj c) data w = (Ret (obj', data', r), w')"
    and "rs_Err r = None" and "om_DeletionTimestamp (cl_Meta c) \<noteq> None"
    and "isProtected (ClusterObj c)" and "ctx_UseVault data"
  shows "(\<exists>o1 d1 w1 b w2 w3.
      RunPipeline (ClusterObj c) data (take 4 (clusterSteps fuel env cd)) w = (Ret (o1, d1, okResult), w1) \<and>
      NewClient env (ctx_DefaultDeletionPolicy data) w1 = (Ret (Inr b), w2) \<and>
      RemoveSecrets fuel (ctx_Runtime data) b
        [\<lparr>vs_Path = pathDir (stewardPath (ClusterObj c)), vs_Value = ''''\<rparr>] w2 = (Ret None, w3) \<and>
      RunPipeline o1 d1 (drop 5 (clusterSteps fuel env cd)) w3 = (Ret (obj', data', r), w'))
    \<and> Common obj' data' = ret (obj', data',
        errResult (Wrap ''step deletion failed: '' (ErrNew ''finalzier was not removed'')))"

proof -
  let ?vault = "\<lparr>step_Name = ''delete vault entries'', step_F = HandleVaultDeletion fuel env\<rparr>"
  let ?post = "drop 5 (clusterSteps fuel env cd)"
  have steps: "clusterSteps fuel env cd = take 4 (clusterSteps fuel env cd) @ ?vault # ?post"
    by (simp add: clusterSteps_def)
  from assms(1) have run: "RunPipeline (ClusterObj c) data (take 4 (clusterSteps fuel env cd) @ ?vault # ?post) w
      = (Ret (obj', data', r), w')"
    unfolding SpecificSteps_def by (subst (asm) steps)
  obtain o1 d1 w1 o2 d2 r2 w2 where
    a: "RunPipeline (ClusterObj c) data (take 4 (clusterSteps fuel env cd)) w = (Ret (o1, d1, okResult), w1)"
    and v: "step_F ?vault o1 d1 w1 = (Ret (o2, d2, r2), w2)" "rs_Err r2 = None"
    and b: "RunPipeline o2 d2 ?post w2 = (Ret (obj', data', r), w')"
    by (rule RunPipeline_through [OF run assms(2)])
      (use unaborted_clusterSteps [of fuel env cd] in \<open>simp_all add: clusterSteps_def\<close>)
  note inv = RunPipeline_invariant [where P = "sameObject (cl_Meta c) data"]
  have same1: "sameObject (cl_Meta c) data o1 d1"
    by (rule inv [OF _ _ a], rule clusterSteps_sameObject [of _ fuel env cd])
      (auto simp: sameObject_def dest: in_set_takeD)
  have same2: "sameObject (cl_Meta c) data o2 d2"
    by (rule clusterSteps_sameObject [OF _ same1 v(1)]) (simp add: clusterSteps_def)
  have same3: "sameObject (cl_Meta c) data obj' data'"
    by (rule inv [OF _ same2 b], rule clusterSteps_sameObject [of _ fuel env cd]) (auto dest: in_set_dropD)
  have "GetTenantRef o1 = GetTenantRef (ClusterObj c)"
    by (rule RunPipeline_invariant [where P = "\<lambda>x _. GetTenantRef x = GetTenantRef (ClusterObj c)", OF _ _ a])
      (use clusterSteps_tenantRef [of _ fuel env cd] in \<open>fastforce simp: clusterSteps_def\<close>)+
  with same1 have path: "stewardPath o1 = stewardPath (ClusterObj c)"
    by (simp add: stewardPath_def sameObject_def)
  have del1: "ctx_Deleted d1" by (rule clusterSteps_deleted [OF a]) (use assms(3) in simp)
  with v(1) have del2: "ctx_Deleted d2"
    by (auto simp: HandleVaultDeletion_def elim!: bnd_RetE split: if_splits sum.splits option.splits)
  have keep: "ctx_Deleted d'" if "s \<in> set ?post" "ctx_Deleted d" "step_F s x d w = (Ret (x', d', r), w')"
    for s x d w x' d' r w'
  proof -
    from that(1) consider "step_F s = setTenantOwner" | "step_F s = applyClusterTemplateFromTenant cd"
      by (auto simp: clusterSteps_def)
    then show ?thesis
      using that(2,3)
      by cases (auto simp: setTenantOwner_def applyClusterTemplateFromTenant_def elim!: bnd_RetE
          split: Object.splits sum.splits option.splits prod.splits)
  qed
  have del3: "ctx_Deleted data'"
    by (rule RunPipeline_invariant [where P = "\<lambda>_ d. ctx_Deleted d", OF _ del2 b]) (rule keep)
  from HandleVaultDeletion_removes [of fuel env o1 d1 w1 o2 d2 r2 w2] v del1 sameObject_context [OF same1] assms(5) path
  obtain b v1 where "NewClient env (ctx_DefaultDeletionPolicy data) w1 = (Ret (Inr b), v1)"
    "RemoveSecrets fuel (ctx_Runtime data) b
        [\<lparr>vs_Path = pathDir (stewardPath (ClusterObj c)), vs_Value = ''''\<rparr>] v1 = (Ret None, w2)"
    and kept: "o2 = o1" "d2 = d1"
    by auto
  with a b have "\<exists>o1 d1 w1 b w2 w3.
      RunPipeline (ClusterObj c) data (take 4 (clusterSteps fuel env cd)) w = (Ret (o1, d1, okResult), w1) \<and>
      NewClient env (ctx_DefaultDeletionPolicy data) w1 = (Ret (Inr b), w2) \<and>
      RemoveSecrets fuel (ctx_Runtime data) b
        [\<lparr>vs_Path = pathDir (stewardPath (ClusterObj c)), vs_Value = ''''\<rparr>] w2 = (Ret None, w3) \<and>
      RunPipeline o1 d1 (drop 5 (clusterSteps fuel env cd)) w3 = (Ret (obj', data', r), w')"
    by blast
  moreover have "isProtected obj'"
    using assms(4) same3 by (simp add: isProtected_def sameObject_def)
  ultimately show ?thesis using Common_deleted_blocked [OF del3] by blast
qed
text \<open>The instance: an operator with the tree of secrets in Vault, and an API server that knows the
  tenant and the token of the cluster.\<close>

definition vaultClient :: "string list Client" where
  "vaultClient = idleClient\<lparr>k_GetTenant := \<lambda>_. ret (Inr sampleTenant),
     k_ListSecrets := ret (Inr [tokenSecret ''prod'' 1 ''tok''])\<rparr>"

definition vaultContext :: "string list Context" where
  "vaultContext = sampleContext\<lparr>ctx_Client := vaultClient, ctx_UseVault := True,
     ctx_DefaultDeletionPolicy := ArchivePolicy\<rparr>"

definition protectedCluster :: Cluster where
  "protectedCluster = sampleCluster\<lparr>
     cl_Meta := (sampleMeta ''prod'')\<lparr>om_DeletionTimestamp := Some 5,
       om_Annotations := fmupd DeleteProtectionAnnotation ''true'' fmempty,
       om_Finalizers := [FinalizerName]\<rparr>,
     cl_Spec := sampleClusterSpec\<lparr>cs_TenantRef := ''acme''\<rparr>,
     cl_Status := (cl_Status sampleCluster)\<lparr>cst_BootstrapToken :=
       Some \<lparr>bt_Token = ''t'', bt_ValidUntil = 0, bt_TokenValid = False\<rparr>\<rparr>\<rparr>"

definition plainDeps :: "string ClusterDeps" where
  "plainDeps = \<lparr>cd_Strings = (\<lambda>_ s e. (s, e)), cd_Parse = Inr, cd_Execute = (\<lambda>t _ _. Inr t),
     cd_Merge = (\<lambda>d s. (d, None))\<rparr>"

lemma vault_paths:
  "pathJoin [''acme'', ''prod'', ''steward''] = ''acme/prod/steward''"
  "pathDir ''acme/prod/steward'' = ''acme/prod''"
  "pathJoin [''kv'', ''data'', ''acme/prod/steward''] = ''kv/data/acme/prod/steward''"
  by code_simp+

lemma treeClient_NewClient: "NewClient (kvEnv treeAPI) policy w = (Ret (Inr (treeClient policy)), w)"
  by (simp add: NewClient_def kvEnv_def newBankVaultClient_def treeClient_def)

lemma treeClient_removes:
  "RemoveSecrets 2 idleRuntime (treeClient ArchivePolicy) [\<lparr>vs_Path = ''acme/prod'', vs_Value = v\<rparr>] w =
     (Ret None, w @ [''kv/delete/acme/prod/steward'', ''kv/delete/acme/prod/sub/deep''])"
proof -
  have "removeSecret 2 idleRuntime (treeClient ArchivePolicy) ''acme/prod'' =
    untilError (\<lambda>(d, k). deleteToken (treeClient ArchivePolicy) (pathJoin [bv_secretEngine (treeClient ArchivePolicy), ''delete'', d, k])
        (fmupd ''versions'' (JInts (sort [1, 2])) fmempty))
      (leaves ''acme/prod'' [Leaf ''steward'', Dir ''sub'' [Leaf ''deep'']])"
    by (rule removeSecret_archive [where versions = "\<lambda>_. [1, 2]", OF _ tree_served])
      (simp_all add: treeClient_def depth_def tree_leaves tree_metadata [unfolded treeClient_def])
  then show ?thesis
    by (simp add: RemoveSecrets_one tree_leaves deleteToken_def treeClient_def treeAPI_def tree_paths
        errOf_def bnd_def ret_def)
qed
lemma protectedCluster_fields:
  "om_Name (cl_Meta protectedCluster) = ''prod''" "om_DeletionTimestamp (cl_Meta protectedCluster) = Some 5"
  "cs_TenantRef (cl_Spec protectedCluster) = ''acme''"
  "cst_BootstrapToken (cl_Status protectedCluster) = Some \<lparr>bt_Token = ''t'', bt_ValidUntil = 0, bt_TokenValid = False\<rparr>"
  "isProtected (ClusterObj protectedCluster)"
  by (simp_all add: protectedCluster_def sampleMeta_def isProtected_def ParseBool_def)

lemma protectedCluster_token: "putBootstrapToken \<lparr>bt_Token = ''t'', bt_ValidUntil = 0, bt_TokenValid = False\<rparr>
    protectedCluster = protectedCluster"
  by (simp add: putBootstrapToken_def protectedCluster_def)

lemma vaultContext_fields:
  "ctx_Client vaultContext = vaultClient" "ctx_Runtime vaultContext = idleRuntime" "ctx_UseVault vaultContext"
  "ctx_DefaultDeletionPolicy vaultContext = ArchivePolicy" "ctx_CreateSATokenSecret vaultContext = False"
  by (simp_all add: vaultContext_def sampleContext_def)

lemma vaultClient_calls:
  "k_GetTenant vaultClient key = ret (Inr sampleTenant)"
  "k_ListSecrets vaultClient = ret (Inr [tokenSecret ''prod'' 1 ''tok''])"
  "k_CreateServiceAccount vaultClient sa = ret (Inr sa)"
  "k_GetRole vaultClient key = ret (Inl (ApiErr NotFound ''not found''))"
  "k_CreateRole vaultClient role = ret (Inr role)"
  "k_GetRoleBinding vaultClient key = ret (Inl (ApiErr NotFound ''not found''))"
  "k_CreateRoleBinding vaultClient rb = ret (Inr rb)"
  by (simp_all add: vaultClient_def)

lemma vault_run_steps:
  defines "c \<equiv> ClusterObj protectedCluster" and "d \<equiv> vaultContext\<lparr>ctx_Deleted := True\<rparr>"
  shows "createClusterRBAC c vaultContext = ret (c, vaultContext, okResult)"
    and "CheckIfDeleted c vaultContext = ret (c, d, okResult)"
    and "setBootstrapToken c d = ret (c, d, okResult)"
    and "CreateOrUpdateVault (kvEnv treeAPI) c d [] = (Ret (c, d, okResult), [''kv/data/acme/prod/steward''])"
    and "HandleVaultDeletion 2 (kvEnv treeAPI) c d v = (Ret (c, d, okResult),
           v @ [''kv/delete/acme/prod/steward'', ''kv/delete/acme/prod/sub/deep''])"
proof -
  show "createClusterRBAC c vaultContext = ret (c, vaultContext, okResult)"
    by (simp add: createClusterRBAC_def c_def vaultContext_fields vaultClient_calls createClusterSA_def
        unlessExists_def createOrUpdateClusterRole_def createOrUpdateClusterRoleBinding_def errOf_def Let_def)
  show "CheckIfDeleted c vaultContext = ret (c, d, okResult)"
    by (simp add: CheckIfDeleted_def c_def d_def protectedCluster_fields)
  show "setBootstrapToken c d = ret (c, d, okResult)"
    by (simp add: setBootstrapToken_def c_def d_def protectedCluster_fields vaultContext_fields
        expireToken_def protectedCluster_token)
  have tok: "GetServiceAccountToken c d w = (Ret (Inr ''tok''), w)" for w
    by (simp add: GetServiceAccountToken_def c_def d_def vaultContext_fields vaultClient_calls
        protectedCluster_fields sortSecrets_def permute_def tokenSecret_def sampleMeta_def lookupStr_def)
  have path: "stewardPath c = ''acme/prod/steward''"
    by (simp add: stewardPath_def c_def protectedCluster_fields vault_paths)
  have add: "addSecret (kvEnv treeAPI) (treeClient ArchivePolicy) ''acme/prod/steward'' ''tok'' [] =
      (Ret None, [''kv/data/acme/prod/steward''])"
    by (simp add: addSecret_def treeClient_def treeAPI_def vault_paths treeSecret_def dataLookup_def
        errOf_def Let_def bnd_def ret_def)
  show "CreateOrUpdateVault (kvEnv treeAPI) c d [] = (Ret (c, d, okResult), [''kv/data/acme/prod/steward''])"
    using tok [of "[]"] by (simp add: CreateOrUpdateVault_def vaultContext_fields path getVaultClient_def
        treeClient_NewClient add d_def)
  show "HandleVaultDeletion 2 (kvEnv treeAPI) c d v = (Ret (c, d, okResult),
           v @ [''kv/delete/acme/prod/steward'', ''kv/delete/acme/prod/sub/deep''])"
    by (simp add: HandleVaultDeletion_def d_def vaultContext_fields path getVaultClient_def
        treeClient_NewClient vault_paths treeClient_removes bnd_def ret_apply)
qed
lemma protection_does_not_cover_vault_witness:
  "\<exists>obj' data' ws. SpecificSteps 2 (kvEnv treeAPI) plainDeps (ClusterObj protectedCluster) vaultContext [] =
      (Ret (obj', data', okResult), ws)
    \<and> ws = [''kv/data/acme/prod/steward'', ''kv/delete/acme/prod/steward'', ''kv/delete/acme/prod/sub/deep'']
    \<and> Common obj' data' = ret (obj', data',
        errResult (Wrap ''step deletion failed: '' (ErrNew ''finalzier was not removed'')))"
proof -
  let ?c = "ClusterObj protectedCluster" and ?d = "vaultContext\<lparr>ctx_Deleted := True\<rparr>"
  have no_template: "ts_ClusterTemplate (tn_Spec sampleTenant) = None"
    by (simp add: sampleTenant_def sampleTenantSpec_def)
  have "\<exists>x. SpecificSteps 2 (kvEnv treeAPI) plainDeps ?c vaultContext [] = (Ret (ClusterObj x, ?d, okResult),
      [''kv/data/acme/prod/steward'', ''kv/delete/acme/prod/steward'', ''kv/delete/acme/prod/sub/deep''])"
    by (simp add: SpecificSteps_def clusterSteps_def vault_run_steps vaultContext_fields setTenantOwner_def
        applyClusterTemplateFromTenant_def vaultClient_calls applyClusterTemplate_def no_template)
  then obtain x where run: "SpecificSteps 2 (kvEnv treeAPI) plainDeps ?c vaultContext [] = (Ret (ClusterObj x, ?d, okResult),
      [''kv/data/acme/prod/steward'', ''kv/delete/acme/prod/steward'', ''kv/delete/acme/prod/sub/deep''])" ..
  from protection_does_not_cover_vault [OF run] run show ?thesis
    by (simp add: protectedCluster_fields vaultContext_fields okResult_def)
qed

section \<open>The bootstrap token\<close>

text \<open>C38: The bootstrap token is 24 characters of the URL alphabet and padding, and holds all 128
  random bits: decoding it gives back the 16 bytes that were drawn.\<close>

theorem bootstrap_token_round_trip:
  assumes "rt_RandRead rt 16 w = (Ret (Inr bytes), w1)" and "length bytes = 16"
  shows "\<exists>token. generateToken rt w = (Ret (Inr token), w1) \<and> length token = 24
    \<and> set token \<subseteq> insert CHR ''='' (set urlAlphabet) \<and> urlDecode token = bytes"
  using assms EncodeToString_chars [of bytes]
  by (simp add: generateToken_def length_EncodeToString urlDecode_EncodeToString)

lemma bootstrap_token_round_trip_witness:
  "\<exists>token. generateToken idleRuntime () = (Ret (Inr token), ()) \<and> urlDecode token = replicate 16 0"
  using bootstrap_token_round_trip [of idleRuntime "()" "replicate 16 0" "()"]
  by (auto simp: idleRuntime_def)

text \<open>C23: The life of a bootstrap token. A cluster without one gets the encoding of sixteen random bytes,
  which ends a lifetime after the clock is read; the lifetime is the one of the cluster or 24 hours, and one
  that does not parse, or bytes that cannot be drawn, are an error that leaves the cluster as it is. A token
  that is there is kept, with its end. Either way the clock is then read, and a token whose end is before
  that moment is invalid, and one that was invalid stays so, whatever its lifetime says by then.\<close>

theorem bootstrap_token_life:
  assumes "setBootstrapToken (ClusterObj c) data w = (Ret (obj', data', r), w')"
  defines "lifetime \<equiv> (if cs_TokenLifeTime (cl_Spec c) = '''' then ''24h'' else cs_TokenLifeTime (cl_Spec c))"
    and "rt \<equiv> ctx_Runtime data"
  shows "case cst_BootstrapToken (cl_Status c) of
      Some t \<Rightarrow> rs_Err r = None \<and> (\<exists>now. rt_Now rt w = (Ret now, w') \<and> obj' = ClusterObj (putBootstrapToken
          (t\<lparr>bt_TokenValid := bt_TokenValid t \<and> now \<le> bt_ValidUntil t\<rparr>) c))
    | None \<Rightarrow> (case ParseDuration lifetime of
        None \<Rightarrow> rs_Err r \<noteq> None \<and> obj' = ClusterObj c \<and> w' = w
      | Some d \<Rightarrow> (\<exists>made w1 drawn w2. rt_Now rt w = (Ret made, w1) \<and> rt_RandRead rt 16 w1 = (Ret drawn, w2) \<and>
          (case drawn of
            Inl err \<Rightarrow> rs_Err r \<noteq> None \<and> obj' = ClusterObj c \<and> w' = w2
          | Inr bytes \<Rightarrow> rs_Err r = None \<and> (\<exists>now. rt_Now rt w2 = (Ret now, w') \<and>
              obj' = ClusterObj (putBootstrapToken \<lparr>bt_Token = EncodeToString bytes,
                bt_ValidUntil = made + d, bt_TokenValid = (now \<le> made + d)\<rparr> c)))))"
proof (cases "cst_BootstrapToken (cl_Status c)")
  case None
  note no_token = None
  have life: "(if cs_TokenLifeTime (cl_Spec c) \<noteq> '''' then cs_TokenLifeTime (cl_Spec c) else ''24h'') = lifetime"
    by (simp add: lifetime_def)
  from assms(1) None obtain n w1 where n: "newClusterStatus rt c w = (Ret n, w1)"
    and rest: "(case n of
        Inl err \<Rightarrow> ret (ClusterObj c, data, errResult (Wrap ''setting initial status on cluster: '' err))
      | Inr c1 \<Rightarrow> bnd (rt_Now rt) (\<lambda>now. case cst_BootstrapToken (cl_Status c1) of
            None \<Rightarrow> crash NilDeref
          | Some t \<Rightarrow> ret (ClusterObj (putBootstrapToken (expireToken now t) c1), data, okResult))) w1
      = (Ret (obj', data', r), w')"
    unfolding rt_def by (auto simp: setBootstrapToken_def elim!: bnd_RetE)
  show ?thesis
  proof (cases "ParseDuration lifetime")
    case None
    with n have "n = Inl (ErrNew (''time: invalid duration '' @ Quote lifetime))" "w1 = w"
      unfolding newClusterStatus_def Let_def life by auto
    with rest None no_token show ?thesis by (auto simp: errResult_def)
  next
    case (Some d)
    with n obtain made v1 drawn where now: "rt_Now rt w = (Ret made, v1)" and rand: "rt_RandRead rt 16 v1 = (Ret drawn, w1)"
      and n': "n = (case drawn of Inl err \<Rightarrow> Inl err | Inr b \<Rightarrow> Inr (putBootstrapToken
         \<lparr>bt_Token = EncodeToString b, bt_ValidUntil = made + d, bt_TokenValid = True\<rparr> c))"
      unfolding newClusterStatus_def Let_def life generateToken_def
      by (auto elim!: bnd_RetE split: sum.splits)
    have expire: "expireToken now \<lparr>bt_Token = token, bt_ValidUntil = e, bt_TokenValid = True\<rparr> =
        \<lparr>bt_Token = token, bt_ValidUntil = e, bt_TokenValid = (now \<le> e)\<rparr>" for now token e
      by (simp add: expireToken_def)
    from rest n' expire have "case drawn of
            Inl err \<Rightarrow> rs_Err r \<noteq> None \<and> obj' = ClusterObj c \<and> w' = w1
          | Inr bytes \<Rightarrow> rs_Err r = None \<and> (\<exists>now. rt_Now rt w1 = (Ret now, w') \<and>
              obj' = ClusterObj (putBootstrapToken \<lparr>bt_Token = EncodeToString bytes,
                bt_ValidUntil = made + d, bt_TokenValid = (now \<le> made + d)\<rparr> c))"
      by (cases drawn) (auto simp: errResult_def okResult_def putBootstrapToken_def elim!: bnd_RetE)
    with now rand Some no_token show ?thesis by auto
  qed
next
  case (Some t)
  from assms(1) Some obtain now where "rt_Now rt w = (Ret now, w')" and
    "obj' = ClusterObj (putBootstrapToken (expireToken now t) c)" and "r = okResult"
    by (auto simp: setBootstrapToken_def rt_def elim!: bnd_RetE)
  moreover have "expireToken now t = t\<lparr>bt_TokenValid := bt_TokenValid t \<and> now \<le> bt_ValidUntil t\<rparr>"
    by (auto simp: expireToken_def)
  ultimately show ?thesis by (auto simp: Some okResult_def)
qed

lemma bootstrap_token_life_witness:
  "\<exists>obj'. setBootstrapToken (ClusterObj protectedCluster) (vaultContext\<lparr>ctx_Runtime := idleRuntime\<lparr>rt_Now := ret 7\<rparr>\<rparr>) [] =
      (Ret (obj', vaultContext\<lparr>ctx_Runtime := idleRuntime\<lparr>rt_Now := ret 7\<rparr>\<rparr>, okResult), [])
    \<and> obj' = ClusterObj (putBootstrapToken
        \<lparr>bt_Token = ''t'', bt_ValidUntil = 0, bt_TokenValid = False \<and> (7 :: int) \<le> 0\<rparr> protectedCluster)"
proof -
  let ?d = "vaultContext\<lparr>ctx_Runtime := idleRuntime\<lparr>rt_Now := ret 7\<rparr>\<rparr>"
  have "\<exists>obj'. setBootstrapToken (ClusterObj protectedCluster) ?d [] = (Ret (obj', ?d, okResult), [])"
    by (simp add: setBootstrapToken_def protectedCluster_fields)
  then obtain obj' where run: "setBootstrapToken (ClusterObj protectedCluster) ?d [] = (Ret (obj', ?d, okResult), [])" ..
  from bootstrap_token_life [OF run] run show ?thesis
    by (simp add: protectedCluster_fields ret_apply)
qed

section \<open>The controller never asks for a requeue\<close>

lemma quiet_clusterPipeline: "\<forall>s \<in> set (clusterPipeline fuel env cd). quiet (step_F s)"
  by (simp add: clusterPipeline_def quiet_shared quiet_SpecificSteps quiet_CreateOrUpdate
      quiet_UpdateURLAndHostKeys quiet_Common)

lemma ClusterReconcile_no_requeue:
  "ClusterReconcile fuel env cd r request w = (Ret (res, e), w') \<Longrightarrow> res = ctrlDone"
  by (auto simp: ClusterReconcile_def ctrlDone_def elim!: bnd_RetE split: sum.splits if_splits
      dest!: quiet_RunPipeline [OF quiet_clusterPipeline])

end
