(* ===== verification/TenantController.thy ===== *)
theory TenantController
  imports GitRepo Cluster
begin

text \<open>
  The Tenant controller: the steps of \<open>controllers/tenant\<close> (template, class files, RBAC) and
  \<open>controllers/tenant_controller.go\<close>. The merge of a tenant template (\<open>mergo\<close>) is a parameter.
\<close>

section \<open>Template and class files (template.go, class.go, git.go)\<close>

definition noTenant :: Result where
  "noTenant = errResult (ErrNew ''object is not a tenant'')"

type_synonym specMerge = "TenantSpec \<Rightarrow> TenantSpec \<Rightarrow> TenantSpec \<times> gerr option"

definition applyTemplateFromTenantTemplate :: "specMerge \<Rightarrow> 'w Function" where
  "applyTemplateFromTenantTemplate merge obj data = (case obj of
       TenantObj tenant \<Rightarrow>
         bnd (k_GetTenantTemplate (ctx_Client data)
                \<lparr>nn_Namespace = GetNamespace obj, nn_Name = ''default''\<rparr>) (\<lambda>r. case r of
           Inl err \<Rightarrow>
             if IsNotFound err \<or> IsNotRegisteredError err then ret (obj, data, okResult)
             else ret (obj, data, \<lparr>rs_Abort = False, rs_Err = Some err, rs_Requeue = True\<rparr>)
         | Inr template \<Rightarrow>
             (case Tenant_ApplyTemplate merge tenant (Some template) of
                (tenant', Some err) \<Rightarrow>
                  ret (TenantObj tenant', data, errResult (Wrap ''apply tenant template: '' err))
              | (tenant', None) \<Rightarrow> ret (TenantObj tenant', data, okResult)))
     | _ \<Rightarrow> ret (obj, data, noTenant))"

definition CommonClassName :: string where
  "CommonClassName = ''common''"

definition commonClassFile :: string where
  "commonClassFile = CommonClassName @ ''.yml''"

text \<open>\<open>ClusterClassContent\<close> with its two arguments.\<close>

definition clusterClassContent :: "string \<Rightarrow> string \<Rightarrow> string" where
  "clusterClassContent tenant cls = ''classes:'' @ [CHR 0x0A] @ ''- '' @ tenant @ ''.'' @ cls @ [CHR 0x0A]"

text \<open>The template of a cluster that has none is a new one at every call, so the write meets a nil
  map.\<close>

definition addDefaultClassFile :: "'w Function" where
  "addDefaultClassFile obj data =
     (let (template, obj') = GetGitTemplate obj; files = gt_TemplateFiles template
      in if fmlookup files commonClassFile \<noteq> None then ret (obj', data, okResult)
         else if (case obj of ClusterObj c \<Rightarrow> cs_GitRepoTemplate (cl_Spec c) = None | _ \<Rightarrow> False)
         then crash NilMapWrite
         else ret (PutGitTemplate (template\<lparr>gt_TemplateFiles := fmupd commonClassFile '''' files\<rparr>) obj',
                data, okResult))"

definition putTemplateFiles :: "string gomap \<Rightarrow> Tenant \<Rightarrow> Tenant" where
  "putTemplateFiles files t = (let template = (case ts_GitRepoTemplate (tn_Spec t) of
       None \<Rightarrow> emptyGitRepoTemplate | Some g \<Rightarrow> g)
     in t\<lparr>tn_Spec := (tn_Spec t)\<lparr>ts_GitRepoTemplate := Some (template\<lparr>gt_TemplateFiles := files\<rparr>)\<rparr>\<rparr>)"

text \<open>The three loops of \<open>updateTenantGitRepo\<close>; the first two take the files they write out of the
  old ones.\<close>

fun clusterFiles :: "string \<Rightarrow> Cluster list \<Rightarrow> string gomap \<Rightarrow> string gomap \<Rightarrow> string gomap \<times> string gomap" where
  "clusterFiles tenant [] files old = (files, old)"
| "clusterFiles tenant (c # cs) files old =
     (let fileName = om_Name (cl_Meta c) @ ''.yml''
      in clusterFiles tenant cs (fmupd fileName (clusterClassContent tenant CommonClassName) files)
           (fmdrop fileName old))"

fun pipelineFiles :: "(string \<times> string) list \<Rightarrow> string gomap \<Rightarrow> string gomap \<Rightarrow> string gomap \<times> string gomap" where
  "pipelineFiles [] files old = (files, old)"
| "pipelineFiles ((f, content) # ps) files old = pipelineFiles ps (fmupd f content files) (fmdrop f old)"

fun staleFiles :: "string list \<Rightarrow> string gomap \<Rightarrow> string gomap" where
  "staleFiles [] files = files"
| "staleFiles (f # fs) files =
     staleFiles fs (fmupd f (if f = commonClassFile then '''' else DeletionMagicString) files)"

definition updateTenantGitRepo :: "'w Function" where
  "updateTenantGitRepo obj data = (case obj of
       TenantObj tenantCR \<Rightarrow>
         (let oldFiles = (case ts_GitRepoTemplate (tn_Spec tenantCR) of
                None \<Rightarrow> fmempty | Some t \<Rightarrow> gt_TemplateFiles t);
              name = om_Name (tn_Meta tenantCR)
          in bnd (k_ListClusters (ctx_Client data) (GetNamespace obj) (MatchingLabel LabelNameTenant name))
               (\<lambda>r. case r of
                 Inl err \<Rightarrow> ret (TenantObj (putTemplateFiles fmempty tenantCR), data,
                   errResult (Wrap ''list clusters: '' err))
               | Inr clusters \<Rightarrow>
                   (let (files1, old1) = clusterFiles name clusters fmempty oldFiles;
                        spec = Tenant_GetCompilePipelineSpec tenantCR
                    in bnd (if cps_Enabled spec
                            then bnd (rangeOver (ctx_Runtime data) (cps_PipelineFiles spec))
                                   (\<lambda>ps. ret (pipelineFiles ps files1 old1))
                            else ret (files1, old1)) (\<lambda>(files2, old2).
                       bnd (rangeOver (ctx_Runtime data) old2) (\<lambda>ps.
                         ret (TenantObj (putTemplateFiles (staleFiles (map fst ps) files2) tenantCR),
                              data, okResult))))))
     | _ \<Rightarrow> ret (obj, data, noTenant))"

definition setGlobalGitRepoURL :: "'w Function" where
  "setGlobalGitRepoURL obj data = (case obj of
       TenantObj instance \<Rightarrow>
         if ts_GlobalGitRepoURL (tn_Spec instance) = '''' \<and> ctx_DefaultGlobalGitRepoUrl data \<noteq> ''''
         then ret (TenantObj (instance\<lparr>tn_Spec := (tn_Spec instance)
                \<lparr>ts_GlobalGitRepoURL := ctx_DefaultGlobalGitRepoUrl data\<rparr>\<rparr>), data, okResult)
         else ret (obj, data, okResult)
     | _ \<Rightarrow> ret (obj, data, noTenant))"

section \<open>RBAC (service_account.go, role.go, role_binding.go, util.go)\<close>

definition setManagedByLabel :: "ObjectMeta \<Rightarrow> ObjectMeta" where
  "setManagedByLabel m = m\<lparr>om_Labels := fmupd ''app.kubernetes.io/managed-by'' ''lieutenant'' fmempty\<rparr>"

definition tenantMeta :: "Tenant \<Rightarrow> ObjectMeta" where
  "tenantMeta tenant = emptyMeta\<lparr>om_Name := om_Name (tn_Meta tenant), om_Namespace := om_Namespace (tn_Meta tenant)\<rparr>"

definition newServiceAccount :: "'w Client \<Rightarrow> Tenant \<Rightarrow> gerr + ServiceAccount" where
  "newServiceAccount k tenant =
     map_sum id (\<lambda>m. \<lparr>sa_Meta = m\<rparr>)
       (k_SetControllerReference k (tn_Meta tenant) (setManagedByLabel (tenantMeta tenant)))"

definition newServiceAccountTokenSecret :: "'w Client \<Rightarrow> Tenant \<Rightarrow> gerr + Secret" where
  "newServiceAccountTokenSecret k tenant =
     map_sum id (\<lambda>m. \<lparr>sec_Meta = m, sec_Type = SecretTypeServiceAccountToken, sec_Data = fmempty\<rparr>)
       (k_SetControllerReference k (tn_Meta tenant) (setManagedByLabel ((tenantMeta tenant)
          \<lparr>om_Annotations := fmupd ServiceAccountNameKey (om_Name (tn_Meta tenant)) fmempty\<rparr>)))"

definition createServiceAccount :: "'w Function" where
  "createServiceAccount obj data = (case obj of
       TenantObj tenant \<Rightarrow> (case newServiceAccount (ctx_Client data) tenant of
         Inl err \<Rightarrow> ret (obj, data, errResult (Wrap ''failed to create ServiceAccount for tenant: '' err))
       | Inr sa \<Rightarrow>
           bnd (k_CreateServiceAccount (ctx_Client data) sa) (\<lambda>r. case unlessExists r of
             Some err \<Rightarrow> ret (obj, data, errResult (Wrap ''create serviceaccount: '' err))
           | None \<Rightarrow>
               if ctx_CreateSATokenSecret data
               then (case newServiceAccountTokenSecret (ctx_Client data) tenant of
                       Inl err \<Rightarrow> ret (obj, data,
                         errResult (Wrap ''failed to create ServiceAccount token secret for tenant: '' err))
                     | Inr secret \<Rightarrow>
                         bnd (k_CreateSecret (ctx_Client data) secret) (\<lambda>r. case unlessExists r of
                           Some err \<Rightarrow> ret (obj, data, errResult (Wrap ''create serviceaccount token secret: '' err))
                         | None \<Rightarrow> ret (obj, data, okResult)))
               else ret (obj, data, okResult)))
     | _ \<Rightarrow> ret (obj, data, noTenant))"

definition tenantRules :: "string \<Rightarrow> string list \<Rightarrow> PolicyRule list" where
  "tenantRules tenant clusterNames =
     [\<lparr>pr_APIGroups = [SynGroup], pr_Resources = [''tenants''], pr_Verbs = [''get''],
       pr_ResourceNames = [tenant]\<rparr>]
     @ (if length clusterNames > 0
        then [\<lparr>pr_APIGroups = [SynGroup], pr_Resources = [''clusters''], pr_Verbs = [''get''],
                pr_ResourceNames = clusterNames\<rparr>,
              \<lparr>pr_APIGroups = [SynGroup], pr_Resources = [''clusters/status''],
                pr_Verbs = [''get'', ''update'', ''patch''], pr_ResourceNames = clusterNames\<rparr>]
        else [])"

definition mutateTenantRole :: "'w Client \<Rightarrow> Tenant \<Rightarrow> string list \<Rightarrow> Role \<Rightarrow> Role \<times> gerr option" where
  "mutateTenantRole k tenant clusterNames role0 =
     (let role = role0\<lparr>role_Rules := tenantRules (om_Name (tn_Meta tenant)) clusterNames\<rparr>
      in case k_SetControllerReference k (tn_Meta tenant) (role_Meta role) of
           Inl err \<Rightarrow> (role, Some err)
         | Inr m \<Rightarrow> (role\<lparr>role_Meta := m\<rparr>, None))"

definition reconcileRole :: "'w Function" where
  "reconcileRole obj data = (case obj of
       TenantObj tenant \<Rightarrow>
         bnd (k_ListClusters (ctx_Client data) (om_Namespace (tn_Meta tenant))
                (MatchingField ''spec.tenantRef.name'' (om_Name (tn_Meta tenant)))) (\<lambda>r. case r of
           Inl err \<Rightarrow> ret (obj, data, errResult (Wrap ''failed to list clusters: '' err))
         | Inr cls \<Rightarrow>
             (let clusterNames = sort (map (\<lambda>c. om_Name (cl_Meta c)) cls)
              in bnd (k_CreateOrUpdateRole (ctx_Client data) \<lparr>role_Meta = tenantMeta tenant, role_Rules = []\<rparr>
                        (\<lambda>role. ret (mutateTenantRole (ctx_Client data) tenant clusterNames role)))
                   (\<lambda>(op, _, e). case e of
                      Some err \<Rightarrow> ret (obj, data,
                        errResult (Wrap (''failed to create or update role (op: '' @ op @ ''): '') err))
                    | None \<Rightarrow> ret (obj, data, okResult))))
     | _ \<Rightarrow> ret (obj, data, noTenant))"

definition NewRoleBinding :: "'w Client \<Rightarrow> Tenant \<Rightarrow> gerr + RoleBinding" where
  "NewRoleBinding k tenant =
     (let ns = om_Namespace (tn_Meta tenant); name = om_Name (tn_Meta tenant)
      in map_sum id (\<lambda>m. \<lparr>rb_Meta = m,
             rb_RoleRef = \<lparr>rr_APIGroup = ''rbac.authorization.k8s.io'', rr_Kind = ''Role'', rr_Name = name\<rparr>,
             rb_Subjects = [\<lparr>sub_Kind = ''ServiceAccount'', sub_Name = name, sub_Namespace = ns\<rparr>]\<rparr>)
           (k_SetControllerReference k (tn_Meta tenant) (setManagedByLabel (tenantMeta tenant))))"

definition createRoleBinding :: "'w Function" where
  "createRoleBinding obj data = (case obj of
       TenantObj tenant \<Rightarrow> (case NewRoleBinding (ctx_Client data) tenant of
         Inl err \<Rightarrow> ret (obj, data, errResult (Wrap ''failed to create RoleBinding for tenant: '' err))
       | Inr binding \<Rightarrow>
           bnd (k_CreateRoleBinding (ctx_Client data) binding) (\<lambda>r. case unlessExists r of
             Some err \<Rightarrow> ret (obj, data, errResult (Wrap ''create rolebinding: '' err))
           | None \<Rightarrow> ret (obj, data, okResult)))
     | _ \<Rightarrow> ret (obj, data, noTenant))"

section \<open>The controller (steps.go, tenant_controller.go)\<close>

definition tenantSteps :: "specMerge \<Rightarrow> 'w Step list" where
  "tenantSteps merge =
     [\<lparr>step_Name = ''apply template from TenantTemplate'', step_F = applyTemplateFromTenantTemplate merge\<rparr>,
      \<lparr>step_Name = ''add default class file'', step_F = addDefaultClassFile\<rparr>,
      \<lparr>step_Name = ''update tenant git repo'', step_F = updateTenantGitRepo\<rparr>,
      \<lparr>step_Name = ''set global git repo url'', step_F = setGlobalGitRepoURL\<rparr>,
      \<lparr>step_Name = ''create ServiceAccount'', step_F = createServiceAccount\<rparr>,
      \<lparr>step_Name = ''reconcile Role'', step_F = reconcileRole\<rparr>,
      \<lparr>step_Name = ''create RoleBinding'', step_F = createRoleBinding\<rparr>]"

definition Tenant_Steps :: "specMerge \<Rightarrow> 'w Function" where
  "Tenant_Steps merge obj data = RunPipeline obj data (tenantSteps merge)"

record 'w TenantReconciler =
  tr_Client :: "'w Client"
  tr_Runtime :: "'w Runtime"
  tr_CreateSATokenSecret :: bool
  tr_DefaultCreationPolicy :: string
  tr_DefaultDeletionPolicy :: string
  tr_DefaultGlobalGitRepoUrl :: string
  tr_DeleteProtection :: bool

definition tenantContext :: "'w TenantReconciler \<Rightarrow> 'w Context" where
  "tenantContext r = \<lparr>ctx_FinalizerName = '''', ctx_Client = tr_Client r, ctx_Runtime = tr_Runtime r,
     ctx_Deleted = False, ctx_originalObject = None, ctx_CreateSATokenSecret = tr_CreateSATokenSecret r,
     ctx_DefaultCreationPolicy = tr_DefaultCreationPolicy r,
     ctx_DefaultDeletionPolicy = tr_DefaultDeletionPolicy r,
     ctx_DefaultGlobalGitRepoUrl = tr_DefaultGlobalGitRepoUrl r, ctx_UseVault = False,
     ctx_UseDeletionProtection = tr_DeleteProtection r\<rparr>"

definition tenantPipeline :: "specMerge \<Rightarrow> 'w Step list" where
  "tenantPipeline merge =
     [\<lparr>step_Name = ''copy original object'', step_F = DeepCopyOriginal\<rparr>,
      \<lparr>step_Name = ''tenant specific steps'', step_F = Tenant_Steps merge\<rparr>,
      \<lparr>step_Name = ''create git repo'', step_F = CreateOrUpdate\<rparr>,
      \<lparr>step_Name = ''set gitrepo url and hostkeys'', step_F = UpdateURLAndHostKeys\<rparr>,
      \<lparr>step_Name = ''common'', step_F = Common\<rparr>]"

definition TenantReconcile ::
  "specMerge \<Rightarrow> 'w TenantReconciler \<Rightarrow> NamespacedName \<Rightarrow> ('w, CtrlResult \<times> gerr option) go" where
  "TenantReconcile merge r request =
     bnd (k_GetTenant (tr_Client r) request) (\<lambda>g. case g of
       Inl err \<Rightarrow> if IsNotFound err then ret (ctrlDone, None) else ret (ctrlDone, Some err)
     | Inr instance \<Rightarrow>
         bnd (RunPipeline (TenantObj instance) (tenantContext r) (tenantPipeline merge))
           (\<lambda>(_, _, res). ret (ctrlDone\<lparr>cr_Requeue := rs_Requeue res\<rparr>, rs_Err res)))"

text \<open>A change of a tenant template concerns every tenant of its namespace.\<close>

definition enqueueAllTenants :: "'w Client \<Rightarrow> ObjectMeta \<Rightarrow> ('w, NamespacedName list) go" where
  "enqueueAllTenants k obj =
     bnd (k_ListTenants k (om_Namespace obj)) (\<lambda>r. ret (case r of
       Inl err \<Rightarrow> []
     | Inr tenants \<Rightarrow> map (\<lambda>t. keyOf (tn_Meta t)) tenants))"
section \<open>The files of a tenant\<close>

definition classFileOf :: "Cluster \<Rightarrow> string" where
  "classFileOf c = om_Name (cl_Meta c) @ ''.yml''"

lemma clusterFiles_lookup:
  assumes "clusterFiles tenant cs files old = (files', old')"
  shows "fmlookup files' f = (if f \<in> classFileOf ` set cs then Some (clusterClassContent tenant CommonClassName)
            else fmlookup files f)"
    and "fmlookup old' f = (if f \<in> classFileOf ` set cs then None else fmlookup old f)"
  using assms
  by (induction cs arbitrary: files old) (auto simp: Let_def classFileOf_def split: if_splits)

lemma pipelineFiles_lookup:
  assumes "pipelineFiles ps files old = (files', old')" and "distinct (map fst ps)"
  shows "fmlookup files' f = (case map_of ps f of Some v \<Rightarrow> Some v | None \<Rightarrow> fmlookup files f)"
    and "fmlookup old' f = (case map_of ps f of Some v \<Rightarrow> None | None \<Rightarrow> fmlookup old f)"
  using assms
  by (induction ps files old rule: pipelineFiles.induct)
    (auto split: option.splits if_splits dest: map_of_SomeD intro: rev_image_eqI)

lemma staleFiles_lookup:
  "fmlookup (staleFiles fs files) f = (if f \<in> set fs
     then Some (if f = commonClassFile then '''' else DeletionMagicString) else fmlookup files f)"
  by (induction fs files rule: staleFiles.induct) auto

lemma map_of_rangeMap: "map_of (rangeMap hint m) f = fmlookup m f"
proof (cases "fmlookup m f")
  case None
  then show ?thesis by (auto simp: map_of_eq_None_iff)
next
  case (Some v)
  then show ?thesis by (simp add: map_of_eq_Some_iff)
qed

text \<open>The files a tenant should have, by name: those of the pipeline, one class file per cluster, and
  a mark for every other file there was.\<close>

definition wantedFile :: "Tenant \<Rightarrow> Cluster list \<Rightarrow> string gomap \<Rightarrow> string \<Rightarrow> string option" where
  "wantedFile t cs old f =
     (let spec = Tenant_GetCompilePipelineSpec t;
          fromPipeline = (if cps_Enabled spec then fmlookup (cps_PipelineFiles spec) f else None)
      in if fromPipeline \<noteq> None then fromPipeline
         else if f \<in> classFileOf ` set cs then Some (clusterClassContent (om_Name (tn_Meta t)) CommonClassName)
         else if fmlookup old f \<noteq> None then Some (if f = commonClassFile then '''' else DeletionMagicString)
         else None)"

definition templateFilesOf :: "Tenant \<Rightarrow> string gomap" where
  "templateFilesOf t = (case ts_GitRepoTemplate (tn_Spec t) of None \<Rightarrow> fmempty | Some g \<Rightarrow> gt_TemplateFiles g)"

lemma templateFilesOf_put [simp]: "templateFilesOf (putTemplateFiles files t) = files"
  by (simp add: templateFilesOf_def putTemplateFiles_def Let_def)

lemma putTemplateFiles_put [simp]: "putTemplateFiles g (putTemplateFiles f t) = putTemplateFiles g t"
  by (simp add: putTemplateFiles_def Let_def)

lemma putTemplateFiles_other [simp]:
  "tn_Meta (putTemplateFiles f t) = tn_Meta t"
  "Tenant_GetCompilePipelineSpec (putTemplateFiles f t) = Tenant_GetCompilePipelineSpec t"
  by (simp_all add: putTemplateFiles_def Tenant_GetCompilePipelineSpec_def Let_def)

lemma updateTenantGitRepo_files:
  assumes "updateTenantGitRepo (TenantObj t) data w = (Ret (obj', data', r), w')" and "rs_Err r = None"
    and "k_ListClusters (ctx_Client data) (om_Namespace (tn_Meta t)) (MatchingLabel LabelNameTenant (om_Name (tn_Meta t))) w
      = (Ret (Inr cs), w1)"
  obtains files where "obj' = TenantObj (putTemplateFiles files t)"
    and "\<And>f. fmlookup files f = wantedFile t cs (templateFilesOf t) f"
proof -
  let ?spec = "Tenant_GetCompilePipelineSpec t"
  obtain files1 old1 where c: "clusterFiles (om_Name (tn_Meta t)) cs fmempty (templateFilesOf t) = (files1, old1)"
    by (cases "clusterFiles (om_Name (tn_Meta t)) cs fmempty (templateFilesOf t)")
  obtain files2 old2 hint w2 where p: "(if cps_Enabled ?spec
        then bnd (rangeOver (ctx_Runtime data) (cps_PipelineFiles ?spec)) (\<lambda>ps. ret (pipelineFiles ps files1 old1))
        else ret (files1, old1)) w1 = (Ret (files2, old2), w2)"
    and obj': "obj' = TenantObj (putTemplateFiles (staleFiles (map fst (rangeMap hint old2)) files2) t)"
    using assms c
    by (auto simp: updateTenantGitRepo_def Let_def templateFilesOf_def rangeOver_def elim!: bnd_RetE split: if_splits)
  define pf where "pf = (if cps_Enabled ?spec then cps_PipelineFiles ?spec else fmempty)"
  have "(\<forall>f. fmlookup files2 f = (case fmlookup pf f of Some v \<Rightarrow> Some v | None \<Rightarrow> fmlookup files1 f))
      \<and> (\<forall>f. fmlookup old2 f = (case fmlookup pf f of Some v \<Rightarrow> None | None \<Rightarrow> fmlookup old1 f))"
  proof (cases "cps_Enabled ?spec")
    case True
    with p obtain h where "pipelineFiles (rangeMap h pf) files1 old1 = (files2, old2)"
      by (auto simp: pf_def rangeOver_def elim!: bnd_RetE)
    from pipelineFiles_lookup [OF this] show ?thesis by (simp add: map_of_rangeMap)
  next
    case False
    with p show ?thesis by (simp add: pf_def)
  qed
  then have files2: "fmlookup files2 f = (case fmlookup pf f of Some v \<Rightarrow> Some v | None \<Rightarrow> fmlookup files1 f)"
    and old2: "fmlookup old2 f = (case fmlookup pf f of Some v \<Rightarrow> None | None \<Rightarrow> fmlookup old1 f)" for f
    by simp_all
  have "fmlookup (staleFiles (map fst (rangeMap hint old2)) files2) f = wantedFile t cs (templateFilesOf t) f" for f
  proof -
    define k where "k \<longleftrightarrow> f \<in> classFileOf ` set cs"
    have stale: "f \<in> set (map fst (rangeMap hint old2)) \<longleftrightarrow> fmlookup old2 f \<noteq> None"
      by (simp add: fmlookup_dom_iff)
    have p: "(if cps_Enabled ?spec then fmlookup (cps_PipelineFiles ?spec) f else None) = fmlookup pf f"
      by (simp add: pf_def)
    show ?thesis
      unfolding staleFiles_lookup stale files2 old2 clusterFiles_lookup [OF c] wantedFile_def Let_def p k_def [symmetric]
      by (cases "fmlookup pf f"; cases k; cases "fmlookup (templateFilesOf t) f") simp_all
  qed
  with obj' show thesis by (intro that)
qed

lemma updateTenantGitRepo_again:
  assumes "updateTenantGitRepo (TenantObj (putTemplateFiles files t)) data w = (Ret (obj', data', r), w')"
    and "rs_Err r = None"
    and "k_ListClusters (ctx_Client data) (om_Namespace (tn_Meta t)) (MatchingLabel LabelNameTenant (om_Name (tn_Meta t))) w
      = (Ret (Inr cs), w1)"
    and files: "\<And>f. fmlookup files f = wantedFile t cs (templateFilesOf t) f"
  shows "obj' = TenantObj (putTemplateFiles files t)"
proof -
  from assms(1-3) obtain files2 where obj': "obj' = TenantObj (putTemplateFiles files2 (putTemplateFiles files t))"
    and files2: "\<And>f. fmlookup files2 f = wantedFile (putTemplateFiles files t) cs files f"
    by (auto elim!: updateTenantGitRepo_files)
  have "fmlookup files2 f = fmlookup files f" for f
  proof -
    define p where "p = (if cps_Enabled (Tenant_GetCompilePipelineSpec t)
      then fmlookup (cps_PipelineFiles (Tenant_GetCompilePipelineSpec t)) f else None)"
    define k where "k \<longleftrightarrow> f \<in> classFileOf ` set cs"
    show ?thesis
      using files [of f] files2 [of f]
      unfolding wantedFile_def Let_def putTemplateFiles_other p_def [symmetric] k_def [symmetric]
      by (cases "p = None"; cases k; cases "fmlookup (templateFilesOf t) f") simp_all
  qed
  then have "files2 = files" by (rule fmap_ext)
  with obj' show ?thesis by simp
qed

text \<open>C13: The files of a tenant are the files of its pipeline, if that is enabled, and one class file
  per cluster; every other file the tenant had before is emptied if it is the common class and
  marked for deletion otherwise. Nothing else of the tenant changes, and with the same clusters
  the step does not change the tenant again.\<close>

theorem tenant_files_in_sync:
  fixes data :: "'w Context"
  assumes "updateTenantGitRepo (TenantObj t) data w = (Ret (obj', data', r), w')" and "rs_Err r = None"
    and "k_ListClusters (ctx_Client data) (om_Namespace (tn_Meta t)) (MatchingLabel LabelNameTenant (om_Name (tn_Meta t))) w
      = (Ret (Inr cs), w1)"
  shows "\<exists>files. obj' = TenantObj (putTemplateFiles files t)
    \<and> (\<forall>f. fmlookup files f = wantedFile t cs (templateFilesOf t) f)
    \<and> (\<forall>(data2 :: 'w Context) obj2 data3 r2 v v' v1. updateTenantGitRepo obj' data2 v = (Ret (obj2, data3, r2), v') \<longrightarrow> rs_Err r2 = None
        \<longrightarrow> k_ListClusters (ctx_Client data2) (om_Namespace (tn_Meta t)) (MatchingLabel LabelNameTenant (om_Name (tn_Meta t))) v
          = (Ret (Inr cs), v1) \<longrightarrow> obj2 = obj')"
proof -
  from updateTenantGitRepo_files [OF assms] obtain files where
    obj': "obj' = TenantObj (putTemplateFiles files t)"
    and files: "\<And>f. fmlookup files f = wantedFile t cs (templateFilesOf t) f" by blast
  then show ?thesis
    using updateTenantGitRepo_again [OF _ _ _ files] by (intro exI [of _ files] conjI allI impI) simp_all
qed
definition filedTenant :: Tenant where
  "filedTenant = putTemplateFiles (fmupd ''old.yml'' ''x'' (fmupd ''common.yml'' ''y'' fmempty)) sampleTenant"

definition clustersClient :: "Cluster list \<Rightarrow> 'w Client" where
  "clustersClient cs = idleClient\<lparr>k_ListClusters := \<lambda>_ _. ret (Inr cs)\<rparr>"

lemma tenant_files_in_sync_witness:
  "\<exists>files (data :: unit Context) obj'. updateTenantGitRepo (TenantObj filedTenant) data () = (Ret (obj', data, okResult), ())
     \<and> obj' = TenantObj (putTemplateFiles files filedTenant)
     \<and> fmlookup files ''c-prod.yml'' = Some (clusterClassContent ''t-acme'' ''common'')
     \<and> fmlookup files ''old.yml'' = Some DeletionMagicString \<and> fmlookup files ''common.yml'' = Some ''''"
proof -
  let ?d = "sampleContext\<lparr>ctx_Client := clustersClient [sampleCluster]\<rparr> :: unit Context"
  have "\<exists>obj'. updateTenantGitRepo (TenantObj filedTenant) ?d () = (Ret (obj', ?d, okResult), ())"
    by (simp add: updateTenantGitRepo_def clustersClient_def Let_def sampleContext_def rangeOver_def
        split: prod.splits)
  then obtain obj' where run: "updateTenantGitRepo (TenantObj filedTenant) ?d () = (Ret (obj', ?d, okResult), ())" ..
  have list: "k_ListClusters (ctx_Client ?d) (om_Namespace (tn_Meta filedTenant))
      (MatchingLabel LabelNameTenant (om_Name (tn_Meta filedTenant))) () = (Ret (Inr [sampleCluster]), ())"
    by (simp add: clustersClient_def sampleContext_def)
  from tenant_files_in_sync [OF run _ list] obtain files where
    f: "obj' = TenantObj (putTemplateFiles files filedTenant)"
      "\<forall>f. fmlookup files f = wantedFile filedTenant [sampleCluster] (templateFilesOf filedTenant) f"
    by (auto simp: okResult_def)
  have "Tenant_GetCompilePipelineSpec filedTenant = \<lparr>cps_Enabled = False, cps_PipelineFiles = fmempty\<rparr>"
    "om_Name (tn_Meta filedTenant) = ''t-acme''"
    unfolding filedTenant_def putTemplateFiles_other
    by (simp_all add: Tenant_GetCompilePipelineSpec_def sampleTenant_def sampleTenantSpec_def sampleMeta_def)
  then have "fmlookup files ''c-prod.yml'' = Some (clusterClassContent ''t-acme'' ''common'')
     \<and> fmlookup files ''old.yml'' = Some DeletionMagicString \<and> fmlookup files ''common.yml'' = Some ''''"
    by (simp add: f(2) wantedFile_def classFileOf_def sampleCluster_def sampleMeta_def filedTenant_def
        commonClassFile_def CommonClassName_def)
  with run f(1) show ?thesis by blast
qed

section \<open>What the role of a tenant allows\<close>

text \<open>
  What a rule of a role allows, as Kubernetes documents it: a verb on a resource of an API group,
  for the named objects, or for all when the rule names none.
\<close>

definition ruleAllows :: "PolicyRule \<Rightarrow> string \<Rightarrow> string \<Rightarrow> string \<Rightarrow> string \<Rightarrow> bool" where
  "ruleAllows rule grp resource verb name \<longleftrightarrow>
     (grp \<in> set (pr_APIGroups rule) \<or> ''*'' \<in> set (pr_APIGroups rule))
     \<and> (resource \<in> set (pr_Resources rule) \<or> ''*'' \<in> set (pr_Resources rule))
     \<and> (verb \<in> set (pr_Verbs rule) \<or> ''*'' \<in> set (pr_Verbs rule))
     \<and> (pr_ResourceNames rule = [] \<or> name \<in> set (pr_ResourceNames rule))"

definition roleAllows :: "Role \<Rightarrow> string \<Rightarrow> string \<Rightarrow> string \<Rightarrow> string \<Rightarrow> bool" where
  "roleAllows role grp resource verb name \<longleftrightarrow> (\<exists>rule \<in> set (role_Rules role). ruleAllows rule grp resource verb name)"

text \<open>\<open>CreateOrUpdate\<close> as documented: without an error, the role that is stored is what the mutate
  function made of the role that was there, or of the one it was given.\<close>

definition mutates_role :: "'w Client \<Rightarrow> (Role \<Rightarrow> 'w \<Rightarrow> bool) \<Rightarrow> bool" where
  "mutates_role k stored \<longleftrightarrow> (\<forall>role f w op role' w'.
     k_CreateOrUpdateRole k role f w = (Ret (op, role', None), w') \<longrightarrow>
     stored role' w' \<and> (\<exists>r0 w0 w1. f r0 w0 = (Ret (role', None), w1)))"

lemma mutates_roleD: "mutates_role k stored \<Longrightarrow> k_CreateOrUpdateRole k role f w = (Ret (op, role', None), w') \<Longrightarrow>
    stored role' w' \<and> (\<exists>r0 w0 w1. f r0 w0 = (Ret (role', None), w1))"
  by (simp add: mutates_role_def)

lemma tenantRules_allow:
  "role_Rules role = tenantRules tenant names \<Longrightarrow> roleAllows role grp resource verb name \<longleftrightarrow>
     grp = SynGroup \<and> (resource = ''tenants'' \<and> verb = ''get'' \<and> name = tenant
       \<or> resource = ''clusters'' \<and> verb = ''get'' \<and> name \<in> set names
       \<or> resource = ''clusters/status'' \<and> verb \<in> {''get'', ''update'', ''patch''} \<and> name \<in> set names)"
proof (cases names)
  case Nil
  then show "role_Rules role = tenantRules tenant names \<Longrightarrow> ?thesis"
    by (simp add: roleAllows_def tenantRules_def ruleAllows_def SynGroup_def)
next
  case (Cons n ns)
  then show "role_Rules role = tenantRules tenant names \<Longrightarrow> ?thesis"
    by (auto simp: roleAllows_def tenantRules_def ruleAllows_def SynGroup_def)
qed

text \<open>C6: After the step has succeeded, the role that is stored for the tenant allows its service
  account to read the tenant, to read the tenant's clusters and to read, update and patch their status,
  and nothing else; in particular a tenant without clusters gets no right on any cluster. The writing of
  the status goes beyond \<open>explanations/rbac-access.adoc\<close>, which has the role grant read access
  only.\<close>

theorem tenant_role_allows_exactly:
  assumes "mutates_role (ctx_Client data) stored"
    and "reconcileRole (TenantObj t) data w = (Ret (obj', data', r), w')" and "rs_Err r = None"
    and "k_ListClusters (ctx_Client data) (om_Namespace (tn_Meta t))
           (MatchingField ''spec.tenantRef.name'' (om_Name (tn_Meta t))) w = (Ret (Inr cs), w1)"
  shows "\<exists>role. stored role w' \<and> (\<forall>grp resource verb name. roleAllows role grp resource verb name \<longleftrightarrow>
     grp = SynGroup \<and> (resource = ''tenants'' \<and> verb = ''get'' \<and> name = om_Name (tn_Meta t)
       \<or> (\<exists>c \<in> set cs. name = om_Name (cl_Meta c) \<and>
           (resource = ''clusters'' \<and> verb = ''get''
            \<or> resource = ''clusters/status'' \<and> verb \<in> {''get'', ''update'', ''patch''}))))"
proof -
  let ?names = "sort (map (\<lambda>c. om_Name (cl_Meta c)) cs)"
  from assms(2-4) obtain op role where
    "k_CreateOrUpdateRole (ctx_Client data) \<lparr>role_Meta = tenantMeta t, role_Rules = []\<rparr>
       (\<lambda>role. ret (mutateTenantRole (ctx_Client data) t ?names role)) w1 = (Ret (op, role, None), w')"
    by (auto simp: reconcileRole_def Let_def errResult_def elim!: bnd_RetE split: option.splits)
  from mutates_roleD [OF assms(1) this] obtain r0 where stored: "stored role w'" and m: "mutateTenantRole (ctx_Client data) t ?names r0 = (role, None)"
    by auto
  from m have rules: "role_Rules role = tenantRules (om_Name (tn_Meta t)) ?names"
    by (auto simp: mutateTenantRole_def Let_def split: sum.splits)
  have names: "name \<in> set ?names \<longleftrightarrow> (\<exists>c \<in> set cs. name = om_Name (cl_Meta c))" for name by auto
  have "roleAllows role grp resource verb name \<longleftrightarrow>
     grp = SynGroup \<and> (resource = ''tenants'' \<and> verb = ''get'' \<and> name = om_Name (tn_Meta t)
       \<or> (\<exists>c \<in> set cs. name = om_Name (cl_Meta c) \<and>
           (resource = ''clusters'' \<and> verb = ''get''
            \<or> resource = ''clusters/status'' \<and> verb \<in> {''get'', ''update'', ''patch''})))"
    for grp resource verb name unfolding tenantRules_allow [OF rules] names by blast
  with stored show ?thesis by blast
qed

text \<open>The instance: a server whose world is the stored role.\<close>

definition roleClient :: "Cluster list \<Rightarrow> Role Client" where
  "roleClient cs = (clustersClient cs)\<lparr>k_CreateOrUpdateRole := \<lambda>role f w. (case f w w of
      (Ret (role', None), w') \<Rightarrow> (Ret (''updated'', role', None), role')
    | (Ret (role', Some e), w') \<Rightarrow> (Ret (''unchanged'', role', Some e), w)
    | (Panicked p, w') \<Rightarrow> (Panicked p, w)
    | (Diverged, w') \<Rightarrow> (Diverged, w))\<rparr>"

lemma roleClient_mutates: "mutates_role (roleClient cs) (\<lambda>role w. w = role)"
  by (auto simp: mutates_role_def roleClient_def split: prod.splits outcome.splits option.splits)

lemma tenant_role_allows_exactly_witness:
  "\<exists>role. reconcileRole (TenantObj sampleTenant) (sampleContext\<lparr>ctx_Client := roleClient [sampleCluster]\<rparr>)
       \<lparr>role_Meta = emptyMeta, role_Rules = []\<rparr> =
     (Ret (TenantObj sampleTenant, sampleContext\<lparr>ctx_Client := roleClient [sampleCluster]\<rparr>, okResult), role)
   \<and> roleAllows role SynGroup ''clusters'' ''get'' ''c-prod''
   \<and> \<not> roleAllows role SynGroup ''clusters'' ''update'' ''c-prod''"
proof -
  let ?d = "sampleContext\<lparr>ctx_Client := roleClient [sampleCluster]\<rparr>"
  let ?r0 = "\<lparr>role_Meta = emptyMeta, role_Rules = []\<rparr>"
  have list: "k_ListClusters (roleClient [sampleCluster]) ns sel = ret (Inr [sampleCluster])" for ns sel
    by (simp add: roleClient_def clustersClient_def)
  have "\<exists>role. reconcileRole (TenantObj sampleTenant) ?d ?r0 = (Ret (TenantObj sampleTenant, ?d, okResult), role)"
    by (simp add: reconcileRole_def list Let_def)
      (simp add: roleClient_def clustersClient_def mutateTenantRole_def Let_def idleClient_def bnd_def ret_def)
  then obtain role where run: "reconcileRole (TenantObj sampleTenant) ?d ?r0 = (Ret (TenantObj sampleTenant, ?d, okResult), role)" ..
  have name: "om_Name (cl_Meta sampleCluster) = ''c-prod''" by (simp add: sampleCluster_def sampleMeta_def)
  have m: "mutates_role (ctx_Client ?d) (\<lambda>role w. w = role)" by (simp add: roleClient_mutates)
  from tenant_role_allows_exactly [OF m run, of "[sampleCluster]" ?r0]
  have "roleAllows role SynGroup ''clusters'' ''get'' ''c-prod'' \<and> \<not> roleAllows role SynGroup ''clusters'' ''update'' ''c-prod''"
    by (auto simp: list okResult_def name)
  with run show ?thesis by blast
qed

section \<open>The controller never asks for a requeue\<close>

lemma quiet_tenantSteps: "\<forall>s \<in> set (tenantSteps merge). quiet (step_F s)"
proof -
  have "quiet (applyTemplateFromTenantTemplate merge)"
    by (rule quietI) (auto simp: applyTemplateFromTenantTemplate_def noTenant_def result_defs elim!: bnd_RetE
        split: Object.splits sum.splits if_splits prod.splits option.splits)
  moreover have "quiet addDefaultClassFile"
    by (rule quietI) (auto simp: addDefaultClassFile_def Let_def result_defs split: prod.splits if_splits)
  moreover have "quiet updateTenantGitRepo"
    by (rule quietI) (auto simp: updateTenantGitRepo_def Let_def noTenant_def result_defs elim!: bnd_RetE
        split: Object.splits sum.splits prod.splits if_splits)
  moreover have "quiet setGlobalGitRepoURL"
    by (rule quietI) (auto simp: setGlobalGitRepoURL_def noTenant_def result_defs split: Object.splits if_splits)
  moreover have "quiet createServiceAccount"
    by (rule quietI) (auto simp: createServiceAccount_def noTenant_def result_defs elim!: bnd_RetE
        split: Object.splits sum.splits option.splits if_splits)
  moreover have "quiet reconcileRole"
    by (rule quietI) (auto simp: reconcileRole_def Let_def noTenant_def result_defs elim!: bnd_RetE
        split: Object.splits sum.splits option.splits prod.splits)
  moreover have "quiet createRoleBinding"
    by (rule quietI) (auto simp: createRoleBinding_def noTenant_def result_defs elim!: bnd_RetE
        split: Object.splits sum.splits option.splits)
  ultimately show ?thesis by (simp add: tenantSteps_def)
qed

lemma quiet_tenantPipeline: "\<forall>s \<in> set (tenantPipeline merge). quiet (step_F s)"
proof -
  have "quiet (Tenant_Steps merge)"
    unfolding Tenant_Steps_def by (rule quiet_pipeline) (rule quiet_tenantSteps)
  then show ?thesis
    by (simp add: tenantPipeline_def quiet_shared quiet_CreateOrUpdate quiet_UpdateURLAndHostKeys quiet_Common)
qed

lemma TenantReconcile_no_requeue:
  "TenantReconcile merge r request w = (Ret (res, e), w') \<Longrightarrow> res = ctrlDone"
  by (auto simp: TenantReconcile_def ctrlDone_def elim!: bnd_RetE split: sum.splits if_splits
      dest!: quiet_RunPipeline [OF quiet_tenantPipeline])

end
