(* ===== verification/GitRepoController.thy ===== *)
theory GitRepoController
  imports Manager Cluster
begin

text \<open>
  The GitRepo controller (\<open>controllers/gitrepo_controller.go\<close>, \<open>Steps\<close> of
  \<open>controllers/gitrepo/steps.go\<close>), the watch on secrets
  (\<open>controllers/gitrepo/watchers/ci_var_secret.go\<close>), and the two default policies of \<open>main.go\<close>.
\<close>

section \<open>The controller\<close>

text \<open>The git client comes from the registered implementations.\<close>

definition GitRepo_Steps :: "'w Deps \<Rightarrow> ('r, 'w) Implementation list \<Rightarrow> ('r, 'w) RepoI \<Rightarrow> 'w Function" where
  "GitRepo_Steps dp imps ri obj data = gitrepo_steps dp ri (GetGitClient imps ri (ctx_Client data)) obj data"

record 'w GitRepoReconciler =
  grr_Client :: "'w Client"
  grr_Runtime :: "'w Runtime"
  grr_DefaultCreationPolicy :: string
  grr_MaxReconcileInterval :: time
  grr_DeleteProtection :: bool

definition gitrepoContext :: "'w GitRepoReconciler \<Rightarrow> 'w Context" where
  "gitrepoContext r = \<lparr>ctx_FinalizerName = FinalizerName, ctx_Client = grr_Client r,
     ctx_Runtime = grr_Runtime r, ctx_Deleted = False, ctx_originalObject = None,
     ctx_CreateSATokenSecret = False, ctx_DefaultCreationPolicy = grr_DefaultCreationPolicy r,
     ctx_DefaultDeletionPolicy = '''', ctx_DefaultGlobalGitRepoUrl = '''', ctx_UseVault = False,
     ctx_UseDeletionProtection = grr_DeleteProtection r\<rparr>"

definition gitrepoPipeline :: "'w Function \<Rightarrow> 'w Step list" where
  "gitrepoPipeline steps =
     [\<lparr>step_Name = ''copy original object'', step_F = DeepCopyOriginal\<rparr>,
      \<lparr>step_Name = ''deletion check'', step_F = CheckIfDeleted\<rparr>,
      \<lparr>step_Name = ''git repo specific steps'', step_F = steps\<rparr>,
      \<lparr>step_Name = ''add tenant label'', step_F = AddTenantLabel\<rparr>,
      \<lparr>step_Name = ''Common'', step_F = Common\<rparr>]"

definition GitRepoReconcile ::
  "'w Deps \<Rightarrow> ('r, 'w) Implementation list \<Rightarrow> ('r, 'w) RepoI \<Rightarrow> 'w GitRepoReconciler \<Rightarrow> NamespacedName
     \<Rightarrow> ('w, CtrlResult \<times> gerr option) go" where
  "GitRepoReconcile dp imps ri r request =
     bnd (k_GetGitRepo (grr_Client r) request) (\<lambda>g. case g of
       Inl err \<Rightarrow> if IsNotFound err then ret (ctrlDone, None) else ret (ctrlDone, Some err)
     | Inr instance \<Rightarrow>
         bnd (RunPipeline (GitRepoObj instance) (gitrepoContext r) (gitrepoPipeline (GitRepo_Steps dp imps ri)))
           (\<lambda>(_, _, res).
             if rs_Requeue res then ret (ctrlDone\<lparr>cr_Requeue := True\<rparr>, rs_Err res)
             else ret (ctrlDone\<lparr>cr_RequeueAfter := grr_MaxReconcileInterval r\<rparr>, rs_Err res)))"

lemma quiet_gitrepoPipeline: "\<forall>s \<in> set (gitrepoPipeline (GitRepo_Steps dp imps ri)). quiet (step_F s)"
proof -
  have "quiet (GitRepo_Steps dp imps ri)"
  proof (rule quietI)
    fix obj data w obj' data' r w'
    assume "GitRepo_Steps dp imps ri obj data w = (Ret (obj', data', r), w')" "rs_Abort r" "rs_Err r = None" "rs_Requeue r"
    with quiet_gitrepo_steps [of dp ri "GetGitClient imps ri (ctx_Client data)"] show False
      unfolding quiet_def GitRepo_Steps_def by blast
  qed
  then show ?thesis by (simp add: gitrepoPipeline_def quiet_shared quiet_Common)
qed

lemma GitRepoReconcile_found:
  assumes "k_GetGitRepo (grr_Client r) request w = (Ret (Inr g), w1)"
    and "GitRepoReconcile dp imps ri r request w = (Ret (res, e), w')"
  shows "res = ctrlDone\<lparr>cr_RequeueAfter := grr_MaxReconcileInterval r\<rparr>"
  using assms by (auto simp: GitRepoReconcile_def elim!: bnd_RetE split: if_splits
      dest!: quiet_RunPipeline [OF quiet_gitrepoPipeline])

lemma GitRepoReconcile_not_found:
  assumes "k_GetGitRepo (grr_Client r) request w = (Ret (Inl err), w1)"
    and "GitRepoReconcile dp imps ri r request w = (Ret (res, e), w')"
  shows "res = ctrlDone \<and> e = (if IsNotFound err then None else Some err)"
  using assms by (auto simp: GitRepoReconcile_def split: if_splits)

section \<open>The watch on secrets\<close>

definition secretKeyRefIndex :: string where
  "secretKeyRefIndex = ''spec.ciVariables.valueFrom.secretKeyRef.name''"

definition secretsOfVar :: "EnvVar \<Rightarrow> string list" where
  "secretsOfVar v = (case ev_ValueFrom v of
       None \<Rightarrow> []
     | Some src \<Rightarrow> (case evs_SecretKeyRef src of
         None \<Rightarrow> []
       | Some ref \<Rightarrow> if sks_Name ref \<noteq> '''' then [sks_Name ref] else []))"

definition secretIndex :: "GitRepo \<Rightarrow> string list" where
  "secretIndex gitRepo = concat (map secretsOfVar (gt_CIVariables (repoTemplate gitRepo)))"

definition SecretGitRepoCIVariablesMapFunc :: "'w Client \<Rightarrow> Secret \<Rightarrow> ('w, NamespacedName list) go" where
  "SecretGitRepoCIVariablesMapFunc k secret =
     bnd (k_ListGitRepos k (om_Namespace (sec_Meta secret)) (MatchingField secretKeyRefIndex (om_Name (sec_Meta secret))))
       (\<lambda>r. ret (case r of
          Inl err \<Rightarrow> []
        | Inr gitRepos \<Rightarrow> map (\<lambda>g. keyOf (gr_Meta g)) gitRepos))"

text \<open>The field index as controller-runtime documents it: the list holds every repository of the
  namespace that has the value among those of its index function.\<close>

definition lists_by_index :: "'w Client \<Rightarrow> GitRepo set \<Rightarrow> bool" where
  "lists_by_index k repos \<longleftrightarrow> (\<forall>ns name w. \<exists>gs. k_ListGitRepos k ns (MatchingField secretKeyRefIndex name) w = (Ret (Inr gs), w)
     \<and> set gs = {g \<in> repos. om_Namespace (gr_Meta g) = ns \<and> name \<in> set (secretIndex g)})"

text \<open>Two servers that differ at most in one secret.\<close>

definition differ_in_secret :: "'w Client \<Rightarrow> 'w Client \<Rightarrow> NamespacedName \<Rightarrow> bool" where
  "differ_in_secret k k' key \<longleftrightarrow> (\<forall>n. n \<noteq> key \<longrightarrow> k_GetSecret k n = k_GetSecret k' n)"

lemma valueFromEnvVar_secret:
  assumes "differ_in_secret k k' \<lparr>nn_Namespace = ns, nn_Name = name\<rparr>" and "name \<notin> set (secretsOfVar v)"
  shows "valueFromEnvVar k ns v = valueFromEnvVar k' ns v"
proof -
  have "k_GetSecret k \<lparr>nn_Namespace = ns, nn_Name = n\<rparr> = k_GetSecret k' \<lparr>nn_Namespace = ns, nn_Name = n\<rparr>" if "n \<noteq> name" for n
    using assms(1) that by (simp add: differ_in_secret_def)
  with assms(2) show ?thesis
    by (auto simp: valueFromEnvVar_def secretsOfVar_def Let_def split: option.splits if_splits)
qed

lemma collectValues_secret:
  assumes "differ_in_secret k k' \<lparr>nn_Namespace = ns, nn_Name = name\<rparr>"
    and "name \<notin> set (concat (map secretsOfVar vs))"
  shows "collectValues k ns vs = collectValues k' ns vs"
  using assms(2) valueFromEnvVar_secret [OF assms(1)] by (induction vs) simp_all

text \<open>C17: When a secret changes, every repository for which that can make a difference is reconciled:
  if the values that are collected for its CI variables depend on the secret, the watch on secrets
  enqueues it.\<close>

theorem secret_change_enqueues:
  assumes "lists_by_index cache repos" and "g \<in> repos"
    and "differ_in_secret k k' (keyOf (sec_Meta secret))"
    and "om_Namespace (gr_Meta g) = om_Namespace (sec_Meta secret)"
    and "collectValues k (om_Namespace (gr_Meta g)) (gt_CIVariables (repoTemplate g))
       \<noteq> collectValues k' (om_Namespace (gr_Meta g)) (gt_CIVariables (repoTemplate g))"
  shows "\<exists>requests. SecretGitRepoCIVariablesMapFunc cache secret w = (Ret requests, w) \<and> keyOf (gr_Meta g) \<in> set requests"
proof -
  from assms(3-5) have "om_Name (sec_Meta secret) \<in> set (secretIndex g)"
    using collectValues_secret [of k k' "om_Namespace (gr_Meta g)" "om_Name (sec_Meta secret)"]
    unfolding secretIndex_def keyOf_def by metis
  moreover from assms(1) obtain gs where
    "k_ListGitRepos cache (om_Namespace (sec_Meta secret)) (MatchingField secretKeyRefIndex (om_Name (sec_Meta secret))) w = (Ret (Inr gs), w)"
    and "set gs = {g \<in> repos. om_Namespace (gr_Meta g) = om_Namespace (sec_Meta secret)
      \<and> om_Name (sec_Meta secret) \<in> set (secretIndex g)}"
    unfolding lists_by_index_def by blast
  ultimately show ?thesis
    using assms(2,4) by (auto simp: SecretGitRepoCIVariablesMapFunc_def)
qed

text \<open>The instance: one repository with a variable from the secret \<open>ci\<close>.\<close>

definition secretVar :: EnvVar where
  "secretVar = \<lparr>ev_Name = ''TOKEN'', ev_Value = '''',
     ev_ValueFrom = Some \<lparr>evs_SecretKeyRef = Some \<lparr>sks_Name = ''ci'', sks_Key = ''k'', sks_Optional = None\<rparr>\<rparr>,
     ev_GitlabOptions = \<lparr>go_Description = '''', go_Protected = False, go_Masked = False, go_Raw = False\<rparr>\<rparr>"

definition ciSecret :: Secret where
  "ciSecret = \<lparr>sec_Meta = sampleMeta ''ci'', sec_Type = '''', sec_Data = fmupd ''k'' ''v'' fmempty\<rparr>"

definition indexClient :: "GitRepo list \<Rightarrow> 'w Client" where
  "indexClient gs = idleClient\<lparr>k_ListGitRepos := \<lambda>ns sel. ret (Inr (case sel of
      MatchingField f name \<Rightarrow> filter (\<lambda>g. om_Namespace (gr_Meta g) = ns \<and> name \<in> set (secretIndex g)) gs
    | _ \<Rightarrow> []))\<rparr>"

lemma indexClient_lists: "lists_by_index (indexClient gs) (set gs)"
  by (auto simp: lists_by_index_def indexClient_def)

lemma secret_change_enqueues_witness:
  "\<exists>requests. SecretGitRepoCIVariablesMapFunc (indexClient [withVars [secretVar] '''']) ciSecret () = (Ret requests, ())
     \<and> keyOf (gr_Meta (withVars [secretVar] '''')) \<in> set requests"
proof -
  let ?g = "withVars [secretVar] ''''"
  let ?k' = "idleClient\<lparr>k_GetSecret := \<lambda>n. if n = keyOf (sec_Meta ciSecret) then ret (Inr ciSecret)
     else ret (Inl (ApiErr NotFound ''not found''))\<rparr> :: unit Client"
  have ns: "om_Namespace (gr_Meta ?g) = om_Namespace (sec_Meta ciSecret)"
    by (simp add: withVars_def sampleGitRepo_def ciSecret_def sampleMeta_def)
  have key: "keyOf (sec_Meta ciSecret) = \<lparr>nn_Namespace = ''lieutenant'', nn_Name = ''ci''\<rparr>"
    by (simp add: keyOf_def ciSecret_def sampleMeta_def)
  have data: "fmlookup (sec_Data ciSecret) ''k'' = Some ''v''" by (simp add: ciSecret_def)
  have "valueFromEnvVar ?k' ''lieutenant'' secretVar () = (Ret (Inr ''v''), ())"
    by (simp add: valueFromEnvVar_def secretVar_def key data)
  then have "fst (collectValues ?k' ''lieutenant'' [secretVar] ()) = Ret ([managerVar secretVar ''v''], [])"
    by simp
  moreover have "fst (collectValues (idleClient :: unit Client) ''lieutenant'' [secretVar] ()) = Ret ([], [Wrap
      (''error getting secret '' @ Quote ''ci'' @ '': '') (ApiErr NotFound ''not found'')])"
    by (simp add: valueFromEnvVar_def secretVar_def)
  ultimately have differ: "collectValues (idleClient :: unit Client) (om_Namespace (gr_Meta ?g)) (gt_CIVariables (repoTemplate ?g)) \<noteq>
      collectValues ?k' (om_Namespace (gr_Meta ?g)) (gt_CIVariables (repoTemplate ?g))"
    unfolding withVars_vars ns by (auto simp: ciSecret_def sampleMeta_def)
  show ?thesis
    by (rule secret_change_enqueues [OF indexClient_lists _ _ ns differ])
      (simp_all add: differ_in_secret_def)
qed

section \<open>Default policies (main.go)\<close>

definition getDefaultCreationPolicy :: "string \<Rightarrow> string" where
  "getDefaultCreationPolicy cp = (if cp \<in> {CreatePolicy, AdoptPolicy} then cp else CreatePolicy)"

definition getDefaultDeletionPolicy :: "string \<Rightarrow> string" where
  "getDefaultDeletionPolicy cp = (if cp \<in> {DeletePolicy, RetainPolicy, ArchivePolicy} then cp else ArchivePolicy)"

end
