(* ===== verification/Metrics.thy ===== *)
theory Metrics
  imports Kube GoLib
begin

text \<open>
  The Prometheus collectors (\<open>metrics/cluster_info_collector.go\<close>, \<open>tenant_info_collector.go\<close>,
  \<open>compile_meta_collector.go\<close>). The Prometheus client is a library: the constructors of metrics
  and the channel are parameters. The help text of a descriptor is left out.
\<close>

section \<open>The library\<close>

record Desc =
  ds_Name :: string
  ds_Labels :: "string list"

text \<open>A metric is a gauge with a whole number as its value. \<open>mt_Send\<close> is the channel.\<close>

record ('m, 'w) MetricLib =
  mt_NewConstMetric :: "Desc \<Rightarrow> int \<Rightarrow> string list \<Rightarrow> gerr + 'm"
  mt_NewInvalidMetric :: "Desc \<Rightarrow> gerr \<Rightarrow> 'm"
  mt_Send :: "'m \<Rightarrow> ('w, unit) go"

text \<open>\<open>ch <- prometheus.MustNewConstMetric(...)\<close>\<close>

definition sendMust :: "('m, 'w) MetricLib \<Rightarrow> Desc \<Rightarrow> int \<Rightarrow> string list \<Rightarrow> ('w, unit) go" where
  "sendMust lib d value labels = (case mt_NewConstMetric lib d value labels of
       Inl err \<Rightarrow> crash MustFailed
     | Inr m \<Rightarrow> mt_Send lib m)"

definition sendInvalid :: "('m, 'w) MetricLib \<Rightarrow> gerr \<Rightarrow> Desc \<Rightarrow> ('w, unit) go" where
  "sendInvalid lib err d = mt_Send lib (mt_NewInvalidMetric lib d err)"

fun forAll :: "('a \<Rightarrow> ('w, unit) go) \<Rightarrow> 'a list \<Rightarrow> ('w, unit) go" where
  "forAll f [] = ret ()"
| "forAll f (x # xs) = bnd (f x) (\<lambda>_. forAll f xs)"

text \<open>The pairs of a map ordered by key, then by value; the order of the range loop is lost in the
  sort.\<close>

definition pairs :: "string list \<Rightarrow> string gomap \<Rightarrow> string list \<times> string list" where
  "pairs hint m = (let p = sort_key fst (sort_key snd (rangeMap hint m)) in (map fst p, map snd p))"

section \<open>Label names of facts\<close>

text \<open>The number of bytes that \<open>utf8.DecodeRuneInString\<close> takes: an ill-formed sequence is one byte.\<close>

definition runeLen :: "nat list \<Rightarrow> nat" where
  "runeLen bs =
     (let cont = (\<lambda>i lo hi. i < length bs \<and> lo \<le> bs ! i \<and> bs ! i \<le> hi); b = bs ! 0
      in if 0xC2 \<le> b \<and> b \<le> 0xDF \<and> cont 1 0x80 0xBF then 2
         else if 0xE0 \<le> b \<and> b \<le> 0xEF
              \<and> cont 1 (if b = 0xE0 then 0xA0 else 0x80) (if b = 0xED then 0x9F else 0xBF) \<and> cont 2 0x80 0xBF then 3
         else if 0xF0 \<le> b \<and> b \<le> 0xF4
              \<and> cont 1 (if b = 0xF0 then 0x90 else 0x80) (if b = 0xF4 then 0x8F else 0xBF)
              \<and> cont 2 0x80 0xBF \<and> cont 3 0x80 0xBF then 4
         else 1)"

lemma runeLen_pos: "0 < runeLen bs"
  by (simp add: runeLen_def Let_def)

function runes :: "string \<Rightarrow> string list" where
  "runes s = (if s = '''' then [] else
     (let n = runeLen (map of_char s) in take n s # runes (drop n s)))"
  by pat_completeness auto
termination
  by (relation "measure length") (auto simp: runeLen_pos Let_def)

declare runes.simps [simp del]

definition isLetter :: "char \<Rightarrow> bool" where
  "isLetter c \<longleftrightarrow> (let n = of_char c :: nat in 65 \<le> n \<and> n \<le> 90 \<or> 97 \<le> n \<and> n \<le> 122)"

text \<open>The regular expression: a rune that is neither a letter nor an underscore at the start, and one
  that is no digit either anywhere.\<close>

definition startOk :: "string \<Rightarrow> bool" where
  "startOk r \<longleftrightarrow> (case r of [c] \<Rightarrow> isLetter c \<or> c = CHR ''_'' | _ \<Rightarrow> False)"

definition restOk :: "string \<Rightarrow> bool" where
  "restOk r \<longleftrightarrow> (case r of [c] \<Rightarrow> isLetter c \<or> isDigit c \<or> c = CHR ''_'' | _ \<Rightarrow> False)"

definition replaceInvalid :: "string \<Rightarrow> string" where
  "replaceInvalid key = (case runes key of
       [] \<Rightarrow> ''''
     | r # rs \<Rightarrow> (if startOk r then r else ''_'') @ concat (map (\<lambda>r. if restOk r then r else ''_'') rs))"

definition normalizeLabelKey :: "string \<Rightarrow> string list \<Rightarrow> string \<Rightarrow> string" where
  "normalizeLabelKey key protected prefixForUnderscore =
     (if key = '''' then ''_empty''
      else let key1 = replaceInvalid key;
               key2 = (if hasPrefix key1 ''_'' then prefixForUnderscore @ key1 else key1)
           in if key2 \<in> set protected then ''orig_'' @ key2 else key2)"

text \<open>\<open>seen[k]\<close> is the number of earlier keys that are \<open>k\<close>.\<close>

fun suffixDuplicates :: "nat gomap \<Rightarrow> string list \<Rightarrow> string list" where
  "suffixDuplicates seen [] = []"
| "suffixDuplicates seen (k # ks) =
     (case fmlookup seen k of
        Some n \<Rightarrow> (k @ ''_'' @ FormatInt (int n)) # suffixDuplicates (fmupd k (Suc n) seen) ks
      | None \<Rightarrow> k # suffixDuplicates (fmupd k 1 seen) ks)"

definition factLabels :: "string list \<Rightarrow> string list" where
  "factLabels keys = suffixDuplicates fmempty
     (map (\<lambda>k. normalizeLabelKey k [''cluster'', ''tenant''] ''fact_'') keys)"

definition newClusterFactsDesc :: "string list \<Rightarrow> Desc" where
  "newClusterFactsDesc lbls = \<lparr>ds_Name = ''syn_lieutenant_cluster_facts'', ds_Labels = lbls\<rparr>"

definition newClusterDynFactsDesc :: "string list \<Rightarrow> Desc" where
  "newClusterDynFactsDesc lbls = \<lparr>ds_Name = ''syn_lieutenant_cluster_dynamic_facts'', ds_Labels = lbls\<rparr>"

definition clusterFacts :: "('m, 'w) MetricLib \<Rightarrow> 'w Runtime \<Rightarrow> (string list \<Rightarrow> Desc) \<Rightarrow> Cluster \<Rightarrow> string gomap
    \<Rightarrow> ('w, gerr option) go" where
  "clusterFacts lib rt descfn cl facts =
     bnd (rt_MapHint rt) (\<lambda>hint.
       let (rks, vs) = pairs hint facts
       in case mt_NewConstMetric lib (descfn ([''cluster'', ''tenant''] @ factLabels rks)) 1
                ([om_Name (cl_Meta cl), cs_TenantRef (cl_Spec cl)] @ vs) of
            Inl err \<Rightarrow> ret (Some (Wrap (''failed to create metric for cluster '' @ Quote (om_Name (cl_Meta cl)) @ '': '') err))
          | Inr m \<Rightarrow> bnd (mt_Send lib m) (\<lambda>_. ret None))"

section \<open>The collectors\<close>

text \<open>A failed list is reported as an invalid metric, and the loop has nothing to visit.\<close>

definition clusterInfoDesc :: Desc where
  "clusterInfoDesc = \<lparr>ds_Name = ''syn_lieutenant_cluster_info'', ds_Labels = [''cluster'', ''tenant'', ''display_name'']\<rparr>"

definition collectClusterInfo :: "('m, 'w) MetricLib \<Rightarrow> 'w Runtime \<Rightarrow> Cluster \<Rightarrow> ('w, unit) go" where
  "collectClusterInfo lib rt cl =
     bnd (sendMust lib clusterInfoDesc 1 [om_Name (cl_Meta cl), cs_TenantRef (cl_Spec cl), cs_DisplayName (cl_Spec cl)]) (\<lambda>_.
     bnd (clusterFacts lib rt newClusterFactsDesc cl (cs_Facts (cl_Spec cl))) (\<lambda>_.
     bnd (clusterFacts lib rt newClusterDynFactsDesc cl (cst_Facts (cl_Status cl))) (\<lambda>_. ret ())))"

definition ClusterInfoCollect :: "('m, 'w) MetricLib \<Rightarrow> 'w Runtime \<Rightarrow> 'w Client \<Rightarrow> string \<Rightarrow> ('w, unit) go" where
  "ClusterInfoCollect lib rt k ns =
     bnd (k_ListClusters k ns Everything) (\<lambda>r. case r of
       Inl err \<Rightarrow> sendInvalid lib (Wrap ''failed to list clusters: '' err) clusterInfoDesc
     | Inr cls \<Rightarrow> forAll (collectClusterInfo lib rt) cls)"

definition tenantInfoDesc :: Desc where
  "tenantInfoDesc = \<lparr>ds_Name = ''syn_lieutenant_tenant_info'', ds_Labels = [''tenant'', ''display_name'']\<rparr>"

definition TenantInfoCollect :: "('m, 'w) MetricLib \<Rightarrow> 'w Client \<Rightarrow> string \<Rightarrow> ('w, unit) go" where
  "TenantInfoCollect lib k ns =
     bnd (k_ListTenants k ns) (\<lambda>r. case r of
       Inl err \<Rightarrow> sendInvalid lib (Wrap ''failed to list tenants: '' err) tenantInfoDesc
     | Inr cls \<Rightarrow> forAll (\<lambda>t. sendMust lib tenantInfoDesc 1 [om_Name (tn_Meta t), ts_DisplayName (tn_Spec t)]) cls)"

definition compileMetaDesc :: "string \<Rightarrow> string list \<Rightarrow> Desc" where
  "compileMetaDesc name lbls = \<lparr>ds_Name = ''syn_lieutenant_cluster_compile_meta'' @ name, ds_Labels = lbls\<rparr>"

definition metaLastCompileDesc :: Desc where
  "metaLastCompileDesc = compileMetaDesc ''_last_compile'' [''cluster'', ''tenant'']"

definition newMetaCommodoreBuildInfoDesc :: "string list \<Rightarrow> Desc" where
  "newMetaCommodoreBuildInfoDesc lbls = compileMetaDesc ''_commodore_build_info'' lbls"

definition versionLabels :: "string list" where
  "versionLabels = [''url'', ''path'', ''version'', ''gitSha'']"

definition metaGlobalDesc :: Desc where
  "metaGlobalDesc = compileMetaDesc ''_global'' ([''cluster'', ''tenant''] @ versionLabels)"

definition metaTenantDesc :: Desc where
  "metaTenantDesc = compileMetaDesc ''_tenant'' ([''cluster'', ''tenant''] @ versionLabels)"

definition metaPackageDesc :: Desc where
  "metaPackageDesc = compileMetaDesc ''_package'' ([''cluster'', ''tenant'', ''name''] @ versionLabels)"

definition metaInstanceDesc :: Desc where
  "metaInstanceDesc = compileMetaDesc ''_instance'' ([''cluster'', ''tenant'', ''name''] @ versionLabels @ [''component''])"

definition versionValues :: "string \<Rightarrow> CompileMetaVersionInfo \<Rightarrow> string list" where
  "versionValues path v = [vi_URL v, path, vi_Version v, vi_GitSHA v]"

text \<open>The path of the global and of the tenant repository is always empty. \<open>Unix()\<close> is the second an
  instant falls in.\<close>

definition collectCompileMeta :: "('m, 'w) MetricLib \<Rightarrow> 'w Runtime \<Rightarrow> Cluster \<Rightarrow> ('w, unit) go" where
  "collectCompileMeta lib rt cl =
     (let cm = cst_CompileMeta (cl_Status cl); who = [om_Name (cl_Meta cl), cs_TenantRef (cl_Spec cl)] in
      bnd (sendMust lib metaLastCompileDesc (cm_LastCompile cm div 1000000000) who) (\<lambda>_.
      bnd (rt_MapHint rt) (\<lambda>hint.
      let (ks, vs) = pairs hint (cm_CommodoreBuildInfo cm) in
      bnd (case mt_NewConstMetric lib (newMetaCommodoreBuildInfoDesc (ks @ [''cluster'', ''tenant''])) 1 (vs @ who) of
             Inl err \<Rightarrow> ret ()
           | Inr m \<Rightarrow> mt_Send lib m) (\<lambda>_.
      bnd (sendMust lib metaGlobalDesc 1 (who @ versionValues '''' (cm_Global cm))) (\<lambda>_.
      bnd (sendMust lib metaTenantDesc 1 (who @ versionValues '''' (cm_Tenant cm))) (\<lambda>_.
      bnd (rangeOver rt (cm_Packages cm)) (\<lambda>packages.
      bnd (forAll (\<lambda>(name, repo). sendMust lib metaPackageDesc 1
             (who @ [name] @ versionValues (vi_Path repo) repo)) packages) (\<lambda>_.
      bnd (rangeOver rt (cm_Instances cm)) (\<lambda>instances.
      forAll (\<lambda>(name, repo). sendMust lib metaInstanceDesc 1
             (who @ [name] @ versionValues (vi_Path (ivi_VersionInfo repo)) (ivi_VersionInfo repo)
              @ [ivi_Component repo])) instances)))))))))"

definition CompileMetaCollect :: "('m, 'w) MetricLib \<Rightarrow> 'w Runtime \<Rightarrow> 'w Client \<Rightarrow> string \<Rightarrow> ('w, unit) go" where
  "CompileMetaCollect lib rt k ns =
     bnd (k_ListClusters k ns Everything) (\<lambda>r. case r of
       Inl err \<Rightarrow> forAll (sendInvalid lib (Wrap ''failed to list clusters: '' err))
         [metaLastCompileDesc, newMetaCommodoreBuildInfoDesc [], metaGlobalDesc, metaTenantDesc,
          metaPackageDesc, metaInstanceDesc]
     | Inr cls \<Rightarrow> forAll (collectCompileMeta lib rt) cls)"
section \<open>Label names are valid\<close>

text \<open>What the Prometheus client accepts as the name of a label.\<close>

definition labelChar :: "char \<Rightarrow> bool" where
  "labelChar c \<longleftrightarrow> isLetter c \<or> isDigit c \<or> c = CHR ''_''"

definition validLabel :: "string \<Rightarrow> bool" where
  "validLabel l \<longleftrightarrow> (case l of [] \<Rightarrow> False | c # r \<Rightarrow> (isLetter c \<or> c = CHR ''_'') \<and> list_all labelChar r)
     \<and> \<not> hasPrefix l ''__''"

text \<open>A valid name that stays one with a suffix and is none of the two fixed labels.\<close>

definition factLabel :: "string \<Rightarrow> bool" where
  "factLabel l \<longleftrightarrow> validLabel l \<and> l \<noteq> ''_'' \<and> l \<noteq> ''cluster'' \<and> l \<noteq> ''tenant''"

lemma runes_not_Nil: "s \<noteq> '''' \<Longrightarrow> runes s \<noteq> []"
  by (subst runes.simps) (simp add: Let_def)

lemma replaceInvalid_chars:
  assumes "key \<noteq> ''''"
  obtains c r where "replaceInvalid key = c # r" and "isLetter c \<or> c = CHR ''_''" and "list_all labelChar r"
proof -
  from runes_not_Nil [OF assms] obtain x xs where x: "runes key = x # xs" by (cases "runes key") auto
  have "list_all labelChar (concat (map (\<lambda>r. if restOk r then r else ''_'') xs))"
    by (auto simp: list_all_iff restOk_def labelChar_def split: list.splits if_splits)
  then show thesis
    by (intro that [of "if startOk x then hd x else CHR ''_''"])
      (auto simp: replaceInvalid_def x startOk_def split: list.splits)
qed

lemma labelChar_letters: "labelChar CHR ''o''" "labelChar CHR ''r''" "labelChar CHR ''i''" "labelChar CHR ''g''"
  "labelChar CHR ''f''" "labelChar CHR ''a''" "labelChar CHR ''c''" "labelChar CHR ''t''" "labelChar CHR ''_''"
  "labelChar CHR ''e''" "labelChar CHR ''m''" "labelChar CHR ''p''" "labelChar CHR ''y''"
  "isLetter CHR ''o''" "isLetter CHR ''f''"
  by code_simp+

lemma labelChar_start: "isLetter c \<or> c = CHR ''_'' \<Longrightarrow> labelChar c"
  by (auto simp: labelChar_def)

lemma normalizeLabelKey_factLabel: "factLabel (normalizeLabelKey key [''cluster'', ''tenant''] ''fact_'')"
proof (cases "key = ''''")
  case True
  then show ?thesis
    by (simp add: normalizeLabelKey_def factLabel_def validLabel_def labelChar_letters hasPrefix_def)
next
  case False
  obtain c r where k: "replaceInvalid key = c # r" "isLetter c \<or> c = CHR ''_''" "list_all labelChar r"
    using replaceInvalid_chars [OF False] .
  show ?thesis
  proof (cases "c = CHR ''_''")
    case True
    with False k show ?thesis
      by (simp add: normalizeLabelKey_def Let_def factLabel_def validLabel_def labelChar_letters hasPrefix_def)
  next
    case c: False
    with k have "validLabel (c # r)" and "c # r \<noteq> ''_''"
      by (auto simp: validLabel_def hasPrefix_def)
    moreover have "factLabel (''orig_'' @ c # r)"
      using k by (simp add: factLabel_def validLabel_def labelChar_letters hasPrefix_def labelChar_start)
    ultimately show ?thesis
      using False k(1) c
      by (auto simp: normalizeLabelKey_def Let_def factLabel_def hasPrefix_def)
  qed
qed

lemma FormatInt_digits: "list_all isDigit (FormatInt (int n))"
  by (simp add: FormatInt_def decNat_digits)

lemma factLabel_suffix:
  assumes "factLabel k"
  shows "factLabel (k @ ''_'' @ FormatInt (int n))"
proof -
  from assms obtain c r where k: "k = c # r" "isLetter c \<or> c = CHR ''_''" "list_all labelChar r"
    by (cases k) (auto simp: factLabel_def validLabel_def)
  have digits: "list_all labelChar (FormatInt (int n))"
    using FormatInt_digits [of n] by (auto simp: list_all_iff labelChar_def)
  have us: "CHR ''_'' \<in> set (k @ ''_'' @ FormatInt (int n))" by simp
  have "CHR ''_'' \<notin> set ''cluster''" "CHR ''_'' \<notin> set ''tenant''" by simp_all
  with us have "k @ ''_'' @ FormatInt (int n) \<noteq> ''cluster''" "k @ ''_'' @ FormatInt (int n) \<noteq> ''tenant''"
    by metis+
  moreover have "\<not> hasPrefix (k @ ''_'' @ FormatInt (int n)) ''__''"
    using assms k(1) by (cases r) (auto simp: factLabel_def validLabel_def hasPrefix_def)
  ultimately show ?thesis
    using k digits assms labelChar_letters(9) by (auto simp: factLabel_def validLabel_def)
qed

lemma suffixDuplicates_factLabel: "list_all factLabel ks \<Longrightarrow> list_all factLabel (suffixDuplicates seen ks)"
  by (induction seen ks rule: suffixDuplicates.induct) (auto intro: factLabel_suffix [simplified] split: option.splits)

lemma length_suffixDuplicates [simp]: "length (suffixDuplicates seen ks) = length ks"
  by (induction seen ks rule: suffixDuplicates.induct) (auto split: option.splits)

lemma factLabels_factLabel: "list_all factLabel (factLabels keys)"
  unfolding factLabels_def
  by (rule suffixDuplicates_factLabel) (simp add: list_all_iff normalizeLabelKey_factLabel)

text \<open>C30: Whatever the keys of a cluster's facts are, malformed text included, each becomes the name of
  a label that Prometheus accepts and that is neither \<open>cluster\<close> nor \<open>tenant\<close>, one name per key.\<close>

theorem fact_labels_are_valid:
  "list_all (\<lambda>l. validLabel l \<and> l \<noteq> ''cluster'' \<and> l \<noteq> ''tenant'') (factLabels keys)
    \<and> length (factLabels keys) = length keys"
  using factLabels_factLabel [of keys] by (auto simp: list_all_iff factLabel_def factLabels_def)

section \<open>Label names are distinct\<close>

lemma suffix_inject:
  assumes "a @ ''_'' @ FormatInt (int n) = b @ ''_'' @ FormatInt (int m)"
  shows "a = b \<and> n = m"
proof -
  have free: "CHR ''_'' \<notin> set (FormatInt (int i))" for i
    using FormatInt_digits [of i] by (auto simp: list_all_iff isDigit_def)
  have "rev (a @ ''_'' @ FormatInt (int n)) = rev (b @ ''_'' @ FormatInt (int m))"
    by (simp only: assms)
  then have "rev (FormatInt (int n)) @ CHR ''_'' # rev a = rev (FormatInt (int m)) @ CHR ''_'' # rev b"
    by simp
  from arg_cong [OF this, of "dropWhile (\<lambda>x. x \<noteq> CHR ''_'')"] have "a = b"
    by (simp only: dropWhile_to_sep [OF free] list.inject rev_is_rev_conv)
  with assms show ?thesis by simp
qed

text \<open>No normalized key looks like another one with a number behind it.\<close>

definition noSuffixed :: "string list \<Rightarrow> bool" where
  "noSuffixed ks \<longleftrightarrow> (\<forall>a \<in> set ks. \<forall>b \<in> set ks. \<forall>n. b \<noteq> a @ ''_'' @ FormatInt (int n))"

lemma suffixDuplicates_new:
  "l \<in> set (suffixDuplicates seen ks) \<Longrightarrow>
     (l \<in> set ks \<and> fmlookup seen l = None)
     \<or> (\<exists>k \<in> set ks. \<exists>n. l = k @ ''_'' @ FormatInt (int n) \<and> (\<forall>m. fmlookup seen k = Some m \<longrightarrow> m \<le> n))"
proof (induction seen ks rule: suffixDuplicates.induct)
  case (2 seen k ks)
  show ?case
  proof (cases "fmlookup seen k")
    case None
    with 2 show ?thesis by (force split: if_splits)
  next
    case (Some m)
    with 2 show ?thesis by (fastforce split: if_splits dest: Suc_leD)
  qed
qed simp

lemma distinct_suffixDuplicates:
  assumes "noSuffixed ks"
  shows "distinct (suffixDuplicates seen ks)"
  using assms
proof (induction seen ks rule: suffixDuplicates.induct)
  case (2 seen k ks)
  then have sub: "noSuffixed ks" by (auto simp: noSuffixed_def)
  show ?case
  proof (cases "fmlookup seen k")
    case None
    have "k \<notin> set (suffixDuplicates (fmupd k 1 seen) ks)"
      using suffixDuplicates_new [of k "fmupd k 1 seen" ks] 2(3) by (auto simp: noSuffixed_def)
    with None 2(1,2) sub show ?thesis by (simp del: One_nat_def)
  next
    case (Some n)
    have "k @ ''_'' @ FormatInt (int n) \<notin> set (suffixDuplicates (fmupd k (Suc n) seen) ks)"
    proof
      assume "k @ ''_'' @ FormatInt (int n) \<in> set (suffixDuplicates (fmupd k (Suc n) seen) ks)"
      from suffixDuplicates_new [OF this] 2(3) show False
        by (auto simp: noSuffixed_def dest!: suffix_inject [simplified])
    qed
    with Some 2(1,2) sub show ?thesis by simp
  qed
qed simp

text \<open>C29: The labels of a cluster's facts do not depend on the order in which Go ranges over the map,
  and they are all different, as the client demands, unless a key normalizes to what another one
  becomes with its number behind it.\<close>

theorem fact_labels_are_distinct:
  assumes "noSuffixed (map (\<lambda>k. normalizeLabelKey k [''cluster'', ''tenant''] ''fact_'') (fst (pairs hint facts)))"
  shows "distinct ([''cluster'', ''tenant''] @ factLabels (fst (pairs hint facts)))
    \<and> pairs hint facts = pairs hint' facts"
proof -
  let ?ls = "factLabels (fst (pairs hint facts))"
  have "distinct ?ls"
    unfolding factLabels_def by (rule distinct_suffixDuplicates) (rule assms)
  moreover have "''cluster'' \<notin> set ?ls" "''tenant'' \<notin> set ?ls"
    using factLabels_factLabel [of "fst (pairs hint facts)"] by (auto simp: list_all_iff factLabel_def)
  moreover have "pairs hint facts = pairs hint' facts"
  proof -
    have uniq: "sort_key fst (sort_key snd (rangeMap h facts)) = map (\<lambda>k. (k, the (fmlookup facts k))) (sorted_list_of_fset (fmdom facts))" for h
    proof -
      let ?p = "sort_key fst (sort_key snd (rangeMap h facts))"
      have set: "set ?p = {(k, v). fmlookup facts k = Some v}" by simp
      have keys: "map fst ?p = sorted_list_of_fset (fmdom facts)"
      proof (rule sorted_distinct_set_unique)
        show "sorted (map fst ?p)" by simp
        have "distinct (map fst (rangeMap h facts))" by simp
        then show "distinct (map fst ?p)" by (simp only: distinct_map distinct_sort set_sort)
        show "set (map fst ?p) = set (sorted_list_of_fset (fmdom facts))"
          using set by (force simp: fmlookup_dom_iff)
      qed (simp_all add: sorted_list_of_fset.rep_eq)
      have "?p = map (\<lambda>x. (fst x, the (fmlookup facts (fst x)))) ?p"
        by (rule map_idI [symmetric]) (use set in force)
      also have "\<dots> = map (\<lambda>k. (k, the (fmlookup facts k))) (map fst ?p)" by simp
      finally show ?thesis by (simp only: keys)
    qed
    show ?thesis by (simp only: pairs_def uniq)
  qed
  ultimately show ?thesis by simp
qed
lemma fact_labels_are_distinct_witness:
  "distinct ([''cluster'', ''tenant''] @ factLabels (fst (pairs [] (fmupd ''b.'' ''2'' (fmupd ''b-'' ''1'' fmempty)))))"
proof -
  let ?m = "fmupd ''b.'' ''2'' (fmupd ''b-'' ''1'' fmempty)"
  have norm: "normalizeLabelKey ''b.'' [''cluster'', ''tenant''] ''fact_'' = ''b_''"
    "normalizeLabelKey ''b-'' [''cluster'', ''tenant''] ''fact_'' = ''b_''"
    by code_simp+
  have "set (fst (pairs [] ?m)) \<subseteq> {''b.'', ''b-''}"
    by (auto simp: pairs_def Let_def split: if_splits)
  then have one: "x = ''b_''" if "x \<in> set (map (\<lambda>k. normalizeLabelKey k [''cluster'', ''tenant''] ''fact_'') (fst (pairs [] ?m)))" for x
    using that by (auto simp only: set_map image_iff insert_iff empty_iff norm dest!: subsetD)
  have "noSuffixed (map (\<lambda>k. normalizeLabelKey k [''cluster'', ''tenant''] ''fact_'') (fst (pairs [] ?m)))"
    unfolding noSuffixed_def
  proof (intro ballI allI)
    fix a b n
    assume a: "a \<in> set (map (\<lambda>k. normalizeLabelKey k [''cluster'', ''tenant''] ''fact_'') (fst (pairs [] ?m)))"
      and b: "b \<in> set (map (\<lambda>k. normalizeLabelKey k [''cluster'', ''tenant''] ''fact_'') (fst (pairs [] ?m)))"
    have "length a = 2" "length b = 2" by (simp_all only: one [OF a] one [OF b]) simp_all
    then show "b \<noteq> a @ ''_'' @ FormatInt (int n)" by (auto dest!: arg_cong [of b _ length])
  qed
  from fact_labels_are_distinct [OF this] show ?thesis by blast
qed

text \<open>The exception is real: three keys of which two become the same label.\<close>

lemma fact_labels_collide: "factLabels [''a-'', ''a.'', ''a__1''] = [''a_'', ''a__1'', ''a__1'']"
proof -
  have "normalizeLabelKey ''a-'' [''cluster'', ''tenant''] ''fact_'' = ''a_''"
    "normalizeLabelKey ''a.'' [''cluster'', ''tenant''] ''fact_'' = ''a_''"
    "normalizeLabelKey ''a__1'' [''cluster'', ''tenant''] ''fact_'' = ''a__1''"
    "FormatInt 1 = ''1''"
    by code_simp+
  then show ?thesis by (simp add: factLabels_def)
qed

end
