(* ===== verification/LogAdapter.thy ===== *)
theory LogAdapter
  imports Kube
begin

text \<open>
  \<open>vault/log_adapter.go\<close>: the logger that is given to the Vault client. The logger of the operator is
  a parameter; a value that is logged is of any type.
\<close>

datatype 'v logArg = LogName string | LogValue 'v

record ('v, 'w) Logger =
  lg_Info :: "nat \<Rightarrow> string \<Rightarrow> 'v logArg list \<Rightarrow> ('w, unit) go"
  lg_Error :: "nat \<Rightarrow> gerr \<Rightarrow> string \<Rightarrow> 'v logArg list \<Rightarrow> ('w, unit) go"

text \<open>\<open>flatten\<close>: the length it reserves, and the names and values of one map after the other.\<close>

fun flattenedLen :: "'v gomap list \<Rightarrow> nat" where
  "flattenedLen [] = 0"
| "flattenedLen (field # fs) = card (fset (fmdom field)) * 2 + flattenedLen fs"

definition logPairs :: "(string \<times> 'v) list \<Rightarrow> 'v logArg list" where
  "logPairs ps = concat (map (\<lambda>(name, value). [LogName name, LogValue value]) ps)"

fun flatten :: "'w Runtime \<Rightarrow> 'v gomap list \<Rightarrow> ('w, 'v logArg list) go" where
  "flatten rt [] = ret []"
| "flatten rt (field # fs) =
     bnd (rangeOver rt field) (\<lambda>ps. bnd (flatten rt fs) (\<lambda>rest. ret (logPairs ps @ rest)))"

definition adapter_Trace :: "'w Runtime \<Rightarrow> ('v, 'w) Logger \<Rightarrow> string \<Rightarrow> 'v gomap list \<Rightarrow> ('w, unit) go" where
  "adapter_Trace rt l msg fs = bnd (flatten rt fs) (lg_Info l 2 msg)"

definition adapter_Debug :: "'w Runtime \<Rightarrow> ('v, 'w) Logger \<Rightarrow> string \<Rightarrow> 'v gomap list \<Rightarrow> ('w, unit) go" where
  "adapter_Debug rt l msg fs = bnd (flatten rt fs) (lg_Info l 1 msg)"

definition adapter_Info :: "'w Runtime \<Rightarrow> ('v, 'w) Logger \<Rightarrow> string \<Rightarrow> 'v gomap list \<Rightarrow> ('w, unit) go" where
  "adapter_Info rt l msg fs = bnd (flatten rt fs) (lg_Info l 0 msg)"

definition adapter_Warn :: "'w Runtime \<Rightarrow> ('v, 'w) Logger \<Rightarrow> string \<Rightarrow> 'v gomap list \<Rightarrow> ('w, unit) go" where
  "adapter_Warn rt l msg fs = bnd (flatten rt fs) (lg_Info l 0 (''Warn: '' @ msg))"

definition errLogAdapterLogError :: gerr where
  "errLogAdapterLogError = ErrNew ''vault error log''"

definition adapter_Error :: "'w Runtime \<Rightarrow> ('v, 'w) Logger \<Rightarrow> string \<Rightarrow> 'v gomap list \<Rightarrow> ('w, unit) go" where
  "adapter_Error rt l msg fs = bnd (flatten rt fs) (lg_Error l 0 errLogAdapterLogError msg)"

section \<open>What is logged\<close>

text \<open>Whatever the order of the maps: the length that was reserved is the one that is used, and each name
  is followed by its value, map by map.\<close>

lemma length_logPairs: "length (logPairs ps) = 2 * length ps"
  by (induction ps) (auto simp: logPairs_def)

lemma length_rangeMap: "length (rangeMap hint m) = card (fset (fmdom m))"
proof -
  have "length (rangeMap hint m) = card (set (map fst (rangeMap hint m)))"
    by (metis distinct_card distinct_rangeMap length_map)
  also have "set (map fst (rangeMap hint m)) = fset (fmdom m)"
    by (auto simp: fmlookup_dom_iff image_iff simp del: map_fst_rangeMap)
  finally show ?thesis .
qed

lemma flatten_length: "flatten rt fs w = (Ret args, w') \<Longrightarrow> length args = flattenedLen fs"
  by (induction fs arbitrary: w args)
    (auto simp: rangeOver_def length_logPairs length_rangeMap elim!: bnd_RetE)

lemma flatten_pairs:
  "flatten rt fs w = (Ret args, w') \<Longrightarrow> \<exists>pss. args = logPairs (concat pss) \<and>
     list_all2 (\<lambda>ps m. distinct (map fst ps) \<and> set ps = {(k, v). fmlookup m k = Some v}) pss fs"
proof (induction fs arbitrary: w args)
  case (Cons m fs)
  then obtain hint w1 rest where "flatten rt fs w1 = (Ret rest, w')" and a: "args = logPairs (rangeMap hint m) @ rest"
    by (auto simp: rangeOver_def elim!: bnd_RetE)
  with Cons.IH obtain pss where "rest = logPairs (concat pss)"
    and "list_all2 (\<lambda>ps m. distinct (map fst ps) \<and> set ps = {(k, v). fmlookup m k = Some v}) pss fs" by blast
  with a show ?case by (intro exI [of _ "rangeMap hint m # pss"]) (simp add: logPairs_def)
qed (simp add: logPairs_def)

end
