(* ===== verification/Calls.thy ===== *)
theory Calls
  imports CompilePipeline TenantController GitRepoController
begin

text \<open>
  What the passes of the four controllers do to the world, call by call. A predicate \<open>P\<close> on worlds
  is kept by a pass if every call it makes keeps it; the one call that is not taken for granted is
  the status update of a cluster, which has to be shown safe for the objects a pass sends. The
  interference of other programs between two calls is part of the calls.
\<close>

named_theorems client_intros

section \<open>Calls that keep a predicate\<close>

text \<open>
  \<open>A\<close> says in which namespaces an object may be written. The answers of the server are in the
  namespace they were asked from or sent to, a controller reference does not move an object, and
  \<open>CreateOrUpdate\<close> refuses to write an object that its mutate function has moved.
\<close>

definition calm_reads :: "('w \<Rightarrow> bool) \<Rightarrow> 'w Client \<Rightarrow> bool" where
  "calm_reads P k \<longleftrightarrow>
     (\<forall>n. keeps P (k_GetCluster k n)) \<and> (\<forall>n. keeps P (k_GetTenant k n)) \<and>
     (\<forall>n. keeps P (k_GetGitRepo k n)) \<and> (\<forall>n. keeps P (k_GetTenantTemplate k n)) \<and>
     (\<forall>n. keeps P (k_GetSecret k n)) \<and> (\<forall>n. keeps P (k_GetRole k n)) \<and>
     (\<forall>n. keeps P (k_GetRoleBinding k n)) \<and>
     (\<forall>ns s. keeps P (k_ListClusters k ns s)) \<and> (\<forall>ns. keeps P (k_ListTenants k ns)) \<and>
     (\<forall>ns s. keeps P (k_ListGitRepos k ns s)) \<and> keeps P (k_ListSecrets k)"

definition calm_writes :: "(string \<Rightarrow> bool) \<Rightarrow> ('w \<Rightarrow> bool) \<Rightarrow> 'w Client \<Rightarrow> bool" where
  "calm_writes A P k \<longleftrightarrow>
     (\<forall>x. A (om_Namespace (gr_Meta x)) \<longrightarrow> keeps P (k_CreateGitRepo k x)) \<and>
     (\<forall>x. A (om_Namespace (sec_Meta x)) \<longrightarrow> keeps P (k_CreateSecret k x)) \<and>
     (\<forall>x. A (om_Namespace (sa_Meta x)) \<longrightarrow> keeps P (k_CreateServiceAccount k x)) \<and>
     (\<forall>x. A (om_Namespace (role_Meta x)) \<longrightarrow> keeps P (k_CreateRole k x)) \<and>
     (\<forall>x. A (om_Namespace (rb_Meta x)) \<longrightarrow> keeps P (k_CreateRoleBinding k x)) \<and>
     (\<forall>x. A (om_Namespace (cl_Meta x)) \<longrightarrow> keeps P (k_UpdateCluster k x)) \<and>
     (\<forall>x. A (om_Namespace (tn_Meta x)) \<longrightarrow> keeps P (k_UpdateTenant k x)) \<and>
     (\<forall>x. A (om_Namespace (gr_Meta x)) \<longrightarrow> keeps P (k_UpdateGitRepo k x)) \<and>
     (\<forall>x. A (om_Namespace (role_Meta x)) \<longrightarrow> keeps P (k_UpdateRole k x)) \<and>
     (\<forall>x. A (om_Namespace (rb_Meta x)) \<longrightarrow> keeps P (k_UpdateRoleBinding k x)) \<and>
     (\<forall>x. A (om_Namespace (tn_Meta x)) \<longrightarrow> keeps P (k_StatusUpdateTenant k x)) \<and>
     (\<forall>x. A (om_Namespace (gr_Meta x)) \<longrightarrow> keeps P (k_StatusUpdateGitRepo k x)) \<and>
     (\<forall>x. A (om_Namespace (sec_Meta x)) \<longrightarrow> keeps P (k_DeleteSecret k x)) \<and>
     (\<forall>x f. A (om_Namespace (sec_Meta x)) \<longrightarrow> (\<forall>y. keeps P (f y)) \<longrightarrow> keeps P (k_CreateOrUpdateSecret k x f)) \<and>
     (\<forall>x f. A (om_Namespace (role_Meta x)) \<longrightarrow> (\<forall>y. keeps P (f y)) \<longrightarrow> keeps P (k_CreateOrUpdateRole k x f))"

definition answers_in :: "(string \<Rightarrow> bool) \<Rightarrow> 'w Client \<Rightarrow> bool" where
  "answers_in A k \<longleftrightarrow>
     (\<forall>n w x w'. A (nn_Namespace n) \<longrightarrow> k_GetCluster k n w = (Ret (Inr x), w') \<longrightarrow> A (om_Namespace (cl_Meta x))) \<and>
     (\<forall>n w x w'. A (nn_Namespace n) \<longrightarrow> k_GetTenant k n w = (Ret (Inr x), w') \<longrightarrow> A (om_Namespace (tn_Meta x))) \<and>
     (\<forall>n w x w'. A (nn_Namespace n) \<longrightarrow> k_GetGitRepo k n w = (Ret (Inr x), w') \<longrightarrow> A (om_Namespace (gr_Meta x))) \<and>
     (\<forall>n w x w'. A (nn_Namespace n) \<longrightarrow> k_GetSecret k n w = (Ret (Inr x), w') \<longrightarrow> A (om_Namespace (sec_Meta x))) \<and>
     (\<forall>n w x w'. A (nn_Namespace n) \<longrightarrow> k_GetRole k n w = (Ret (Inr x), w') \<longrightarrow> A (om_Namespace (role_Meta x))) \<and>
     (\<forall>n w x w'. A (nn_Namespace n) \<longrightarrow> k_GetRoleBinding k n w = (Ret (Inr x), w') \<longrightarrow> A (om_Namespace (rb_Meta x))) \<and>
     (\<forall>ns s w cs w'. A ns \<longrightarrow> k_ListClusters k ns s w = (Ret (Inr cs), w') \<longrightarrow> (\<forall>c \<in> set cs. A (om_Namespace (cl_Meta c)))) \<and>
     (\<forall>x w y w'. A (om_Namespace (tn_Meta x)) \<longrightarrow> k_UpdateTenant k x w = (Ret (Inr y), w') \<longrightarrow> A (om_Namespace (tn_Meta y))) \<and>
     (\<forall>x w y w'. A (om_Namespace (gr_Meta x)) \<longrightarrow> k_StatusUpdateGitRepo k x w = (Ret (Inr y), w') \<longrightarrow> A (om_Namespace (gr_Meta y))) \<and>
     (\<forall>own m m'. A (om_Namespace m) \<longrightarrow> k_SetControllerReference k own m = Inr m' \<longrightarrow> A (om_Namespace m'))"

definition calm_client :: "(string \<Rightarrow> bool) \<Rightarrow> ('w \<Rightarrow> bool) \<Rightarrow> 'w Client \<Rightarrow> bool" where
  "calm_client A P k \<longleftrightarrow> calm_reads P k \<and> calm_writes A P k \<and> answers_in A k"

lemma calm_read_rules [client_intros]:
  assumes "calm_client A P k"
  shows "keeps P (k_GetCluster k n)" "keeps P (k_GetTenant k n)" "keeps P (k_GetGitRepo k n)"
    "keeps P (k_GetTenantTemplate k n)" "keeps P (k_GetSecret k n)" "keeps P (k_GetRole k n)"
    "keeps P (k_GetRoleBinding k n)" "keeps P (k_ListClusters k ns s)" "keeps P (k_ListTenants k ns)"
    "keeps P (k_ListGitRepos k ns s)" "keeps P (k_ListSecrets k)"
  using assms by (simp_all add: calm_client_def calm_reads_def)

lemma calm_write_rules [client_intros]:
  assumes "calm_client A P k"
  shows "A (om_Namespace (gr_Meta g)) \<Longrightarrow> keeps P (k_CreateGitRepo k g)"
    "A (om_Namespace (sec_Meta s)) \<Longrightarrow> keeps P (k_CreateSecret k s)"
    "A (om_Namespace (sa_Meta sa)) \<Longrightarrow> keeps P (k_CreateServiceAccount k sa)"
    "A (om_Namespace (role_Meta r)) \<Longrightarrow> keeps P (k_CreateRole k r)"
    "A (om_Namespace (rb_Meta b)) \<Longrightarrow> keeps P (k_CreateRoleBinding k b)"
    "A (om_Namespace (cl_Meta c)) \<Longrightarrow> keeps P (k_UpdateCluster k c)"
    "A (om_Namespace (tn_Meta t)) \<Longrightarrow> keeps P (k_UpdateTenant k t)"
    "A (om_Namespace (gr_Meta g)) \<Longrightarrow> keeps P (k_UpdateGitRepo k g)"
    "A (om_Namespace (role_Meta r)) \<Longrightarrow> keeps P (k_UpdateRole k r)"
    "A (om_Namespace (rb_Meta b)) \<Longrightarrow> keeps P (k_UpdateRoleBinding k b)"
    "A (om_Namespace (tn_Meta t)) \<Longrightarrow> keeps P (k_StatusUpdateTenant k t)"
    "A (om_Namespace (gr_Meta g)) \<Longrightarrow> keeps P (k_StatusUpdateGitRepo k g)"
    "A (om_Namespace (sec_Meta s)) \<Longrightarrow> keeps P (k_DeleteSecret k s)"
  using assms by (simp_all add: calm_client_def calm_writes_def)

lemma calm_mutate_rules [client_intros]:
  assumes "calm_client A P k"
  shows "A (om_Namespace (sec_Meta s)) \<Longrightarrow> (\<And>y. keeps P (f y)) \<Longrightarrow> keeps P (k_CreateOrUpdateSecret k s f)"
    and "A (om_Namespace (role_Meta r)) \<Longrightarrow> (\<And>y. keeps P (g y)) \<Longrightarrow> keeps P (k_CreateOrUpdateRole k r g)"
  using assms by (simp_all add: calm_client_def calm_writes_def)

lemma calm_answers:
  assumes "calm_client A P k"
  shows "k_GetCluster k n w = (Ret (Inr c), w') \<Longrightarrow> A (nn_Namespace n) \<Longrightarrow> A (om_Namespace (cl_Meta c))"
    and "k_GetTenant k n w = (Ret (Inr t), w') \<Longrightarrow> A (nn_Namespace n) \<Longrightarrow> A (om_Namespace (tn_Meta t))"
    and "k_GetGitRepo k n w = (Ret (Inr g), w') \<Longrightarrow> A (nn_Namespace n) \<Longrightarrow> A (om_Namespace (gr_Meta g))"
    and "k_GetSecret k n w = (Ret (Inr s), w') \<Longrightarrow> A (nn_Namespace n) \<Longrightarrow> A (om_Namespace (sec_Meta s))"
    and "k_GetRole k n w = (Ret (Inr r), w') \<Longrightarrow> A (nn_Namespace n) \<Longrightarrow> A (om_Namespace (role_Meta r))"
    and "k_GetRoleBinding k n w = (Ret (Inr b), w') \<Longrightarrow> A (nn_Namespace n) \<Longrightarrow> A (om_Namespace (rb_Meta b))"
    and "k_ListClusters k ns sel w = (Ret (Inr cs), w') \<Longrightarrow> A ns \<Longrightarrow> c \<in> set cs \<Longrightarrow> A (om_Namespace (cl_Meta c))"
    and "k_UpdateTenant k t0 w = (Ret (Inr t), w') \<Longrightarrow> A (om_Namespace (tn_Meta t0)) \<Longrightarrow> A (om_Namespace (tn_Meta t))"
    and "k_StatusUpdateGitRepo k g0 w = (Ret (Inr g), w') \<Longrightarrow> A (om_Namespace (gr_Meta g0)) \<Longrightarrow> A (om_Namespace (gr_Meta g))"
    and "k_SetControllerReference k m0 m = Inr m' \<Longrightarrow> A (om_Namespace m) \<Longrightarrow> A (om_Namespace m')"
  using assms [unfolded calm_client_def, THEN conjunct2, THEN conjunct2] unfolding answers_in_def
  by - (elim conjE, metis)+

lemma calm_client_answers: "calm_client A P k \<Longrightarrow> answers_in A k"
  by (simp add: calm_client_def)

lemma answers_status:
  "answers_in A k \<Longrightarrow> k_StatusUpdateGitRepo k g0 w = (Ret (Inr g), w') \<Longrightarrow> A (om_Namespace (gr_Meta g0)) \<Longrightarrow>
     A (om_Namespace (gr_Meta g))"
  unfolding answers_in_def by (elim conjE) metis

definition calm_runtime :: "('w \<Rightarrow> bool) \<Rightarrow> 'w Runtime \<Rightarrow> bool" where
  "calm_runtime P rt \<longleftrightarrow> keeps P (rt_Now rt) \<and> (\<forall>n. keeps P (rt_RandRead rt n)) \<and>
     keeps P (rt_MapHint rt) \<and> keeps P (rt_SortHint rt)"

lemma calm_runtime_rules [keeps_intros]:
  assumes "calm_runtime P rt"
  shows "keeps P (rt_Now rt)" "keeps P (rt_RandRead rt n)" "keeps P (rt_MapHint rt)"
    "keeps P (rt_SortHint rt)"
  using assms by (simp_all add: calm_runtime_def)

text \<open>The Vault library: also the clients it hands out.\<close>

definition calm_vaultapi :: "('w \<Rightarrow> bool) \<Rightarrow> 'w VaultAPI \<Rightarrow> bool" where
  "calm_vaultapi P api \<longleftrightarrow> (\<forall>p. keeps P (va_Read api p)) \<and> (\<forall>p d. keeps P (va_Write api p d)) \<and>
     (\<forall>p. keeps P (va_List api p)) \<and> (\<forall>p. keeps P (va_Delete api p)) \<and>
     (\<forall>t. keeps P (va_SetToken api t))"

lemma calm_vaultapi_rules [keeps_intros]:
  assumes "calm_vaultapi P api"
  shows "keeps P (va_Read api p)" "keeps P (va_Write api p d)" "keeps P (va_List api p)"
    "keeps P (va_Delete api p)" "keeps P (va_SetToken api t)"
  using assms by (simp_all add: calm_vaultapi_def)

definition calm_vault :: "('w \<Rightarrow> bool) \<Rightarrow> 'w VaultEnv \<Rightarrow> bool" where
  "calm_vault P env \<longleftrightarrow>
     (\<forall>a p r. keeps P (ve_NewClientFromConfig env a p r)) \<and> (\<forall>v. keeps P (ve_Getenv env v)) \<and>
     keeps P (ve_TokenFileMissing env) \<and> keeps P (ve_GetInstance env) \<and>
     (\<forall>b. keeps P (ve_SetInstance env b)) \<and>
     (\<forall>a p r w api w'. ve_NewClientFromConfig env a p r w = (Ret (Inr api), w') \<longrightarrow> calm_vaultapi P api) \<and>
     (\<forall>w b w'. ve_GetInstance env w = (Ret (Some b), w') \<longrightarrow> calm_vaultapi P (bv_client b))"

lemma calm_vault_rules [keeps_intros]:
  assumes "calm_vault P env"
  shows "keeps P (ve_NewClientFromConfig env a p r)" "keeps P (ve_Getenv env v)"
    "keeps P (ve_TokenFileMissing env)" "keeps P (ve_GetInstance env)" "keeps P (ve_SetInstance env b)"
  using assms by (simp_all add: calm_vault_def)

lemma calm_vault_clients:
  assumes "calm_vault P env"
  shows "ve_NewClientFromConfig env a p r w = (Ret (Inr api), w') \<Longrightarrow> calm_vaultapi P api"
    and "ve_GetInstance env w = (Ret (Some b), w') \<Longrightarrow> calm_vaultapi P (bv_client b)"
  using assms unfolding calm_vault_def by blast+

text \<open>The git server and the SSH key generator.\<close>

definition calm_repo :: "('w \<Rightarrow> bool) \<Rightarrow> ('r, 'w) RepoI \<Rightarrow> bool" where
  "calm_repo P ri \<longleftrightarrow> (\<forall>r. keeps P (ri_Create ri r)) \<and> (\<forall>r. keeps P (ri_Update ri r)) \<and>
     (\<forall>r. keeps P (ri_Read ri r)) \<and> (\<forall>r. keeps P (ri_Remove ri r)) \<and>
     (\<forall>r. keeps P (ri_Connect ri r)) \<and> (\<forall>r. keeps P (ri_CommitTemplateFiles ri r)) \<and>
     (\<forall>r n u. keeps P (ri_EnsureProjectAccessToken ri r n u)) \<and>
     (\<forall>r ns vs. keeps P (ri_EnsureCIVariables ri r ns vs))"

lemma calm_repo_rules [keeps_intros]:
  assumes "calm_repo P ri"
  shows "keeps P (ri_Create ri r)" "keeps P (ri_Update ri r)" "keeps P (ri_Read ri r)"
    "keeps P (ri_Remove ri r)" "keeps P (ri_Connect ri r)" "keeps P (ri_CommitTemplateFiles ri r)"
    "keeps P (ri_EnsureProjectAccessToken ri r n u)" "keeps P (ri_EnsureCIVariables ri r ns vs)"
  using assms by (simp_all add: calm_repo_def)

definition calm_keygen :: "('w \<Rightarrow> bool) \<Rightarrow> 'w Deps \<Rightarrow> bool" where
  "calm_keygen P dp \<longleftrightarrow> (\<forall>f t. keeps P (dp_Keygen dp f t))"

lemma calm_keygen_rule [keeps_intros]: "calm_keygen P dp \<Longrightarrow> keeps P (dp_Keygen dp f t)"
  by (simp add: calm_keygen_def)

lemma keeps_rangeOver [keeps_intros]: "calm_runtime P rt \<Longrightarrow> keeps P (rangeOver rt m)"
  unfolding rangeOver_def by (intro keeps_intros)

section \<open>Tame steps\<close>

text \<open>
  What a cluster that is written owes to the one that was read: it is the same version of the same
  object, and its bootstrap token, if there was one, is the same token and not made valid again.
\<close>

definition tokenKept :: "ClusterStatus \<Rightarrow> ClusterStatus \<Rightarrow> bool" where
  "tokenKept s s' \<longleftrightarrow> (\<forall>t. cst_BootstrapToken s = Some t \<longrightarrow>
     (\<exists>t'. cst_BootstrapToken s' = Some t' \<and> bt_Token t' = bt_Token t \<and>
       bt_ValidUntil t' = bt_ValidUntil t \<and> (bt_TokenValid t' \<longrightarrow> bt_TokenValid t)))"

lemma tokenKept_refl [simp]: "tokenKept s s"
  by (simp add: tokenKept_def)

lemma tokenKept_trans: "tokenKept s s' \<Longrightarrow> tokenKept s' s'' \<Longrightarrow> tokenKept s s''"
  unfolding tokenKept_def by (metis (no_types))

definition derivedFrom :: "Cluster \<Rightarrow> Cluster \<Rightarrow> bool" where
  "derivedFrom c c' \<longleftrightarrow> om_Name (cl_Meta c') = om_Name (cl_Meta c)
     \<and> om_Namespace (cl_Meta c') = om_Namespace (cl_Meta c)
     \<and> om_UID (cl_Meta c') = om_UID (cl_Meta c)
     \<and> om_ResourceVersion (cl_Meta c') = om_ResourceVersion (cl_Meta c)
     \<and> tokenKept (cl_Status c) (cl_Status c')"

text \<open>An object stays of its kind and in the namespaces that may be written.\<close>

definition carries :: "(string \<Rightarrow> bool) \<Rightarrow> Object \<Rightarrow> Object \<Rightarrow> bool" where
  "carries A obj obj' \<longleftrightarrow> (A (GetNamespace obj) \<longrightarrow> A (GetNamespace obj')) \<and> (case obj of
       ClusterObj c \<Rightarrow> (case obj' of ClusterObj c' \<Rightarrow> derivedFrom c c' | _ \<Rightarrow> False)
     | TenantObj t \<Rightarrow> (case obj' of TenantObj t' \<Rightarrow> True | _ \<Rightarrow> False)
     | GitRepoObj g \<Rightarrow> (case obj' of GitRepoObj g' \<Rightarrow> True | _ \<Rightarrow> False))"

lemma derivedFrom_refl [simp]: "derivedFrom c c"
  by (simp add: derivedFrom_def)

lemma derivedFrom_trans: "derivedFrom c c' \<Longrightarrow> derivedFrom c' c'' \<Longrightarrow> derivedFrom c c''"
  by (auto simp: derivedFrom_def intro: tokenKept_trans)

lemma carries_refl [simp]: "carries A obj obj"
  by (cases obj) (simp_all add: carries_def)

lemma carries_trans: "carries A a b \<Longrightarrow> carries A b c \<Longrightarrow> carries A a c"
  by (cases a; cases b; cases c) (auto simp: carries_def intro: derivedFrom_trans)

lemma carries_objects [simp]:
  "carries A (ClusterObj c) (ClusterObj c') \<longleftrightarrow> derivedFrom c c'"
  "carries A (TenantObj t) (TenantObj t') \<longleftrightarrow> (A (om_Namespace (tn_Meta t)) \<longrightarrow> A (om_Namespace (tn_Meta t')))"
  "carries A (GitRepoObj g) (GitRepoObj g') \<longleftrightarrow> (A (om_Namespace (gr_Meta g)) \<longrightarrow> A (om_Namespace (gr_Meta g')))"
  by (auto simp: carries_def derivedFrom_def)

lemma carries_namespace: "carries A obj obj' \<Longrightarrow> A (GetNamespace obj) \<Longrightarrow> A (GetNamespace obj')"
  by (simp add: carries_def)

text \<open>Kept by changes of the metadata that leave the identity, and by everything else the steps do to
  an object.\<close>

lemma carries_SetMeta:
  "om_Name m = om_Name (GetMeta obj) \<Longrightarrow> om_Namespace m = om_Namespace (GetMeta obj) \<Longrightarrow>
   om_UID m = om_UID (GetMeta obj) \<Longrightarrow> om_ResourceVersion m = om_ResourceVersion (GetMeta obj) \<Longrightarrow>
     carries A obj (SetMeta m obj)"
  by (cases obj) (simp_all add: derivedFrom_def)

lemma carries_SetMeta_simps [simp]:
  "carries A obj (SetMeta ((GetMeta obj)\<lparr>om_Annotations := a\<rparr>) obj)"
  "carries A obj (SetMeta ((GetMeta obj)\<lparr>om_Labels := l\<rparr>) obj)"
  "carries A obj (SetMeta ((GetMeta obj)\<lparr>om_Finalizers := f\<rparr>) obj)"
  "carries A obj (SetMeta ((GetMeta obj)\<lparr>om_OwnerReferences := r\<rparr>) obj)"
  by (simp_all add: carries_SetMeta)

lemma carries_SetGitRepoURL [simp]: "carries A obj (SetGitRepoURLAndHostKeys url hk obj)"
  by (cases obj) (simp_all add: derivedFrom_def Cluster_SetGitRepoURLAndHostKeys_def
      Tenant_SetGitRepoURLAndHostKeys_def)

lemma carries_PutGitTemplate [simp]: "carries A obj (PutGitTemplate p obj)"
  by (cases obj) (simp_all add: derivedFrom_def Cluster_PutGitTemplate_def Tenant_PutGitTemplate_def
      split: option.split)

lemma carries_GetGitTemplate: "GetGitTemplate obj = (t, obj') \<Longrightarrow> carries A obj obj'"
  by (cases obj) (auto simp: Tenant_GetGitTemplate_def split: prod.splits option.splits)

text \<open>A tame step keeps \<open>P\<close>, given that the calls do and that its object can be written, and leaves
  such an object.\<close>

definition gentle :: "(string \<Rightarrow> bool) \<Rightarrow> 'w Function \<Rightarrow> bool" where
  "gentle A f \<longleftrightarrow> (\<forall>obj data w obj' data' r w'. answers_in A (ctx_Client data) \<longrightarrow>
     f obj data w = (Ret (obj', data', r), w') \<longrightarrow>
     carries A obj obj' \<and> ctx_Client data' = ctx_Client data \<and> ctx_Runtime data' = ctx_Runtime data)"

definition safeToWrite :: "(string \<Rightarrow> bool) \<Rightarrow> ('w \<Rightarrow> bool) \<Rightarrow> 'w Client \<Rightarrow> Object \<Rightarrow> bool" where
  "safeToWrite A P k obj \<longleftrightarrow> A (GetNamespace obj) \<and>
     (\<forall>obj'. carries A obj obj' \<longrightarrow> keeps P (kStatusUpdate k obj'))"

definition calmContext :: "(string \<Rightarrow> bool) \<Rightarrow> ('w \<Rightarrow> bool) \<Rightarrow> 'w Context \<Rightarrow> bool" where
  "calmContext A P data \<longleftrightarrow> calm_client A P (ctx_Client data) \<and> calm_runtime P (ctx_Runtime data)"

definition tame :: "(string \<Rightarrow> bool) \<Rightarrow> ('w \<Rightarrow> bool) \<Rightarrow> 'w Function \<Rightarrow> bool" where
  "tame A P f \<longleftrightarrow> gentle A f \<and> (\<forall>obj data. calmContext A P data \<longrightarrow> safeToWrite A P (ctx_Client data) obj \<longrightarrow>
     keeps P (f obj data))"

lemma gentleI:
  "(\<And>obj data w obj' data' r w'. answers_in A (ctx_Client data) \<Longrightarrow> f obj data w = (Ret (obj', data', r), w') \<Longrightarrow>
     carries A obj obj' \<and> ctx_Client data' = ctx_Client data \<and> ctx_Runtime data' = ctx_Runtime data) \<Longrightarrow> gentle A f"
  unfolding gentle_def by blast

lemma gentleD:
  assumes "gentle A f" and "answers_in A (ctx_Client data)" and "f obj data w = (Ret (obj', data', r), w')"
  shows "carries A obj obj'" and "ctx_Client data' = ctx_Client data" and "ctx_Runtime data' = ctx_Runtime data"
  using assms unfolding gentle_def by blast+

lemma tameI:
  "gentle A f \<Longrightarrow> (\<And>obj data. calm_client A P (ctx_Client data) \<Longrightarrow> calm_runtime P (ctx_Runtime data) \<Longrightarrow>
     A (GetNamespace obj) \<Longrightarrow> safeToWrite A P (ctx_Client data) obj \<Longrightarrow> keeps P (f obj data)) \<Longrightarrow> tame A P f"
  by (simp add: tame_def calmContext_def safeToWrite_def)

lemma tame_gentle: "tame A P f \<Longrightarrow> gentle A f"
  by (simp add: tame_def)

lemma tame_keeps: "tame A P f \<Longrightarrow> calmContext A P data \<Longrightarrow> safeToWrite A P (ctx_Client data) obj \<Longrightarrow> keeps P (f obj data)"
  by (simp add: tame_def)

lemma safeToWrite_mono: "safeToWrite A P k obj \<Longrightarrow> carries A obj obj' \<Longrightarrow> safeToWrite A P k obj'"
  unfolding safeToWrite_def by (blast intro: carries_trans carries_namespace)

lemma gentle_after:
  assumes "gentle A f" and "f obj data w = (Ret (obj', data', r), w')" and "calmContext A P data"
    and "safeToWrite A P (ctx_Client data) obj"
  shows "calmContext A P data'" and "safeToWrite A P (ctx_Client data') obj'"
proof -
  have "answers_in A (ctx_Client data)" using assms(3) by (simp add: calmContext_def calm_client_def)
  from gentleD [OF assms(1) this assms(2)] assms(3,4)
  show "calmContext A P data'" "safeToWrite A P (ctx_Client data') obj'"
    by (auto simp: calmContext_def intro: safeToWrite_mono)
qed

lemma gentle_pipeline:
  assumes "\<forall>s \<in> set steps. gentle A (step_F s)"
  shows "gentle A (\<lambda>obj data. RunPipeline obj data steps)"
proof (rule gentleI)
  fix obj data w obj' data' r w'
  assume ans: "answers_in A (ctx_Client data)" and run: "RunPipeline obj data steps w = (Ret (obj', data', r), w')"
  let ?I = "\<lambda>o' (d :: 'a Context). carries A obj o' \<and> ctx_Client d = ctx_Client data \<and> ctx_Runtime d = ctx_Runtime data"
  show "?I obj' data'"
  proof (rule RunPipeline_invariant [where P = ?I, OF _ _ run])
    fix s o1 d1 w1 o2 d2 r2 w2
    assume s: "s \<in> set steps" and I: "?I o1 d1" and step: "step_F s o1 d1 w1 = (Ret (o2, d2, r2), w2)"
    from ans I have "answers_in A (ctx_Client d1)" by simp
    from gentleD [OF bspec [OF assms s] this step] I show "?I o2 d2"
      by (auto intro: carries_trans)
  qed simp
qed

lemma tame_pipeline:
  assumes "\<forall>s \<in> set steps. tame A P (step_F s)"
  shows "tame A P (\<lambda>obj data. RunPipeline obj data steps)"
  unfolding tame_def
proof (intro conjI allI impI)
  show "gentle A (\<lambda>obj data. RunPipeline obj data steps)"
    using assms by (intro gentle_pipeline) (auto dest: tame_gentle)
  fix obj data
  assume "calmContext A P data" and "safeToWrite A P (ctx_Client data) obj"
  with assms show "keeps P (RunPipeline obj data steps)"
  proof (induction steps arbitrary: obj data)
    case Nil
    then show ?case by (simp add: keeps_ret)
  next
    case (Cons s ss)
    then have f: "tame A P (step_F s)" by simp
    from tame_keeps [OF this Cons.prems(2,3)] have "keeps P (step_F s obj data)" .
    moreover have "keeps P (RunPipeline o1 d1 ss)" if "step_F s obj data w = (Ret (o1, d1, r), w')" for o1 d1 r w w'
      using gentle_after [OF tame_gentle [OF f] that Cons.prems(2,3)] Cons.prems(1)
      by (intro Cons.IH) auto
    ultimately show ?case
      by (auto intro!: keeps_intros)
  qed
qed

section \<open>The shared steps\<close>

lemma keeps_kUpdate [client_intros]: "calm_client A P k \<Longrightarrow> A (GetNamespace obj) \<Longrightarrow> keeps P (kUpdate k obj)"
  by (cases obj) (auto intro!: keeps_intros client_intros)

lemma keeps_kStatusUpdate: "safeToWrite A P k obj \<Longrightarrow> keeps P (kStatusUpdate k obj)"
  by (simp add: safeToWrite_def)

lemma tame_CheckIfDeleted: "tame A P CheckIfDeleted"
  by (rule tameI) (auto simp: CheckIfDeleted_def intro!: gentleI keeps_intros split: if_splits)

lemma tame_DeepCopyOriginal: "tame A P DeepCopyOriginal"
  by (rule tameI) (auto simp: DeepCopyOriginal_def intro!: gentleI keeps_intros)

lemma tame_handleDeletion: "tame A P handleDeletion"
  by (rule tameI) (auto simp: handleDeletion_def intro!: gentleI keeps_intros split: if_splits)

lemma tame_addDeletionProtection: "tame A P addDeletionProtection"
  by (rule tameI) (auto simp: addDeletionProtection_def Let_def intro!: gentleI keeps_intros split: if_splits)

lemma tame_handleFinalizer: "tame A P handleFinalizer"
  by (rule tameI) (auto simp: handleFinalizer_def Let_def intro!: gentleI keeps_intros split: if_splits)

lemma tame_AddTenantLabel: "tame A P AddTenantLabel"
  by (rule tameI) (auto simp: AddTenantLabel_def Let_def intro!: gentleI keeps_intros split: if_splits)

lemma tame_updateObject: "tame A P updateObject"
proof (rule tameI)
  show "gentle A updateObject"
    by (rule gentleI) (auto simp: updateObject_def elim!: bnd_RetE split: option.splits if_splits sum.splits)
  fix obj :: Object and data :: "'a Context"
  assume "calm_client A P (ctx_Client data)" "A (GetNamespace obj)" "safeToWrite A P (ctx_Client data) obj"
  then show "keeps P (updateObject obj data)"
    unfolding updateObject_def by (intro keeps_intros client_intros keeps_kStatusUpdate)
qed

lemma tame_Common: "tame A P Common"
proof -
  have "Common = (\<lambda>obj data. RunPipeline obj data (CommonSteps :: 'a Step list))"
    by (simp add: fun_eq_iff Common_def)
  moreover have "\<forall>s \<in> set (CommonSteps :: 'a Step list). tame A P (step_F s)"
    by (simp add: CommonSteps_def tame_handleDeletion tame_addDeletionProtection
        tame_handleFinalizer tame_updateObject)
  ultimately show ?thesis
    using tame_pipeline by metis
qed
section \<open>Objects that own a repository\<close>

lemma tame_CreateOrUpdate: "tame A P CreateOrUpdate"
proof (rule tameI)
  show "gentle A CreateOrUpdate"
    by (rule gentleI) (auto simp: CreateOrUpdate_def Let_def elim!: bnd_RetE
        split: prod.splits if_splits sum.splits dest!: carries_GetGitTemplate
        intro!: carries_trans [OF _ carries_PutGitTemplate])
  fix obj :: Object and data :: "'a Context"
  assume k: "calm_client A P (ctx_Client data)" and A: "A (GetNamespace obj)"
  have "A (GetNamespace (PutGitTemplate p (PutGitTemplate p' obj1)))" if "GetGitTemplate obj = (t, obj1)" for t obj1 p p'
    using A carries_GetGitTemplate [OF that] by (meson carries_PutGitTemplate carries_namespace)
  then show "keeps P (CreateOrUpdate obj data)"
    unfolding CreateOrUpdate_def
    by (intro keeps_intros client_intros [OF k]) (auto intro: calm_answers(3) [OF k])
qed

lemma tame_UpdateURLAndHostKeys: "tame A P UpdateURLAndHostKeys"
proof (rule tameI)
  show "gentle A UpdateURLAndHostKeys"
    by (rule gentleI) (auto simp: UpdateURLAndHostKeys_def elim!: bnd_RetE split: if_splits sum.splits)
  fix obj :: Object and data :: "'a Context"
  assume "calm_client A P (ctx_Client data)"
  then show "keeps P (UpdateURLAndHostKeys obj data)"
    unfolding UpdateURLAndHostKeys_def by (intro keeps_intros client_intros)
qed

section \<open>Vault\<close>

lemma keeps_json [keeps_intros]:
  assumes "keeps P f1" "\<And>b. keeps P (f2 b)" "\<And>n. keeps P (f3 n)" "\<And>s. keeps P (f4 s)"
    "\<And>l. keeps P (f5 l)" "\<And>m. keeps P (f6 m)" "\<And>i. keeps P (f7 i)"
  shows "keeps P (case_json f1 f2 f3 f4 f5 f6 f7 j)"
  using assms by (cases j) simp_all

lemma newBankVaultClient_calm:
  "calm_vault P env \<Longrightarrow> newBankVaultClient env policy w = (Ret (Inr b), w') \<Longrightarrow> calm_vaultapi P (bv_client b)"
  by (auto simp: newBankVaultClient_def elim!: bnd_RetE split: sum.splits)
    (rule calm_vault_clients(1), assumption+)

lemma NewClient_calm:
  "calm_vault P env \<Longrightarrow> NewClient env policy w = (Ret (Inr b), w') \<Longrightarrow> calm_vaultapi P (bv_client b)"
  by (auto simp: NewClient_def SetDeletionPolicy_def Let_def elim!: bnd_RetE split: sum.splits option.splits)
    (rule calm_vault_clients(2) newBankVaultClient_calm, assumption+)+

lemma keeps_newBankVaultClient [keeps_intros]:
  assumes "calm_vault P env"
  shows "keeps P (newBankVaultClient env policy)"
  unfolding newBankVaultClient_def using assms
  by (intro keeps_intros) (auto dest: calm_vault_clients)

lemma keeps_NewClient [keeps_intros]: "calm_vault P env \<Longrightarrow> keeps P (NewClient env policy)"
  unfolding NewClient_def by (intro keeps_intros)

lemma keeps_addSecret [keeps_intros]: "calm_vaultapi P (bv_client b) \<Longrightarrow> keeps P (addSecret env b path token)"
  unfolding addSecret_def by (intro keeps_intros)

lemma keeps_AddSecrets [keeps_intros]: "calm_vaultapi P (bv_client b) \<Longrightarrow> keeps P (AddSecrets env b ss)"
  by (induction ss) (auto intro!: keeps_intros)

lemma keeps_listSecrets [keeps_intros]: "calm_vaultapi P (bv_client b) \<Longrightarrow> keeps P (listSecrets b path)"
  unfolding listSecrets_def by (intro keeps_intros)

lemma keeps_getVersionList [keeps_intros]: "calm_runtime P rt \<Longrightarrow> keeps P (getVersionList rt data)"
  unfolding getVersionList_def by (intro keeps_intros)

lemma keeps_removeOne [keeps_intros]:
  "calm_vaultapi P (bv_client b) \<Longrightarrow> calm_runtime P rt \<Longrightarrow> keeps P (removeOne rt b dir s)"
  unfolding removeOne_def deleteToken_def destroyToken_def by (intro keeps_intros)

lemma keeps_untilError [keeps_intros]: "(\<And>x. keeps P (f x)) \<Longrightarrow> keeps P (untilError f xs)"
  by (induction xs) (auto intro!: keeps_intros)

lemma keeps_removeSecret [keeps_intros]:
  "calm_vaultapi P (bv_client b) \<Longrightarrow> calm_runtime P rt \<Longrightarrow> keeps P (removeSecret fuel rt b dir)"
proof (induction fuel arbitrary: dir)
  case (Suc fuel)
  then show ?case unfolding removeSecret.simps by (intro keeps_intros)
qed (simp add: keeps_diverge)

lemma tame_CreateOrUpdateVault:
  assumes "calm_vault P env"
  shows "tame A P (CreateOrUpdateVault env)"
proof (rule tameI)
  show "gentle A (CreateOrUpdateVault env)"
    by (rule gentleI) (auto simp: CreateOrUpdateVault_def elim!: bnd_RetE split: if_splits sum.splits option.splits)
  fix obj :: Object and data :: "'a Context"
  assume k: "calm_client A P (ctx_Client data)" and rt: "calm_runtime P (ctx_Runtime data)"
  with assms show "keeps P (CreateOrUpdateVault env obj data)"
    unfolding CreateOrUpdateVault_def GetServiceAccountToken_def getVaultClient_def
    by (intro keeps_intros client_intros [OF k]) (auto dest: NewClient_calm)
qed

lemma tame_HandleVaultDeletion:
  assumes "calm_vault P env"
  shows "tame A P (HandleVaultDeletion fuel env)"
proof (rule tameI)
  show "gentle A (HandleVaultDeletion fuel env)"
    by (rule gentleI) (auto simp: HandleVaultDeletion_def elim!: bnd_RetE split: if_splits sum.splits option.splits)
  fix obj :: Object and data :: "'a Context"
  assume "calm_runtime P (ctx_Runtime data)"
  with assms show "keeps P (HandleVaultDeletion fuel env obj data)"
    unfolding HandleVaultDeletion_def RemoveSecrets_def getVaultClient_def
    by (intro keeps_intros) (auto dest: NewClient_calm)
qed

end
