(* ===== verification/Passes.thy ===== *)
theory Passes
  imports Calls
begin

text \<open>
  The steps and passes of the four controllers, call by call (see \<open>Calls\<close>): every step is tame, so
  every pass keeps what its calls keep.
\<close>

section \<open>The Cluster controller\<close>

lemma keeps_createClusterSA [client_intros]:
  assumes k: "calm_client A P k" and "A (om_Namespace m)"
  shows "keeps P (createClusterSA k m b)"
  using assms(2) unfolding createClusterSA_def by (intro keeps_intros client_intros [OF k]) simp_all

lemma keeps_createOrUpdateClusterRole [client_intros]:
  assumes k: "calm_client A P k" and "A (om_Namespace m)"
  shows "keeps P (createOrUpdateClusterRole k m)"
  using assms(2) unfolding createOrUpdateClusterRole_def
  by (intro keeps_intros client_intros [OF k]) (auto simp: keyOf_def intro: calm_answers(5) [OF k])

lemma keeps_createOrUpdateClusterRoleBinding [client_intros]:
  assumes k: "calm_client A P k" and "A (om_Namespace m)"
  shows "keeps P (createOrUpdateClusterRoleBinding k m)"
  using assms(2) unfolding createOrUpdateClusterRoleBinding_def
  by (intro keeps_intros client_intros [OF k])
    (auto simp: keyOf_def clusterBinding_def intro: calm_answers(6) [OF k])

lemma tame_createClusterRBAC: "tame A P createClusterRBAC"
proof (rule tameI)
  show "gentle A createClusterRBAC"
    by (rule gentleI) (auto simp: createClusterRBAC_def Let_def elim!: bnd_RetE split: option.splits)
  fix obj :: Object and data :: "'a Context"
  assume k: "calm_client A P (ctx_Client data)" and "A (GetNamespace obj)"
  then show "keeps P (createClusterRBAC obj data)"
    unfolding createClusterRBAC_def clusterObjMeta_def
    by (intro keeps_intros client_intros [OF k]) simp_all
qed

text \<open>A new token is only made where there was none.\<close>

lemma derived_newClusterStatus:
  assumes "newClusterStatus rt c w = (Ret (Inr c'), w')" and "cst_BootstrapToken (cl_Status c) = None"
  shows "derivedFrom c c'"
  using assms newClusterStatus_fields [OF assms(1)] by (simp add: derivedFrom_def tokenKept_def)

lemma derived_expireToken:
  "cst_BootstrapToken (cl_Status c) = Some t \<Longrightarrow> derivedFrom c (putBootstrapToken (expireToken now t) c)"
  by (simp add: derivedFrom_def tokenKept_def expireToken_def)

lemma tame_setBootstrapToken: "tame A P setBootstrapToken"
proof (rule tameI)
  show "gentle A setBootstrapToken"
    by (rule gentleI, auto simp: setBootstrapToken_def elim!: bnd_RetE
        split: Object.splits sum.splits option.splits if_splits intro: derived_expireToken)
      (rule derivedFrom_trans [OF derived_newClusterStatus derived_expireToken], assumption+)
  fix obj :: Object and data :: "'a Context"
  assume "calm_runtime P (ctx_Runtime data)"
  then show "keeps P (setBootstrapToken obj data)"
    unfolding setBootstrapToken_def newClusterStatus_def generateToken_def
    by (cases obj) (auto intro!: keeps_intros client_intros)
qed

lemma tame_setTenantOwner: "tame A P setTenantOwner"
proof (rule tameI)
  show "gentle A setTenantOwner"
    by (rule gentleI) (auto simp: setTenantOwner_def elim!: bnd_RetE split: sum.splits)
  fix obj :: Object and data :: "'a Context"
  assume "calm_client A P (ctx_Client data)"
  then show "keeps P (setTenantOwner obj data)"
    unfolding setTenantOwner_def by (intro keeps_intros client_intros)
qed

lemma derived_applyClusterTemplate: "applyClusterTemplate cd c t = (c', e) \<Longrightarrow> derivedFrom c c'"
  by (auto simp: applyClusterTemplate_def derivedFrom_def split: option.splits prod.splits)

lemma tame_applyClusterTemplateFromTenant: "tame A P (applyClusterTemplateFromTenant cd)"
proof (rule tameI)
  show "gentle A (applyClusterTemplateFromTenant cd)"
    by (rule gentleI) (auto simp: applyClusterTemplateFromTenant_def elim!: bnd_RetE
        split: Object.splits sum.splits option.splits prod.splits dest: derived_applyClusterTemplate)
  fix obj :: Object and data :: "'a Context"
  assume "calm_client A P (ctx_Client data)"
  then show "keeps P (applyClusterTemplateFromTenant cd obj data)"
    unfolding applyClusterTemplateFromTenant_def by (cases obj) (auto intro!: keeps_intros client_intros)
qed

lemma tame_clusterSteps:
  "calm_vault P env \<Longrightarrow> \<forall>s \<in> set (clusterSteps fuel env cd). tame A P (step_F s)"
  by (simp add: clusterSteps_def tame_createClusterRBAC tame_CheckIfDeleted tame_setBootstrapToken
      tame_CreateOrUpdateVault tame_HandleVaultDeletion tame_setTenantOwner
      tame_applyClusterTemplateFromTenant)

lemma tame_clusterPipeline:
  assumes "calm_vault P env"
  shows "\<forall>s \<in> set (clusterPipeline fuel env cd). tame A P (step_F s)"
proof -
  from tame_pipeline [OF tame_clusterSteps [OF assms]] have "tame A P (SpecificSteps fuel env cd)"
    by (simp add: SpecificSteps_def [abs_def])
  then show ?thesis
    by (simp add: clusterPipeline_def tame_DeepCopyOriginal tame_CreateOrUpdate
        tame_UpdateURLAndHostKeys tame_AddTenantLabel tame_Common)
qed

text \<open>The world a pass over a cluster leaves is that of the read, or that of the pipeline run on the
  cluster it has read.\<close>

lemma ClusterReconcile_world:
  obtains (nothing) "snd (ClusterReconcile fuel env cd r request w) = snd (k_GetCluster (cr_Client r) request w)"
  | (pass) c w1 where "k_GetCluster (cr_Client r) request w = (Ret (Inr c), w1)"
      and "snd (ClusterReconcile fuel env cd r request w) =
        snd (RunPipeline (ClusterObj c) (clusterContext r) (clusterPipeline fuel env cd) w1)"
proof (cases rule: outcome_world_cases [of "k_GetCluster (cr_Client r) request" w])
  case (Ret g w1)
  show thesis
  proof (cases g)
    case (Inl err)
    with Ret show thesis by - (rule nothing, simp add: ClusterReconcile_def)
  next
    case (Inr c)
    have "snd (bnd m (\<lambda>(_, _, res). ret (f res)) w1) = snd (m w1)" for m :: "('a, 'x \<times> 'y \<times> Result) go" and f :: "Result \<Rightarrow> 'z"
      by (cases rule: outcome_world_cases [of m w1]) (auto split: prod.split)
    with Ret Inr show thesis by (intro pass [of c w1]) (simp_all add: ClusterReconcile_def)
  qed
qed (use nothing in \<open>simp_all add: ClusterReconcile_def\<close>)

text \<open>The pipeline keeps \<open>P\<close> if the status of what is derived from the cluster can be written.\<close>

lemma keeps_clusterPipeline:
  assumes "calm_client A P (cr_Client r)" and "calm_runtime P (cr_Runtime r)" and "calm_vault P env"
    and "safeToWrite A P (cr_Client r) (ClusterObj c)"
  shows "keeps P (RunPipeline (ClusterObj c) (clusterContext r) (clusterPipeline fuel env cd))"
  using tame_keeps [OF tame_pipeline [OF tame_clusterPipeline [OF assms(3)]],
      where data = "clusterContext r" and obj = "ClusterObj c"]
    assms by (simp add: calmContext_def clusterContext_def)

section \<open>The Tenant controller\<close>

lemma ApplyTemplate_meta: "Tenant_ApplyTemplate merge t tt = (t', e) \<Longrightarrow> om_Namespace (tn_Meta t') = om_Namespace (tn_Meta t)"
  by (auto simp: Tenant_ApplyTemplate_def split: option.splits prod.splits)

lemma putTemplateFiles_meta [simp]: "tn_Meta (putTemplateFiles files t) = tn_Meta t"
  by (simp add: putTemplateFiles_def Let_def)

lemma tame_applyTemplateFromTenantTemplate: "tame A P (applyTemplateFromTenantTemplate merge)"
proof (rule tameI)
  show "gentle A (applyTemplateFromTenantTemplate merge)"
    by (rule gentleI) (auto simp: applyTemplateFromTenantTemplate_def dest!: ApplyTemplate_meta elim!: bnd_RetE
        split: Object.splits sum.splits option.splits prod.splits if_splits)
  fix obj :: Object and data :: "'a Context"
  assume "calm_client A P (ctx_Client data)"
  then show "keeps P (applyTemplateFromTenantTemplate merge obj data)"
    unfolding applyTemplateFromTenantTemplate_def by (cases obj) (auto intro!: keeps_intros client_intros)
qed

lemma tame_addDefaultClassFile: "tame A P addDefaultClassFile"
proof (rule tameI)
  show "gentle A addDefaultClassFile"
    by (rule gentleI) (auto simp: addDefaultClassFile_def Let_def split: prod.splits if_splits
        dest: carries_GetGitTemplate intro: carries_trans [OF carries_GetGitTemplate carries_PutGitTemplate])
qed (auto simp: addDefaultClassFile_def Let_def intro!: keeps_intros)

lemma tame_updateTenantGitRepo: "tame A P updateTenantGitRepo"
proof (rule tameI)
  show "gentle A updateTenantGitRepo"
    by (rule gentleI) (auto simp: updateTenantGitRepo_def Let_def elim!: bnd_RetE
        split: Object.splits sum.splits prod.splits if_splits)
  fix obj :: Object and data :: "'a Context"
  assume "calm_client A P (ctx_Client data)" "calm_runtime P (ctx_Runtime data)"
  then show "keeps P (updateTenantGitRepo obj data)"
    unfolding updateTenantGitRepo_def by (cases obj) (auto intro!: keeps_intros client_intros)
qed

lemma tame_setGlobalGitRepoURL: "tame A P setGlobalGitRepoURL"
  by (rule tameI) (auto simp: setGlobalGitRepoURL_def intro!: gentleI keeps_intros
      split: Object.splits if_splits)

text \<open>What is made for a tenant is in its namespace.\<close>

lemma tenantMeta_namespace [simp]: "om_Namespace (setManagedByLabel (tenantMeta t)) = om_Namespace (tn_Meta t)"
  "om_Namespace (tenantMeta t) = om_Namespace (tn_Meta t)"
  by (simp_all add: setManagedByLabel_def tenantMeta_def)

lemma new_objects_namespace:
  assumes k: "calm_client A P k" and "A (om_Namespace (tn_Meta t))"
  shows "newServiceAccount k t = Inr sa \<Longrightarrow> A (om_Namespace (sa_Meta sa))"
    and "newServiceAccountTokenSecret k t = Inr s \<Longrightarrow> A (om_Namespace (sec_Meta s))"
    and "NewRoleBinding k t = Inr b \<Longrightarrow> A (om_Namespace (rb_Meta b))"
  using assms(2) calm_answers(10) [OF k, of "tn_Meta t"]
  by (auto simp: newServiceAccount_def newServiceAccountTokenSecret_def NewRoleBinding_def Let_def
      setManagedByLabel_def tenantMeta_def map_sum_def split: sum.splits)

lemma tame_createServiceAccount: "tame A P createServiceAccount"
proof (rule tameI)
  show "gentle A createServiceAccount"
    by (rule gentleI) (auto simp: createServiceAccount_def elim!: bnd_RetE
        split: Object.splits sum.splits option.splits if_splits)
  fix obj :: Object and data :: "'a Context"
  assume k: "calm_client A P (ctx_Client data)" and A: "A (GetNamespace obj)"
  show "keeps P (createServiceAccount obj data)"
  proof (cases obj)
    case (TenantObj t)
    with A new_objects_namespace [OF k, of t] show ?thesis
      unfolding createServiceAccount_def TenantObj Object.case
      by (intro keeps_intros client_intros [OF k]) simp_all
  qed (simp_all add: createServiceAccount_def keeps_ret)
qed

lemma tame_reconcileRole: "tame A P reconcileRole"
proof (rule tameI)
  show "gentle A reconcileRole"
    by (rule gentleI) (auto simp: reconcileRole_def Let_def elim!: bnd_RetE
        split: Object.splits sum.splits option.splits prod.splits)
  fix obj :: Object and data :: "'a Context"
  assume k: "calm_client A P (ctx_Client data)" and A: "A (GetNamespace obj)"
  show "keeps P (reconcileRole obj data)"
  proof (cases obj)
    case (TenantObj t)
    with A show ?thesis
      unfolding reconcileRole_def TenantObj Object.case
      by (intro keeps_intros client_intros [OF k]) simp_all
  qed (simp_all add: reconcileRole_def keeps_ret)
qed

lemma tame_createRoleBinding: "tame A P createRoleBinding"
proof (rule tameI)
  show "gentle A createRoleBinding"
    by (rule gentleI) (auto simp: createRoleBinding_def elim!: bnd_RetE
        split: Object.splits sum.splits option.splits)
  fix obj :: Object and data :: "'a Context"
  assume k: "calm_client A P (ctx_Client data)" and A: "A (GetNamespace obj)"
  show "keeps P (createRoleBinding obj data)"
  proof (cases obj)
    case (TenantObj t)
    with A new_objects_namespace [OF k, of t] show ?thesis
      unfolding createRoleBinding_def TenantObj Object.case
      by (intro keeps_intros client_intros [OF k]) simp_all
  qed (simp_all add: createRoleBinding_def keeps_ret)
qed

lemma tame_tenantPipeline: "\<forall>s \<in> set (tenantPipeline merge). tame A P (step_F s)"
proof -
  have "\<forall>s \<in> set (tenantSteps merge). tame A P (step_F s)"
    by (simp add: tenantSteps_def tame_applyTemplateFromTenantTemplate tame_addDefaultClassFile
        tame_updateTenantGitRepo tame_setGlobalGitRepoURL tame_createServiceAccount tame_reconcileRole
        tame_createRoleBinding)
  from tame_pipeline [OF this] have "tame A P (Tenant_Steps merge)"
    by (simp add: Tenant_Steps_def [abs_def])
  then show ?thesis
    by (simp add: tenantPipeline_def tame_DeepCopyOriginal tame_CreateOrUpdate
        tame_UpdateURLAndHostKeys tame_Common)
qed

text \<open>Objects of the other kinds can always be written.\<close>

lemma safeToWrite_others:
  assumes k: "calm_client A P k"
  shows "A (om_Namespace (tn_Meta t)) \<Longrightarrow> safeToWrite A P k (TenantObj t)"
    and "A (om_Namespace (gr_Meta g)) \<Longrightarrow> safeToWrite A P k (GitRepoObj g)"
  by (auto simp: safeToWrite_def carries_def split: Object.splits intro!: keeps_intros client_intros [OF k])

lemma keeps_TenantReconcile:
  assumes k: "calm_client A P (tr_Client r)" and "calm_runtime P (tr_Runtime r)"
    and "A (nn_Namespace request)"
  shows "keeps P (TenantReconcile merge r request)"
proof -
  have "keeps P (RunPipeline (TenantObj t) (tenantContext r) (tenantPipeline merge))"
    if "A (om_Namespace (tn_Meta t))" for t
    using tame_keeps [OF tame_pipeline [OF tame_tenantPipeline], where data = "tenantContext r" and obj = "TenantObj t"]
      assms(1,2) safeToWrite_others(1) [OF k that]
    by (simp add: calmContext_def tenantContext_def)
  with assms(3) calm_answers(2) [OF k] show ?thesis
    unfolding TenantReconcile_def by (intro keeps_intros client_intros [OF k]) auto
qed
section \<open>The GitRepo controller\<close>

lemma setters_meta [simp]: "gr_Meta (setPhase p g) = gr_Meta g" "gr_Meta (setURL u g) = gr_Meta g"
  "gr_Meta (putDeployKeys m g) = gr_Meta g"
  by (simp_all add: setPhase_def setURL_def putDeployKeys_def)

text \<open>In which namespace the repository object is that a function leaves.\<close>

lemma fetchGitRepoTemplate_meta: "fetchGitRepoTemplate k g w = (Ret (g', e), w') \<Longrightarrow> gr_Meta g' = gr_Meta g"
  by (auto simp: fetchGitRepoTemplate_def Let_def elim!: bnd_RetE split: sum.splits option.splits if_splits)

lemma ensureCIVariables_meta: "ensureCIVariables dp k ri repo g w = (Ret (g', e), w') \<Longrightarrow> gr_Meta g' = gr_Meta g"
  by (auto simp: ensureCIVariables_def Let_def elim!: bnd_RetE split: sum.splits option.splits)

lemma ensureGeneratedDeployKeys_meta:
  "ensureGeneratedDeployKeys dp rt k g w = (Ret (g', e), w') \<Longrightarrow> gr_Meta g' = gr_Meta g"
  by (auto simp: ensureGeneratedDeployKeys_def Let_def elim!: bnd_RetE)

lemma handleRepoError_namespace:
  assumes "answers_in A k" and "handleRepoError k err g w = (Ret (g', e), w')" and "A (om_Namespace (gr_Meta g))"
  shows "A (om_Namespace (gr_Meta g'))"
  using assms answers_status [OF assms(1)]
  by (auto simp: handleRepoError_def Let_def elim!: bnd_RetE split: sum.splits)

lemma failWith_namespace:
  "answers_in A k \<Longrightarrow> failWith k err g w = (Ret (g', r), w') \<Longrightarrow> A (om_Namespace (gr_Meta g)) \<Longrightarrow>
     A (om_Namespace (gr_Meta g'))"
  by (auto simp: failWith_def elim!: bnd_RetE intro: handleRepoError_namespace)

lemma createRepo_namespace:
  assumes "answers_in A k" and "createRepo k ri repo g w = (Ret (repo', g', e), w')" and "A (om_Namespace (gr_Meta g))"
  shows "A (om_Namespace (gr_Meta g'))"
  using assms answers_status [OF assms(1)]
  by (auto simp: createRepo_def Let_def elim!: bnd_RetE split: sum.splits option.splits
      dest!: handleRepoError_namespace [OF assms(1)])

lemma applyRepo_namespace:
  assumes "answers_in A k" and "applyRepo dp k ri repo g w = (Ret (g', r), w')" and "A (om_Namespace (gr_Meta g))"
  shows "A (om_Namespace (gr_Meta g'))"
  using assms(2,3)
  by (auto simp: applyRepo_def elim!: bnd_RetE split: option.splits
      dest!: ensureCIVariables_meta failWith_namespace [OF assms(1)])

lemma existingRepo_namespace:
  assumes "answers_in A k" and "existingRepo dp k d ri repo g w = (Ret (g', r), w')" and "A (om_Namespace (gr_Meta g))"
  shows "A (om_Namespace (gr_Meta g'))"
  using assms(2,3)
  by (auto simp: existingRepo_def elim!: bnd_RetE split: option.splits if_splits
      dest!: failWith_namespace [OF assms(1)] applyRepo_namespace [OF assms(1)])

lemma managedRepo_namespace:
  assumes "answers_in A k" and "managedRepo dp rt k d ri gf g w = (Ret (g', r), w')" and "A (om_Namespace (gr_Meta g))"
  shows "A (om_Namespace (gr_Meta g'))"
  using assms(2,3)
  by (auto simp: managedRepo_def Let_def elim!: bnd_RetE split: option.splits sum.splits bool.splits
      dest!: ensureGeneratedDeployKeys_meta failWith_namespace [OF assms(1)] createRepo_namespace [OF assms(1)]
        existingRepo_namespace [OF assms(1)])

text \<open>The calls.\<close>

lemma keeps_fetchGitRepoTemplate [client_intros]: "calm_client A P k \<Longrightarrow> keeps P (fetchGitRepoTemplate k g)"
  unfolding fetchGitRepoTemplate_def by (intro keeps_intros client_intros)

lemma keeps_repoExists [keeps_intros]: "calm_repo P ri \<Longrightarrow> keeps P (repoExists ri repo)"
  unfolding repoExists_def by (intro keeps_intros)

lemma keeps_handleRepoError [client_intros]:
  assumes k: "calm_client A P k" and "A (om_Namespace (gr_Meta g))"
  shows "keeps P (handleRepoError k e g)"
  using assms(2) unfolding handleRepoError_def by (intro keeps_intros client_intros [OF k]) simp_all

lemma keeps_failWith [client_intros]:
  assumes k: "calm_client A P k" and "A (om_Namespace (gr_Meta g))"
  shows "keeps P (failWith k e g)"
  using assms(2) unfolding failWith_def by (intro keeps_intros client_intros [OF k]) simp_all

lemma keeps_mutateTokenSecret [keeps_intros]: "calm_repo P ri \<Longrightarrow> keeps P (mutateTokenSecret dp k ri repo g s)"
  unfolding mutateTokenSecret_def by (intro keeps_intros)

lemma keeps_ensureAccessToken [client_intros]:
  assumes k: "calm_client A P k" and "calm_repo P ri" and "A (om_Namespace (gr_Meta g))"
  shows "keeps P (ensureAccessToken dp k ri repo g)"
  using assms(2,3) unfolding ensureAccessToken_def
  by (intro keeps_intros client_intros [OF k]) (simp_all add: emptySecret_def)

lemma keeps_valueFromEnvVar [client_intros]: "calm_client A P k \<Longrightarrow> keeps P (valueFromEnvVar k ns v)"
  unfolding valueFromEnvVar_def by (intro keeps_intros client_intros)

lemma keeps_collectValues [client_intros]: "calm_client A P k \<Longrightarrow> keeps P (collectValues k ns vs)"
  by (induction vs) (auto intro!: keeps_intros client_intros)

lemma keeps_ensureCIVariables [client_intros]:
  assumes k: "calm_client A P k" and "calm_repo P ri"
  shows "keeps P (ensureCIVariables dp k ri repo g)"
  using assms(2) unfolding ensureCIVariables_def by (intro keeps_intros client_intros [OF k])

lemma keeps_staleKeys [client_intros]:
  assumes k: "calm_client A P k" and "A ns"
  shows "keeps P (staleKeys k ns spec olds)"
proof (induction olds)
  case (Cons x olds)
  with assms(2) show ?case
    by (cases x) (auto simp del: not_None_eq intro!: keeps_intros client_intros [OF k] intro: calm_answers(4) [OF k])
qed (simp add: keeps_ret)

lemma keeps_deployKeySecret [client_intros]:
  assumes k: "calm_client A P k" and "calm_keygen P dp" and "A (nn_Namespace n)"
  shows "keeps P (deployKeySecret dp k settings n g)"
  using assms(2,3) unfolding deployKeySecret_def generateNewDeployKeySecret_def
  by (intro keeps_intros client_intros [OF k]) (simp_all add: emptySecret_def)

lemma keeps_recordKey [keeps_intros]: "keeps P (recordKey settings n s pubkey status)"
  unfolding recordKey_def by (intro keeps_intros)

lemma keeps_wantedKeys [client_intros]:
  assumes k: "calm_client A P k" and "calm_keygen P dp" and "A (om_Namespace (gr_Meta g))"
  shows "keeps P (wantedKeys dp k g news status)"
proof (induction news arbitrary: status)
  case (Cons x news)
  with assms(2,3) show ?case by (cases x) (auto intro!: keeps_intros client_intros [OF k])
qed (simp add: keeps_ret)

lemma keeps_ensureGeneratedDeployKeys [client_intros]:
  assumes k: "calm_client A P k" and "calm_runtime P rt" and "calm_keygen P dp" and "A (om_Namespace (gr_Meta g))"
  shows "keeps P (ensureGeneratedDeployKeys dp rt k g)"
  using assms(2-4) unfolding ensureGeneratedDeployKeys_def by (intro keeps_intros client_intros [OF k])

lemma keeps_createRepo [client_intros]:
  assumes k: "calm_client A P k" and "calm_repo P ri" and "A (om_Namespace (gr_Meta g))"
  shows "keeps P (createRepo k ri repo g)"
  using assms(2,3) unfolding createRepo_def
  by (intro keeps_intros client_intros [OF k]) (auto intro: calm_answers(9) [OF k])

lemma keeps_applyRepo [client_intros]:
  assumes k: "calm_client A P k" and "calm_repo P ri" and "A (om_Namespace (gr_Meta g))"
  shows "keeps P (applyRepo dp k ri repo g)"
  using assms(2,3) unfolding applyRepo_def
  by (intro keeps_intros client_intros [OF k]) (auto dest: ensureCIVariables_meta)

lemma keeps_existingRepo [client_intros]:
  assumes k: "calm_client A P k" and "calm_repo P ri" and "A (om_Namespace (gr_Meta g))"
  shows "keeps P (existingRepo dp k deleted ri repo g)"
  using assms(2,3) unfolding existingRepo_def by (intro keeps_intros client_intros [OF k]) simp_all

lemma keeps_GetGitClient [client_intros]:
  assumes k: "calm_client A P k" and "calm_repo P ri"
  shows "keeps P (GetGitClient imps ri k g)"
  using assms(2) unfolding GetGitClient_def by (intro keeps_intros client_intros [OF k])

lemma keeps_managedRepo [client_intros]:
  assumes k: "calm_client A P k" and rt: "calm_runtime P rt" and ri: "calm_repo P ri" and dp: "calm_keygen P dp"
    and gf: "\<And>g. keeps P (gf g)" and A: "A (om_Namespace (gr_Meta g))"
  shows "keeps P (managedRepo dp rt k deleted ri gf g)"
  unfolding managedRepo_def using rt ri dp A
  by (intro keeps_intros client_intros [OF k] gf)
    (auto dest!: ensureGeneratedDeployKeys_meta createRepo_namespace [OF calm_client_answers [OF k]])

lemma tame_GitRepo_Steps:
  assumes "calm_repo P ri" and "calm_keygen P dp"
  shows "tame A P (GitRepo_Steps dp imps ri)"
proof (rule tameI)
  show "gentle A (GitRepo_Steps dp imps ri)"
    by (rule gentleI, auto simp: GitRepo_Steps_def gitrepo_steps_def elim!: bnd_RetE
        split: Object.splits option.splits if_splits dest!: fetchGitRepoTemplate_meta)
      (rule managedRepo_namespace, assumption+, simp)
  fix obj :: Object and data :: "'a Context"
  assume k: "calm_client A P (ctx_Client data)" and rt: "calm_runtime P (ctx_Runtime data)"
    and A: "A (GetNamespace obj)"
  show "keeps P (GitRepo_Steps dp imps ri obj data)"
  proof (cases obj)
    case (GitRepoObj g)
    with A assms rt show ?thesis
      unfolding GitRepo_Steps_def gitrepo_steps_def GitRepoObj Object.case
      by (intro keeps_intros client_intros [OF k]) (auto dest: fetchGitRepoTemplate_meta)
  qed (simp_all add: GitRepo_Steps_def gitrepo_steps_def keeps_ret)
qed

lemma keeps_GitRepoReconcile:
  assumes k: "calm_client A P (grr_Client r)" and "calm_runtime P (grr_Runtime r)"
    and "calm_repo P ri" and "calm_keygen P dp" and "A (nn_Namespace request)"
  shows "keeps P (GitRepoReconcile dp imps ri r request)"
proof -
  have steps: "\<forall>s \<in> set (gitrepoPipeline (GitRepo_Steps dp imps ri)). tame A P (step_F s)"
    by (simp add: gitrepoPipeline_def tame_DeepCopyOriginal tame_CheckIfDeleted tame_AddTenantLabel
        tame_Common tame_GitRepo_Steps [OF assms(3,4)])
  have "keeps P (RunPipeline (GitRepoObj g) (gitrepoContext r) (gitrepoPipeline (GitRepo_Steps dp imps ri)))"
    if "A (om_Namespace (gr_Meta g))" for g
    using tame_keeps [OF tame_pipeline [OF steps], where data = "gitrepoContext r" and obj = "GitRepoObj g"] assms(1,2)
      safeToWrite_others(2) [OF k that]
    by (simp add: calmContext_def gitrepoContext_def)
  with assms(5) calm_answers(3) [OF k] show ?thesis
    unfolding GitRepoReconcile_def by (intro keeps_intros client_intros [OF k]) auto
qed

section \<open>The compile pipeline controller\<close>

lemma keeps_addClusterFinalizer [client_intros]:
  assumes k: "calm_client A P k" and "A (om_Namespace (cl_Meta c))"
  shows "keeps P (addClusterFinalizer k c)"
  using assms(2) unfolding addClusterFinalizer_def by (intro keeps_intros client_intros [OF k]) simp_all

lemma keeps_clusterLoop [client_intros]:
  assumes k: "calm_client A P k"
  shows "\<forall>c \<in> set cs. A (om_Namespace (cl_Meta c)) \<Longrightarrow> keeps P (clusterLoop k cs t ch)"
  by (induction cs arbitrary: t ch) (auto intro!: keeps_intros client_intros [OF k])

lemma keeps_releaseLoop [client_intros]:
  assumes k: "calm_client A P k"
  shows "\<forall>c \<in> set cs. A (om_Namespace (cl_Meta c)) \<Longrightarrow> keeps P (releaseLoop k cs)"
proof (induction cs)
  case (Cons c cs)
  then show ?case
    unfolding releaseLoop.simps by (intro keeps_intros client_intros [OF k]) simp_all
qed (simp add: keeps_ret)

text \<open>The tenant that is written is in the namespace of the one that was read.\<close>

lemma ensureCiVariables_meta: "ensureCiVariables url t cs = Some (t', ch) \<Longrightarrow> tn_Meta t' = tn_Meta t"
  by (auto simp: ensureCiVariables_store dest: storeVars_same sameTenantD(1))

lemma ensureCiVariablesAbsent_meta: "ensureCiVariablesAbsent t = (t', ch) \<Longrightarrow> tn_Meta t' = tn_Meta t"
  by (auto simp: ensureCiVariablesAbsent_store dest: storeVars_same sameTenantD(1))

lemma clusterLoop_meta: "clusterLoop k cs t ch w = (Ret (Inr (t', ch')), w') \<Longrightarrow> tn_Meta t' = tn_Meta t"
  by (induction cs arbitrary: t ch w)
    (fastforce elim!: bnd_RetE split: sum.splits if_splits option.splits
      dest: ensureClusterCiVariable_same sameTenantD(1))+

lemma writeTenant_namespace:
  assumes "calm_client A P k" and "writeTenant k ch t w = (Ret (Inr t'), w')" and "A (om_Namespace (tn_Meta t))"
  shows "A (om_Namespace (tn_Meta t'))"
  using assms(2,3) calm_answers(8) [OF assms(1)]
  by (auto simp: writeTenant_def elim!: bnd_RetE split: if_splits sum.splits)

lemma keeps_syncTenant [client_intros]:
  assumes k: "calm_client A P k" and A: "A (om_Namespace (tn_Meta t))"
    and cs: "\<forall>c \<in> set cs. A (om_Namespace (cl_Meta c))"
  shows "keeps P (syncTenant k url t cs)"
proof -
  have tenant: "keeps P (writeTenant k ch t')" if "A (om_Namespace (tn_Meta t'))" for ch t'
    using that unfolding writeTenant_def by (intro keeps_intros client_intros [OF k])
  have status: "keeps P (writeStatus k enabled t')" if "A (om_Namespace (tn_Meta t'))" for enabled t'
    using that unfolding writeStatus_def
    by (intro keeps_intros client_intros [OF k]) (auto simp: ensureStatus_def Let_def split: if_splits)
  have rest: "keeps P (bnd (clusterLoop k cs t1 ch) (\<lambda>r. case r of
               Inl err \<Rightarrow> ret (Some err)
             | Inr (tenant2, changed) \<Rightarrow>
                 bnd (writeTenant k changed tenant2) (\<lambda>r. case r of
                   Inl err \<Rightarrow> ret (Some err)
                 | Inr tenant3 \<Rightarrow>
                     bnd (writeStatus k enabled tenant3) (\<lambda>e. case e of
                       Some err \<Rightarrow> ret (Some err)
                     | None \<Rightarrow> releaseLoop k cs))))" if "tn_Meta t1 = tn_Meta t" for t1 ch enabled
    using A cs that
    by (intro keeps_intros client_intros [OF k] tenant status)
      (auto dest!: clusterLoop_meta writeTenant_namespace [OF k])
  show ?thesis
    unfolding syncTenant_def Let_def
    by (auto intro!: rest keeps_crash split: option.split prod.split dest: ensureCiVariables_meta ensureCiVariablesAbsent_meta)
qed

lemma keeps_CompilePipeline_Reconcile:
  assumes k: "calm_client A P k" and "A (nn_Namespace request)"
  shows "keeps P (CompilePipeline_Reconcile k url request)"
  using assms(2) calm_answers(2,7) [OF k] unfolding CompilePipeline_Reconcile_def
  by (intro keeps_intros client_intros [OF k]) auto

end
