(* ===== verification/ClusterServer.thy ===== *)
theory ClusterServer
  imports Passes
begin

text \<open>
  The API server as far as clusters go, as an interface (the locale \<open>cluster_server\<close>): versions,
  identities, the status subresource under optimistic locking, reads that may be stale, and what
  other programs do in the meantime. A pass of the operator is shown to keep bootstrap tokens on
  every such server, whatever happens between its calls.
\<close>

section \<open>Stability\<close>

definition stableUnder :: "('w \<Rightarrow> 'w \<Rightarrow> bool) \<Rightarrow> ('w \<Rightarrow> bool) \<Rightarrow> bool" where
  "stableUnder rely P \<longleftrightarrow> (\<forall>w w'. P w \<longrightarrow> rely w w' \<longrightarrow> P w')"

lemma stableUnderD: "stableUnder rely P \<Longrightarrow> P w \<Longrightarrow> rely w w' \<Longrightarrow> P w'"
  by (simp add: stableUnder_def)

lemma stableUnder_rtranclp: "stableUnder rely P \<Longrightarrow> rely\<^sup>*\<^sup>* w w' \<Longrightarrow> P w \<Longrightarrow> P w'"
  by (rotate_tac 1, induction rule: rtranclp_induct) (auto dest: stableUnderD)

section \<open>The interface\<close>

text \<open>An accepted status update: the cluster that is stored has the version and the identity of the one
  that was sent, and gets its status.\<close>

definition statusWritten :: "('w \<Rightarrow> NamespacedName \<Rightarrow> Cluster option) \<Rightarrow> Cluster \<Rightarrow> 'w \<Rightarrow> 'w \<Rightarrow> bool" where
  "statusWritten stored c w w' \<longleftrightarrow> (\<exists>old new.
     stored w (keyOf (cl_Meta c)) = Some old \<and> stored w' (keyOf (cl_Meta c)) = Some new
     \<and> om_UID (cl_Meta old) = om_UID (cl_Meta c)
     \<and> om_ResourceVersion (cl_Meta old) = om_ResourceVersion (cl_Meta c)
     \<and> cl_Status new = cl_Status c
     \<and> (\<forall>n. n \<noteq> keyOf (cl_Meta c) \<longrightarrow> stored w' n = stored w n))"

locale cluster_server =
  fixes k :: "'w Client"
    and stored :: "'w \<Rightarrow> NamespacedName \<Rightarrow> Cluster option"
    and later :: "'w \<Rightarrow> 'w \<Rightarrow> bool"
    and rely :: "'w \<Rightarrow> 'w \<Rightarrow> bool"
  assumes later_refl: "later w w"
    and later_trans: "later w w1 \<Longrightarrow> later w1 w2 \<Longrightarrow> later w w2"
    and named: "stored w n = Some c \<Longrightarrow> keyOf (cl_Meta c) = n"
    and version_unique: "later w w' \<Longrightarrow> stored w n = Some c \<Longrightarrow> stored w' n = Some c' \<Longrightarrow>
      om_ResourceVersion (cl_Meta c') = om_ResourceVersion (cl_Meta c) \<Longrightarrow> c' = c"
    and uid_not_reused: "later w w1 \<Longrightarrow> later w1 w2 \<Longrightarrow> stored w n = Some c \<Longrightarrow> stored w2 n = Some c2 \<Longrightarrow>
      om_UID (cl_Meta c2) = om_UID (cl_Meta c) \<Longrightarrow>
      \<exists>c1. stored w1 n = Some c1 \<and> om_UID (cl_Meta c1) = om_UID (cl_Meta c)"
    and rely_later: "rely w w' \<Longrightarrow> later w w'"
    and rely_token: "rely w w' \<Longrightarrow> stored w n = Some c \<Longrightarrow> stored w' n = Some c' \<Longrightarrow>
      om_UID (cl_Meta c') = om_UID (cl_Meta c) \<Longrightarrow> tokenKept (cl_Status c) (cl_Status c')"
    and calls: "stableUnder rely P \<Longrightarrow> calm_client (\<lambda>_. True) P k"
    and reads: "k_GetCluster k n w = (Ret (Inr c), w') \<Longrightarrow> \<exists>w0. later w0 w' \<and> stored w0 n = Some c"
    and status_update: "rely\<^sup>*\<^sup>* w (snd (k_StatusUpdateCluster k c w)) \<or>
      (\<exists>w1 w2. rely\<^sup>*\<^sup>* w w1 \<and> later w1 w2 \<and> statusWritten stored c w1 w2 \<and>
         rely\<^sup>*\<^sup>* w2 (snd (k_StatusUpdateCluster k c w)))"
begin

text \<open>A later world in which the tokens of the clusters that are still there are kept.\<close>

definition tokensKept :: "'w \<Rightarrow> 'w \<Rightarrow> bool" where
  "tokensKept w w' \<longleftrightarrow> later w w' \<and> (\<forall>n c c'. stored w n = Some c \<longrightarrow> stored w' n = Some c' \<longrightarrow>
     om_UID (cl_Meta c') = om_UID (cl_Meta c) \<longrightarrow> tokenKept (cl_Status c) (cl_Status c'))"

lemma tokensKept_refl: "tokensKept w w"
  by (simp add: tokensKept_def later_refl)

lemma tokensKept_later: "tokensKept w w' \<Longrightarrow> later w w'"
  by (simp add: tokensKept_def)

lemma tokensKeptD:
  "tokensKept w w' \<Longrightarrow> stored w n = Some c \<Longrightarrow> stored w' n = Some c' \<Longrightarrow>
     om_UID (cl_Meta c') = om_UID (cl_Meta c) \<Longrightarrow> tokenKept (cl_Status c) (cl_Status c')"
  unfolding tokensKept_def by blast

lemma tokensKept_trans:
  assumes a: "tokensKept w w1" and b: "tokensKept w1 w2"
  shows "tokensKept w w2"
  unfolding tokensKept_def
proof (intro conjI allI impI)
  show "later w w2" using a b by (blast intro: later_trans tokensKept_later)
  fix n c c2
  assume c: "stored w n = Some c" and c2: "stored w2 n = Some c2" and u: "om_UID (cl_Meta c2) = om_UID (cl_Meta c)"
  from uid_not_reused [OF tokensKept_later [OF a] tokensKept_later [OF b] c c2 u] obtain c1
    where c1: "stored w1 n = Some c1" "om_UID (cl_Meta c1) = om_UID (cl_Meta c)" by blast
  from tokensKeptD [OF a c c1] tokensKeptD [OF b c1(1) c2] u c1(2)
  show "tokenKept (cl_Status c) (cl_Status c2)" by (simp add: tokenKept_trans)
qed

lemma rely_tokensKept: "rely w w' \<Longrightarrow> tokensKept w w'"
  unfolding tokensKept_def using rely_later rely_token by blast

lemma stable_tokensKept: "stableUnder rely (tokensKept w)"
  unfolding stableUnder_def by (blast intro: tokensKept_trans rely_tokensKept)

lemma relies_tokensKept: "rely\<^sup>*\<^sup>* w w' \<Longrightarrow> tokensKept w w'"
  using stableUnder_rtranclp [OF stable_tokensKept _ tokensKept_refl] by blast

text \<open>The heart of the matter: a status that is derived from an earlier version is either refused or
  replaces that very version.\<close>

lemma status_update_kept:
  assumes read: "later w0 w" "stored w0 n = Some c0" and c: "derivedFrom c0 c"
  shows "tokensKept w (snd (k_StatusUpdateCluster k c w))"
  using status_update [of w c]
proof (elim disjE exE conjE)
  fix w1 w2
  assume r1: "rely\<^sup>*\<^sup>* w w1" and l: "later w1 w2" and s: "statusWritten stored c w1 w2"
    and r2: "rely\<^sup>*\<^sup>* w2 (snd (k_StatusUpdateCluster k c w))"
  have n: "keyOf (cl_Meta c) = n"
    using c named [OF read(2)] by (simp add: derivedFrom_def keyOf_def)
  with s obtain old new where old: "stored w1 n = Some old" and new: "stored w2 n = Some new"
    and v: "om_ResourceVersion (cl_Meta old) = om_ResourceVersion (cl_Meta c)"
    and st: "cl_Status new = cl_Status c" and rest: "\<forall>m. m \<noteq> n \<longrightarrow> stored w2 m = stored w1 m"
    unfolding statusWritten_def by blast
  have "later w0 w1" using read(1) tokensKept_later [OF relies_tokensKept [OF r1]] by (rule later_trans)
  from version_unique [OF this read(2) old] v c have "old = c0" by (simp add: derivedFrom_def)
  with c st have kept: "tokenKept (cl_Status old) (cl_Status new)" by (simp add: derivedFrom_def)
  have "tokensKept w1 w2"
    unfolding tokensKept_def
  proof (intro conjI allI impI)
    fix m a b
    assume "stored w1 m = Some a" "stored w2 m = Some b" "om_UID (cl_Meta b) = om_UID (cl_Meta a)"
    with rest old new kept show "tokenKept (cl_Status a) (cl_Status b)" by (cases "m = n") auto
  qed (rule l)
  with r1 r2 show ?thesis by (meson relies_tokensKept tokensKept_trans)
qed (rule relies_tokensKept)

lemma safe_after_read:
  assumes "k_GetCluster k n w = (Ret (Inr c), w1)"
  shows "safeToWrite (\<lambda>_. True) (tokensKept w1) k (ClusterObj c)"
  unfolding safeToWrite_def
proof (intro conjI TrueI allI impI)
  fix obj' assume "carries (\<lambda>_. True) (ClusterObj c) obj'"
  then obtain c' where obj': "obj' = ClusterObj c'" and c': "derivedFrom c c'"
    by (auto simp: carries_def split: Object.splits)
  from reads [OF assms] obtain w0 where w0: "later w0 w1" "stored w0 n = Some c" by blast
  have "tokensKept w1 (snd (k_StatusUpdateCluster k c' w))" if "tokensKept w1 w" for w
    using status_update_kept [of w0 w n c c'] w0 c' that by (meson later_trans tokensKept_later tokensKept_trans)
  then have "keeps (tokensKept w1) (k_StatusUpdateCluster k c')" by (rule keepsI)
  then show "keeps (tokensKept w1) (kStatusUpdate k obj')"
    by (auto simp: obj' intro!: keeps_intros)
qed

end

end
