(* ===== verification/Wiring.thy ===== *)
theory Wiring
  imports CompilePipeline TenantController GitRepoController
begin

text \<open>
  How \<open>main.go\<close> builds the operator: the flags and their defaults, the four reconcilers on one
  client, the index of clusters by tenant, and what wakes each controller (the four functions
  \<open>SetupWithManager\<close>). Parameters are the handler of controller-runtime for owned objects and the
  client. \<open>Startup\<close> has the order in which \<open>main\<close> puts them together.
\<close>

section \<open>Flags and reconcilers (main.go)\<close>

record Flags =
  fl_MetricsAddr :: string
  fl_ProbeAddr :: string
  fl_ApiUrl :: string
  fl_GitRepoMaxReconcileInterval :: time
  fl_EnableLeaderElection :: bool
  fl_SkipVaultSetup :: bool
  fl_DefaultDeletionPolicy :: string
  fl_DefaultCreationPolicy :: string
  fl_UseDeleteProtection :: bool
  fl_DefGlobalGitRepoUrl :: string
  fl_WatchNamespace :: string
  fl_CreateSaTokenSecret :: bool

definition defaultFlags :: Flags where
  "defaultFlags = \<lparr>fl_MetricsAddr = '':8080'', fl_ProbeAddr = '':8081'',
     fl_ApiUrl = ''localhost'', fl_GitRepoMaxReconcileInterval = 3 * 3600000000000,
     fl_EnableLeaderElection = False, fl_SkipVaultSetup = False, fl_DefaultDeletionPolicy = ''Archive'',
     fl_DefaultCreationPolicy = ''Create'', fl_UseDeleteProtection = False,
     fl_DefGlobalGitRepoUrl = '''', fl_WatchNamespace = ''default'', fl_CreateSaTokenSecret = False\<rparr>"

definition mainClusterReconciler :: "Flags \<Rightarrow> 'w Client \<Rightarrow> 'w Runtime \<Rightarrow> 'w ClusterReconciler" where
  "mainClusterReconciler fl k rt = \<lparr>cr_Client = k, cr_Runtime = rt,
     cr_CreateSATokenSecret = fl_CreateSaTokenSecret fl,
     cr_DefaultCreationPolicy = getDefaultCreationPolicy (fl_DefaultCreationPolicy fl),
     cr_DefaultDeletionPolicy = getDefaultDeletionPolicy (fl_DefaultDeletionPolicy fl),
     cr_UseVault = (\<not> fl_SkipVaultSetup fl), cr_DeleteProtection = fl_UseDeleteProtection fl\<rparr>"

definition mainGitRepoReconciler :: "Flags \<Rightarrow> 'w Client \<Rightarrow> 'w Runtime \<Rightarrow> 'w GitRepoReconciler" where
  "mainGitRepoReconciler fl k rt = \<lparr>grr_Client = k, grr_Runtime = rt,
     grr_DefaultCreationPolicy = getDefaultCreationPolicy (fl_DefaultCreationPolicy fl),
     grr_MaxReconcileInterval = fl_GitRepoMaxReconcileInterval fl,
     grr_DeleteProtection = fl_UseDeleteProtection fl\<rparr>"

definition mainTenantReconciler :: "Flags \<Rightarrow> 'w Client \<Rightarrow> 'w Runtime \<Rightarrow> 'w TenantReconciler" where
  "mainTenantReconciler fl k rt = \<lparr>tr_Client = k, tr_Runtime = rt,
     tr_CreateSATokenSecret = fl_CreateSaTokenSecret fl,
     tr_DefaultCreationPolicy = getDefaultCreationPolicy (fl_DefaultCreationPolicy fl),
     tr_DefaultDeletionPolicy = getDefaultDeletionPolicy (fl_DefaultDeletionPolicy fl),
     tr_DefaultGlobalGitRepoUrl = fl_DefGlobalGitRepoUrl fl,
     tr_DeleteProtection = fl_UseDeleteProtection fl\<rparr>"

lemmas main_reconcilers = mainClusterReconciler_def mainGitRepoReconciler_def mainTenantReconciler_def

text \<open>The index that \<open>reconcileRole\<close> lists the clusters of a tenant by.\<close>

definition tenantRefIndex :: "Cluster \<Rightarrow> string list" where
  "tenantRefIndex cluster = [cs_TenantRef (cl_Spec cluster)]"

section \<open>What wakes a controller (SetupWithManager)\<close>

datatype Kind = KCluster | KTenant | KGitRepo | KTenantTemplate | KServiceAccount | KSecret | KRole | KRoleBinding

datatype Resource =
    R_Cluster Cluster
  | R_Tenant Tenant
  | R_GitRepo GitRepo
  | R_TenantTemplate TenantTemplate
  | R_ServiceAccount ServiceAccount
  | R_Secret Secret
  | R_Role Role
  | R_RoleBinding RoleBinding

fun kindOf :: "Resource \<Rightarrow> Kind" where
  "kindOf (R_Cluster x) = KCluster"
| "kindOf (R_Tenant x) = KTenant"
| "kindOf (R_GitRepo x) = KGitRepo"
| "kindOf (R_TenantTemplate x) = KTenantTemplate"
| "kindOf (R_ServiceAccount x) = KServiceAccount"
| "kindOf (R_Secret x) = KSecret"
| "kindOf (R_Role x) = KRole"
| "kindOf (R_RoleBinding x) = KRoleBinding"

fun metaOf :: "Resource \<Rightarrow> ObjectMeta" where
  "metaOf (R_Cluster x) = cl_Meta x"
| "metaOf (R_Tenant x) = tn_Meta x"
| "metaOf (R_GitRepo x) = gr_Meta x"
| "metaOf (R_TenantTemplate x) = tt_Meta x"
| "metaOf (R_ServiceAccount x) = sa_Meta x"
| "metaOf (R_Secret x) = sec_Meta x"
| "metaOf (R_Role x) = role_Meta x"
| "metaOf (R_RoleBinding x) = rb_Meta x"

text \<open>\<open>For\<close>, \<open>Owns\<close> and \<open>Watches\<close> of the builder: which objects a handler sees, and the handler. The
  handler of owned objects, \<open>own\<close>, gets the kind that owns.\<close>

record 'w Watch =
  wt_Kind :: Kind
  wt_Handler :: "Resource \<Rightarrow> ('w, NamespacedName list) go"

type_synonym ownerHandler = "Kind \<Rightarrow> ObjectMeta \<Rightarrow> NamespacedName list"

fun kindName :: "Kind \<Rightarrow> string" where
  "kindName KCluster = ''Cluster''"
| "kindName KTenant = ''Tenant''"
| "kindName KGitRepo = ''GitRepo''"
| "kindName KTenantTemplate = ''TenantTemplate''"
| "kindName KServiceAccount = ''ServiceAccount''"
| "kindName KSecret = ''Secret''"
| "kindName KRole = ''Role''"
| "kindName KRoleBinding = ''RoleBinding''"

text \<open>Documented behaviour of the handler: the controller references of the kind that owns.\<close>

definition owner_handler :: "ownerHandler \<Rightarrow> bool" where
  "owner_handler own \<longleftrightarrow> (\<forall>kd m. own kd m =
     map (\<lambda>r. \<lparr>nn_Namespace = om_Namespace m, nn_Name = or_Name r\<rparr>)
       (filter (\<lambda>r. or_Controller r \<and> gvk_Group (or_GVK r) = SynGroup \<and> gvk_Kind (or_GVK r) = kindName kd)
          (om_OwnerReferences m)))"

definition watchFor :: "Kind \<Rightarrow> 'w Watch" where
  "watchFor kd = \<lparr>wt_Kind = kd, wt_Handler = (\<lambda>x. ret [keyOf (metaOf x)])\<rparr>"

definition watchOwns :: "ownerHandler \<Rightarrow> Kind \<Rightarrow> Kind \<Rightarrow> 'w Watch" where
  "watchOwns own owner kd = \<lparr>wt_Kind = kd, wt_Handler = (\<lambda>x. ret (own owner (metaOf x)))\<rparr>"

definition clusterWatches :: "ownerHandler \<Rightarrow> 'w Client \<Rightarrow> 'w Watch list" where
  "clusterWatches own k =
     [watchFor KCluster,
      \<lparr>wt_Kind = KTenant, wt_Handler = (\<lambda>x. enqueueClustersForTenant k (metaOf x))\<rparr>,
      watchOwns own KCluster KGitRepo,
      watchOwns own KCluster KServiceAccount,
      watchOwns own KCluster KSecret,
      watchOwns own KCluster KRole,
      watchOwns own KCluster KRoleBinding]"

definition tenantWatches :: "ownerHandler \<Rightarrow> 'w Client \<Rightarrow> 'w Watch list" where
  "tenantWatches own k =
     [watchFor KTenant,
      watchOwns own KTenant KGitRepo,
      watchOwns own KTenant KCluster,
      watchOwns own KTenant KServiceAccount,
      watchOwns own KTenant KSecret,
      watchOwns own KTenant KRole,
      watchOwns own KTenant KRoleBinding,
      \<lparr>wt_Kind = KTenantTemplate, wt_Handler = (\<lambda>x. enqueueAllTenants k (metaOf x))\<rparr>]"

definition gitrepoWatches :: "ownerHandler \<Rightarrow> 'w Client \<Rightarrow> 'w Watch list" where
  "gitrepoWatches own k =
     [watchFor KGitRepo,
      watchOwns own KGitRepo KSecret,
      \<lparr>wt_Kind = KSecret, wt_Handler = (\<lambda>x. case x of
         R_Secret s \<Rightarrow> SecretGitRepoCIVariablesMapFunc k s | _ \<Rightarrow> crash NilDeref)\<rparr>]"

definition compilePipelineWatches :: "ownerHandler \<Rightarrow> 'w Watch list" where
  "compilePipelineWatches own = [watchFor KTenant, watchOwns own KTenant KCluster]"

text \<open>The requests an event of an object makes: those of every watch of its kind.\<close>

fun requests :: "'w Watch list \<Rightarrow> Resource \<Rightarrow> ('w, NamespacedName list) go" where
  "requests [] x = ret []"
| "requests (wt # ws) x =
     (if wt_Kind wt = kindOf x
      then bnd (wt_Handler wt x) (\<lambda>ns. bnd (requests ws x) (\<lambda>ms. ret (ns @ ms)))
      else requests ws x)"

end
