(* ===== verification/System.thy ===== *)
theory System
  imports ClusterServer Wiring
begin

text \<open>
  The operator as a whole: runs that interleave passes of the four controllers, as \<open>main.go\<close> builds
  them, with what other programs do. Between two calls of a pass other programs may act too, because
  every call is allowed to do what the relation \<open>rely\<close> allows.
\<close>

section \<open>Runs\<close>

text \<open>The libraries behind the operator.\<close>

record ('w, 'r, 't) Outside =
  out_Fuel :: nat
  out_Vault :: "'w VaultEnv"
  out_ClusterDeps :: "'t ClusterDeps"
  out_Merge :: specMerge
  out_Deps :: "'w Deps"
  out_Implementations :: "('r, 'w) Implementation list"
  out_Repo :: "('r, 'w) RepoI"
  out_Runtime :: "'w Runtime"

datatype pass = ClusterPass NamespacedName | TenantPass NamespacedName | GitRepoPass NamespacedName
  | CompilePass NamespacedName

text \<open>The world after one pass.\<close>

fun runPass :: "Flags \<Rightarrow> ('w, 'r, 't) Outside \<Rightarrow> 'w Client \<Rightarrow> pass \<Rightarrow> 'w \<Rightarrow> 'w" where
  "runPass fl out k (ClusterPass n) w = snd (ClusterReconcile (out_Fuel out) (out_Vault out) (out_ClusterDeps out)
     (mainClusterReconciler fl k (out_Runtime out)) n w)"
| "runPass fl out k (TenantPass n) w = snd (TenantReconcile (out_Merge out)
     (mainTenantReconciler fl k (out_Runtime out)) n w)"
| "runPass fl out k (GitRepoPass n) w = snd (GitRepoReconcile (out_Deps out) (out_Implementations out) (out_Repo out)
     (mainGitRepoReconciler fl k (out_Runtime out)) n w)"
| "runPass fl out k (CompilePass n) w = snd (CompilePipeline_Reconcile k (fl_ApiUrl fl) n w)"

inductive operator_run ::
  "Flags \<Rightarrow> ('w, 'r, 't) Outside \<Rightarrow> 'w Client \<Rightarrow> ('w \<Rightarrow> 'w \<Rightarrow> bool) \<Rightarrow> 'w \<Rightarrow> 'w \<Rightarrow> bool"
  for fl out k rely where
  run_start: "operator_run fl out k rely w w"
| run_pass: "operator_run fl out k rely w w1 \<Longrightarrow> operator_run fl out k rely w (runPass fl out k p w1)"
| run_other: "operator_run fl out k rely w w1 \<Longrightarrow> rely w1 w2 \<Longrightarrow> operator_run fl out k rely w w2"

text \<open>The libraries do nothing to the API server but what other programs may do as well.\<close>

locale operator_world = cluster_server k stored later rely
  for k :: "'w Client" and stored later rely +
  fixes out :: "('w, 'r, 't) Outside"
  assumes vault_calls: "stableUnder rely P \<Longrightarrow> calm_vault P (out_Vault out)"
    and git_calls: "stableUnder rely P \<Longrightarrow> calm_repo P (out_Repo out)"
    and keygen_calls: "stableUnder rely P \<Longrightarrow> calm_keygen P (out_Deps out)"
    and runtime_calls: "stableUnder rely P \<Longrightarrow> calm_runtime P (out_Runtime out)"
begin

lemmas calm_outside = calls [OF stable_tokensKept] vault_calls [OF stable_tokensKept]
  git_calls [OF stable_tokensKept] keygen_calls [OF stable_tokensKept] runtime_calls [OF stable_tokensKept]

lemma from_here: "keeps (tokensKept w) m \<Longrightarrow> tokensKept w (snd (m w))"
  by (blast intro: keepsD tokensKept_refl)

lemma pass_keeps_tokens: "tokensKept w (runPass fl out k p w)"
proof (cases p)
  case (ClusterPass n)
  let ?r = "mainClusterReconciler fl k (out_Runtime out)"
  have client: "cr_Client ?r = k" "cr_Runtime ?r = out_Runtime out" by (simp_all add: mainClusterReconciler_def)
  have get: "tokensKept w (snd (k_GetCluster k n w))"
    by (rule from_here) (intro client_intros [OF calm_outside(1)])
  show ?thesis
    unfolding ClusterPass runPass.simps
  proof (cases rule: ClusterReconcile_world [of "out_Fuel out" "out_Vault out" "out_ClusterDeps out" ?r n w])
    case nothing
    with get client show "tokensKept w (snd (ClusterReconcile (out_Fuel out) (out_Vault out) (out_ClusterDeps out) ?r n w))"
      by simp
  next
    case (pass c w1)
    from pass(1) client have read: "k_GetCluster k n w = (Ret (Inr c), w1)" by simp
    have "keeps (tokensKept w1) (RunPipeline (ClusterObj c) (clusterContext ?r)
        (clusterPipeline (out_Fuel out) (out_Vault out) (out_ClusterDeps out)))"
      by (rule keeps_clusterPipeline [where A = "\<lambda>_. True"]) (simp_all add: client calm_outside safe_after_read [OF read])
    from from_here [OF this] get read pass(2)
    show "tokensKept w (snd (ClusterReconcile (out_Fuel out) (out_Vault out) (out_ClusterDeps out) ?r n w))"
      by (auto intro: tokensKept_trans)
  qed
next
  case (TenantPass n)
  have "keeps (tokensKept w) (TenantReconcile (out_Merge out) (mainTenantReconciler fl k (out_Runtime out)) n)"
    by (rule keeps_TenantReconcile [where A = "\<lambda>_. True"]) (simp_all add: mainTenantReconciler_def calm_outside)
  from from_here [OF this] TenantPass show ?thesis by simp
next
  case (GitRepoPass n)
  have "keeps (tokensKept w) (GitRepoReconcile (out_Deps out) (out_Implementations out) (out_Repo out)
      (mainGitRepoReconciler fl k (out_Runtime out)) n)"
    by (rule keeps_GitRepoReconcile [where A = "\<lambda>_. True"]) (simp_all add: mainGitRepoReconciler_def calm_outside)
  from from_here [OF this] GitRepoPass show ?thesis by simp
next
  case (CompilePass n)
  have "keeps (tokensKept w) (CompilePipeline_Reconcile k (fl_ApiUrl fl) n)"
    by (rule keeps_CompilePipeline_Reconcile [where A = "\<lambda>_. True"]) (rule calm_outside, simp)
  from from_here [OF this] CompilePass show ?thesis by simp
qed

lemma run_keeps_tokens: "operator_run fl out k rely w w' \<Longrightarrow> tokensKept w w'"
  by (induction rule: operator_run.induct)
    (blast intro: tokensKept_refl tokensKept_trans pass_keeps_tokens rely_tokensKept)+

lemma run_keeps_token:
  "operator_run fl out k rely w w' \<Longrightarrow> stored w n = Some c \<Longrightarrow> stored w' n = Some c' \<Longrightarrow>
     om_UID (cl_Meta c') = om_UID (cl_Meta c) \<Longrightarrow> tokenKept (cl_Status c) (cl_Status c')"
  by (rule tokensKeptD [OF run_keeps_tokens])

end

section \<open>Passes and namespaces\<close>

definition calm_libraries :: "('w \<Rightarrow> bool) \<Rightarrow> ('w, 'r, 't) Outside \<Rightarrow> bool" where
  "calm_libraries P out \<longleftrightarrow> calm_vault P (out_Vault out) \<and> calm_repo P (out_Repo out) \<and>
     calm_keygen P (out_Deps out) \<and> calm_runtime P (out_Runtime out)"

fun passKey :: "pass \<Rightarrow> NamespacedName" where
  "passKey (ClusterPass n) = n"
| "passKey (TenantPass n) = n"
| "passKey (GitRepoPass n) = n"
| "passKey (CompilePass n) = n"

text \<open>A predicate is kept by a pass if the calls keep it that write in the namespaces the pass may write.\<close>

lemma runPass_keeps:
  assumes k: "calm_client A P k"
    and st: "\<And>c. A (om_Namespace (cl_Meta c)) \<Longrightarrow> keeps P (k_StatusUpdateCluster k c)"
    and libs: "calm_libraries P out" and A: "A (nn_Namespace (passKey p))" and P: "P w"
  shows "P (runPass fl out k p w)"
proof (cases p)
  case (ClusterPass n)
  let ?r = "mainClusterReconciler fl k (out_Runtime out)"
  have r: "cr_Client ?r = k" "cr_Runtime ?r = out_Runtime out" by (simp_all add: mainClusterReconciler_def)
  have safe: "safeToWrite A P k (ClusterObj c)" if "A (om_Namespace (cl_Meta c))" for c
    using that st by (auto simp: safeToWrite_def carries_def split: Object.splits intro!: keeps_intros)
  show ?thesis
    unfolding ClusterPass runPass.simps
  proof (cases rule: ClusterReconcile_world [of "out_Fuel out" "out_Vault out" "out_ClusterDeps out" ?r n w])
    case nothing
    with r P show "P (snd (ClusterReconcile (out_Fuel out) (out_Vault out) (out_ClusterDeps out) ?r n w))"
      by (simp add: keepsD [OF calm_read_rules(1) [OF k]])
  next
    case (pass c w1)
    with r have get: "k_GetCluster k n w = (Ret (Inr c), w1)" by simp
    have "A (om_Namespace (cl_Meta c))" by (rule calm_answers(1) [OF k get]) (use A ClusterPass in simp)
    then have "keeps P (RunPipeline (ClusterObj c) (clusterContext ?r)
        (clusterPipeline (out_Fuel out) (out_Vault out) (out_ClusterDeps out)))"
      using k libs safe by (intro keeps_clusterPipeline [where A = A]) (simp_all add: r calm_libraries_def)
    moreover have "P w1" using keepsD [OF calm_read_rules(1) [OF k] P, of n] get by simp
    ultimately show "P (snd (ClusterReconcile (out_Fuel out) (out_Vault out) (out_ClusterDeps out) ?r n w))"
      unfolding pass(2) by (rule keepsD)
  qed
next
  case (TenantPass n)
  have "keeps P (TenantReconcile (out_Merge out) (mainTenantReconciler fl k (out_Runtime out)) n)"
    by (rule keeps_TenantReconcile [where A = A]) (use k libs A TenantPass in \<open>simp_all add: mainTenantReconciler_def calm_libraries_def\<close>)
  from keepsD [OF this P] TenantPass show ?thesis by simp
next
  case (GitRepoPass n)
  have "keeps P (GitRepoReconcile (out_Deps out) (out_Implementations out) (out_Repo out)
      (mainGitRepoReconciler fl k (out_Runtime out)) n)"
    by (rule keeps_GitRepoReconcile [where A = A]) (use k libs A GitRepoPass in \<open>simp_all add: mainGitRepoReconciler_def calm_libraries_def\<close>)
  from keepsD [OF this P] GitRepoPass show ?thesis by simp
next
  case (CompilePass n)
  have "keeps P (CompilePipeline_Reconcile k (fl_ApiUrl fl) n)"
    by (rule keeps_CompilePipeline_Reconcile [OF k]) (use A CompilePass in simp)
  from keepsD [OF this P] CompilePass show ?thesis by simp
qed

section \<open>The operator in its namespace\<close>

text \<open>The four controllers with their watches, and the pass a request makes.\<close>

datatype controller = ClusterController | TenantController | GitRepoController | CompilePipelineController

fun watchesOf :: "ownerHandler \<Rightarrow> 'w Client \<Rightarrow> controller \<Rightarrow> 'w Watch list" where
  "watchesOf own k ClusterController = clusterWatches own k"
| "watchesOf own k TenantController = tenantWatches own k"
| "watchesOf own k GitRepoController = gitrepoWatches own k"
| "watchesOf own k CompilePipelineController = compilePipelineWatches own"

fun passOf :: "controller \<Rightarrow> NamespacedName \<Rightarrow> pass" where
  "passOf ClusterController n = ClusterPass n"
| "passOf TenantController n = TenantPass n"
| "passOf GitRepoController n = GitRepoPass n"
| "passOf CompilePipelineController n = CompilePass n"

text \<open>The operator at work: the cache of the manager delivers events of objects of the namespace it
  watches, a controller turns them into requests, and a request that was made is worked on at any
  time and any number of times.\<close>

inductive operator_works ::
  "Flags \<Rightarrow> ('w, 'r, 't) Outside \<Rightarrow> ownerHandler \<Rightarrow> 'w Client \<Rightarrow> 'w \<Rightarrow> pass set \<Rightarrow> 'w \<Rightarrow> bool"
  for fl out own k w where
  works_start: "operator_works fl out own k w {} w"
| works_event: "operator_works fl out own k w q w1 \<Longrightarrow> om_Namespace (metaOf x) = fl_WatchNamespace fl \<Longrightarrow>
    requests (watchesOf own k c) x w1 = (Ret ns, w2) \<Longrightarrow>
    operator_works fl out own k w (q \<union> passOf c ` set ns) w2"
| works_pass: "operator_works fl out own k w q w1 \<Longrightarrow> p \<in> q \<Longrightarrow>
    operator_works fl out own k w q (runPass fl out k p w1)"

text \<open>Lists by namespace.\<close>

definition lists_in_namespace :: "'w Client \<Rightarrow> bool" where
  "lists_in_namespace k \<longleftrightarrow>
     (\<forall>ns s w cs w'. k_ListClusters k ns s w = (Ret (Inr cs), w') \<longrightarrow> (\<forall>c \<in> set cs. om_Namespace (cl_Meta c) = ns)) \<and>
     (\<forall>ns w ts w'. k_ListTenants k ns w = (Ret (Inr ts), w') \<longrightarrow> (\<forall>t \<in> set ts. om_Namespace (tn_Meta t) = ns)) \<and>
     (\<forall>ns s w gs w'. k_ListGitRepos k ns s w = (Ret (Inr gs), w') \<longrightarrow> (\<forall>g \<in> set gs. om_Namespace (gr_Meta g) = ns))"

text \<open>A handler asks for objects in the namespace of the event only.\<close>

definition localHandler :: "'w Watch \<Rightarrow> bool" where
  "localHandler wt \<longleftrightarrow> (\<forall>x w ns w'. kindOf x = wt_Kind wt \<longrightarrow> wt_Handler wt x w = (Ret ns, w') \<longrightarrow>
     (\<forall>n \<in> set ns. nn_Namespace n = om_Namespace (metaOf x)))"

lemma requests_local:
  assumes "\<forall>wt \<in> set ws. localHandler wt" and "requests ws x w = (Ret ns, w')" and "n \<in> set ns"
  shows "nn_Namespace n = om_Namespace (metaOf x)"
  using assms
proof (induction ws arbitrary: w ns)
  case (Cons wt ws)
  show ?case
  proof (cases "wt_Kind wt = kindOf x")
    case True
    with Cons.prems(2) obtain ns1 w1 ns2 where h: "wt_Handler wt x w = (Ret ns1, w1)"
      and r: "requests ws x w1 = (Ret ns2, w')" and ns: "ns = ns1 @ ns2"
      by (auto elim!: bnd_RetE)
    from Cons.prems(1) True h have "\<forall>n \<in> set ns1. nn_Namespace n = om_Namespace (metaOf x)"
      by (auto simp: localHandler_def)
    with Cons.IH [OF _ r] Cons.prems(1,3) ns show ?thesis by auto
  next
    case False
    with Cons show ?thesis by simp
  qed
qed simp

lemma watches_local:
  assumes "owner_handler own" and "lists_in_namespace k"
  shows "\<forall>wt \<in> set (watchesOf own k c). localHandler wt"
proof -
  have for_local: "localHandler (watchFor kd :: 'a Watch)" for kd
    by (simp add: localHandler_def watchFor_def keyOf_def)
  have owns: "localHandler (watchOwns own owner kd :: 'a Watch)" for owner kd
    using assms(1) by (auto simp: localHandler_def watchOwns_def owner_handler_def)
  have lists: "k_ListClusters k ns s w = (Ret (Inr cs), w') \<Longrightarrow> c \<in> set cs \<Longrightarrow> om_Namespace (cl_Meta c) = ns"
    "k_ListTenants k ns w = (Ret (Inr ts), w') \<Longrightarrow> t \<in> set ts \<Longrightarrow> om_Namespace (tn_Meta t) = ns"
    "k_ListGitRepos k ns s w = (Ret (Inr gs), w') \<Longrightarrow> g \<in> set gs \<Longrightarrow> om_Namespace (gr_Meta g) = ns"
    for ns s w w' cs c ts t gs g
    using assms(2) unfolding lists_in_namespace_def by - (elim conjE, metis)+
  have "localHandler \<lparr>wt_Kind = KTenant, wt_Handler = (\<lambda>x. enqueueClustersForTenant k (metaOf x))\<rparr>"
    by (auto simp: localHandler_def enqueueClustersForTenant_def keyOf_def elim!: bnd_RetE split: sum.splits)
      (rule lists(1))
  moreover have "localHandler \<lparr>wt_Kind = KTenantTemplate, wt_Handler = (\<lambda>x. enqueueAllTenants k (metaOf x))\<rparr>"
    by (auto simp: localHandler_def enqueueAllTenants_def keyOf_def elim!: bnd_RetE split: sum.splits) (rule lists(2))
  moreover have "localHandler \<lparr>wt_Kind = KSecret, wt_Handler = (\<lambda>x. case x of
      R_Secret s \<Rightarrow> SecretGitRepoCIVariablesMapFunc k s | _ \<Rightarrow> crash NilDeref)\<rparr>"
    by (auto simp: localHandler_def SecretGitRepoCIVariablesMapFunc_def keyOf_def elim!: bnd_RetE
        split: sum.splits Resource.splits) (rule lists(3))
  ultimately show ?thesis
    by (cases c) (simp_all add: clusterWatches_def tenantWatches_def gitrepoWatches_def compilePipelineWatches_def
        for_local owns)
qed

lemma keeps_requests:
  "\<forall>wt \<in> set ws. \<forall>x. keeps P (wt_Handler wt x) \<Longrightarrow> keeps P (requests ws x)"
  by (induction ws) (auto intro!: keeps_intros)

lemma keeps_handlers:
  assumes k: "calm_client A P k"
  shows "\<forall>wt \<in> set (watchesOf own k c). \<forall>x. keeps P (wt_Handler wt x)"
proof -
  have "keeps P (enqueueClustersForTenant k m)" "keeps P (enqueueAllTenants k m)"
    "keeps P (SecretGitRepoCIVariablesMapFunc k s)" for m s
    unfolding enqueueClustersForTenant_def enqueueAllTenants_def SecretGitRepoCIVariablesMapFunc_def
    by (intro keeps_intros client_intros [OF k])+
  then show ?thesis
    by (cases c) (auto simp: clusterWatches_def tenantWatches_def gitrepoWatches_def compilePipelineWatches_def
        watchFor_def watchOwns_def intro: keeps_ret keeps_crash split: Resource.split)
qed

lemma operator_works_keeps:
  assumes k: "calm_client A P k"
    and st: "\<And>c. A (om_Namespace (cl_Meta c)) \<Longrightarrow> keeps P (k_StatusUpdateCluster k c)"
    and libs: "calm_libraries P out" and own: "owner_handler own" and lists: "lists_in_namespace k"
    and A: "A (fl_WatchNamespace fl)" and run: "operator_works fl out own k w q w'" and P: "P w"
  shows "P w' \<and> (\<forall>p \<in> q. nn_Namespace (passKey p) = fl_WatchNamespace fl)"
  using run
proof induction
  case (works_event q w1 x c ns w2)
  from keepsD [OF keeps_requests [OF keeps_handlers [OF k, of own c]], of w1 x] works_event have "P w2" by simp
  moreover have "nn_Namespace (passKey (passOf c n)) = fl_WatchNamespace fl" if "n \<in> set ns" for n
    using requests_local [OF watches_local [OF own lists] works_event.hyps(3) that] works_event.hyps(2)
    by (cases c) simp_all
  ultimately show ?case using works_event by auto
next
  case (works_pass q w1 p)
  then show ?case using A by (auto intro: runPass_keeps [OF k st libs])
qed (simp add: P)

end
