(* ===== verification/Startup.thy ===== *)
theory Startup
  imports System Metrics
begin

text \<open>
  The start of the operator: \<open>main\<close> and the four functions \<open>SetupWithManager\<close>. The manager of
  controller-runtime, the parser of flags and environment and the Prometheus registry are a
  parameter, a record of the calls that are made of them.
\<close>

section \<open>The manager\<close>

record ManagerOptions =
  mo_MetricsAddr :: string
  mo_ProbeAddr :: string
  mo_LeaderElection :: bool
  mo_LeaderElectionID :: string
  mo_Namespaces :: "string list"

type_synonym 'w Reconciler = "NamespacedName \<Rightarrow> ('w, CtrlResult \<times> gerr option) go"

text \<open>An index function gets objects of its kind only; \<open>None\<close> is the panic of its type assertion. A
  controller has a name of its own or that of its kind.\<close>

record 'w Manager =
  mg_ParseFlags :: "('w, gerr + Flags) go"
  mg_NewManager :: "ManagerOptions \<Rightarrow> ('w, gerr option) go"
  mg_Client :: "'w Client"
  mg_IndexField :: "Kind \<Rightarrow> string \<Rightarrow> (Resource \<Rightarrow> string list option) \<Rightarrow> ('w, gerr option) go"
  mg_MustRegister :: "string \<Rightarrow> ('w, unit) go \<Rightarrow> ('w, unit) go"
  mg_Complete :: "string option \<Rightarrow> 'w Watch list \<Rightarrow> 'w Reconciler \<Rightarrow> ('w, gerr option) go"
  mg_AddHealthzCheck :: "string \<Rightarrow> ('w, gerr option) go"
  mg_AddReadyzCheck :: "string \<Rightarrow> ('w, gerr option) go"
  mg_Start :: "('w, gerr option) go"

section \<open>SetupWithManager\<close>

definition ClusterSetup :: "'w Manager \<Rightarrow> ownerHandler \<Rightarrow> 'w Reconciler \<Rightarrow> ('w, gerr option) go" where
  "ClusterSetup mg own r = mg_Complete mg None (clusterWatches own (mg_Client mg)) r"

fun gitrepoIndexer :: "Resource \<Rightarrow> string list option" where
  "gitrepoIndexer (R_GitRepo g) = Some (secretIndex g)"
| "gitrepoIndexer _ = None"

definition GitRepoSetup :: "'w Manager \<Rightarrow> ownerHandler \<Rightarrow> 'w Reconciler \<Rightarrow> ('w, gerr option) go" where
  "GitRepoSetup mg own r =
     bnd (mg_IndexField mg KGitRepo secretKeyRefIndex gitrepoIndexer) (\<lambda>e. case e of
       Some err \<Rightarrow> ret (Some (Wrap ''unable to create index for GitRepo: '' err))
     | None \<Rightarrow> mg_Complete mg None (gitrepoWatches own (mg_Client mg)) r)"

definition TenantSetup :: "'w Manager \<Rightarrow> ownerHandler \<Rightarrow> 'w Reconciler \<Rightarrow> ('w, gerr option) go" where
  "TenantSetup mg own r = mg_Complete mg None (tenantWatches own (mg_Client mg)) r"

definition CompilePipelineSetup :: "'w Manager \<Rightarrow> ownerHandler \<Rightarrow> 'w Reconciler \<Rightarrow> ('w, gerr option) go" where
  "CompilePipelineSetup mg own r = mg_Complete mg (Some ''tenant_compile_pipeline'') (compilePipelineWatches own) r"

section \<open>main\<close>

definition managerOptions :: "Flags \<Rightarrow> ManagerOptions" where
  "managerOptions fl = \<lparr>mo_MetricsAddr = fl_MetricsAddr fl, mo_ProbeAddr = fl_ProbeAddr fl,
     mo_LeaderElection = fl_EnableLeaderElection fl, mo_LeaderElectionID = ''9b76ddd4.syn.tools'',
     mo_Namespaces = [fl_WatchNamespace fl]\<rparr>"

fun clusterIndexer :: "Resource \<Rightarrow> string list option" where
  "clusterIndexer (R_Cluster c) = Some (tenantRefIndex c)"
| "clusterIndexer _ = None"

text \<open>\<open>os.Exit(1)\<close> on an error. The result is the exit code.\<close>

definition orExit :: "('w, gerr option) go \<Rightarrow> ('w, nat) go \<Rightarrow> ('w, nat) go" where
  "orExit m rest = bnd m (\<lambda>e. case e of Some err \<Rightarrow> ret 1 | None \<Rightarrow> rest)"

definition startOperator ::
  "('m, 'w) MetricLib \<Rightarrow> ('w, 'r, 't) Outside \<Rightarrow> ownerHandler \<Rightarrow> 'w Manager \<Rightarrow> Flags \<Rightarrow> ('w, nat) go" where
  "startOperator lib out own mg fl =
     (let k = mg_Client mg; rt = out_Runtime out; ns = fl_WatchNamespace fl in
      orExit (mg_NewManager mg (managerOptions fl)) (
      orExit (mg_IndexField mg KCluster ''spec.tenantRef.name'' clusterIndexer) (
      bnd (mg_MustRegister mg ''CompileMetaCollector'' (CompileMetaCollect lib rt k ns)) (\<lambda>_.
      bnd (mg_MustRegister mg ''ClusterInfoCollector'' (ClusterInfoCollect lib rt k ns)) (\<lambda>_.
      bnd (mg_MustRegister mg ''TenantInfoCollector'' (TenantInfoCollect lib k ns)) (\<lambda>_.
      orExit (ClusterSetup mg own (ClusterReconcile (out_Fuel out) (out_Vault out) (out_ClusterDeps out)
                (mainClusterReconciler fl k rt))) (
      orExit (GitRepoSetup mg own (GitRepoReconcile (out_Deps out) (out_Implementations out) (out_Repo out)
                (mainGitRepoReconciler fl k rt))) (
      orExit (TenantSetup mg own (TenantReconcile (out_Merge out) (mainTenantReconciler fl k rt))) (
      orExit (CompilePipelineSetup mg own (CompilePipeline_Reconcile k (fl_ApiUrl fl))) (
      orExit (mg_AddHealthzCheck mg ''healthz'') (
      orExit (mg_AddReadyzCheck mg ''readyz'') (
      orExit (mg_Start mg) (ret 0)))))))))))))"

definition operatorMain ::
  "('m, 'w) MetricLib \<Rightarrow> ('w, 'r, 't) Outside \<Rightarrow> ownerHandler \<Rightarrow> 'w Manager \<Rightarrow> ('w, nat) go" where
  "operatorMain lib out own mg =
     bnd (mg_ParseFlags mg) (\<lambda>r. case r of
       Inl err \<Rightarrow> ret 1
     | Inr fl \<Rightarrow> startOperator lib out own mg fl)"

section \<open>The order of the start\<close>

datatype startEvent =
    MadeManager ManagerOptions
  | Indexed Kind string
  | Collecting string
  | Controlling "string option" "Kind list"
  | Healthz string
  | Readyz string
  | Started

text \<open>A manager that keeps a log of the calls, with whether they succeeded: an error is a failure, and so is
  a panic of the registry.\<close>

definition succeeded :: "gerr option outcome \<Rightarrow> bool" where
  "succeeded r \<longleftrightarrow> r = Ret None"

definition logs :: "'w Manager \<Rightarrow> ('w \<Rightarrow> (startEvent \<times> bool) list) \<Rightarrow> bool" where
  "logs mg log \<longleftrightarrow> (\<forall>w. log (snd (mg_ParseFlags mg w)) = log w) \<and>
     (\<forall>w m. log (snd (mg_NewManager mg m w)) = log w @ [(MadeManager m, succeeded (fst (mg_NewManager mg m w)))]) \<and>
     (\<forall>w kd f ix. log (snd (mg_IndexField mg kd f ix w)) =
        log w @ [(Indexed kd f, succeeded (fst (mg_IndexField mg kd f ix w)))]) \<and>
     (\<forall>w c f. log (snd (mg_MustRegister mg c f w)) = log w @ [(Collecting c, fst (mg_MustRegister mg c f w) = Ret ())]) \<and>
     (\<forall>w n ws r. log (snd (mg_Complete mg n ws r w)) =
        log w @ [(Controlling n (map wt_Kind ws), succeeded (fst (mg_Complete mg n ws r w)))]) \<and>
     (\<forall>w n. log (snd (mg_AddHealthzCheck mg n w)) = log w @ [(Healthz n, succeeded (fst (mg_AddHealthzCheck mg n w)))]) \<and>
     (\<forall>w n. log (snd (mg_AddReadyzCheck mg n w)) = log w @ [(Readyz n, succeeded (fst (mg_AddReadyzCheck mg n w)))]) \<and>
     (\<forall>w. log (snd (mg_Start mg w)) = log w @ [(Started, succeeded (fst (mg_Start mg w)))])"

text \<open>The whole start, in order.\<close>

definition startPlan :: "Flags \<Rightarrow> startEvent list" where
  "startPlan fl =
     [MadeManager (managerOptions fl), Indexed KCluster ''spec.tenantRef.name'',
      Collecting ''CompileMetaCollector'', Collecting ''ClusterInfoCollector'', Collecting ''TenantInfoCollector'',
      Controlling None [KCluster, KTenant, KGitRepo, KServiceAccount, KSecret, KRole, KRoleBinding],
      Indexed KGitRepo secretKeyRefIndex, Controlling None [KGitRepo, KSecret, KSecret],
      Controlling None [KTenant, KGitRepo, KCluster, KServiceAccount, KSecret, KRole, KRoleBinding, KTenantTemplate],
      Controlling (Some ''tenant_compile_pipeline'') [KTenant, KCluster],
      Healthz ''healthz'', Readyz ''readyz'', Started]"

text \<open>The log of a plan: all of it done, or done up to a call that failed.\<close>

definition allDone :: "startEvent list \<Rightarrow> (startEvent \<times> bool) list" where
  "allDone es = map (\<lambda>e. (e, True)) es"

definition failedAt :: "nat \<Rightarrow> startEvent list \<Rightarrow> (startEvent \<times> bool) list" where
  "failedAt n es = allDone (take n es) @ [(es ! n, False)]"

lemma allDone_append [simp]: "allDone (es @ fs) = allDone es @ allDone fs"
  and allDone_simps [simp]: "allDone [] = []" "allDone (e # es) = (e, True) # allDone es"
  by (simp_all add: allDone_def)

text \<open>A call that logs these events, and a program that goes through a plan or exits with 1 at the first failure.\<close>

definition emits :: "('w \<Rightarrow> (startEvent \<times> bool) list) \<Rightarrow> startEvent list \<Rightarrow> ('w, gerr option) go \<Rightarrow> bool" where
  "emits log es m \<longleftrightarrow> (\<forall>w e w'. m w = (Ret e, w') \<longrightarrow>
     (if e = None then log w' = log w @ allDone es else \<exists>n < length es. log w' = log w @ failedAt n es))"

definition follows :: "('w \<Rightarrow> (startEvent \<times> bool) list) \<Rightarrow> startEvent list \<Rightarrow> ('w, nat) go \<Rightarrow> bool" where
  "follows log plan m \<longleftrightarrow> (\<forall>w code w'. m w = (Ret code, w') \<longrightarrow>
     code = 0 \<and> log w' = log w @ allDone plan \<or> code = 1 \<and> (\<exists>n < length plan. log w' = log w @ failedAt n plan))"

lemma followsD:
  "follows log plan m \<Longrightarrow> m w = (Ret code, w') \<Longrightarrow>
     code = 0 \<and> log w' = log w @ allDone plan \<or> code = 1 \<and> (\<exists>n < length plan. log w' = log w @ failedAt n plan)"
  unfolding follows_def by blast

lemma follows_end: "follows log [] (ret 0)"
  by (simp add: follows_def)

lemma failedAt_left: "n < length es \<Longrightarrow> failedAt n es = failedAt n (es @ fs)"
  by (simp add: failedAt_def nth_append)

lemma failedAt_right: "allDone es @ failedAt n fs = failedAt (length es + n) (es @ fs)"
  by (simp add: failedAt_def)

lemma follows_orExit:
  assumes m: "emits log es m" and rest: "follows log plan rest"
  shows "follows log (es @ plan) (orExit m rest)"
  unfolding follows_def
proof (intro allI impI)
  fix w code w'
  assume "orExit m rest w = (Ret code, w')"
  then obtain e w1 where m1: "m w = (Ret e, w1)"
    and r: "(case e of Some err \<Rightarrow> ret 1 | None \<Rightarrow> rest) w1 = (Ret code, w')"
    unfolding orExit_def by (rule bnd_RetE)
  show "code = 0 \<and> log w' = log w @ allDone (es @ plan)
    \<or> code = 1 \<and> (\<exists>n < length (es @ plan). log w' = log w @ failedAt n (es @ plan))"
  proof (cases e)
    case (Some err)
    with m m1 obtain n where "n < length es" "log w1 = log w @ failedAt n es" unfolding emits_def by force
    with Some r show ?thesis using failedAt_left [of n es plan] by (auto intro!: exI [of _ n])
  next
    case None
    with m m1 have log1: "log w1 = log w @ allDone es" unfolding emits_def by force
    from None r have "rest w1 = (Ret code, w')" by simp
    from followsD [OF rest this] show ?thesis
    proof (elim disjE conjE exE)
      fix n assume "code = 1" "n < length plan" "log w' = log w1 @ failedAt n plan"
      then show ?thesis
        using log1 failedAt_right [of es n plan] by (intro disjI2 conjI exI [of _ "length es + n"]) simp_all
    qed (simp add: log1)
  qed
qed

lemma follows_register:
  assumes m: "\<And>w. log (snd (m w)) = log w @ [(e, fst (m w) = Ret ())]" and rest: "follows log plan rest"
  shows "follows log (e # plan) (bnd m (\<lambda>_. rest))"
  unfolding follows_def
proof (intro allI impI)
  fix w code w'
  assume "bnd m (\<lambda>_. rest) w = (Ret code, w')"
  then obtain u w1 where m1: "m w = (Ret u, w1)" and r: "rest w1 = (Ret code, w')" by (rule bnd_RetE)
  from m [of w] m1 have log1: "log w1 = log w @ [(e, True)]" by simp
  have right: "(e, True) # failedAt n plan = failedAt (Suc n) (e # plan)" for n
    by (simp add: failedAt_def)
  from followsD [OF rest r] show "code = 0 \<and> log w' = log w @ allDone (e # plan)
    \<or> code = 1 \<and> (\<exists>n < length (e # plan). log w' = log w @ failedAt n (e # plan))"
  proof (elim disjE conjE exE)
    fix n assume "code = 1" "n < length plan" "log w' = log w1 @ failedAt n plan"
    then show ?thesis
      using log1 right [of n] by (intro disjI2 conjI exI [of _ "Suc n"]) simp_all
  qed (simp add: log1)
qed

lemma emits_call:
  assumes "\<And>w. log (snd (m w)) = log w @ [(e, succeeded (fst (m w)))]"
  shows "emits log [e] m"
  unfolding emits_def
proof (intro allI impI)
  fix w r w'
  assume "m w = (Ret r, w')"
  with assms [of w] have "log w' = log w @ [(e, r = None)]" by (simp add: succeeded_def)
  then show "if r = None then log w' = log w @ allDone [e] else \<exists>n < length [e]. log w' = log w @ failedAt n [e]"
    by (simp add: failedAt_def)
qed

lemma emits_GitRepoSetup:
  assumes "logs mg log"
  shows "emits log [Indexed KGitRepo secretKeyRefIndex, Controlling None [KGitRepo, KSecret, KSecret]] (GitRepoSetup mg own r)"
  unfolding emits_def
proof (intro allI impI)
  fix w e w'
  assume "GitRepoSetup mg own r w = (Ret e, w')"
  then obtain e1 w1 where i: "mg_IndexField mg KGitRepo secretKeyRefIndex gitrepoIndexer w = (Ret e1, w1)"
    and c: "(case e1 of Some err \<Rightarrow> ret (Some (Wrap ''unable to create index for GitRepo: '' err))
      | None \<Rightarrow> mg_Complete mg None (gitrepoWatches own (mg_Client mg)) r) w1 = (Ret e, w')"
    unfolding GitRepoSetup_def by (rule bnd_RetE)
  have kinds: "map wt_Kind (gitrepoWatches own (mg_Client mg)) = [KGitRepo, KSecret, KSecret]"
    by (simp add: gitrepoWatches_def watchFor_def watchOwns_def)
  have "log (snd (mg_IndexField mg KGitRepo secretKeyRefIndex gitrepoIndexer w)) = log w @ [(Indexed KGitRepo
      secretKeyRefIndex, succeeded (fst (mg_IndexField mg KGitRepo secretKeyRefIndex gitrepoIndexer w)))]"
    using assms by (simp add: logs_def)
  with i have log1: "log w1 = log w @ [(Indexed KGitRepo secretKeyRefIndex, e1 = None)]" by (simp add: succeeded_def)
  let ?es = "[Indexed KGitRepo secretKeyRefIndex, Controlling None [KGitRepo, KSecret, KSecret]]"
  show "if e = None then log w' = log w @ allDone ?es else \<exists>n < length ?es. log w' = log w @ failedAt n ?es"
  proof (cases e1)
    case (Some err)
    with c log1 show ?thesis by (auto simp: failedAt_def intro!: exI [of _ 0])
  next
    case None
    with c have c': "mg_Complete mg None (gitrepoWatches own (mg_Client mg)) r w1 = (Ret e, w')" by simp
    have "log (snd (mg_Complete mg None (gitrepoWatches own (mg_Client mg)) r w1)) =
        log w1 @ [(Controlling None (map wt_Kind (gitrepoWatches own (mg_Client mg))),
          succeeded (fst (mg_Complete mg None (gitrepoWatches own (mg_Client mg)) r w1)))]"
      using assms by (simp add: logs_def)
    with c' kinds have "log w' = log w1 @ [(Controlling None [KGitRepo, KSecret, KSecret], e = None)]"
      by (simp add: succeeded_def)
    with log1 None show ?thesis by (auto simp: failedAt_def intro!: exI [of _ 1])
  qed
qed

lemma emits_setups:
  assumes "logs mg log"
  shows "emits log [Controlling None [KCluster, KTenant, KGitRepo, KServiceAccount, KSecret, KRole, KRoleBinding]] (ClusterSetup mg own r)"
    and "emits log [Controlling None [KTenant, KGitRepo, KCluster, KServiceAccount, KSecret, KRole, KRoleBinding, KTenantTemplate]]
      (TenantSetup mg own r)"
    and "emits log [Controlling (Some ''tenant_compile_pipeline'') [KTenant, KCluster]] (CompilePipelineSetup mg own r)"
  using assms
  by (auto simp: logs_def ClusterSetup_def TenantSetup_def CompilePipelineSetup_def clusterWatches_def
      tenantWatches_def compilePipelineWatches_def watchFor_def watchOwns_def intro!: emits_call)

lemma emits_calls:
  assumes "logs mg log"
  shows "emits log [MadeManager mo] (mg_NewManager mg mo)" and "emits log [Indexed kd f] (mg_IndexField mg kd f ix)"
    and "emits log [Healthz n] (mg_AddHealthzCheck mg n)" and "emits log [Readyz n] (mg_AddReadyzCheck mg n)"
    and "emits log [Started] (mg_Start mg)"
  using assms by (auto simp: logs_def intro!: emits_call)

lemma follows_startOperator:
  assumes "logs mg log"
  shows "follows log (startPlan fl) (startOperator lib out own mg fl)"
proof -
  note emit = emits_calls [OF assms] emits_setups [OF assms] emits_GitRepoSetup [OF assms]
  have reg: "log (snd (mg_MustRegister mg c f v)) = log v @ [(Collecting c, fst (mg_MustRegister mg c f v) = Ret ())]"
    for c f v using assms by (simp add: logs_def)
  let ?plan = "[MadeManager (managerOptions fl)] @ [Indexed KCluster ''spec.tenantRef.name''] @
    Collecting ''CompileMetaCollector'' # Collecting ''ClusterInfoCollector'' # Collecting ''TenantInfoCollector'' #
    [Controlling None [KCluster, KTenant, KGitRepo, KServiceAccount, KSecret, KRole, KRoleBinding]] @
    [Indexed KGitRepo secretKeyRefIndex, Controlling None [KGitRepo, KSecret, KSecret]] @
    [Controlling None [KTenant, KGitRepo, KCluster, KServiceAccount, KSecret, KRole, KRoleBinding, KTenantTemplate]] @
    [Controlling (Some ''tenant_compile_pipeline'') [KTenant, KCluster]] @
    [Healthz ''healthz''] @ [Readyz ''readyz''] @ [Started] @ []"
  have "follows log ?plan (startOperator lib out own mg fl)"
    unfolding startOperator_def Let_def
    by (intro follows_orExit follows_register reg emit follows_end)
  moreover have "?plan = startPlan fl" by (simp add: startPlan_def)
  ultimately show ?thesis by simp
qed

text \<open>C36: The operator starts completely or not at all. When the flags can be parsed, \<open>main\<close> goes through a
  fixed list of calls: the manager for the watched namespace, the index of clusters by tenant, the three
  collectors, the four controllers with what they watch and the index of repositories by secret before the
  controller that needs it, the two checks, and the start at the very end. It exits with 0 only when every
  one of them has succeeded, and with 1 right after the first that fails, with nothing called after it;
  with flags that cannot be parsed it makes no call.\<close>

theorem start_is_all_or_nothing:
  assumes "logs mg log" and "operatorMain lib out own mg w = (Ret code, w')"
  shows "case fst (mg_ParseFlags mg w) of
      Ret (Inr fl) \<Rightarrow> code = 0 \<and> log w' = log w @ map (\<lambda>e. (e, True)) (startPlan fl)
        \<or> code = 1 \<and> (\<exists>n < length (startPlan fl).
             log w' = log w @ map (\<lambda>e. (e, True)) (take n (startPlan fl)) @ [(startPlan fl ! n, False)])
    | _ \<Rightarrow> log w' = log w \<and> code = 1"
proof -
  from assms(2) obtain r w1 where p: "mg_ParseFlags mg w = (Ret r, w1)"
    unfolding operatorMain_def by (rule bnd_RetE)
  from assms(1) p have log1: "log w1 = log w" unfolding logs_def by (metis snd_conv)
  show ?thesis
  proof (cases r)
    case (Inl err)
    with assms(2) p log1 show ?thesis by (simp add: operatorMain_def)
  next
    case (Inr fl)
    with assms(2) p have "startOperator lib out own mg fl w1 = (Ret code, w')" by (simp add: operatorMain_def)
    from followsD [OF follows_startOperator [OF assms(1)] this] p Inr log1 show ?thesis
      by (simp add: failedAt_def allDone_def)
  qed
qed

text \<open>The instance: a manager that cannot set up the controller of the compile pipelines.\<close>

definition failingManager :: "(startEvent \<times> bool) list Manager" where
  "failingManager =
     (let done = (\<lambda>e l. (Ret None, l @ [(e, True)])) in
      \<lparr>mg_ParseFlags = ret (Inr defaultFlags), mg_NewManager = (\<lambda>m. done (MadeManager m)), mg_Client = idleClient,
       mg_IndexField = (\<lambda>kd f _. done (Indexed kd f)), mg_MustRegister = (\<lambda>c _ l. (Ret (), l @ [(Collecting c, True)])),
       mg_Complete = (\<lambda>n ws _ l. (Ret (if n = None then None else Some (ErrNew ''already running'')),
         l @ [(Controlling n (map wt_Kind ws), n = None)])),
       mg_AddHealthzCheck = (\<lambda>n. done (Healthz n)), mg_AddReadyzCheck = (\<lambda>n. done (Readyz n)),
       mg_Start = done Started\<rparr>)"

lemma start_is_all_or_nothing_witness:
  "\<forall>lib out own. \<exists>n < length (startPlan defaultFlags). operatorMain lib out own failingManager [] =
     (Ret 1, map (\<lambda>e. (e, True)) (take n (startPlan defaultFlags)) @ [(startPlan defaultFlags ! n, False)])"
proof (intro allI)
  fix lib :: "('m, (startEvent \<times> bool) list) MetricLib" and out :: "((startEvent \<times> bool) list, 'r, 't) Outside"
    and own :: ownerHandler
  have logs: "logs failingManager (\<lambda>l. l)"
    by (auto simp: logs_def failingManager_def Let_def succeeded_def)
  have "fst (operatorMain lib out own failingManager []) = Ret 1"
    by (simp add: operatorMain_def startOperator_def orExit_def failingManager_def Let_def ClusterSetup_def
        GitRepoSetup_def TenantSetup_def CompilePipelineSetup_def bnd_def)
  then obtain w' where run: "operatorMain lib out own failingManager [] = (Ret 1, w')" by (metis prod.collapse)
  have flags: "fst (mg_ParseFlags failingManager []) = Ret (Inr defaultFlags)" by (simp add: failingManager_def Let_def)
  from start_is_all_or_nothing [OF logs run] flags run
  show "\<exists>n < length (startPlan defaultFlags). operatorMain lib out own failingManager [] =
     (Ret 1, map (\<lambda>e. (e, True)) (take n (startPlan defaultFlags)) @ [(startPlan defaultFlags ! n, False)])" by auto
qed

end
