(* ===== verification/Wakes.thy ===== *)
theory Wakes
  imports Passes Wiring
begin

text \<open>
  How the controllers wake each other. A pass of the cluster controller ties the cluster to its
  tenant twice: by a controller reference, through which a change of the cluster wakes the two
  controllers of tenants, and by a label, through which a change of the tenant wakes the controller
  of clusters. A repository is tied to its owner by a controller reference.
\<close>

section \<open>What a cluster pass leaves in its cluster\<close>

definition tie :: "Object \<Rightarrow> OwnerReference list \<times> string" where
  "tie obj = (om_OwnerReferences (GetMeta obj), GetTenantRef obj)"

lemma tie_Common:
  assumes "Common obj data w = (Ret (obj', data', r), w')"
  shows "tie obj' = tie obj" and "om_Labels (GetMeta obj') = om_Labels (GetMeta obj)"
proof -
  have "tie obj' = tie obj \<and> om_Labels (GetMeta obj') = om_Labels (GetMeta obj)"
    by (rule RunPipeline_invariant [OF _ _ assms [unfolded Common_def],
          where P = "\<lambda>x _. tie x = tie obj \<and> om_Labels (GetMeta x) = om_Labels (GetMeta obj)"])
      (auto simp: CommonSteps_def handleDeletion_def addDeletionProtection_def handleFinalizer_def
        updateObject_def tie_def Let_def elim!: bnd_RetE split: if_splits option.splits sum.splits)
  then show "tie obj' = tie obj" "om_Labels (GetMeta obj') = om_Labels (GetMeta obj)" by simp_all
qed

lemma GetGitTemplate_same:
  "GetGitTemplate obj = (t, obj') \<Longrightarrow> GetMeta obj' = GetMeta obj \<and> GetTenantRef obj' = GetTenantRef obj"
  using obj.getMeta_getTemplate [of obj] obj.tenantRef_getTemplate [of obj] by simp

lemma tie_CreateOrUpdate: "CreateOrUpdate obj data w = (Ret (obj', data', r), w') \<Longrightarrow> tie obj' = tie obj"
  by (auto simp: CreateOrUpdate_def tie_def Let_def dest!: GetGitTemplate_same elim!: bnd_RetE
      split: prod.splits if_splits sum.splits)

lemma tie_UpdateURLAndHostKeys: "UpdateURLAndHostKeys obj data w = (Ret (obj', data', r), w') \<Longrightarrow> tie obj' = tie obj"
  by (auto simp: UpdateURLAndHostKeys_def tie_def elim!: bnd_RetE split: if_splits sum.splits)

lemma tie_AddTenantLabel:
  assumes "AddTenantLabel obj data w = (Ret (obj', data', r), w')"
  shows "tie obj' = tie obj" and "lookupStr (om_Labels (GetMeta obj')) LabelNameTenant = GetTenantRef obj"
  using assms by (auto simp: AddTenantLabel_def tie_def Let_def lookupStr_def split: if_splits)

lemma finishes_CreateOrUpdate: "finishes CreateOrUpdate"
  by (rule finishesI) (auto simp: CreateOrUpdate_def Let_def result_defs elim!: bnd_RetE
      split: prod.splits if_splits sum.splits)

lemma finishes_UpdateURLAndHostKeys: "finishes UpdateURLAndHostKeys"
  by (rule finishesI) (auto simp: UpdateURLAndHostKeys_def result_defs elim!: bnd_RetE
      split: if_splits sum.splits)

lemma finishes_AddTenantLabel: "finishes AddTenantLabel"
  by (rule finishesI) (auto simp: AddTenantLabel_def result_defs Let_def)

lemma finishes_DeepCopyOriginal: "finishes DeepCopyOriginal"
  by (rule finishesI) (auto simp: DeepCopyOriginal_def result_defs)

text \<open>Merging a template keeps a reference to a tenant that is set.\<close>

definition merge_keeps_tenant :: "'t ClusterDeps \<Rightarrow> bool" where
  "merge_keeps_tenant cd \<longleftrightarrow> (\<forall>spec tmpl. cs_TenantRef spec \<noteq> '''' \<longrightarrow>
     cs_TenantRef (fst (cd_Merge cd spec tmpl)) = cs_TenantRef spec)"

lemma tie_applyClusterTemplate:
  assumes "merge_keeps_tenant cd" and "applyClusterTemplateFromTenant cd obj data w = (Ret (obj', data', r), w')"
    and "GetTenantRef obj \<noteq> ''''"
  shows "tie obj' = tie obj"
proof -
  have "cs_TenantRef (cl_Spec (fst (applyClusterTemplate cd c t))) = cs_TenantRef (cl_Spec c)"
    if "cs_TenantRef (cl_Spec c) \<noteq> ''''" for c t
    using assms(1) that
    by (auto simp: applyClusterTemplate_def merge_keeps_tenant_def split: option.splits prod.splits)
      (metis fst_conv)+
  moreover note applyClusterTemplate_meta [of cd]
  ultimately show ?thesis
    using assms(2,3)
    by (auto simp: applyClusterTemplateFromTenant_def tie_def elim!: bnd_RetE
        split: sum.splits Object.splits prod.splits option.splits) (metis fst_conv)+
qed

section \<open>A whole pass\<close>

lemma calm_vault_True: "calm_vault (\<lambda>_. True) env"
  by (simp add: calm_vault_def calm_vaultapi_def keeps_def)

lemma answers_True: "answers_in (\<lambda>_. True) k"
  by (simp add: answers_in_def)

lemmas gentle_clusterPipeline = tame_clusterPipeline [OF calm_vault_True, THEN bspec, THEN tame_gentle]
lemmas gentle_clusterSteps = tame_clusterSteps [OF calm_vault_True, THEN bspec, THEN tame_gentle]

text \<open>What every step of a pass keeps: the client, and the identity of the cluster.\<close>

definition samePass :: "'w Context \<Rightarrow> Cluster \<Rightarrow> Object \<Rightarrow> 'w Context \<Rightarrow> bool" where
  "samePass data0 c obj data \<longleftrightarrow> ctx_Client data = ctx_Client data0 \<and> (\<exists>c'. obj = ClusterObj c' \<and> derivedFrom c c')"

lemma gentle_samePass:
  assumes "gentle (\<lambda>_. True) f" and "samePass data0 c obj data" and "f obj data w = (Ret (obj', data', r), w')"
  shows "samePass data0 c obj' data'"
  using gentleD [OF assms(1) answers_True assms(3)] assms(2)
  by (auto simp: samePass_def carries_def split: Object.splits intro: derivedFrom_trans)

lemma run_samePass:
  assumes "\<forall>s \<in> set steps. gentle (\<lambda>_. True) (step_F s)" and "samePass data0 c obj data"
    and "RunPipeline obj data steps w = (Ret (obj', data', r), w')"
  shows "samePass data0 c obj' data'"
  by (rule RunPipeline_invariant [where P = "samePass data0 c", OF _ assms(2,3)])
    (blast intro: gentle_samePass assms(1) [rule_format])

text \<open>The own steps of a cluster end with a controller reference to the tenant that was read.\<close>

lemma SpecificSteps_tie:
  assumes merge: "merge_keeps_tenant cd" and run: "SpecificSteps fuel env cd obj data w = (Ret (obj', data', r), w')"
    and ok: "rs_Err r = None" and same: "samePass data0 c obj data" and ref: "GetTenantRef obj \<noteq> ''''"
  obtains t w1 w2 where
    "k_GetTenant (ctx_Client data0) \<lparr>nn_Namespace = om_Namespace (cl_Meta c), nn_Name = GetTenantRef obj\<rparr> w1 = (Ret (Inr t), w2)"
    and "tie obj' = ([k_NewControllerRef (ctx_Client data0) (tn_Meta t) (tn_GVK t)], GetTenantRef obj)"
proof -
  let ?own = "\<lparr>step_Name = ''set tenant owner'', step_F = setTenantOwner\<rparr>"
  let ?tmpl = "\<lparr>step_Name = ''apply cluster template from tenant'', step_F = applyClusterTemplateFromTenant cd\<rparr>"
  have steps: "clusterSteps fuel env cd = take 5 (clusterSteps fuel env cd) @ ?own # [?tmpl]"
    by (simp add: clusterSteps_def)
  from run have run': "RunPipeline obj data (take 5 (clusterSteps fuel env cd) @ ?own # [?tmpl]) w = (Ret (obj', data', r), w')"
    unfolding SpecificSteps_def by (subst (asm) steps)
  obtain o1 d1 w1 o2 d2 r2 w2 where
    a: "RunPipeline obj data (take 5 (clusterSteps fuel env cd)) w = (Ret (o1, d1, okResult), w1)"
    and own: "step_F ?own o1 d1 w1 = (Ret (o2, d2, r2), w2)" and r2: "rs_Err r2 = None"
    and b: "RunPipeline o2 d2 [?tmpl] w2 = (Ret (obj', data', r), w')"
    by (rule RunPipeline_through [OF run' ok])
      (use unaborted_clusterSteps [of fuel env cd] in \<open>simp_all add: clusterSteps_def\<close>)
  have "samePass data0 c o1 d1"
    by (rule run_samePass [OF _ same a]) (auto intro: gentle_clusterSteps dest: in_set_takeD)
  moreover have ref1: "GetTenantRef o1 = GetTenantRef obj"
    by (rule RunPipeline_invariant [where P = "\<lambda>x _. GetTenantRef x = GetTenantRef obj", OF _ _ a])
      (use clusterSteps_tenantRef [of _ fuel env cd] in fastforce)+
  ultimately have o1: "ctx_Client d1 = ctx_Client data0"
    "tenantKey o1 = \<lparr>nn_Namespace = om_Namespace (cl_Meta c), nn_Name = GetTenantRef obj\<rparr>"
    by (auto simp: samePass_def tenantKey_def derivedFrom_def)
  from own r2 obtain t w3 where
    t: "k_GetTenant (ctx_Client data0) \<lparr>nn_Namespace = om_Namespace (cl_Meta c), nn_Name = GetTenantRef obj\<rparr> w1 = (Ret (Inr t), w3)"
    and tie: "tie o2 = ([k_NewControllerRef (ctx_Client data0) (tn_Meta t) (tn_GVK t)], GetTenantRef obj)"
    by (auto simp: setTenantOwner_def o1 tie_def ref1 errResult_def elim!: bnd_RetE split: sum.splits)
  have "tie obj' = tie o2"
    using b tie ref by (auto simp: tie_def elim!: bnd_RetE split: if_splits dest!: tie_applyClusterTemplate [OF merge])
  with t tie that show thesis by simp
qed

lemma clusterPipeline_tie:
  assumes merge: "merge_keeps_tenant cd" and ref: "cs_TenantRef (cl_Spec c) \<noteq> ''''"
    and run: "RunPipeline (ClusterObj c) data (clusterPipeline fuel env cd) w = (Ret (obj', data', r), w')"
    and ok: "rs_Err r = None"
  obtains c' t w1 w2 where "obj' = ClusterObj c'" and "derivedFrom c c'"
    and "k_GetTenant (ctx_Client data) \<lparr>nn_Namespace = om_Namespace (cl_Meta c), nn_Name = cs_TenantRef (cl_Spec c)\<rparr> w1 = (Ret (Inr t), w2)"
    and "om_OwnerReferences (cl_Meta c') = [k_NewControllerRef (ctx_Client data) (tn_Meta t) (tn_GVK t)]"
    and "cs_TenantRef (cl_Spec c') = cs_TenantRef (cl_Spec c)"
    and "fmlookup (om_Labels (cl_Meta c')) LabelNameTenant = Some (cs_TenantRef (cl_Spec c))"
proof -
  let ?copy = "\<lparr>step_Name = ''copy original object'', step_F = DeepCopyOriginal\<rparr>"
  let ?own = "\<lparr>step_Name = ''cluster specific steps'', step_F = SpecificSteps fuel env cd\<rparr>"
  let ?repo = "\<lparr>step_Name = ''create git repo'', step_F = CreateOrUpdate\<rparr>"
  let ?url = "\<lparr>step_Name = ''set gitrepo url and hostkeys'', step_F = UpdateURLAndHostKeys\<rparr>"
  let ?label = "\<lparr>step_Name = ''add tenant label'', step_F = AddTenantLabel\<rparr>"
  let ?common = "\<lparr>step_Name = ''Common'', step_F = Common\<rparr>"
  have fin: "finishes (SpecificSteps fuel env cd)"
    using finishes_pipeline [of "clusterSteps fuel env cd"] by (simp add: SpecificSteps_def [abs_def])
  have same: "samePass data c (ClusterObj c) data" by (simp add: samePass_def)
  from run have run': "RunPipeline (ClusterObj c) data ([?copy] @ ?own # [?repo, ?url, ?label, ?common]) w = (Ret (obj', data', r), w')"
    by (simp add: clusterPipeline_def)
  obtain o1 d1 w1 o2 d2 r2 w2 where
    a: "RunPipeline (ClusterObj c) data [?copy] w = (Ret (o1, d1, okResult), w1)"
    and own: "step_F ?own o1 d1 w1 = (Ret (o2, d2, r2), w2)" and r2: "rs_Err r2 = None"
    and rest: "RunPipeline o2 d2 ([?repo, ?url] @ ?label # [?common]) w2 = (Ret (obj', data', r), w')"
    by (rule RunPipeline_passes [OF run' ok]) (use fin in \<open>simp_all add: finishes_DeepCopyOriginal\<close>)
  from a have o1: "o1 = ClusterObj c" and s1: "samePass data c o1 d1"
    by (auto simp: DeepCopyOriginal_def samePass_def split: if_splits)
  obtain t wa wb where
    t: "k_GetTenant (ctx_Client data) \<lparr>nn_Namespace = om_Namespace (cl_Meta c), nn_Name = cs_TenantRef (cl_Spec c)\<rparr> wa = (Ret (Inr t), wb)"
    and tie2: "tie o2 = ([k_NewControllerRef (ctx_Client data) (tn_Meta t) (tn_GVK t)], cs_TenantRef (cl_Spec c))"
    by (rule SpecificSteps_tie [OF merge, of fuel env o1 d1 w1 o2 d2 r2 w2 data c]) (use own r2 s1 o1 ref in simp_all)
  obtain o3 d3 w3 o4 d4 r4 w4 where
    b: "RunPipeline o2 d2 [?repo, ?url] w2 = (Ret (o3, d3, okResult), w3)"
    and label: "step_F ?label o3 d3 w3 = (Ret (o4, d4, r4), w4)" and r4: "rs_Err r4 = None"
    and last: "RunPipeline o4 d4 [?common] w4 = (Ret (obj', data', r), w')"
    by (rule RunPipeline_passes [OF rest ok])
      (simp_all add: finishes_CreateOrUpdate finishes_UpdateURLAndHostKeys finishes_AddTenantLabel)
  have tie3: "tie o3 = tie o2"
    by (rule RunPipeline_invariant [where P = "\<lambda>x _. tie x = tie o2", OF _ _ b])
      (auto dest!: tie_CreateOrUpdate tie_UpdateURLAndHostKeys)
  from last obtain rc where common: "Common o4 d4 w4 = (Ret (obj', data', rc), w')"
    by (auto elim!: bnd_RetE split: if_splits)
  from tie_AddTenantLabel [of o3 d3 w3 o4 d4 r4 w4] label tie_Common [OF common] tie2 tie3
  have tie: "tie obj' = ([k_NewControllerRef (ctx_Client data) (tn_Meta t) (tn_GVK t)], cs_TenantRef (cl_Spec c))"
    and lab: "lookupStr (om_Labels (GetMeta obj')) LabelNameTenant = cs_TenantRef (cl_Spec c)"
    by (simp_all add: tie_def)
  have "samePass data c obj' data'" by (rule run_samePass [OF _ same run]) (blast intro: gentle_clusterPipeline)
  then obtain c' where c': "obj' = ClusterObj c'" "derivedFrom c c'" by (auto simp: samePass_def)
  show thesis
    by (rule that [OF c' t]) (use tie lab ref c' in \<open>auto simp: tie_def lookupStr_def split: option.splits\<close>)
qed

section \<open>Waking\<close>

text \<open>Documented behaviour of the API server and of controller-runtime: a controller reference names the
  owner, and a list by label gives the objects that carry the label.\<close>

definition controller_refs :: "'w Client \<Rightarrow> bool" where
  "controller_refs k \<longleftrightarrow> (\<forall>m g. k_NewControllerRef k m g =
     \<lparr>or_GVK = g, or_Name = om_Name m, or_UID = om_UID m, or_Controller = True\<rparr>)"

definition lists_by_label :: "'w Client \<Rightarrow> Cluster set \<Rightarrow> bool" where
  "lists_by_label k clusters \<longleftrightarrow> (\<forall>ns l v w. \<exists>cs. k_ListClusters k ns (MatchingLabel l v) w = (Ret (Inr cs), w)
     \<and> set cs = {c \<in> clusters. om_Namespace (cl_Meta c) = ns \<and> fmlookup (om_Labels (cl_Meta c)) l = Some v})"

text \<open>The tenants that are read are those asked for, with their kind.\<close>

definition reads_tenants :: "'w Client \<Rightarrow> bool" where
  "reads_tenants k \<longleftrightarrow> (\<forall>n w t w'. k_GetTenant k n w = (Ret (Inr t), w') \<longrightarrow>
     keyOf (tn_Meta t) = n \<and> gvk_Group (tn_GVK t) = SynGroup \<and> gvk_Kind (tn_GVK t) = ''Tenant'')"

text \<open>An event of an object wakes the controller with these watches for a key.\<close>

definition wakes :: "'w Watch list \<Rightarrow> Resource \<Rightarrow> NamespacedName \<Rightarrow> bool" where
  "wakes ws x key \<longleftrightarrow> (\<forall>w. \<exists>ns. requests ws x w = (Ret ns, w) \<and> key \<in> set ns)"

text \<open>C4: A cluster and its tenant wake each other. After a pass of the cluster controller that reports no
  error, whatever it met on its way, an event of the cluster it ends with wakes both controllers of
  tenants for the tenant the cluster refers to, and an event of that tenant wakes the cluster
  controller for the cluster, once the server lists the cluster.\<close>

theorem cluster_and_tenant_wake_each_other:
  assumes "controller_refs k" and "owner_handler own" and "reads_tenants k" and "merge_keeps_tenant cd"
    and "cs_TenantRef (cl_Spec c) \<noteq> ''''" and "ctx_Client data = k"
    and "RunPipeline (ClusterObj c) data (clusterPipeline fuel env cd) w = (Ret (obj', data', r), w')"
    and "rs_Err r = None"
    and "lists_by_label k clusters" and "\<forall>c'. obj' = ClusterObj c' \<longrightarrow> c' \<in> clusters"
  shows "\<exists>c'. obj' = ClusterObj c' \<and> keyOf (cl_Meta c') = keyOf (cl_Meta c)
     \<and> wakes (tenantWatches own k) (R_Cluster c') (tenantKey (ClusterObj c))
     \<and> wakes (compilePipelineWatches own) (R_Cluster c') (tenantKey (ClusterObj c))
     \<and> (\<forall>t. keyOf (tn_Meta t) = tenantKey (ClusterObj c) \<longrightarrow>
          wakes (clusterWatches own k) (R_Tenant t) (keyOf (cl_Meta c)))"
proof -
  from clusterPipeline_tie [OF assms(4,5,7,8)] obtain c1 t w1 w2 where
    c1: "obj' = ClusterObj c1" and same: "derivedFrom c c1"
    and t: "k_GetTenant k \<lparr>nn_Namespace = om_Namespace (cl_Meta c), nn_Name = cs_TenantRef (cl_Spec c)\<rparr> w1 = (Ret (Inr t), w2)"
    and owner: "om_OwnerReferences (cl_Meta c1) = [k_NewControllerRef k (tn_Meta t) (tn_GVK t)]"
    and label: "fmlookup (om_Labels (cl_Meta c1)) LabelNameTenant = Some (cs_TenantRef (cl_Spec c))"
    unfolding assms(6) by metis
  have key: "keyOf (cl_Meta c1) = keyOf (cl_Meta c)" and ns: "om_Namespace (cl_Meta c1) = om_Namespace (cl_Meta c)"
    using same by (simp_all add: derivedFrom_def keyOf_def)
  from assms(3) t have "keyOf (tn_Meta t) = tenantKey (ClusterObj c)" and gvk: "gvk_Group (tn_GVK t) = SynGroup"
    "gvk_Kind (tn_GVK t) = ''Tenant''"
    unfolding reads_tenants_def by (auto simp: tenantKey_def)
  then have "own KTenant (cl_Meta c1) = [tenantKey (ClusterObj c)]"
    using assms(1,2) by (simp add: owner_handler_def owner controller_refs_def ns tenantKey_def keyOf_def)
  then have owned: "wakes (tenantWatches own k) (R_Cluster c1) (tenantKey (ClusterObj c))"
    "wakes (compilePipelineWatches own) (R_Cluster c1) (tenantKey (ClusterObj c))"
    by (simp_all add: wakes_def tenantWatches_def compilePipelineWatches_def watchFor_def watchOwns_def)
  have "wakes (clusterWatches own k) (R_Tenant tn) (keyOf (cl_Meta c))"
    if tn: "keyOf (tn_Meta tn) = tenantKey (ClusterObj c)" for tn
    unfolding wakes_def
  proof
    fix w0
    from tn have tm: "om_Namespace (tn_Meta tn) = om_Namespace (cl_Meta c)" "om_Name (tn_Meta tn) = cs_TenantRef (cl_Spec c)"
      by (simp_all add: keyOf_def tenantKey_def)
    from assms(9) obtain cs where
      cs: "k_ListClusters k (om_Namespace (tn_Meta tn)) (MatchingLabel LabelNameTenant (om_Name (tn_Meta tn))) w0 = (Ret (Inr cs), w0)"
      and set: "set cs = {c \<in> clusters. om_Namespace (cl_Meta c) = om_Namespace (tn_Meta tn)
         \<and> fmlookup (om_Labels (cl_Meta c)) LabelNameTenant = Some (om_Name (tn_Meta tn))}"
      unfolding lists_by_label_def by blast
    have "c1 \<in> set cs" using assms(10) c1 ns label tm by (simp add: set)
    with cs show "\<exists>ns. requests (clusterWatches own k) (R_Tenant tn) w0 = (Ret ns, w0) \<and> keyOf (cl_Meta c) \<in> set ns"
      unfolding key [symmetric]
      by (auto simp: clusterWatches_def watchFor_def watchOwns_def enqueueClustersForTenant_def)
  qed
  with c1 key owned show ?thesis by blast
qed

text \<open>The instance: a cluster whose token was handed out, and its tenant.\<close>

definition quietVault :: "'w VaultEnv" where
  "quietVault = \<lparr>ve_NewClientFromConfig = (\<lambda>_ _ _. ret (Inl (ErrNew ''no vault''))), ve_Getenv = (\<lambda>_. ret ''''),
     ve_TokenFileMissing = ret False, ve_GetInstance = ret None, ve_SetInstance = (\<lambda>_. ret ()),
     ve_NewData = (\<lambda>_ m. m)\<rparr>"

definition ownersOf :: ownerHandler where
  "ownersOf kd m = map (\<lambda>r. \<lparr>nn_Namespace = om_Namespace m, nn_Name = or_Name r\<rparr>)
     (filter (\<lambda>r. or_Controller r \<and> gvk_Group (or_GVK r) = SynGroup \<and> gvk_Kind (or_GVK r) = kindName kd)
        (om_OwnerReferences m))"

definition handedCluster :: Cluster where
  "handedCluster = sampleCluster\<lparr>cl_Status := (cl_Status sampleCluster)\<lparr>cst_BootstrapToken :=
     Some \<lparr>bt_Token = ''t'', bt_ValidUntil = 0, bt_TokenValid = False\<rparr>\<rparr>\<rparr>"

definition tiedCluster :: Cluster where
  "tiedCluster = handedCluster\<lparr>
     cl_Meta := (sampleMeta ''c-prod'')\<lparr>om_Labels := fmupd LabelNameTenant ''t-acme'' fmempty,
       om_Annotations := fmupd DeleteProtectionAnnotation ''true'' fmempty,
       om_OwnerReferences := [\<lparr>or_GVK = synGVK ''Tenant'', or_Name = ''t-acme'', or_UID = ''u1'', or_Controller = True\<rparr>],
       om_Finalizers := [FinalizerName]\<rparr>,
     cl_Spec := sampleClusterSpec\<lparr>cs_GitRepoTemplate := Some (emptyGitRepoTemplate\<lparr>gt_RepoType := AutoRepoType,
       gt_DisplayName := ''Prod'', gt_DeletionPolicy := ArchivePolicy, gt_CreationPolicy := CreatePolicy\<rparr>)\<rparr>\<rparr>"

definition tenantServer :: "unit Client" where
  "tenantServer = idleClient\<lparr>
     k_GetTenant := \<lambda>n. ret (if n = keyOf (tn_Meta sampleTenant) then Inr sampleTenant
        else Inl (ApiErr NotFound ''not found'')),
     k_ListClusters := \<lambda>ns sel. ret (Inr (case sel of
        MatchingLabel l v \<Rightarrow> filter (\<lambda>c. om_Namespace (cl_Meta c) = ns \<and> fmlookup (om_Labels (cl_Meta c)) l = Some v) [tiedCluster]
      | _ \<Rightarrow> []))\<rparr>"

definition tiedRun where
  "tiedRun = RunPipeline (ClusterObj handedCluster) (sampleContext\<lparr>ctx_Client := tenantServer\<rparr>)
     (clusterPipeline 0 quietVault plainDeps) ()"

lemma tiedRun_end:
  "case tiedRun of (Ret (obj, _, r), _) \<Rightarrow> obj = ClusterObj tiedCluster \<and> rs_Err r = None | _ \<Rightarrow> False"
  by code_simp

lemma cluster_and_tenant_wake_each_other_witness:
  "wakes (tenantWatches ownersOf tenantServer) (R_Cluster tiedCluster) (keyOf (tn_Meta sampleTenant))
   \<and> wakes (compilePipelineWatches ownersOf) (R_Cluster tiedCluster) (keyOf (tn_Meta sampleTenant))
   \<and> wakes (clusterWatches ownersOf tenantServer) (R_Tenant sampleTenant) (keyOf (cl_Meta handedCluster))"
proof -
  obtain data' r w' where run: "tiedRun = (Ret (ClusterObj tiedCluster, data', r), w')" and ok: "rs_Err r = None"
    using tiedRun_end by (auto split: prod.splits outcome.splits)
  have key: "tenantKey (ClusterObj handedCluster) = keyOf (tn_Meta sampleTenant)"
    and ref: "cs_TenantRef (cl_Spec handedCluster) \<noteq> ''''" by code_simp+
  have server: "controller_refs tenantServer" "reads_tenants tenantServer" "lists_by_label tenantServer {tiedCluster}"
    by (auto simp: controller_refs_def reads_tenants_def lists_by_label_def tenantServer_def idleClient_def sampleTenant_def
        sample_defs SynGroup_def split: if_splits)
  have "owner_handler ownersOf" by (simp add: owner_handler_def ownersOf_def)
  moreover have "merge_keeps_tenant plainDeps" by (simp add: merge_keeps_tenant_def plainDeps_def)
  ultimately show ?thesis
    using cluster_and_tenant_wake_each_other [OF server(1) _ server(2) _ ref _ run [unfolded tiedRun_def] ok server(3), of ownersOf]
    by (auto simp: key)
qed

section \<open>Repositories\<close>

text \<open>The watches of the controller of an object.\<close>

definition watchesFor :: "ownerHandler \<Rightarrow> 'w Client \<Rightarrow> Object \<Rightarrow> 'w Watch list" where
  "watchesFor own k obj = (case obj of
     ClusterObj _ \<Rightarrow> clusterWatches own k | TenantObj _ \<Rightarrow> tenantWatches own k | GitRepoObj _ \<Rightarrow> gitrepoWatches own k)"

text \<open>What \<open>CreateOrUpdate\<close> sends for an object that has no repository yet.\<close>

definition newRepo :: "'w Context \<Rightarrow> Object \<Rightarrow> GitRepo" where
  "newRepo data obj = \<lparr>gr_GVK = \<lparr>gvk_Group = [], gvk_Version = [], gvk_Kind = []\<rparr>,
     gr_Meta = emptyMeta\<lparr>om_Name := GetName obj, om_Namespace := GetNamespace obj,
       om_OwnerReferences := [k_NewControllerRef (ctx_Client data) (GetMeta obj) (GroupVersionKind obj)]\<rparr>,
     gr_Spec = \<lparr>gs_GitRepoTemplate = (let (t, obj1) = GetGitTemplate obj; t1 = namedTemplate obj1 t
         in filledTemplate data (PutGitTemplate t1 obj1) t1),
       gs_TenantRef = GetTenantRef obj\<rparr>,
     gr_Status = emptyGitRepoStatus\<rparr>"

lemma GroupVersionKind_template:
  "GetGitTemplate obj = (t, obj') \<Longrightarrow> GroupVersionKind obj' = GroupVersionKind obj"
  "GroupVersionKind (PutGitTemplate t' obj') = GroupVersionKind obj'"
  by (cases obj; auto simp: object_methods split: option.splits prod.splits)
    (cases obj'; auto simp: object_methods split: option.splits)

lemma CreateOrUpdate_new:
  assumes "GetTenantRef obj \<noteq> []" and "k_GetGitRepo (ctx_Client data) (keyOf (GetMeta obj)) w = (Ret (Inl err), w1)"
    and "IsNotFound err"
  shows "snd (CreateOrUpdate obj data w) = snd (k_CreateGitRepo (ctx_Client data) (newRepo data obj) w1)"
proof -
  obtain t obj1 where g: "GetGitTemplate obj = (t, obj1)" by (cases "GetGitTemplate obj")
  note same = GetGitTemplate_same [OF g] GroupVersionKind_template(1) [OF g]
  have "snd (bnd m (\<lambda>r. ret (f r)) v) = snd (m v)" for m :: "('w, 'x) go" and f :: "'x \<Rightarrow> 'y" and v
    by (cases rule: outcome_world_cases [of m v]) auto
  then show ?thesis
    using assms same
    by (simp add: CreateOrUpdate_def newRepo_def g Let_def keyOf_def GroupVersionKind_template(2))
qed

text \<open>C35: A repository wakes its owner. For a cluster or tenant that has no repository, \<open>CreateOrUpdate\<close>
  creates one object of the same name, and every event of it, as long as it keeps its owner, wakes
  the controller of the owner for the owner, whose next pass takes the URL over.\<close>

theorem repository_wakes_its_owner:
  assumes "controller_refs (ctx_Client data)" and "owner_handler own"
    and "obj = ClusterObj c \<and> gvk_Kind (cl_GVK c) = ''Cluster'' \<or> obj = TenantObj t \<and> gvk_Kind (tn_GVK t) = ''Tenant''"
    and "gvk_Group (GroupVersionKind obj) = SynGroup" and "GetTenantRef obj \<noteq> []"
    and "k_GetGitRepo (ctx_Client data) (keyOf (GetMeta obj)) w = (Ret (Inl err), w1)" and "IsNotFound err"
  shows "\<exists>g. snd (CreateOrUpdate obj data w) = snd (k_CreateGitRepo (ctx_Client data) g w1)
    \<and> keyOf (gr_Meta g) = keyOf (GetMeta obj)
    \<and> (\<forall>g'. om_OwnerReferences (gr_Meta g') = om_OwnerReferences (gr_Meta g) \<and> keyOf (gr_Meta g') = keyOf (gr_Meta g) \<longrightarrow>
         wakes (watchesFor own k obj) (R_GitRepo g') (keyOf (GetMeta obj)))"
proof (intro exI conjI allI impI)
  show "snd (CreateOrUpdate obj data w) = snd (k_CreateGitRepo (ctx_Client data) (newRepo data obj) w1)"
    using assms(5-7) by (rule CreateOrUpdate_new)
  show "keyOf (gr_Meta (newRepo data obj)) = keyOf (GetMeta obj)" by (simp add: newRepo_def keyOf_def)
  fix g' :: GitRepo assume "om_OwnerReferences (gr_Meta g') = om_OwnerReferences (gr_Meta (newRepo data obj))
    \<and> keyOf (gr_Meta g') = keyOf (gr_Meta (newRepo data obj))"
  then show "wakes (watchesFor own k obj) (R_GitRepo g') (keyOf (GetMeta obj))"
    using assms(1-4)
    by (auto simp: newRepo_def keyOf_def controller_refs_def owner_handler_def wakes_def watchesFor_def
        clusterWatches_def tenantWatches_def watchFor_def watchOwns_def)
qed

lemma repository_wakes_its_owner_witness:
  "\<exists>g. keyOf (gr_Meta g) = keyOf (cl_Meta sampleCluster)
     \<and> wakes (clusterWatches ownersOf tenantServer) (R_GitRepo g) (keyOf (cl_Meta sampleCluster))"
proof -
  let ?data = "sampleContext\<lparr>ctx_Client := tenantServer\<rparr>"
  have "controller_refs (ctx_Client ?data)" by (simp add: controller_refs_def tenantServer_def idleClient_def)
  moreover have "owner_handler ownersOf" by (simp add: owner_handler_def ownersOf_def)
  moreover have "k_GetGitRepo (ctx_Client ?data) (keyOf (GetMeta (ClusterObj sampleCluster))) () =
    (Ret (Inl (ApiErr NotFound ''not found'')), ())" by (simp add: tenantServer_def)
  moreover have "gvk_Kind (cl_GVK sampleCluster) = ''Cluster''" "gvk_Group (cl_GVK sampleCluster) = SynGroup"
    "cs_TenantRef (cl_Spec sampleCluster) \<noteq> []" by (simp_all add: sample_defs)
  ultimately show ?thesis
    using repository_wakes_its_owner [of ?data ownersOf "ClusterObj sampleCluster" sampleCluster sampleTenant "()"
        "ApiErr NotFound ''not found''" "()" tenantServer]
    by (auto simp: watchesFor_def)
qed

end
