(* ===== verification/ApiStore.thy ===== *)
theory ApiStore
  imports System Wakes
begin

text \<open>
  An API server to run the operator on: tables of objects, versions that are counted up with every
  write, optimistic locking, the status subresource, finalizers, and a plan of what other programs
  do before each call. It is the instance at which the theorems with a hypothesis on the server are
  applied, and it interprets \<open>cluster_server\<close> and \<open>operator_world\<close>.
\<close>

section \<open>Tables\<close>

type_synonym 'a table = "(NamespacedName \<times> 'a) list"

definition tput :: "NamespacedName \<Rightarrow> 'a \<Rightarrow> 'a table \<Rightarrow> 'a table" where
  "tput n x tab = (n, x) # filter (\<lambda>e. fst e \<noteq> n) tab"

definition tdel :: "NamespacedName \<Rightarrow> 'a table \<Rightarrow> 'a table" where
  "tdel n tab = filter (\<lambda>e. fst e \<noteq> n) tab"

lemma map_of_tdel [simp]: "map_of (tdel n tab) = (map_of tab)(n := None)"
  by (induction tab) (auto simp: tdel_def fun_eq_iff)

lemma map_of_tput [simp]: "map_of (tput n x tab) = (map_of tab)(n \<mapsto> x)"
  using map_of_tdel [of n tab] by (simp add: tput_def tdel_def fun_eq_iff)

lemma set_tput: "e \<in> set (tput n x tab) \<Longrightarrow> e = (n, x) \<or> e \<in> set tab"
  by (auto simp: tput_def)

lemma set_tdel: "e \<in> set (tdel n tab) \<Longrightarrow> e \<in> set tab"
  by (auto simp: tdel_def)

text \<open>What other programs do: the API hands a token out and marks it as used, users create, edit and
  delete clusters.\<close>

datatype edit = Rest | UseToken NamespacedName | EditSpec NamespacedName ClusterSpec | NewCluster Cluster
  | DropCluster NamespacedName

record apiState =
  st_Version :: nat
  st_Clusters :: "Cluster table"
  st_Tenants :: "Tenant table"
  st_GitRepos :: "GitRepo table"
  st_Templates :: "TenantTemplate table"
  st_Secrets :: "Secret table"
  st_Accounts :: "ServiceAccount table"
  st_Roles :: "Role table"
  st_Bindings :: "RoleBinding table"
  st_Plan :: "edit list"

section \<open>Clusters\<close>

text \<open>A version is written as that many ones. The entries that count have an older version than the
  next one.\<close>

definition versionString :: "nat \<Rightarrow> string" where
  "versionString v = replicate v CHR ''1''"

definition validCluster :: "nat \<Rightarrow> NamespacedName \<times> Cluster \<Rightarrow> bool" where
  "validCluster v e \<longleftrightarrow> keyOf (cl_Meta (snd e)) = fst e
     \<and> length (om_ResourceVersion (cl_Meta (snd e))) < v \<and> length (om_UID (cl_Meta (snd e))) < v"

definition validClusters :: "apiState \<Rightarrow> Cluster table" where
  "validClusters s = filter (validCluster (st_Version s)) (st_Clusters s)"

definition clustersOf :: "apiState \<Rightarrow> NamespacedName \<Rightarrow> Cluster option" where
  "clustersOf s n = map_of (validClusters s) n"

definition setClusters :: "Cluster table \<Rightarrow> apiState \<Rightarrow> apiState" where
  "setClusters tab s = s\<lparr>st_Version := Suc (st_Version s), st_Clusters := tab\<rparr>"

definition stamped :: "apiState \<Rightarrow> Cluster \<Rightarrow> Cluster" where
  "stamped s c = c\<lparr>cl_Meta := (cl_Meta c)\<lparr>om_ResourceVersion := versionString (st_Version s)\<rparr>\<rparr>"

text \<open>The new version of a cluster; one that is deleted and has no finalizer goes.\<close>

definition storeCluster :: "Cluster \<Rightarrow> apiState \<Rightarrow> Cluster \<times> apiState" where
  "storeCluster c s =
     (let c' = stamped s c; n = keyOf (cl_Meta c)
      in (c', setClusters (if om_DeletionTimestamp (cl_Meta c) \<noteq> None \<and> om_Finalizers (cl_Meta c) = []
                then tdel n (validClusters s) else tput n c' (validClusters s)) s))"

definition casCluster :: "(Cluster \<Rightarrow> Cluster \<Rightarrow> Cluster) \<Rightarrow> Cluster \<Rightarrow> apiState \<Rightarrow> (gerr + Cluster) \<times> apiState" where
  "casCluster merge c s = (case clustersOf s (keyOf (cl_Meta c)) of
       None \<Rightarrow> (Inl (ApiErr NotFound ''not found''), s)
     | Some old \<Rightarrow>
         if om_ResourceVersion (cl_Meta old) = om_ResourceVersion (cl_Meta c) \<and> om_UID (cl_Meta old) = om_UID (cl_Meta c)
         then (let (c', s') = storeCluster (merge old c) s in (Inr c', s'))
         else (Inl (ApiErr Conflict ''the object has been modified''), s))"

definition updateClusterIn :: "Cluster \<Rightarrow> apiState \<Rightarrow> (gerr + Cluster) \<times> apiState" where
  "updateClusterIn = casCluster (\<lambda>old c. c\<lparr>cl_Status := cl_Status old\<rparr>)"

definition updateClusterStatusIn :: "Cluster \<Rightarrow> apiState \<Rightarrow> (gerr + Cluster) \<times> apiState" where
  "updateClusterStatusIn = casCluster (\<lambda>old c. old\<lparr>cl_Status := cl_Status c\<rparr>)"

definition markUsed :: "Cluster \<Rightarrow> Cluster" where
  "markUsed c = c\<lparr>cl_Status := (cl_Status c)\<lparr>cst_BootstrapToken :=
     map_option (\<lambda>t. t\<lparr>bt_TokenValid := False\<rparr>) (cst_BootstrapToken (cl_Status c))\<rparr>\<rparr>"

fun applyEdit :: "edit \<Rightarrow> apiState \<Rightarrow> apiState" where
  "applyEdit Rest s = s"
| "applyEdit (UseToken n) s = (case clustersOf s n of
       None \<Rightarrow> s | Some c \<Rightarrow> snd (storeCluster (markUsed c) s))"
| "applyEdit (EditSpec n spec) s = (case clustersOf s n of
       None \<Rightarrow> s | Some c \<Rightarrow> snd (storeCluster (c\<lparr>cl_Spec := spec\<rparr>) s))"
| "applyEdit (NewCluster c) s = (case clustersOf s (keyOf (cl_Meta c)) of
       Some _ \<Rightarrow> s
     | None \<Rightarrow> snd (storeCluster (c\<lparr>cl_Meta := (cl_Meta c)\<lparr>om_UID := versionString (st_Version s)\<rparr>\<rparr>) s))"
| "applyEdit (DropCluster n) s = setClusters (tdel n (validClusters s)) s"

definition interfere :: "apiState \<Rightarrow> apiState" where
  "interfere s = (case st_Plan s of [] \<Rightarrow> s | e # es \<Rightarrow> applyEdit e (s\<lparr>st_Plan := es\<rparr>))"

section \<open>Time, and what others do\<close>

definition laterState :: "apiState \<Rightarrow> apiState \<Rightarrow> bool" where
  "laterState s s' \<longleftrightarrow> st_Version s \<le> st_Version s' \<and> (\<forall>n c'. clustersOf s' n = Some c' \<longrightarrow>
     (length (om_ResourceVersion (cl_Meta c')) < st_Version s \<longrightarrow> clustersOf s n = Some c') \<and>
     (length (om_UID (cl_Meta c')) < st_Version s \<longrightarrow>
        (\<exists>c. clustersOf s n = Some c \<and> om_UID (cl_Meta c) = om_UID (cl_Meta c'))))"

definition relyState :: "apiState \<Rightarrow> apiState \<Rightarrow> bool" where
  "relyState s s' \<longleftrightarrow> laterState s s' \<and> (\<forall>n c c'. clustersOf s n = Some c \<longrightarrow> clustersOf s' n = Some c' \<longrightarrow>
     om_UID (cl_Meta c') = om_UID (cl_Meta c) \<longrightarrow> tokenKept (cl_Status c) (cl_Status c'))"

lemma clustersOf_valid:
  "clustersOf s n = Some c \<Longrightarrow> keyOf (cl_Meta c) = n \<and> length (om_ResourceVersion (cl_Meta c)) < st_Version s
     \<and> length (om_UID (cl_Meta c)) < st_Version s"
  unfolding clustersOf_def validClusters_def
  by (drule map_of_SomeD) (auto simp: validCluster_def)

lemma validClusters_valid: "e \<in> set (validClusters s) \<Longrightarrow> validCluster (Suc (st_Version s)) e"
  by (auto simp: validClusters_def validCluster_def)

text \<open>What a new table amounts to, if its new entry is valid.\<close>

lemma clustersOf_setClusters:
  assumes "\<forall>e \<in> set tab. validCluster (Suc (st_Version s)) e"
  shows "clustersOf (setClusters tab s) = map_of tab"
proof -
  have "filter (validCluster (Suc (st_Version s))) tab = tab"
    using assms by (simp add: filter_id_conv)
  then show ?thesis by (simp add: clustersOf_def validClusters_def setClusters_def fun_eq_iff)
qed

lemma clustersOf_del: "clustersOf (setClusters (tdel n (validClusters s)) s) = (clustersOf s)(n := None)"
  by (subst clustersOf_setClusters)
    (auto simp: clustersOf_def fun_eq_iff dest!: set_tdel intro: validClusters_valid)

lemma clustersOf_put:
  assumes "validCluster (Suc (st_Version s)) (n, c)"
  shows "clustersOf (setClusters (tput n c (validClusters s)) s) = (clustersOf s)(n \<mapsto> c)"
  by (subst clustersOf_setClusters)
    (auto simp: clustersOf_def fun_eq_iff assms dest!: set_tput intro: validClusters_valid)

lemma clustersOf_same: "clustersOf (setClusters (validClusters s) s) = clustersOf s"
  by (subst clustersOf_setClusters) (auto simp: clustersOf_def fun_eq_iff intro: validClusters_valid)

text \<open>A cluster that is stored: the old one with a new version, or a new one.\<close>

lemma storeCluster_clusters:
  assumes "length (om_UID (cl_Meta c)) \<le> st_Version s"
  shows "clustersOf (snd (storeCluster c s)) =
    (clustersOf s)(keyOf (cl_Meta c) := (if om_DeletionTimestamp (cl_Meta c) \<noteq> None \<and> om_Finalizers (cl_Meta c) = []
       then None else Some (stamped s c)))"
proof -
  have "validCluster (Suc (st_Version s)) (keyOf (cl_Meta c), stamped s c)"
    using assms by (simp add: validCluster_def stamped_def keyOf_def versionString_def)
  then show ?thesis
    by (auto simp: storeCluster_def Let_def clustersOf_del clustersOf_put)
qed

lemma storeCluster_version [simp]: "st_Version (snd (storeCluster c s)) = Suc (st_Version s)"
  by (simp add: storeCluster_def Let_def setClusters_def)

lemma stamped_simps [simp]:
  "om_ResourceVersion (cl_Meta (stamped s c)) = versionString (st_Version s)"
  "om_UID (cl_Meta (stamped s c)) = om_UID (cl_Meta c)" "cl_Status (stamped s c) = cl_Status c"
  "keyOf (cl_Meta (stamped s c)) = keyOf (cl_Meta c)"
  by (simp_all add: stamped_def keyOf_def)

lemma length_versionString [simp]: "length (versionString v) = v"
  by (simp add: versionString_def)

lemma stored_clusters:
  assumes "clustersOf s (keyOf (cl_Meta c)) = Some old" and "om_UID (cl_Meta c) = om_UID (cl_Meta old)"
    and "clustersOf (snd (storeCluster c s)) n = Some c'"
  shows "clustersOf s n = Some c' \<or> n = keyOf (cl_Meta c) \<and> c' = stamped s c"
proof -
  have "length (om_UID (cl_Meta c)) \<le> st_Version s" using clustersOf_valid [OF assms(1)] assms(2) by simp
  from storeCluster_clusters [OF this] assms(3) show ?thesis by (auto split: if_splits)
qed

lemma store_later:
  assumes "clustersOf s (keyOf (cl_Meta c)) = Some old" and "om_UID (cl_Meta c) = om_UID (cl_Meta old)"
  shows "laterState s (snd (storeCluster c s))"
  unfolding laterState_def using stored_clusters [OF assms] assms by fastforce

lemma store_rely:
  assumes "clustersOf s (keyOf (cl_Meta c)) = Some old" and "om_UID (cl_Meta c) = om_UID (cl_Meta old)"
    and "tokenKept (cl_Status old) (cl_Status c)"
  shows "relyState s (snd (storeCluster c s))"
  unfolding relyState_def using store_later [OF assms(1,2)] stored_clusters [OF assms(1,2)] assms by fastforce

lemma laterState_refl: "laterState s s"
  by (simp add: laterState_def)

lemma laterState_trans: "laterState s s1 \<Longrightarrow> laterState s1 s2 \<Longrightarrow> laterState s s2"
proof -
  assume a: "laterState s s1" and b: "laterState s1 s2"
  then have v: "st_Version s \<le> st_Version s1" "st_Version s1 \<le> st_Version s2" by (simp_all add: laterState_def)
  show "laterState s s2"
    unfolding laterState_def
  proof (intro conjI allI impI)
    fix n c' assume c': "clustersOf s2 n = Some c'"
    show "clustersOf s n = Some c'" if "length (om_ResourceVersion (cl_Meta c')) < st_Version s"
      using a b c' that v by (simp add: laterState_def)
    show "\<exists>c. clustersOf s n = Some c \<and> om_UID (cl_Meta c) = om_UID (cl_Meta c')"
      if u: "length (om_UID (cl_Meta c')) < st_Version s"
    proof -
      from b c' u v obtain c1 where "clustersOf s1 n = Some c1" "om_UID (cl_Meta c1) = om_UID (cl_Meta c')"
        unfolding laterState_def by (metis order_less_le_trans)
      with a u show ?thesis unfolding laterState_def by metis
    qed
  qed (use v in simp)
qed

lemma relyState_refl: "relyState s s"
  by (auto simp: relyState_def laterState_refl)

lemma relyState_same: "clustersOf s' = clustersOf s \<Longrightarrow> st_Version s \<le> st_Version s' \<Longrightarrow> relyState s s'"
  by (auto simp: relyState_def laterState_def)
section \<open>The plan of the others\<close>

lemma clustersOf_plan [simp]: "clustersOf (s\<lparr>st_Plan := p\<rparr>) = clustersOf s"
  by (simp add: clustersOf_def validClusters_def fun_eq_iff)

lemma relyState_plan: "relyState s (s\<lparr>st_Plan := p\<rparr>)"
  by (rule relyState_same) simp_all

lemma tokenKept_markUsed: "tokenKept (cl_Status c) (cl_Status (markUsed c))"
  by (auto simp: tokenKept_def markUsed_def)

lemma markUsed_meta [simp]: "cl_Meta (markUsed c) = cl_Meta c"
  by (simp add: markUsed_def)

lemma newCluster_rely:
  assumes "clustersOf s (keyOf (cl_Meta c)) = None" and "length (om_UID (cl_Meta c)) = st_Version s"
  shows "relyState s (snd (storeCluster c s))"
  using assms by (auto simp: relyState_def laterState_def storeCluster_clusters split: if_splits)

lemma applyEdit_rely: "relyState s (applyEdit e s)"
proof (cases e)
  case Rest
  then show ?thesis by (simp add: relyState_refl)
next
  case (UseToken n)
  then show ?thesis
    using clustersOf_valid [of s n] tokenKept_markUsed
    by (auto simp: relyState_refl split: option.split intro!: store_rely)
next
  case (EditSpec n spec)
  then show ?thesis
    using clustersOf_valid [of s n]
    by (auto simp: relyState_refl split: option.split intro!: store_rely)
next
  case (NewCluster c)
  then show ?thesis
    by (auto simp: relyState_refl keyOf_def split: option.split intro!: newCluster_rely)
next
  case (DropCluster n)
  then show ?thesis
    by (auto simp: relyState_def laterState_def clustersOf_del setClusters_def [of _ s, THEN arg_cong [of _ _ st_Version]]
        split: if_splits)
qed

text \<open>Between the state and the one after the interference lie two steps of others.\<close>

lemma interfere_rely: "relyState\<^sup>*\<^sup>* s (interfere s)"
proof (cases "st_Plan s")
  case (Cons e es)
  let ?s = "s\<lparr>st_Plan := es\<rparr>"
  have "relyState\<^sup>*\<^sup>* s ?s" using relyState_plan [of s es] by (rule r_into_rtranclp)
  then have "relyState\<^sup>*\<^sup>* s (applyEdit e ?s)"
    using applyEdit_rely [of ?s e] by (rule rtranclp.rtrancl_into_rtrancl)
  with Cons show ?thesis by (simp add: interfere_def)
qed (simp add: interfere_def)

section \<open>The other tables\<close>

record 'a tableOps =
  tb_Get :: "apiState \<Rightarrow> 'a table"
  tb_Set :: "'a table \<Rightarrow> apiState \<Rightarrow> apiState"
  tb_Meta :: "'a \<Rightarrow> ObjectMeta"
  tb_SetMeta :: "ObjectMeta \<Rightarrow> 'a \<Rightarrow> 'a"

definition tenantTable :: "Tenant tableOps" where
  "tenantTable = \<lparr>tb_Get = st_Tenants, tb_Set = (\<lambda>t s. s\<lparr>st_Tenants := t\<rparr>), tb_Meta = tn_Meta,
     tb_SetMeta = (\<lambda>m x. x\<lparr>tn_Meta := m\<rparr>)\<rparr>"

definition gitrepoTable :: "GitRepo tableOps" where
  "gitrepoTable = \<lparr>tb_Get = st_GitRepos, tb_Set = (\<lambda>t s. s\<lparr>st_GitRepos := t\<rparr>), tb_Meta = gr_Meta,
     tb_SetMeta = (\<lambda>m x. x\<lparr>gr_Meta := m\<rparr>)\<rparr>"

definition templateTable :: "TenantTemplate tableOps" where
  "templateTable = \<lparr>tb_Get = st_Templates, tb_Set = (\<lambda>t s. s\<lparr>st_Templates := t\<rparr>), tb_Meta = tt_Meta,
     tb_SetMeta = (\<lambda>m x. x\<lparr>tt_Meta := m\<rparr>)\<rparr>"

definition secretTable :: "Secret tableOps" where
  "secretTable = \<lparr>tb_Get = st_Secrets, tb_Set = (\<lambda>t s. s\<lparr>st_Secrets := t\<rparr>), tb_Meta = sec_Meta,
     tb_SetMeta = (\<lambda>m x. x\<lparr>sec_Meta := m\<rparr>)\<rparr>"

definition accountTable :: "ServiceAccount tableOps" where
  "accountTable = \<lparr>tb_Get = st_Accounts, tb_Set = (\<lambda>t s. s\<lparr>st_Accounts := t\<rparr>), tb_Meta = sa_Meta,
     tb_SetMeta = (\<lambda>m x. x\<lparr>sa_Meta := m\<rparr>)\<rparr>"

definition roleTable :: "Role tableOps" where
  "roleTable = \<lparr>tb_Get = st_Roles, tb_Set = (\<lambda>t s. s\<lparr>st_Roles := t\<rparr>), tb_Meta = role_Meta,
     tb_SetMeta = (\<lambda>m x. x\<lparr>role_Meta := m\<rparr>)\<rparr>"

definition bindingTable :: "RoleBinding tableOps" where
  "bindingTable = \<lparr>tb_Get = st_Bindings, tb_Set = (\<lambda>t s. s\<lparr>st_Bindings := t\<rparr>), tb_Meta = rb_Meta,
     tb_SetMeta = (\<lambda>m x. x\<lparr>rb_Meta := m\<rparr>)\<rparr>"

lemmas table_defs = tenantTable_def gitrepoTable_def templateTable_def secretTable_def accountTable_def
  roleTable_def bindingTable_def

text \<open>Reads and writes of a row; a write counts the version up.\<close>

definition findRow :: "'a tableOps \<Rightarrow> NamespacedName \<Rightarrow> apiState \<Rightarrow> 'a option" where
  "findRow tb n s = (case map_of (tb_Get tb s) n of
       None \<Rightarrow> None | Some x \<Rightarrow> if keyOf (tb_Meta tb x) = n then Some x else None)"

definition getRow :: "'a tableOps \<Rightarrow> NamespacedName \<Rightarrow> apiState \<Rightarrow> (gerr + 'a) \<times> apiState" where
  "getRow tb n s = ((case findRow tb n s of
       None \<Rightarrow> Inl (ApiErr NotFound ''not found'') | Some x \<Rightarrow> Inr x), s)"

definition putRow :: "'a tableOps \<Rightarrow> 'a \<Rightarrow> apiState \<Rightarrow> (gerr + 'a) \<times> apiState" where
  "putRow tb x s =
     (let x' = tb_SetMeta tb ((tb_Meta tb x)\<lparr>om_ResourceVersion := versionString (st_Version s)\<rparr>) x
      in (Inr x', setClusters (validClusters s) (tb_Set tb (tput (keyOf (tb_Meta tb x)) x' (tb_Get tb s)) s)))"

definition createRow :: "'a tableOps \<Rightarrow> 'a \<Rightarrow> apiState \<Rightarrow> (gerr + 'a) \<times> apiState" where
  "createRow tb x s = (case map_of (tb_Get tb s) (keyOf (tb_Meta tb x)) of
       Some _ \<Rightarrow> (Inl (ApiErr AlreadyExists ''already exists''), s)
     | None \<Rightarrow> putRow tb (tb_SetMeta tb ((tb_Meta tb x)\<lparr>om_UID := versionString (st_Version s)\<rparr>) x) s)"

definition casRow :: "'a tableOps \<Rightarrow> ('a \<Rightarrow> 'a \<Rightarrow> 'a) \<Rightarrow> 'a \<Rightarrow> apiState \<Rightarrow> (gerr + 'a) \<times> apiState" where
  "casRow tb merge x s = (case findRow tb (keyOf (tb_Meta tb x)) s of
       None \<Rightarrow> (Inl (ApiErr NotFound ''not found''), s)
     | Some old \<Rightarrow>
         if om_ResourceVersion (tb_Meta tb old) = om_ResourceVersion (tb_Meta tb x) then putRow tb (merge old x) s
         else (Inl (ApiErr Conflict ''the object has been modified''), s))"

definition dropRow :: "'a tableOps \<Rightarrow> 'a \<Rightarrow> apiState \<Rightarrow> gerr option \<times> apiState" where
  "dropRow tb x s = (case map_of (tb_Get tb s) (keyOf (tb_Meta tb x)) of
       None \<Rightarrow> (Some (ApiErr NotFound ''not found''), s)
     | Some _ \<Rightarrow> (None, setClusters (validClusters s) (tb_Set tb (tdel (keyOf (tb_Meta tb x)) (tb_Get tb s)) s)))"

definition clusterFree :: "'a tableOps \<Rightarrow> bool" where
  "clusterFree tb \<longleftrightarrow> (\<forall>t s. st_Version (tb_Set tb t s) = st_Version s \<and> st_Clusters (tb_Set tb t s) = st_Clusters s)"

lemma clusterFree_tables [simp]: "clusterFree tenantTable" "clusterFree gitrepoTable" "clusterFree templateTable"
  "clusterFree secretTable" "clusterFree accountTable" "clusterFree roleTable" "clusterFree bindingTable"
  by (simp_all add: clusterFree_def table_defs)

lemma relyState_table:
  assumes "clusterFree tb"
  shows "relyState s (setClusters (validClusters s) (tb_Set tb t s))"
proof (rule relyState_same)
  let ?s = "tb_Set tb t s"
  have "st_Version ?s = st_Version s" "st_Clusters ?s = st_Clusters s" using assms by (simp_all add: clusterFree_def)
  then have eq: "validClusters s = validClusters ?s" "clustersOf ?s = clustersOf s"
    by (simp_all add: validClusters_def clustersOf_def fun_eq_iff)
  show "clustersOf (setClusters (validClusters s) ?s) = clustersOf s"
    unfolding eq(1) clustersOf_same by (rule eq(2))
  show "st_Version s \<le> st_Version (setClusters (validClusters s) ?s)"
    using \<open>st_Version ?s = st_Version s\<close> by (simp add: setClusters_def)
qed

lemma getRow_rely: "relyState s (snd (getRow tb n s))"
  by (simp add: getRow_def relyState_refl)

lemma putRow_rely: "clusterFree tb \<Longrightarrow> relyState s (snd (putRow tb x s))"
  by (simp add: putRow_def Let_def relyState_table)

lemma createRow_rely: "clusterFree tb \<Longrightarrow> relyState s (snd (createRow tb x s))"
  by (simp add: createRow_def putRow_rely relyState_refl split: option.split)

lemma casRow_rely: "clusterFree tb \<Longrightarrow> relyState s (snd (casRow tb merge x s))"
  by (simp add: casRow_def putRow_rely relyState_refl split: option.split)

lemma dropRow_rely: "clusterFree tb \<Longrightarrow> relyState s (snd (dropRow tb x s))"
  by (simp add: dropRow_def relyState_table relyState_refl split: option.split)
section \<open>The client\<close>

text \<open>A call sees the state after the interference.\<close>

definition call :: "(apiState \<Rightarrow> 'a \<times> apiState) \<Rightarrow> (apiState, 'a) go" where
  "call f = (\<lambda>s. case f (interfere s) of (a, s') \<Rightarrow> (Ret a, s'))"

fun selected :: "selector \<Rightarrow> (string \<Rightarrow> string list) \<Rightarrow> ObjectMeta \<Rightarrow> bool" where
  "selected Everything idx m = True"
| "selected (MatchingLabel l v) idx m = (fmlookup (om_Labels m) l = Some v)"
| "selected (MatchingField f v) idx m = (v \<in> set (idx f))"

definition listClustersIn :: "string \<Rightarrow> selector \<Rightarrow> apiState \<Rightarrow> (gerr + Cluster list) \<times> apiState" where
  "listClustersIn ns sel s = (Inr (filter (\<lambda>c. om_Namespace (cl_Meta c) = ns
     \<and> selected sel (\<lambda>_. tenantRefIndex c) (cl_Meta c)) (map snd (validClusters s))), s)"

definition listGitReposIn :: "string \<Rightarrow> selector \<Rightarrow> apiState \<Rightarrow> (gerr + GitRepo list) \<times> apiState" where
  "listGitReposIn ns sel s = (Inr (filter (\<lambda>g. om_Namespace (gr_Meta g) = ns
     \<and> selected sel (\<lambda>_. secretIndex g) (gr_Meta g)) (map snd (st_GitRepos s))), s)"

text \<open>\<open>CreateOrUpdate\<close>: get, mutate, then create or update.\<close>

definition createOrUpdateRow ::
  "'a tableOps \<Rightarrow> 'a \<Rightarrow> ('a \<Rightarrow> (apiState, 'a \<times> gerr option) go) \<Rightarrow> (apiState, string \<times> 'a \<times> gerr option) go" where
  "createOrUpdateRow tb x f =
     bnd (call (getRow tb (keyOf (tb_Meta tb x)))) (\<lambda>r.
     bnd (f (case r of Inl _ \<Rightarrow> x | Inr found \<Rightarrow> found)) (\<lambda>(y, e). case e of
       Some err \<Rightarrow> ret (''unchanged'', y, Some err)
     | None \<Rightarrow> if keyOf (tb_Meta tb y) \<noteq> keyOf (tb_Meta tb x)
         then ret (''unchanged'', y, Some (ErrNew ''MutateFn cannot mutate object name and/or object namespace''))
         else (case r of
         Inl _ \<Rightarrow> bnd (call (createRow tb y)) (\<lambda>r. ret (case r of
             Inl err \<Rightarrow> (''unchanged'', y, Some err) | Inr z \<Rightarrow> (''created'', z, None)))
       | Inr found \<Rightarrow> if y = found then ret (''unchanged'', y, None)
           else bnd (call (casRow tb (\<lambda>old new. new) y)) (\<lambda>r. ret (case r of
             Inl err \<Rightarrow> (''unchanged'', y, Some err) | Inr z \<Rightarrow> (''updated'', z, None))))))"

definition storeClient :: "apiState Client" where
  "storeClient = \<lparr>
     k_GetCluster = (\<lambda>n. call (\<lambda>s. (case clustersOf s n of
        None \<Rightarrow> Inl (ApiErr NotFound ''not found'') | Some c \<Rightarrow> Inr c, s))),
     k_GetTenant = (\<lambda>n. call (getRow tenantTable n)),
     k_GetGitRepo = (\<lambda>n. call (getRow gitrepoTable n)),
     k_GetTenantTemplate = (\<lambda>n. call (getRow templateTable n)),
     k_GetSecret = (\<lambda>n. call (getRow secretTable n)),
     k_GetRole = (\<lambda>n. call (getRow roleTable n)),
     k_GetRoleBinding = (\<lambda>n. call (getRow bindingTable n)),
     k_ListClusters = (\<lambda>ns sel. call (listClustersIn ns sel)),
     k_ListTenants = (\<lambda>ns. call (\<lambda>s. (Inr (filter (\<lambda>t. om_Namespace (tn_Meta t) = ns) (map snd (st_Tenants s))), s))),
     k_ListGitRepos = (\<lambda>ns sel. call (listGitReposIn ns sel)),
     k_ListSecrets = call (\<lambda>s. (Inr (map snd (st_Secrets s)), s)),
     k_CreateGitRepo = (\<lambda>x. call (createRow gitrepoTable x)),
     k_CreateSecret = (\<lambda>x. call (createRow secretTable x)),
     k_CreateServiceAccount = (\<lambda>x. call (createRow accountTable x)),
     k_CreateRole = (\<lambda>x. call (createRow roleTable x)),
     k_CreateRoleBinding = (\<lambda>x. call (createRow bindingTable x)),
     k_UpdateCluster = (\<lambda>x. call (updateClusterIn x)),
     k_UpdateTenant = (\<lambda>x. call (casRow tenantTable (\<lambda>old new. new\<lparr>tn_Status := tn_Status old\<rparr>) x)),
     k_UpdateGitRepo = (\<lambda>x. call (casRow gitrepoTable (\<lambda>old new. new\<lparr>gr_Status := gr_Status old\<rparr>) x)),
     k_UpdateRole = (\<lambda>x. call (casRow roleTable (\<lambda>old new. new) x)),
     k_UpdateRoleBinding = (\<lambda>x. call (casRow bindingTable (\<lambda>old new. new) x)),
     k_StatusUpdateCluster = (\<lambda>x. call (updateClusterStatusIn x)),
     k_StatusUpdateTenant = (\<lambda>x. call (casRow tenantTable (\<lambda>old new. old\<lparr>tn_Status := tn_Status new\<rparr>) x)),
     k_StatusUpdateGitRepo = (\<lambda>x. call (casRow gitrepoTable (\<lambda>old new. old\<lparr>gr_Status := gr_Status new\<rparr>) x)),
     k_DeleteSecret = (\<lambda>x. call (dropRow secretTable x)),
     k_CreateOrUpdateSecret = createOrUpdateRow secretTable,
     k_CreateOrUpdateRole = createOrUpdateRow roleTable,
     k_AddFinalizer = (\<lambda>fs f. if f \<in> set fs then (fs, False) else (fs @ [f], True)),
     k_RemoveFinalizer = (\<lambda>fs f. (filter (\<lambda>x. x \<noteq> f) fs, f \<in> set fs)),
     k_NewControllerRef = (\<lambda>m g. \<lparr>or_GVK = g, or_Name = om_Name m, or_UID = om_UID m, or_Controller = True\<rparr>),
     k_SetControllerReference = (\<lambda>owner m. Inr (m\<lparr>om_OwnerReferences :=
        [\<lparr>or_GVK = \<lparr>gvk_Group = '''', gvk_Version = '''', gvk_Kind = ''''\<rparr>, or_Name = om_Name owner,
          or_UID = om_UID owner, or_Controller = True\<rparr>]\<rparr>))\<rparr>"

lemma updateClusterIn_rely: "relyState s (snd (updateClusterIn c s))"
proof (cases "clustersOf s (keyOf (cl_Meta c))")
  case (Some old)
  then have "relyState s (snd (storeCluster (c\<lparr>cl_Status := cl_Status old\<rparr>) s))"
    if "om_UID (cl_Meta old) = om_UID (cl_Meta c)"
    using that by (intro store_rely [where old = old]) simp_all
  with Some show ?thesis
    by (simp add: updateClusterIn_def casCluster_def case_prod_beta Let_def relyState_refl)
qed (simp add: updateClusterIn_def casCluster_def relyState_refl)

text \<open>What of a predicate has to be shown so that the calls keep it.\<close>

definition rowCalm :: "(string \<Rightarrow> bool) \<Rightarrow> (apiState \<Rightarrow> bool) \<Rightarrow> 'a tableOps \<Rightarrow> bool" where
  "rowCalm A P tb \<longleftrightarrow> (\<forall>x s. A (om_Namespace (tb_Meta tb x)) \<longrightarrow> P s \<longrightarrow> P (snd (putRow tb x s)) \<and> P (snd (dropRow tb x s)))"

definition tableLaws :: "'a tableOps \<Rightarrow> bool" where
  "tableLaws tb \<longleftrightarrow> (\<forall>m x. tb_Meta tb (tb_SetMeta tb m x) = m)"

lemma tableLaws_tables [simp]: "tableLaws tenantTable" "tableLaws gitrepoTable" "tableLaws templateTable"
  "tableLaws secretTable" "tableLaws accountTable" "tableLaws roleTable" "tableLaws bindingTable"
  by (simp_all add: tableLaws_def table_defs)

lemma findRow_key: "findRow tb n s = Some x \<Longrightarrow> keyOf (tb_Meta tb x) = n"
  by (auto simp: findRow_def split: option.splits if_splits)

lemma keyOf_namespace [simp]: "nn_Namespace (keyOf m) = om_Namespace m"
  by (simp add: keyOf_def)

lemma keyOf_eqD: "keyOf m = keyOf m' \<Longrightarrow> om_Namespace m = om_Namespace m'"
  by (auto simp: keyOf_def)

lemma keeps_call:
  assumes "\<And>s. P s \<Longrightarrow> P (interfere s)" and "\<And>s. P s \<Longrightarrow> P (snd (f s))"
  shows "keeps P (call f)"
proof (rule keepsI)
  fix s assume "P s"
  then have "P (snd (f (interfere s)))" by (intro assms)
  then show "P (snd (call f s))" by (simp add: call_def case_prod_beta)
qed

lemma rowCalm_calls:
  assumes "rowCalm A P tb" and "tableLaws tb" and "P s"
  shows "A (om_Namespace (tb_Meta tb x)) \<Longrightarrow> P (snd (createRow tb x s))"
    and "A (om_Namespace (tb_Meta tb x)) \<Longrightarrow> P (snd (dropRow tb x s))"
    and "(\<And>old. keyOf (tb_Meta tb old) = keyOf (tb_Meta tb x) \<Longrightarrow> A (om_Namespace (tb_Meta tb (merge old x)))) \<Longrightarrow>
      P (snd (casRow tb merge x s))"
  using assms findRow_key [of tb _ s]
  by (auto simp: rowCalm_def tableLaws_def createRow_def casRow_def split: option.split)

lemma keeps_createOrUpdateRow:
  assumes "\<And>s. P s \<Longrightarrow> P (interfere s)" and "rowCalm A P tb" and "tableLaws tb"
    and "A (om_Namespace (tb_Meta tb x))" and "\<And>y. keeps P (f y)"
  shows "keeps P (createOrUpdateRow tb x f)"
  unfolding createOrUpdateRow_def
proof (intro keeps_intros keeps_call assms)
  show "P (snd (getRow tb (keyOf (tb_Meta tb x)) s))" if "P s" for s using that by (simp add: getRow_def)
next
  fix y s assume "P s" and "\<not> keyOf (tb_Meta tb y) \<noteq> keyOf (tb_Meta tb x)"
  then have "A (om_Namespace (tb_Meta tb y))" using assms(4) keyOf_eqD by metis
  then show "P (snd (createRow tb y s))" "P (snd (casRow tb (\<lambda>old new. new) y s))"
    using rowCalm_calls [OF assms(2,3) \<open>P s\<close>] by simp_all
qed

lemma store_writes:
  "k_CreateGitRepo storeClient g = call (createRow gitrepoTable g)"
  "k_CreateSecret storeClient sec = call (createRow secretTable sec)"
  "k_CreateServiceAccount storeClient sa = call (createRow accountTable sa)"
  "k_CreateRole storeClient r = call (createRow roleTable r)"
  "k_CreateRoleBinding storeClient b = call (createRow bindingTable b)"
  "k_UpdateCluster storeClient c = call (updateClusterIn c)"
  "k_UpdateTenant storeClient t = call (casRow tenantTable (\<lambda>old new. new\<lparr>tn_Status := tn_Status old\<rparr>) t)"
  "k_UpdateGitRepo storeClient g = call (casRow gitrepoTable (\<lambda>old new. new\<lparr>gr_Status := gr_Status old\<rparr>) g)"
  "k_UpdateRole storeClient r = call (casRow roleTable (\<lambda>old new. new) r)"
  "k_UpdateRoleBinding storeClient b = call (casRow bindingTable (\<lambda>old new. new) b)"
  "k_StatusUpdateTenant storeClient t = call (casRow tenantTable (\<lambda>old new. old\<lparr>tn_Status := tn_Status new\<rparr>) t)"
  "k_StatusUpdateGitRepo storeClient g = call (casRow gitrepoTable (\<lambda>old new. old\<lparr>gr_Status := gr_Status new\<rparr>) g)"
  "k_DeleteSecret storeClient sec = call (dropRow secretTable sec)"
  "k_CreateOrUpdateSecret storeClient sec f = createOrUpdateRow secretTable sec f"
  "k_CreateOrUpdateRole storeClient r f' = createOrUpdateRow roleTable r f'"
  by (simp_all add: storeClient_def)

lemma storeClient_calm_reads:
  assumes "\<And>s. P s \<Longrightarrow> P (interfere s)"
  shows "calm_reads P storeClient"
  unfolding calm_reads_def storeClient_def
  by (simp add: keeps_call assms getRow_def listClustersIn_def listGitReposIn_def)

lemma table_meta [simp]: "tb_Meta tenantTable = tn_Meta" "tb_Meta gitrepoTable = gr_Meta"
  "tb_Meta templateTable = tt_Meta" "tb_Meta secretTable = sec_Meta" "tb_Meta accountTable = sa_Meta"
  "tb_Meta roleTable = role_Meta" "tb_Meta bindingTable = rb_Meta"
  by (simp_all add: table_defs)

lemma keeps_rows:
  assumes P: "\<And>s. P s \<Longrightarrow> P (interfere s)" and row: "rowCalm A P tb" and laws: "tableLaws tb"
    and A: "A (om_Namespace (tb_Meta tb x))"
  shows "keeps P (call (createRow tb x))" and "keeps P (call (dropRow tb x))"
    and "(\<And>old. keyOf (tb_Meta tb old) = keyOf (tb_Meta tb x) \<Longrightarrow> keyOf (tb_Meta tb (merge old x)) = keyOf (tb_Meta tb x)) \<Longrightarrow>
      keeps P (call (casRow tb merge x))"
proof -
  show "keeps P (call (createRow tb x))" "keeps P (call (dropRow tb x))"
    by (intro keeps_call P rowCalm_calls [OF row laws] A; assumption)+
  assume "\<And>old. keyOf (tb_Meta tb old) = keyOf (tb_Meta tb x) \<Longrightarrow> keyOf (tb_Meta tb (merge old x)) = keyOf (tb_Meta tb x)"
  then have "A (om_Namespace (tb_Meta tb (merge old x)))" if "keyOf (tb_Meta tb old) = keyOf (tb_Meta tb x)" for old
    using that A by (metis keyOf_eqD)
  then show "keeps P (call (casRow tb merge x))"
    by (intro keeps_call P rowCalm_calls [OF row laws])
qed

lemma storeClient_calm_writes:
  assumes P: "\<And>s. P s \<Longrightarrow> P (interfere s)"
    and cl: "\<And>c s. A (om_Namespace (cl_Meta c)) \<Longrightarrow> P s \<Longrightarrow> P (snd (updateClusterIn c s))"
    and rows: "rowCalm A P tenantTable" "rowCalm A P gitrepoTable" "rowCalm A P secretTable"
      "rowCalm A P accountTable" "rowCalm A P roleTable" "rowCalm A P bindingTable"
  shows "calm_writes A P storeClient"
  unfolding calm_writes_def store_writes
  by (intro conjI allI impI keeps_createOrUpdateRow [where P = P and A = A] keeps_rows [where P = P and A = A]
      keeps_call P cl) (simp_all add: rows P)

lemma call_Ret: "call f s = (Ret r, s') \<longleftrightarrow> f (interfere s) = (r, s')"
  by (auto simp: call_def split: prod.split)

lemma getRow_answer: "getRow tb n s = (Inr x, s') \<Longrightarrow> om_Namespace (tb_Meta tb x) = nn_Namespace n"
  by (auto simp: getRow_def split: option.splits dest!: findRow_key)

lemma casRow_answer:
  assumes "casRow tb merge x s = (Inr y, s')" and "tableLaws tb"
    and "\<And>old. keyOf (tb_Meta tb old) = keyOf (tb_Meta tb x) \<Longrightarrow> keyOf (tb_Meta tb (merge old x)) = keyOf (tb_Meta tb x)"
  shows "om_Namespace (tb_Meta tb y) = om_Namespace (tb_Meta tb x)"
proof -
  from assms(1) obtain old where old: "findRow tb (keyOf (tb_Meta tb x)) s = Some old"
    and put: "putRow tb (merge old x) s = (Inr y, s')"
    by (auto simp: casRow_def split: option.splits if_splits)
  have "keyOf (tb_Meta tb (merge old x)) = keyOf (tb_Meta tb x)" by (rule assms(3) [OF findRow_key [OF old]])
  moreover have "om_Namespace (tb_Meta tb y) = om_Namespace (tb_Meta tb (merge old x))"
    using put assms(2) by (auto simp: putRow_def Let_def tableLaws_def)
  ultimately show ?thesis by (simp add: keyOf_def)
qed

lemma storeClient_answers: "answers_in A storeClient"
proof -
  have cluster: "om_Namespace (cl_Meta c) = nn_Namespace n"
    if "k_GetCluster storeClient n s = (Ret (Inr c), s')" for n s c s'
    using that by (auto simp: storeClient_def call_Ret split: option.splits dest!: clustersOf_valid)
  show ?thesis
    unfolding answers_in_def
    using cluster
    by (auto simp: storeClient_def call_Ret listClustersIn_def dest!: getRow_answer casRow_answer)
qed

text \<open>Predicates that stand what other programs do stand every call but the status update.\<close>

lemma storeClient_calm:
  assumes "stableUnder relyState P"
  shows "calm_client (\<lambda>_. True) P storeClient"
proof -
  have P: "P (interfere s)" if "P s" for s
    using stableUnder_rtranclp [OF assms interfere_rely that] .
  have rows: "rowCalm (\<lambda>_. True) P tb" if "clusterFree tb" for tb :: "'a tableOps"
    using stableUnderD [OF assms] that by (auto simp: rowCalm_def intro: putRow_rely dropRow_rely)
  show ?thesis
    unfolding calm_client_def
    by (intro conjI storeClient_calm_reads storeClient_calm_writes storeClient_answers P rows)
      (simp_all add: stableUnderD [OF assms _ updateClusterIn_rely])
qed

section \<open>The interpretation\<close>

lemma call_snd: "snd (call f s) = snd (f (interfere s))"
  by (simp add: call_def split: prod.split)

lemma status_update_store:
  "relyState\<^sup>*\<^sup>* s (snd (k_StatusUpdateCluster storeClient c s)) \<or>
   (\<exists>s1 s2. relyState\<^sup>*\<^sup>* s s1 \<and> laterState s1 s2 \<and> statusWritten clustersOf c s1 s2 \<and>
      relyState\<^sup>*\<^sup>* s2 (snd (k_StatusUpdateCluster storeClient c s)))"
proof -
  let ?s1 = "interfere s" and ?n = "keyOf (cl_Meta c)"
  have run: "snd (k_StatusUpdateCluster storeClient c s) = snd (updateClusterStatusIn c ?s1)"
    by (simp add: storeClient_def call_snd)
  show ?thesis
  proof (cases "\<exists>old. clustersOf ?s1 ?n = Some old \<and> om_ResourceVersion (cl_Meta old) = om_ResourceVersion (cl_Meta c)
      \<and> om_UID (cl_Meta old) = om_UID (cl_Meta c)")
    case False
    then have "snd (updateClusterStatusIn c ?s1) = ?s1"
      by (auto simp: updateClusterStatusIn_def casCluster_def split: option.split)
    with run interfere_rely show ?thesis by simp
  next
    case True
    then obtain old where old: "clustersOf ?s1 ?n = Some old" "om_UID (cl_Meta old) = om_UID (cl_Meta c)"
      and v: "om_ResourceVersion (cl_Meta old) = om_ResourceVersion (cl_Meta c)" by blast
    let ?new = "old\<lparr>cl_Status := cl_Status c\<rparr>"
    have s2: "snd (updateClusterStatusIn c ?s1) = snd (storeCluster ?new ?s1)"
      using old v by (simp add: updateClusterStatusIn_def casCluster_def case_prod_beta Let_def)
    have n: "keyOf (cl_Meta ?new) = ?n" using clustersOf_valid [OF old(1)] by simp
    have later: "laterState ?s1 (snd (storeCluster ?new ?s1))"
    proof (rule store_later)
      show "clustersOf ?s1 (keyOf (cl_Meta ?new)) = Some old" unfolding n by (rule old(1))
    qed simp
    have "length (om_UID (cl_Meta ?new)) \<le> st_Version ?s1" using clustersOf_valid [OF old(1)] by simp
    note clusters = storeCluster_clusters [OF this, unfolded n]
    show ?thesis
    proof (cases "om_DeletionTimestamp (cl_Meta ?new) \<noteq> None \<and> om_Finalizers (cl_Meta ?new) = []")
      case True
      then have "relyState ?s1 (snd (storeCluster ?new ?s1))"
        using later clusters by (auto simp: relyState_def split: if_splits)
      with interfere_rely run s2 show ?thesis by (metis rtranclp.rtrancl_into_rtrancl)
    next
      case False
      then have "statusWritten clustersOf c ?s1 (snd (storeCluster ?new ?s1))"
        using old v clusters by (simp add: statusWritten_def)
      with interfere_rely later run s2 show ?thesis by (metis rtranclp.rtrancl_refl)
    qed
  qed
qed

interpretation store: cluster_server storeClient clustersOf laterState relyState
proof (unfold_locales, goal_cases)
  case (1 w)
  then show ?case by (rule laterState_refl)
next
  case (2 w w1 w2)
  then show ?case by (rule laterState_trans)
next
  case (3 w n c)
  then show ?case using clustersOf_valid by blast
next
  case (4 w w' n c c')
  then have "length (om_ResourceVersion (cl_Meta c')) < st_Version w" using clustersOf_valid [OF 4(2)] by simp
  with 4 show ?case by (auto simp: laterState_def)
next
  case (5 w w1 w2 n c c2)
  then have "length (om_UID (cl_Meta c2)) < st_Version w1"
    using clustersOf_valid [OF 5(3)] by (simp add: laterState_def)
  with 5 show ?case unfolding laterState_def by metis
next
  case (6 w w')
  then show ?case by (simp add: relyState_def)
next
  case (7 w w' n c c')
  then show ?case by (auto simp: relyState_def)
next
  case (8 P)
  then show ?case by (rule storeClient_calm)
next
  case (9 n w c w')
  then have "clustersOf w' n = Some c"
    by (auto simp: storeClient_def call_def split: option.splits)
  then show ?case using laterState_refl by blast
next
  case (10 w c)
  then show ?case by (rule status_update_store)
qed
section \<open>An operator on the store\<close>

definition storeOutside :: "(apiState, string, string) Outside" where
  "storeOutside = \<lparr>out_Fuel = 0, out_Vault = quietVault, out_ClusterDeps = plainDeps,
     out_Merge = (\<lambda>dst src. (dst, None)), out_Deps = idleDeps, out_Implementations = [],
     out_Repo = idleRepo, out_Runtime = idleRuntime\<lparr>rt_Now := ret 7\<rparr>\<rparr>"

interpretation store_op: operator_world storeClient clustersOf laterState relyState storeOutside
proof unfold_locales
  fix P :: "apiState \<Rightarrow> bool"
  show "calm_vault P (out_Vault storeOutside)"
    by (simp add: storeOutside_def quietVault_def calm_vault_def keeps_ret)
  show "calm_repo P (out_Repo storeOutside)"
    by (simp add: storeOutside_def idleRepo_def calm_repo_def keeps_ret)
  show "calm_keygen P (out_Deps storeOutside)"
    by (simp add: storeOutside_def idleDeps_def calm_keygen_def keeps_ret)
  show "calm_runtime P (out_Runtime storeOutside)"
    by (simp add: storeOutside_def idleRuntime_def calm_runtime_def keeps_ret)
qed

text \<open>A cluster with a token that has expired, its tenant and its repository.\<close>

definition clusterKey :: NamespacedName where
  "clusterKey = \<lparr>nn_Namespace = ''lieutenant'', nn_Name = ''c-prod''\<rparr>"

definition tokenCluster :: Cluster where
  "tokenCluster = sampleCluster\<lparr>cl_Meta := (sampleMeta ''c-prod'')\<lparr>om_UID := ''1''\<rparr>,
     cl_Status := (cl_Status sampleCluster)\<lparr>cst_BootstrapToken :=
       Some \<lparr>bt_Token = ''secret'', bt_ValidUntil = 5, bt_TokenValid = True\<rparr>\<rparr>\<rparr>"

definition tokenState :: "edit list \<Rightarrow> apiState" where
  "tokenState plan = \<lparr>st_Version = 2, st_Clusters = [(clusterKey, tokenCluster)],
     st_Tenants = [(\<lparr>nn_Namespace = ''lieutenant'', nn_Name = ''t-acme''\<rparr>, sampleTenant)],
     st_GitRepos = [], st_Templates = [], st_Secrets = [], st_Accounts = [], st_Roles = [],
     st_Bindings = [], st_Plan = plan\<rparr>"

section \<open>One namespace of the store\<close>

definition inNamespace :: "string \<Rightarrow> (NamespacedName \<Rightarrow> 'a option) \<Rightarrow> NamespacedName \<Rightarrow> 'a option" where
  "inNamespace m f n = (if nn_Namespace n = m then f n else None)"

text \<open>The objects of a namespace, and what other programs will still do.\<close>

definition namespaceView where
  "namespaceView m s = (st_Plan s, inNamespace m (clustersOf s), inNamespace m (\<lambda>n. findRow tenantTable n s),
     inNamespace m (\<lambda>n. findRow gitrepoTable n s), inNamespace m (\<lambda>n. findRow secretTable n s),
     inNamespace m (\<lambda>n. findRow accountTable n s), inNamespace m (\<lambda>n. findRow roleTable n s),
     inNamespace m (\<lambda>n. findRow bindingTable n s))"

definition showsOf :: "string \<Rightarrow> apiState \<Rightarrow> apiState \<Rightarrow> bool" where
  "showsOf m s s' \<longleftrightarrow> namespaceView m s' = namespaceView m s"

lemma inNamespace_cong: "(\<And>n. nn_Namespace n = m \<Longrightarrow> f n = g n) \<Longrightarrow> inNamespace m f = inNamespace m g"
  by (simp add: inNamespace_def fun_eq_iff)

lemma clustersOf_setClusters_same:
  "st_Version s' = st_Version s \<Longrightarrow> st_Clusters s' = st_Clusters s \<Longrightarrow> clustersOf (setClusters (validClusters s) s') = clustersOf s"
  using clustersOf_same [of s'] by (simp add: validClusters_def clustersOf_def [abs_def])

lemma findRow_setClusters [simp]:
  "findRow tenantTable n (setClusters tab s) = findRow tenantTable n s"
  "findRow gitrepoTable n (setClusters tab s) = findRow gitrepoTable n s"
  "findRow secretTable n (setClusters tab s) = findRow secretTable n s"
  "findRow accountTable n (setClusters tab s) = findRow accountTable n s"
  "findRow roleTable n (setClusters tab s) = findRow roleTable n s"
  "findRow bindingTable n (setClusters tab s) = findRow bindingTable n s"
  "st_Plan (setClusters tab s) = st_Plan s"
  by (simp_all add: findRow_def table_defs setClusters_def)

text \<open>A table with the same rows in a namespace shows the same.\<close>

definition rowsOnly :: "string \<Rightarrow> 'a tableOps \<Rightarrow> bool" where
  "rowsOnly m tb \<longleftrightarrow> (\<forall>t s. inNamespace m (map_of t) = inNamespace m (map_of (tb_Get tb s)) \<longrightarrow>
     showsOf m s (setClusters (validClusters s) (tb_Set tb t s)))"

lemma clustersOf_table [simp]:
  "clusterFree tb \<Longrightarrow> clustersOf (setClusters (validClusters s) (tb_Set tb t s)) = clustersOf s"
  by (rule clustersOf_setClusters_same) (simp_all add: clusterFree_def)

lemma findRow_view:
  assumes "inNamespace m (map_of (tb_Get tb s')) = inNamespace m (map_of (tb_Get tb s))"
  shows "inNamespace m (\<lambda>n. findRow tb n s') = inNamespace m (\<lambda>n. findRow tb n s)"
proof (rule inNamespace_cong)
  fix n :: NamespacedName assume "nn_Namespace n = m"
  with fun_cong [OF assms, of n] show "findRow tb n s' = findRow tb n s"
    by (simp add: findRow_def inNamespace_def)
qed

lemma rowsOnly_tables: "rowsOnly m tenantTable" "rowsOnly m gitrepoTable" "rowsOnly m secretTable"
  "rowsOnly m accountTable" "rowsOnly m roleTable" "rowsOnly m bindingTable"
  unfolding rowsOnly_def showsOf_def namespaceView_def prod.inject findRow_setClusters
  by (intro allI impI conjI findRow_view; (simp; fail)?; simp add: table_defs)+

lemma rowCalm_namespace:
  assumes "rowsOnly m tb"
  shows "rowCalm (\<lambda>ns. ns \<noteq> m) (showsOf m s) tb"
proof -
  have keep: "showsOf m s (setClusters (validClusters s0) (tb_Set tb t s0))"
    if "showsOf m s s0" and "inNamespace m (map_of t) = inNamespace m (map_of (tb_Get tb s0))" for t s0
    using assms that unfolding rowsOnly_def showsOf_def by metis
  have rows: "inNamespace m (map_of (tput (keyOf (tb_Meta tb x)) y t)) = inNamespace m (map_of t)"
    "inNamespace m (map_of (tdel (keyOf (tb_Meta tb x)) t)) = inNamespace m (map_of t)"
    if "om_Namespace (tb_Meta tb x) \<noteq> m" for x y t
    using that by (auto simp: inNamespace_def fun_eq_iff)
  show ?thesis
    unfolding rowCalm_def putRow_def dropRow_def Let_def
    by (auto split: option.split intro!: keep rows simp del: map_of_tput map_of_tdel)
qed

lemma clusters_namespace:
  assumes s0: "showsOf m s s0" and c: "om_Namespace (cl_Meta c) \<noteq> m"
    and merge: "\<And>old. keyOf (cl_Meta old) = keyOf (cl_Meta c) \<Longrightarrow> keyOf (cl_Meta (merge old c)) = keyOf (cl_Meta c)"
    and uid: "\<And>old. om_UID (cl_Meta old) = om_UID (cl_Meta c) \<Longrightarrow> om_UID (cl_Meta (merge old c)) = om_UID (cl_Meta c)"
  shows "showsOf m s (snd (casCluster merge c s0))"
proof -
  have "showsOf m s0 (snd (storeCluster (merge old c) s0))"
    if old: "clustersOf s0 (keyOf (cl_Meta c)) = Some old" "om_UID (cl_Meta old) = om_UID (cl_Meta c)" for old
  proof -
    have valid: "keyOf (cl_Meta (merge old c)) = keyOf (cl_Meta c)"
      "length (om_UID (cl_Meta (merge old c))) \<le> st_Version s0"
      using clustersOf_valid [OF old(1)] merge [of old] uid [OF old(2)] old(2) by simp_all
    have "inNamespace m (clustersOf (snd (storeCluster (merge old c) s0))) = inNamespace m (clustersOf s0)"
      by (rule inNamespace_cong) (use c in \<open>auto simp: storeCluster_clusters [OF valid(2)] valid(1)\<close>)
    then show ?thesis
      by (simp add: showsOf_def namespaceView_def storeCluster_def Let_def)
  qed
  then show ?thesis
    using s0 by (auto simp: casCluster_def case_prod_beta Let_def showsOf_def split: option.split)
qed

text \<open>A namespace in which nobody else is active is left alone by what is written elsewhere.\<close>

lemma showsOf_quiet: "showsOf m s s0 \<Longrightarrow> st_Plan s = [] \<Longrightarrow> interfere s0 = s0"
  by (simp add: showsOf_def namespaceView_def interfere_def)

lemma store_namespace:
  assumes "st_Plan s = []"
  shows "calm_client (\<lambda>ns. ns \<noteq> m) (showsOf m s) storeClient"
    and "om_Namespace (cl_Meta c) \<noteq> m \<Longrightarrow> keeps (showsOf m s) (k_StatusUpdateCluster storeClient c)"
proof -
  note quiet = showsOf_quiet [OF _ assms]
  show "calm_client (\<lambda>ns. ns \<noteq> m) (showsOf m s) storeClient"
    unfolding calm_client_def
    by (intro conjI storeClient_calm_reads storeClient_calm_writes storeClient_answers rowCalm_namespace rowsOnly_tables)
      (simp_all add: quiet updateClusterIn_def clusters_namespace)
  show "keeps (showsOf m s) (k_StatusUpdateCluster storeClient c)" if c: "om_Namespace (cl_Meta c) \<noteq> m"
  proof -
    have "k_StatusUpdateCluster storeClient c = call (updateClusterStatusIn c)" by (simp add: storeClient_def)
    moreover have "showsOf m s (snd (updateClusterStatusIn c s0))" if "showsOf m s s0" for s0
      unfolding updateClusterStatusIn_def by (rule clusters_namespace [OF that c]) simp_all
    ultimately show ?thesis by (simp add: keeps_call quiet)
  qed
qed

end
