(* ===== verification/DeepCopy.thy ===== *)
theory DeepCopy
  imports Objects "HOL-Library.State_Monad"
begin

text \<open>
  The generated deep copies (\<open>api/v1alpha1/zz_generated.deepcopy.go\<close>) on a model of memory. Elsewhere an
  object is a value and its copy is the object; here every pointer, map and slice of a struct is a
  reference, an address with what is stored there, so that sharing can be seen. The struct \<open>S\<close> of \<open>Api\<close> is
  the record \<open>SMem\<close> in memory, a field \<open>p_X\<close> of the one is \<open>pm_X\<close> of the other. \<open>S_DeepCopyInto\<close> starts with
  \<open>*out = *in\<close>, which shares all references, and replaces them in the order of the source; \<open>S_DeepCopy\<close>
  allocates the struct as well. \<open>S_addrs\<close> are the addresses a struct reaches and \<open>S_val\<close> is the value of \<open>Api\<close>
  it stands for; \<open>S_copies\<close> shows that the copy has the same value at fresh addresses. The deep copies of
  library types (\<open>ObjectMeta\<close>, \<open>ListMeta\<close>, \<open>SecretKeySelector\<close>) are parameters, of which the same is assumed;
  \<open>metav1.Time\<close> is a plain value.
\<close>

section \<open>Memory\<close>

type_synonym 'a reference = "(nat \<times> 'a) option"

type_synonym 'a alloc = "(nat, 'a) state"

text \<open>\<open>new\<close> and \<open>make\<close> give the next address.\<close>

definition newAddr :: "nat alloc" where
  "newAddr = State (\<lambda>n. (n, Suc n))"

fun copyPtr :: "('a \<Rightarrow> 'a alloc) \<Rightarrow> 'a reference \<Rightarrow> 'a reference alloc" where
  "copyPtr c None = State_Monad.return None"
| "copyPtr c (Some (_, x)) = do { a \<leftarrow> newAddr; x' \<leftarrow> c x; State_Monad.return (Some (a, x')) }"

text \<open>The loop over a map, whose order is given by a hint that may differ from loop to loop (by the address of
  the copy), sets one entry after the other.\<close>

definition copyEntries :: "string list \<Rightarrow> 'v gomap \<Rightarrow> 'v gomap" where
  "copyEntries hint m = fold (\<lambda>(key, v) out. fmupd key v out) (rangeMap hint m) fmempty"

fun copyMap :: "(nat \<Rightarrow> string list) \<Rightarrow> 'v gomap reference \<Rightarrow> 'v gomap reference alloc" where
  "copyMap order None = State_Monad.return None"
| "copyMap order (Some (_, m)) = do { a \<leftarrow> newAddr; State_Monad.return (Some (a, copyEntries (order a) m)) }"

fun copySlice :: "('a \<Rightarrow> 'a alloc) \<Rightarrow> 'a list reference \<Rightarrow> 'a list reference alloc" where
  "copySlice c None = State_Monad.return None"
| "copySlice c (Some (_, xs)) =
     do { a \<leftarrow> newAddr; xs' \<leftarrow> State_Monad.traverse_list c xs; State_Monad.return (Some (a, xs')) }"

text \<open>The addresses that are reached from a reference, and the value it stands for; nil and empty are the
  same value.\<close>

fun ptrAddrs :: "('a \<Rightarrow> nat list) \<Rightarrow> 'a reference \<Rightarrow> nat list" where
  "ptrAddrs f None = []"
| "ptrAddrs f (Some (a, x)) = a # f x"

abbreviation mapAddrs :: "'v gomap reference \<Rightarrow> nat list" where
  "mapAddrs \<equiv> ptrAddrs (\<lambda>_. [])"

abbreviation sliceAddrs :: "('a \<Rightarrow> nat list) \<Rightarrow> 'a list reference \<Rightarrow> nat list" where
  "sliceAddrs f \<equiv> ptrAddrs (\<lambda>xs. concat (map f xs))"

definition ptrVal :: "('a \<Rightarrow> 'b) \<Rightarrow> 'a reference \<Rightarrow> 'b option" where
  "ptrVal v r = map_option (\<lambda>(_, x). v x) r"

definition mapVal :: "'v gomap reference \<Rightarrow> 'v gomap" where
  "mapVal r = (case r of None \<Rightarrow> fmempty | Some (_, m) \<Rightarrow> m)"

definition sliceVal :: "('a \<Rightarrow> 'b) \<Rightarrow> 'a list reference \<Rightarrow> 'b list" where
  "sliceVal v r = (case r of None \<Rightarrow> [] | Some (_, xs) \<Rightarrow> map v xs)"

section \<open>What a deep copy is\<close>

text \<open>Addresses that were given out between two states of the allocator, each once.\<close>

definition fresh :: "nat \<Rightarrow> nat \<Rightarrow> nat list \<Rightarrow> bool" where
  "fresh n n' as \<longleftrightarrow> n \<le> n' \<and> distinct as \<and> set as \<subseteq> {n..<n'}"

lemma fresh_Nil [simp]: "fresh n n' [] \<longleftrightarrow> n \<le> n'"
  by (simp add: fresh_def)

lemma fresh_append: "fresh n n1 as \<Longrightarrow> fresh n1 n2 bs \<Longrightarrow> fresh n n2 (as @ bs)"
  unfolding fresh_def by fastforce

lemma fresh_Cons: "fresh (Suc n) n' as \<Longrightarrow> fresh n n' (n # as)"
  unfolding fresh_def by fastforce

text \<open>The contract: the same value, at fresh addresses.\<close>

definition deepCopier ::
  "('a \<Rightarrow> 'a alloc) \<Rightarrow> ('a \<Rightarrow> nat list) \<Rightarrow> ('a \<Rightarrow> 'b) \<Rightarrow> bool" where
  "deepCopier c addrs v \<longleftrightarrow> (\<forall>x n x' n'. run_state (c x) n = (x', n') \<longrightarrow> v x' = v x \<and> fresh n n' (addrs x'))"

lemma deepCopierI:
  "(\<And>x n x' n'. run_state (c x) n = (x', n') \<Longrightarrow> v x' = v x \<and> fresh n n' (addrs x')) \<Longrightarrow> deepCopier c addrs v"
  unfolding deepCopier_def by blast

lemma deepCopierD:
  "deepCopier c addrs v \<Longrightarrow> run_state (c x) n = (x', n') \<Longrightarrow> v x' = v x \<and> fresh n n' (addrs x')"
  unfolding deepCopier_def by blast

lemma run_bindE:
  assumes "run_state (State_Monad.bind m f) n = (y, n')"
  obtains x n1 where "run_state m n = (x, n1)" and "run_state (f x) n1 = (y, n')"
  using assms by (auto split: prod.splits)

lemma run_newAddr [simp]: "run_state newAddr n = (n, Suc n)"
  by (simp add: newAddr_def)

lemma fold_fmupd:
  "fmlookup (fold (\<lambda>(key, v) out. fmupd key v out) ps out) k =
     (case map_of (rev ps) k of None \<Rightarrow> fmlookup out k | Some v \<Rightarrow> Some v)"
  by (induction ps arbitrary: out) (auto simp: map_add_def split: option.splits)

lemma copyEntries_same [simp]: "copyEntries hint m = m"
proof (rule fmap_ext)
  fix k
  have "map_of (rev (rangeMap hint m)) k = fmlookup m k"
  proof (cases "fmlookup m k")
    case None
    then show ?thesis by (auto simp: map_of_eq_None_iff)
  next
    case (Some v)
    have "distinct (map fst (rev (rangeMap hint m)))" by (metis distinct_rangeMap distinct_rev rev_map)
    then show ?thesis using Some by (simp add: map_of_eq_Some_iff)
  qed
  then show "fmlookup (copyEntries hint m) k = fmlookup m k"
    by (simp add: copyEntries_def fold_fmupd split: option.split)
qed

lemma copyPtr_copies:
  assumes "deepCopier c addrs v"
  shows "deepCopier (copyPtr c) (ptrAddrs addrs) (ptrVal v)"
proof (rule deepCopierI)
  fix r n r' n'
  assume "run_state (copyPtr c r) n = (r', n')"
  with assms show "ptrVal v r' = ptrVal v r \<and> fresh n n' (ptrAddrs addrs r')"
    by (cases "(c, r)" rule: copyPtr.cases) (auto simp: ptrVal_def
      split: prod.splits dest!: deepCopierD intro: fresh_Cons)
qed

lemma copyMap_copies: "deepCopier (copyMap order) mapAddrs mapVal"
proof (rule deepCopierI)
  fix r :: "'v gomap reference" and n r' n'
  assume "run_state (copyMap order r) n = (r', n')"
  then show "mapVal r' = mapVal r \<and> fresh n n' (mapAddrs r')"
    by (cases "(order, r)" rule: copyMap.cases) (auto simp: mapVal_def fresh_def)
qed

lemma traverse_copies:
  assumes "deepCopier c addrs v" and "run_state (State_Monad.traverse_list c xs) n = (xs', n')"
  shows "map v xs' = map v xs \<and> fresh n n' (concat (map addrs xs'))"
  using assms(2)
proof (induction xs arbitrary: n xs')
  case (Cons x xs)
  from Cons.prems obtain x' n1 ys where x: "run_state (c x) n = (x', n1)"
    and ys: "run_state (State_Monad.traverse_list c xs) n1 = (ys, n')" and xs': "xs' = x' # ys"
    by (auto split: prod.splits)
  from Cons.IH [OF ys] deepCopierD [OF assms(1) x] xs' show ?case by (auto intro: fresh_append)
qed simp

lemma copySlice_copies:
  assumes "deepCopier c addrs v"
  shows "deepCopier (copySlice c) (sliceAddrs addrs) (sliceVal v)"
proof (rule deepCopierI)
  fix r n r' n'
  assume "run_state (copySlice c r) n = (r', n')"
  then show "sliceVal v r' = sliceVal v r \<and> fresh n n' (sliceAddrs addrs r')"
    by (cases "(c, r)" rule: copySlice.cases)
      (auto simp: sliceVal_def split: prod.splits dest!: traverse_copies [OF assms] intro: fresh_Cons)
qed

text \<open>A struct without references is copied by assignment.\<close>

lemma plain_copies: "deepCopier State_Monad.return (\<lambda>_. []) (\<lambda>x. x)"
  by (rule deepCopierI) simp

lemma plain_ptr_copies: "deepCopier (copyPtr State_Monad.return) (ptrAddrs (\<lambda>_. [])) (ptrVal (\<lambda>x. x))"
  by (rule copyPtr_copies) (rule plain_copies)

section \<open>Structs in memory\<close>

record 's EnvVarSourceMem =
  evsm_SecretKeyRef :: "'s reference"

record 's EnvVarMem =
  evm_Name :: string
  evm_Value :: string
  evm_ValueFrom :: "'s EnvVarSourceMem reference"
  evm_GitlabOptions :: EnvVarGitlabOptions

record 's GitRepoTemplateMem =
  gtm_APISecretRef :: SecretReference
  gtm_DeployKeys :: "DeployKey gomap reference"
  gtm_GeneratedDeployKeys :: "DeployKeyTemplate gomap reference"
  gtm_Path :: string
  gtm_RepoName :: string
  gtm_RepoType :: string
  gtm_DisplayName :: string
  gtm_TemplateFiles :: "string gomap reference"
  gtm_DeletionPolicy :: string
  gtm_CreationPolicy :: string
  gtm_AccessTokenSecretRef :: string
  gtm_CIVariables :: "'s EnvVarMem list reference"

record 's GitRepoSpecMem =
  gsm_GitRepoTemplate :: "'s GitRepoTemplateMem"
  gsm_TenantRef :: string

record GitRepoStatusMem =
  gstm_Phase :: "string reference"
  gstm_Type :: string
  gstm_URL :: string
  gstm_HostKeys :: string
  gstm_LastAppliedCIVariables :: string
  gstm_GeneratedDeployKeys :: "DeployKeyStatus gomap reference"

record ('m, 's) GitRepoMem =
  grm_GVK :: GVK
  grm_Meta :: "'m"
  grm_Spec :: "'s GitRepoSpecMem"
  grm_Status :: GitRepoStatusMem

record 's ClusterSpecMem =
  csm_DisplayName :: string
  csm_GitRepoURL :: string
  csm_GitHostKeys :: string
  csm_GitRepoTemplate :: "'s GitRepoTemplateMem reference"
  csm_TenantRef :: string
  csm_TenantGitRepoRevision :: string
  csm_GlobalGitRepoRevision :: string
  csm_TokenLifeTime :: string
  csm_Facts :: "string gomap reference"
  csm_DeletionPolicy :: string
  csm_CreationPolicy :: string
  csm_EnableCompilePipeline :: bool

record CompileMetaMem =
  cmm_LastCompile :: time
  cmm_CommodoreBuildInfo :: "string gomap reference"
  cmm_Global :: CompileMetaVersionInfo
  cmm_Tenant :: CompileMetaVersionInfo
  cmm_Packages :: "CompileMetaVersionInfo gomap reference"
  cmm_Instances :: "CompileMetaInstanceVersionInfo gomap reference"

record ClusterStatusMem =
  cstm_BootstrapToken :: "BootstrapToken reference"
  cstm_Facts :: "string gomap reference"
  cstm_CompileMeta :: CompileMetaMem

record ('m, 's) ClusterMem =
  clm_GVK :: GVK
  clm_Meta :: "'m"
  clm_Spec :: "'s ClusterSpecMem"
  clm_Status :: ClusterStatusMem

record CompilePipelineSpecMem =
  cpsm_Enabled :: bool
  cpsm_PipelineFiles :: "string gomap reference"

record CompilePipelineStatusMem =
  cpstm_Clusters :: "string list reference"

record 's TenantSpecMem =
  tsm_DisplayName :: string
  tsm_GitRepoURL :: string
  tsm_GitRepoRevision :: string
  tsm_GlobalGitRepoURL :: string
  tsm_GlobalGitRepoRevision :: string
  tsm_GitRepoTemplate :: "'s GitRepoTemplateMem reference"
  tsm_DeletionPolicy :: string
  tsm_CreationPolicy :: string
  tsm_ClusterTemplate :: "'s ClusterSpecMem reference"
  tsm_CompilePipeline :: "CompilePipelineSpecMem reference"

record TenantStatusMem =
  tstm_CompilePipeline :: "CompilePipelineStatusMem reference"

record ('m, 's) TenantMem =
  tnm_GVK :: GVK
  tnm_Meta :: "'m"
  tnm_Spec :: "'s TenantSpecMem"
  tnm_Status :: TenantStatusMem

record ('m, 's) TenantTemplateMem =
  ttm_GVK :: GVK
  ttm_Meta :: "'m"
  ttm_Spec :: "'s TenantSpecMem"

record ('m, 's, 'l) ClusterListMem =
  cllm_GVK :: GVK
  cllm_Meta :: "'l"
  cllm_Items :: "('m, 's) ClusterMem list reference"

record ('m, 's, 'l) GitRepoListMem =
  grlm_GVK :: GVK
  grlm_Meta :: "'l"
  grlm_Items :: "('m, 's) GitRepoMem list reference"

record ('m, 's, 'l) TenantListMem =
  tnlm_GVK :: GVK
  tnlm_Meta :: "'l"
  tnlm_Items :: "('m, 's) TenantMem list reference"

record ('m, 's, 'l) TenantTemplateListMem =
  ttlm_GVK :: GVK
  ttlm_Meta :: "'l"
  ttlm_Items :: "('m, 's) TenantTemplateMem list reference"

section \<open>The deep copies of the libraries\<close>

record ('m, 's, 'l) copyLibrary =
  lc_Meta :: "'m \<Rightarrow> 'm alloc"
  lc_Selector :: "'s \<Rightarrow> 's alloc"
  lc_ListMeta :: "'l \<Rightarrow> 'l alloc"
  lc_Order :: "nat \<Rightarrow> string list"

text \<open>What the values of library types reach and stand for.\<close>

record ('m, 's, 'l, 'k) copyView =
  lv_MetaAddrs :: "'m \<Rightarrow> nat list"
  lv_Meta :: "'m \<Rightarrow> ObjectMeta"
  lv_SelectorAddrs :: "'s \<Rightarrow> nat list"
  lv_Selector :: "'s \<Rightarrow> SecretKeySelector"
  lv_ListAddrs :: "'l \<Rightarrow> nat list"
  lv_List :: "'l \<Rightarrow> 'k"

definition libraryCopies ::
  "('m, 's, 'l) copyLibrary \<Rightarrow> ('m, 's, 'l, 'k) copyView \<Rightarrow> bool" where
  "libraryCopies L V \<longleftrightarrow> deepCopier (lc_Meta L) (lv_MetaAddrs V) (lv_Meta V) \<and>
     deepCopier (lc_Selector L) (lv_SelectorAddrs V) (lv_Selector V) \<and>
     deepCopier (lc_ListMeta L) (lv_ListAddrs V) (lv_List V)"

lemma library_meta: "libraryCopies L V \<Longrightarrow> deepCopier (lc_Meta L) (lv_MetaAddrs V) (lv_Meta V)"
  and library_selector: "libraryCopies L V \<Longrightarrow> deepCopier (lc_Selector L) (lv_SelectorAddrs V) (lv_Selector V)"
  and library_list: "libraryCopies L V \<Longrightarrow> deepCopier (lc_ListMeta L) (lv_ListAddrs V) (lv_List V)"
  by (simp_all add: libraryCopies_def)

section \<open>Structs without references\<close>

definition AccessToken_DeepCopyInto :: "string \<Rightarrow> string alloc" where
  "AccessToken_DeepCopyInto = State_Monad.return"

definition AccessToken_DeepCopy :: "string reference \<Rightarrow> string reference alloc" where
  "AccessToken_DeepCopy = copyPtr AccessToken_DeepCopyInto"

definition BootstrapToken_DeepCopyInto :: "BootstrapToken \<Rightarrow> BootstrapToken alloc" where
  "BootstrapToken_DeepCopyInto = State_Monad.return"

definition BootstrapToken_DeepCopy ::
  "BootstrapToken reference \<Rightarrow> BootstrapToken reference alloc" where
  "BootstrapToken_DeepCopy = copyPtr BootstrapToken_DeepCopyInto"

definition CompileMetaInstanceVersionInfo_DeepCopyInto ::
  "CompileMetaInstanceVersionInfo \<Rightarrow> CompileMetaInstanceVersionInfo alloc" where
  "CompileMetaInstanceVersionInfo_DeepCopyInto = State_Monad.return"

definition CompileMetaInstanceVersionInfo_DeepCopy ::
  "CompileMetaInstanceVersionInfo reference \<Rightarrow> CompileMetaInstanceVersionInfo reference alloc" where
  "CompileMetaInstanceVersionInfo_DeepCopy = copyPtr CompileMetaInstanceVersionInfo_DeepCopyInto"

definition CompileMetaVersionInfo_DeepCopyInto ::
  "CompileMetaVersionInfo \<Rightarrow> CompileMetaVersionInfo alloc" where
  "CompileMetaVersionInfo_DeepCopyInto = State_Monad.return"

definition CompileMetaVersionInfo_DeepCopy ::
  "CompileMetaVersionInfo reference \<Rightarrow> CompileMetaVersionInfo reference alloc" where
  "CompileMetaVersionInfo_DeepCopy = copyPtr CompileMetaVersionInfo_DeepCopyInto"

definition DeployKey_DeepCopyInto :: "DeployKey \<Rightarrow> DeployKey alloc" where
  "DeployKey_DeepCopyInto = State_Monad.return"

definition DeployKey_DeepCopy :: "DeployKey reference \<Rightarrow> DeployKey reference alloc" where
  "DeployKey_DeepCopy = copyPtr DeployKey_DeepCopyInto"

definition DeployKeyStatus_DeepCopyInto :: "DeployKeyStatus \<Rightarrow> DeployKeyStatus alloc" where
  "DeployKeyStatus_DeepCopyInto = State_Monad.return"

definition DeployKeyStatus_DeepCopy ::
  "DeployKeyStatus reference \<Rightarrow> DeployKeyStatus reference alloc" where
  "DeployKeyStatus_DeepCopy = copyPtr DeployKeyStatus_DeepCopyInto"

definition DeployKeyTemplate_DeepCopyInto :: "DeployKeyTemplate \<Rightarrow> DeployKeyTemplate alloc" where
  "DeployKeyTemplate_DeepCopyInto = State_Monad.return"

definition DeployKeyTemplate_DeepCopy ::
  "DeployKeyTemplate reference \<Rightarrow> DeployKeyTemplate reference alloc" where
  "DeployKeyTemplate_DeepCopy = copyPtr DeployKeyTemplate_DeepCopyInto"

definition EnvVarGitlabOptions_DeepCopyInto ::
  "EnvVarGitlabOptions \<Rightarrow> EnvVarGitlabOptions alloc" where
  "EnvVarGitlabOptions_DeepCopyInto = State_Monad.return"

definition EnvVarGitlabOptions_DeepCopy ::
  "EnvVarGitlabOptions reference \<Rightarrow> EnvVarGitlabOptions reference alloc" where
  "EnvVarGitlabOptions_DeepCopy = copyPtr EnvVarGitlabOptions_DeepCopyInto"

text \<open>\<open>Facts\<close> is a map type: its \<open>DeepCopyInto\<close> makes a map also of nil, its \<open>DeepCopy\<close> does not.\<close>

definition Facts_DeepCopyInto ::
  "('m, 's, 'l) copyLibrary \<Rightarrow> string gomap reference \<Rightarrow> string gomap reference alloc" where
  "Facts_DeepCopyInto L r =
     do { a \<leftarrow> newAddr; State_Monad.return (Some (a, copyEntries (lc_Order L a) (mapVal r))) }"

definition Facts_DeepCopy ::
  "('m, 's, 'l) copyLibrary \<Rightarrow> string gomap reference \<Rightarrow> string gomap reference alloc" where
  "Facts_DeepCopy L r = (case r of
       None \<Rightarrow> State_Monad.return None
     | Some _ \<Rightarrow> do { out \<leftarrow> newAddr; Facts_DeepCopyInto L r })"

lemma Facts_copies: "deepCopier (Facts_DeepCopy L) mapAddrs mapVal"
  by (rule deepCopierI) (auto simp: Facts_DeepCopy_def Facts_DeepCopyInto_def mapVal_def fresh_def split: option.splits)

section \<open>Git repositories\<close>

definition EnvVarSource_DeepCopyInto ::
  "('m, 's, 'l) copyLibrary \<Rightarrow> 's EnvVarSourceMem \<Rightarrow> 's EnvVarSourceMem alloc" where
  "EnvVarSource_DeepCopyInto L x = do {
     ref \<leftarrow> copyPtr (lc_Selector L) (evsm_SecretKeyRef x);
     State_Monad.return (x\<lparr>evsm_SecretKeyRef := ref\<rparr>) }"

definition EnvVarSource_DeepCopy ::
  "('m, 's, 'l) copyLibrary \<Rightarrow> 's EnvVarSourceMem reference \<Rightarrow>
    's EnvVarSourceMem reference alloc" where
  "EnvVarSource_DeepCopy L = copyPtr (EnvVarSource_DeepCopyInto L)"

definition EnvVarSource_addrs ::
  "('m, 's, 'l, 'k) copyView \<Rightarrow> 's EnvVarSourceMem \<Rightarrow> nat list" where
  "EnvVarSource_addrs V x =
     ptrAddrs (lv_SelectorAddrs V) (evsm_SecretKeyRef x)"

definition EnvVarSource_val ::
  "('m, 's, 'l, 'k) copyView \<Rightarrow> 's EnvVarSourceMem \<Rightarrow> EnvVarSource" where
  "EnvVarSource_val V x =
     \<lparr>evs_SecretKeyRef = ptrVal (lv_Selector V) (evsm_SecretKeyRef x)\<rparr>"

lemma EnvVarSource_copies:
  assumes lib: "libraryCopies L V"
  shows "deepCopier (EnvVarSource_DeepCopyInto L) (EnvVarSource_addrs V) (EnvVarSource_val V)"
  by (rule deepCopierI)
    (auto simp: EnvVarSource_DeepCopyInto_def EnvVarSource_addrs_def EnvVarSource_val_def split: prod.splits
      dest!: deepCopierD [OF copyPtr_copies [OF library_selector [OF lib]]]; blast intro: fresh_append)

definition EnvVar_DeepCopyInto ::
  "('m, 's, 'l) copyLibrary \<Rightarrow> 's EnvVarMem \<Rightarrow> 's EnvVarMem alloc" where
  "EnvVar_DeepCopyInto L x = do {
     source \<leftarrow> copyPtr (EnvVarSource_DeepCopyInto L) (evm_ValueFrom x);
     State_Monad.return (x\<lparr>evm_ValueFrom := source\<rparr>) }"

definition EnvVar_DeepCopy ::
  "('m, 's, 'l) copyLibrary \<Rightarrow> 's EnvVarMem reference \<Rightarrow> 's EnvVarMem reference alloc" where
  "EnvVar_DeepCopy L = copyPtr (EnvVar_DeepCopyInto L)"

definition EnvVar_addrs :: "('m, 's, 'l, 'k) copyView \<Rightarrow> 's EnvVarMem \<Rightarrow> nat list" where
  "EnvVar_addrs V x =
     ptrAddrs (EnvVarSource_addrs V) (evm_ValueFrom x)"

definition EnvVar_val :: "('m, 's, 'l, 'k) copyView \<Rightarrow> 's EnvVarMem \<Rightarrow> EnvVar" where
  "EnvVar_val V x =
     \<lparr>ev_Name = evm_Name x, ev_Value = evm_Value x, ev_ValueFrom = ptrVal (EnvVarSource_val V) (evm_ValueFrom x),
       ev_GitlabOptions = evm_GitlabOptions x\<rparr>"

lemma EnvVar_copies:
  assumes lib: "libraryCopies L V"
  shows "deepCopier (EnvVar_DeepCopyInto L) (EnvVar_addrs V) (EnvVar_val V)"
  by (rule deepCopierI)
    (auto simp: EnvVar_DeepCopyInto_def EnvVar_addrs_def EnvVar_val_def split: prod.splits
      dest!: deepCopierD [OF copyPtr_copies [OF EnvVarSource_copies [OF lib]]]; blast intro: fresh_append)

definition GitRepoTemplate_DeepCopyInto ::
  "('m, 's, 'l) copyLibrary \<Rightarrow> 's GitRepoTemplateMem \<Rightarrow> 's GitRepoTemplateMem alloc" where
  "GitRepoTemplate_DeepCopyInto L x = do {
     keys \<leftarrow> copyMap (lc_Order L) (gtm_DeployKeys x);
     generated \<leftarrow> copyMap (lc_Order L) (gtm_GeneratedDeployKeys x);
     files \<leftarrow> copyMap (lc_Order L) (gtm_TemplateFiles x);
     vars \<leftarrow> copySlice (EnvVar_DeepCopyInto L) (gtm_CIVariables x);
     State_Monad.return (x\<lparr>gtm_DeployKeys := keys, gtm_GeneratedDeployKeys := generated, gtm_TemplateFiles := files,
       gtm_CIVariables := vars\<rparr>) }"

definition GitRepoTemplate_DeepCopy ::
  "('m, 's, 'l) copyLibrary \<Rightarrow> 's GitRepoTemplateMem reference \<Rightarrow>
    's GitRepoTemplateMem reference alloc" where
  "GitRepoTemplate_DeepCopy L = copyPtr (GitRepoTemplate_DeepCopyInto L)"

definition GitRepoTemplate_addrs ::
  "('m, 's, 'l, 'k) copyView \<Rightarrow> 's GitRepoTemplateMem \<Rightarrow> nat list" where
  "GitRepoTemplate_addrs V x =
     mapAddrs (gtm_DeployKeys x) @ mapAddrs (gtm_GeneratedDeployKeys x) @ mapAddrs (gtm_TemplateFiles x) @
     sliceAddrs (EnvVar_addrs V) (gtm_CIVariables x)"

definition GitRepoTemplate_val ::
  "('m, 's, 'l, 'k) copyView \<Rightarrow> 's GitRepoTemplateMem \<Rightarrow> GitRepoTemplate" where
  "GitRepoTemplate_val V x =
     \<lparr>gt_APISecretRef = gtm_APISecretRef x, gt_DeployKeys = mapVal (gtm_DeployKeys x),
       gt_GeneratedDeployKeys = mapVal (gtm_GeneratedDeployKeys x), gt_Path = gtm_Path x,
       gt_RepoName = gtm_RepoName x, gt_RepoType = gtm_RepoType x, gt_DisplayName = gtm_DisplayName x,
       gt_TemplateFiles = mapVal (gtm_TemplateFiles x), gt_DeletionPolicy = gtm_DeletionPolicy x,
       gt_CreationPolicy = gtm_CreationPolicy x, gt_AccessTokenSecretRef = gtm_AccessTokenSecretRef x,
       gt_CIVariables = sliceVal (EnvVar_val V) (gtm_CIVariables x)\<rparr>"

lemma GitRepoTemplate_copies:
  assumes lib: "libraryCopies L V"
  shows "deepCopier (GitRepoTemplate_DeepCopyInto L) (GitRepoTemplate_addrs V) (GitRepoTemplate_val V)"
  by (rule deepCopierI)
    (auto simp: GitRepoTemplate_DeepCopyInto_def GitRepoTemplate_addrs_def GitRepoTemplate_val_def
      split: prod.splits
      dest!: deepCopierD [OF copyMap_copies] deepCopierD [OF copySlice_copies [OF EnvVar_copies [OF lib]]]; blast intro: fresh_append)

definition GitRepoSpec_DeepCopyInto ::
  "('m, 's, 'l) copyLibrary \<Rightarrow> 's GitRepoSpecMem \<Rightarrow> 's GitRepoSpecMem alloc" where
  "GitRepoSpec_DeepCopyInto L x = do {
     template \<leftarrow> GitRepoTemplate_DeepCopyInto L (gsm_GitRepoTemplate x);
     State_Monad.return (x\<lparr>gsm_GitRepoTemplate := template\<rparr>) }"

definition GitRepoSpec_DeepCopy ::
  "('m, 's, 'l) copyLibrary \<Rightarrow> 's GitRepoSpecMem reference \<Rightarrow>
    's GitRepoSpecMem reference alloc" where
  "GitRepoSpec_DeepCopy L = copyPtr (GitRepoSpec_DeepCopyInto L)"

definition GitRepoSpec_addrs ::
  "('m, 's, 'l, 'k) copyView \<Rightarrow> 's GitRepoSpecMem \<Rightarrow> nat list" where
  "GitRepoSpec_addrs V x =
     GitRepoTemplate_addrs V (gsm_GitRepoTemplate x)"

definition GitRepoSpec_val ::
  "('m, 's, 'l, 'k) copyView \<Rightarrow> 's GitRepoSpecMem \<Rightarrow> GitRepoSpec" where
  "GitRepoSpec_val V x =
     \<lparr>gs_GitRepoTemplate = GitRepoTemplate_val V (gsm_GitRepoTemplate x), gs_TenantRef = gsm_TenantRef x\<rparr>"

lemma GitRepoSpec_copies:
  assumes lib: "libraryCopies L V"
  shows "deepCopier (GitRepoSpec_DeepCopyInto L) (GitRepoSpec_addrs V) (GitRepoSpec_val V)"
  by (rule deepCopierI)
    (auto simp: GitRepoSpec_DeepCopyInto_def GitRepoSpec_addrs_def GitRepoSpec_val_def split: prod.splits
      dest!: deepCopierD [OF GitRepoTemplate_copies [OF lib]]; blast intro: fresh_append)

definition GitRepoStatus_DeepCopyInto ::
  "('m, 's, 'l) copyLibrary \<Rightarrow> GitRepoStatusMem \<Rightarrow> GitRepoStatusMem alloc" where
  "GitRepoStatus_DeepCopyInto L x = do {
     phase \<leftarrow> copyPtr State_Monad.return (gstm_Phase x);
     generated \<leftarrow> copyMap (lc_Order L) (gstm_GeneratedDeployKeys x);
     State_Monad.return (x\<lparr>gstm_Phase := phase, gstm_GeneratedDeployKeys := generated\<rparr>) }"

definition GitRepoStatus_DeepCopy ::
  "('m, 's, 'l) copyLibrary \<Rightarrow> GitRepoStatusMem reference \<Rightarrow>
    GitRepoStatusMem reference alloc" where
  "GitRepoStatus_DeepCopy L = copyPtr (GitRepoStatus_DeepCopyInto L)"

definition GitRepoStatus_addrs :: "GitRepoStatusMem \<Rightarrow> nat list" where
  "GitRepoStatus_addrs x =
     ptrAddrs (\<lambda>_. []) (gstm_Phase x) @ mapAddrs (gstm_GeneratedDeployKeys x)"

definition GitRepoStatus_val :: "GitRepoStatusMem \<Rightarrow> GitRepoStatus" where
  "GitRepoStatus_val x =
     \<lparr>gst_Phase = ptrVal (\<lambda>p. p) (gstm_Phase x), gst_Type = gstm_Type x, gst_URL = gstm_URL x,
       gst_HostKeys = gstm_HostKeys x, gst_LastAppliedCIVariables = gstm_LastAppliedCIVariables x,
       gst_GeneratedDeployKeys = mapVal (gstm_GeneratedDeployKeys x)\<rparr>"

lemma GitRepoStatus_copies:
  "deepCopier (GitRepoStatus_DeepCopyInto L) GitRepoStatus_addrs GitRepoStatus_val"
  by (rule deepCopierI)
    (auto simp: GitRepoStatus_DeepCopyInto_def GitRepoStatus_addrs_def GitRepoStatus_val_def split: prod.splits
      dest!: deepCopierD [OF plain_ptr_copies] deepCopierD [OF copyMap_copies]; blast intro: fresh_append)

definition GitRepo_DeepCopyInto ::
  "('m, 's, 'l) copyLibrary \<Rightarrow> ('m, 's) GitRepoMem \<Rightarrow> ('m, 's) GitRepoMem alloc" where
  "GitRepo_DeepCopyInto L x = do {
     meta \<leftarrow> lc_Meta L (grm_Meta x);
     spec \<leftarrow> GitRepoSpec_DeepCopyInto L (grm_Spec x);
     status \<leftarrow> GitRepoStatus_DeepCopyInto L (grm_Status x);
     State_Monad.return (x\<lparr>grm_Meta := meta, grm_Spec := spec, grm_Status := status\<rparr>) }"

definition GitRepo_DeepCopy ::
  "('m, 's, 'l) copyLibrary \<Rightarrow> ('m, 's) GitRepoMem reference \<Rightarrow>
    ('m, 's) GitRepoMem reference alloc" where
  "GitRepo_DeepCopy L = copyPtr (GitRepo_DeepCopyInto L)"

definition GitRepo_addrs ::
  "('m, 's, 'l, 'k) copyView \<Rightarrow> ('m, 's) GitRepoMem \<Rightarrow> nat list" where
  "GitRepo_addrs V x =
     lv_MetaAddrs V (grm_Meta x) @ GitRepoSpec_addrs V (grm_Spec x) @ GitRepoStatus_addrs (grm_Status x)"

definition GitRepo_val ::
  "('m, 's, 'l, 'k) copyView \<Rightarrow> ('m, 's) GitRepoMem \<Rightarrow> GitRepo" where
  "GitRepo_val V x =
     \<lparr>gr_GVK = grm_GVK x, gr_Meta = lv_Meta V (grm_Meta x), gr_Spec = GitRepoSpec_val V (grm_Spec x),
       gr_Status = GitRepoStatus_val (grm_Status x)\<rparr>"

lemma GitRepo_copies:
  assumes lib: "libraryCopies L V"
  shows "deepCopier (GitRepo_DeepCopyInto L) (GitRepo_addrs V) (GitRepo_val V)"
  by (rule deepCopierI)
    (auto simp: GitRepo_DeepCopyInto_def GitRepo_addrs_def GitRepo_val_def split: prod.splits
      dest!: deepCopierD [OF library_meta [OF lib]] deepCopierD [OF GitRepoSpec_copies [OF lib]]
      deepCopierD [OF GitRepoStatus_copies]; blast intro: fresh_append)

section \<open>Clusters\<close>

definition ClusterSpec_DeepCopyInto ::
  "('m, 's, 'l) copyLibrary \<Rightarrow> 's ClusterSpecMem \<Rightarrow> 's ClusterSpecMem alloc" where
  "ClusterSpec_DeepCopyInto L x = do {
     template \<leftarrow> copyPtr (GitRepoTemplate_DeepCopyInto L) (csm_GitRepoTemplate x);
     facts \<leftarrow> copyMap (lc_Order L) (csm_Facts x);
     State_Monad.return (x\<lparr>csm_GitRepoTemplate := template, csm_Facts := facts\<rparr>) }"

definition ClusterSpec_DeepCopy ::
  "('m, 's, 'l) copyLibrary \<Rightarrow> 's ClusterSpecMem reference \<Rightarrow>
    's ClusterSpecMem reference alloc" where
  "ClusterSpec_DeepCopy L = copyPtr (ClusterSpec_DeepCopyInto L)"

definition ClusterSpec_addrs ::
  "('m, 's, 'l, 'k) copyView \<Rightarrow> 's ClusterSpecMem \<Rightarrow> nat list" where
  "ClusterSpec_addrs V x =
     ptrAddrs (GitRepoTemplate_addrs V) (csm_GitRepoTemplate x) @ mapAddrs (csm_Facts x)"

definition ClusterSpec_val ::
  "('m, 's, 'l, 'k) copyView \<Rightarrow> 's ClusterSpecMem \<Rightarrow> ClusterSpec" where
  "ClusterSpec_val V x =
     \<lparr>cs_DisplayName = csm_DisplayName x, cs_GitRepoURL = csm_GitRepoURL x, cs_GitHostKeys = csm_GitHostKeys x,
       cs_GitRepoTemplate = ptrVal (GitRepoTemplate_val V) (csm_GitRepoTemplate x), cs_TenantRef = csm_TenantRef x,
       cs_TenantGitRepoRevision = csm_TenantGitRepoRevision x,
       cs_GlobalGitRepoRevision = csm_GlobalGitRepoRevision x, cs_TokenLifeTime = csm_TokenLifeTime x,
       cs_Facts = mapVal (csm_Facts x), cs_DeletionPolicy = csm_DeletionPolicy x,
       cs_CreationPolicy = csm_CreationPolicy x, cs_EnableCompilePipeline = csm_EnableCompilePipeline x\<rparr>"

lemma ClusterSpec_copies:
  assumes lib: "libraryCopies L V"
  shows "deepCopier (ClusterSpec_DeepCopyInto L) (ClusterSpec_addrs V) (ClusterSpec_val V)"
  by (rule deepCopierI)
    (auto simp: ClusterSpec_DeepCopyInto_def ClusterSpec_addrs_def ClusterSpec_val_def split: prod.splits
      dest!: deepCopierD [OF copyPtr_copies [OF GitRepoTemplate_copies [OF lib]]]
      deepCopierD [OF copyMap_copies]; blast intro: fresh_append)

definition CompileMeta_DeepCopyInto ::
  "('m, 's, 'l) copyLibrary \<Rightarrow> CompileMetaMem \<Rightarrow> CompileMetaMem alloc" where
  "CompileMeta_DeepCopyInto L x = do {
     build \<leftarrow> copyMap (lc_Order L) (cmm_CommodoreBuildInfo x);
     packages \<leftarrow> copyMap (lc_Order L) (cmm_Packages x);
     instances \<leftarrow> copyMap (lc_Order L) (cmm_Instances x);
     State_Monad.return (x\<lparr>cmm_CommodoreBuildInfo := build, cmm_Packages := packages, cmm_Instances := instances\<rparr>) }"

definition CompileMeta_DeepCopy ::
  "('m, 's, 'l) copyLibrary \<Rightarrow> CompileMetaMem reference \<Rightarrow>
    CompileMetaMem reference alloc" where
  "CompileMeta_DeepCopy L = copyPtr (CompileMeta_DeepCopyInto L)"

definition CompileMeta_addrs :: "CompileMetaMem \<Rightarrow> nat list" where
  "CompileMeta_addrs x =
     mapAddrs (cmm_CommodoreBuildInfo x) @ mapAddrs (cmm_Packages x) @ mapAddrs (cmm_Instances x)"

definition CompileMeta_val :: "CompileMetaMem \<Rightarrow> CompileMeta" where
  "CompileMeta_val x =
     \<lparr>cm_LastCompile = cmm_LastCompile x, cm_CommodoreBuildInfo = mapVal (cmm_CommodoreBuildInfo x),
       cm_Global = cmm_Global x, cm_Tenant = cmm_Tenant x, cm_Packages = mapVal (cmm_Packages x),
       cm_Instances = mapVal (cmm_Instances x)\<rparr>"

lemma CompileMeta_copies:
  "deepCopier (CompileMeta_DeepCopyInto L) CompileMeta_addrs CompileMeta_val"
  by (rule deepCopierI)
    (auto simp: CompileMeta_DeepCopyInto_def CompileMeta_addrs_def CompileMeta_val_def split: prod.splits
      dest!: deepCopierD [OF copyMap_copies]; blast intro: fresh_append)

definition ClusterStatus_DeepCopyInto ::
  "('m, 's, 'l) copyLibrary \<Rightarrow> ClusterStatusMem \<Rightarrow> ClusterStatusMem alloc" where
  "ClusterStatus_DeepCopyInto L x = do {
     token \<leftarrow> copyPtr BootstrapToken_DeepCopyInto (cstm_BootstrapToken x);
     facts \<leftarrow> copyMap (lc_Order L) (cstm_Facts x);
     compile \<leftarrow> CompileMeta_DeepCopyInto L (cstm_CompileMeta x);
     State_Monad.return (x\<lparr>cstm_BootstrapToken := token, cstm_Facts := facts, cstm_CompileMeta := compile\<rparr>) }"

definition ClusterStatus_DeepCopy ::
  "('m, 's, 'l) copyLibrary \<Rightarrow> ClusterStatusMem reference \<Rightarrow>
    ClusterStatusMem reference alloc" where
  "ClusterStatus_DeepCopy L = copyPtr (ClusterStatus_DeepCopyInto L)"

definition ClusterStatus_addrs :: "ClusterStatusMem \<Rightarrow> nat list" where
  "ClusterStatus_addrs x =
     ptrAddrs (\<lambda>_. []) (cstm_BootstrapToken x) @ mapAddrs (cstm_Facts x) @
     CompileMeta_addrs (cstm_CompileMeta x)"

definition ClusterStatus_val :: "ClusterStatusMem \<Rightarrow> ClusterStatus" where
  "ClusterStatus_val x =
     \<lparr>cst_BootstrapToken = ptrVal (\<lambda>p. p) (cstm_BootstrapToken x), cst_Facts = mapVal (cstm_Facts x),
       cst_CompileMeta = CompileMeta_val (cstm_CompileMeta x)\<rparr>"

lemma ClusterStatus_copies:
  "deepCopier (ClusterStatus_DeepCopyInto L) ClusterStatus_addrs ClusterStatus_val"
  by (rule deepCopierI)
    (auto simp: ClusterStatus_DeepCopyInto_def ClusterStatus_addrs_def ClusterStatus_val_def BootstrapToken_DeepCopyInto_def
      split: prod.splits
      dest!: deepCopierD [OF plain_ptr_copies] deepCopierD [OF copyMap_copies]
      deepCopierD [OF CompileMeta_copies]; blast intro: fresh_append)

definition Cluster_DeepCopyInto ::
  "('m, 's, 'l) copyLibrary \<Rightarrow> ('m, 's) ClusterMem \<Rightarrow> ('m, 's) ClusterMem alloc" where
  "Cluster_DeepCopyInto L x = do {
     meta \<leftarrow> lc_Meta L (clm_Meta x);
     spec \<leftarrow> ClusterSpec_DeepCopyInto L (clm_Spec x);
     status \<leftarrow> ClusterStatus_DeepCopyInto L (clm_Status x);
     State_Monad.return (x\<lparr>clm_Meta := meta, clm_Spec := spec, clm_Status := status\<rparr>) }"

definition Cluster_DeepCopy ::
  "('m, 's, 'l) copyLibrary \<Rightarrow> ('m, 's) ClusterMem reference \<Rightarrow>
    ('m, 's) ClusterMem reference alloc" where
  "Cluster_DeepCopy L = copyPtr (Cluster_DeepCopyInto L)"

definition Cluster_addrs ::
  "('m, 's, 'l, 'k) copyView \<Rightarrow> ('m, 's) ClusterMem \<Rightarrow> nat list" where
  "Cluster_addrs V x =
     lv_MetaAddrs V (clm_Meta x) @ ClusterSpec_addrs V (clm_Spec x) @ ClusterStatus_addrs (clm_Status x)"

definition Cluster_val ::
  "('m, 's, 'l, 'k) copyView \<Rightarrow> ('m, 's) ClusterMem \<Rightarrow> Cluster" where
  "Cluster_val V x =
     \<lparr>cl_GVK = clm_GVK x, cl_Meta = lv_Meta V (clm_Meta x), cl_Spec = ClusterSpec_val V (clm_Spec x),
       cl_Status = ClusterStatus_val (clm_Status x)\<rparr>"

lemma Cluster_copies:
  assumes lib: "libraryCopies L V"
  shows "deepCopier (Cluster_DeepCopyInto L) (Cluster_addrs V) (Cluster_val V)"
  by (rule deepCopierI)
    (auto simp: Cluster_DeepCopyInto_def Cluster_addrs_def Cluster_val_def split: prod.splits
      dest!: deepCopierD [OF library_meta [OF lib]] deepCopierD [OF ClusterSpec_copies [OF lib]]
      deepCopierD [OF ClusterStatus_copies]; blast intro: fresh_append)

section \<open>Tenants\<close>

definition CompilePipelineSpec_DeepCopyInto ::
  "('m, 's, 'l) copyLibrary \<Rightarrow> CompilePipelineSpecMem \<Rightarrow> CompilePipelineSpecMem alloc" where
  "CompilePipelineSpec_DeepCopyInto L x = do {
     files \<leftarrow> copyMap (lc_Order L) (cpsm_PipelineFiles x);
     State_Monad.return (x\<lparr>cpsm_PipelineFiles := files\<rparr>) }"

definition CompilePipelineSpec_DeepCopy ::
  "('m, 's, 'l) copyLibrary \<Rightarrow> CompilePipelineSpecMem reference \<Rightarrow>
    CompilePipelineSpecMem reference alloc" where
  "CompilePipelineSpec_DeepCopy L = copyPtr (CompilePipelineSpec_DeepCopyInto L)"

definition CompilePipelineSpec_addrs :: "CompilePipelineSpecMem \<Rightarrow> nat list" where
  "CompilePipelineSpec_addrs x =
     mapAddrs (cpsm_PipelineFiles x)"

definition CompilePipelineSpec_val :: "CompilePipelineSpecMem \<Rightarrow> CompilePipelineSpec" where
  "CompilePipelineSpec_val x =
     \<lparr>cps_Enabled = cpsm_Enabled x, cps_PipelineFiles = mapVal (cpsm_PipelineFiles x)\<rparr>"

lemma CompilePipelineSpec_copies:
  "deepCopier (CompilePipelineSpec_DeepCopyInto L) CompilePipelineSpec_addrs CompilePipelineSpec_val"
  by (rule deepCopierI)
    (auto simp: CompilePipelineSpec_DeepCopyInto_def CompilePipelineSpec_addrs_def CompilePipelineSpec_val_def
      split: prod.splits
      dest!: deepCopierD [OF copyMap_copies]; blast intro: fresh_append)

definition CompilePipelineStatus_DeepCopyInto ::
  "CompilePipelineStatusMem \<Rightarrow> CompilePipelineStatusMem alloc" where
  "CompilePipelineStatus_DeepCopyInto x = do {
     clusters \<leftarrow> copySlice State_Monad.return (cpstm_Clusters x);
     State_Monad.return (x\<lparr>cpstm_Clusters := clusters\<rparr>) }"

definition CompilePipelineStatus_DeepCopy ::
  "CompilePipelineStatusMem reference \<Rightarrow> CompilePipelineStatusMem reference alloc" where
  "CompilePipelineStatus_DeepCopy = copyPtr CompilePipelineStatus_DeepCopyInto"

definition CompilePipelineStatus_addrs :: "CompilePipelineStatusMem \<Rightarrow> nat list" where
  "CompilePipelineStatus_addrs x =
     sliceAddrs (\<lambda>_. []) (cpstm_Clusters x)"

definition CompilePipelineStatus_val :: "CompilePipelineStatusMem \<Rightarrow> CompilePipelineStatus" where
  "CompilePipelineStatus_val x =
     \<lparr>cpst_Clusters = sliceVal (\<lambda>p. p) (cpstm_Clusters x)\<rparr>"

lemma CompilePipelineStatus_copies:
  "deepCopier CompilePipelineStatus_DeepCopyInto CompilePipelineStatus_addrs CompilePipelineStatus_val"
  by (rule deepCopierI)
    (auto simp: CompilePipelineStatus_DeepCopyInto_def CompilePipelineStatus_addrs_def CompilePipelineStatus_val_def
      split: prod.splits
      dest!: deepCopierD [OF copySlice_copies [OF plain_copies]]; blast intro: fresh_append)

definition TenantSpec_DeepCopyInto ::
  "('m, 's, 'l) copyLibrary \<Rightarrow> 's TenantSpecMem \<Rightarrow> 's TenantSpecMem alloc" where
  "TenantSpec_DeepCopyInto L x = do {
     template \<leftarrow> copyPtr (GitRepoTemplate_DeepCopyInto L) (tsm_GitRepoTemplate x);
     cluster \<leftarrow> copyPtr (ClusterSpec_DeepCopyInto L) (tsm_ClusterTemplate x);
     pipeline \<leftarrow> copyPtr (CompilePipelineSpec_DeepCopyInto L) (tsm_CompilePipeline x);
     State_Monad.return (x\<lparr>tsm_GitRepoTemplate := template, tsm_ClusterTemplate := cluster, tsm_CompilePipeline := pipeline\<rparr>) }"

definition TenantSpec_DeepCopy ::
  "('m, 's, 'l) copyLibrary \<Rightarrow> 's TenantSpecMem reference \<Rightarrow>
    's TenantSpecMem reference alloc" where
  "TenantSpec_DeepCopy L = copyPtr (TenantSpec_DeepCopyInto L)"

definition TenantSpec_addrs ::
  "('m, 's, 'l, 'k) copyView \<Rightarrow> 's TenantSpecMem \<Rightarrow> nat list" where
  "TenantSpec_addrs V x =
     ptrAddrs (GitRepoTemplate_addrs V) (tsm_GitRepoTemplate x) @
     ptrAddrs (ClusterSpec_addrs V) (tsm_ClusterTemplate x) @
     ptrAddrs CompilePipelineSpec_addrs (tsm_CompilePipeline x)"

definition TenantSpec_val ::
  "('m, 's, 'l, 'k) copyView \<Rightarrow> 's TenantSpecMem \<Rightarrow> TenantSpec" where
  "TenantSpec_val V x =
     \<lparr>ts_DisplayName = tsm_DisplayName x, ts_GitRepoURL = tsm_GitRepoURL x,
       ts_GitRepoRevision = tsm_GitRepoRevision x, ts_GlobalGitRepoURL = tsm_GlobalGitRepoURL x,
       ts_GlobalGitRepoRevision = tsm_GlobalGitRepoRevision x,
       ts_GitRepoTemplate = ptrVal (GitRepoTemplate_val V) (tsm_GitRepoTemplate x),
       ts_DeletionPolicy = tsm_DeletionPolicy x, ts_CreationPolicy = tsm_CreationPolicy x,
       ts_ClusterTemplate = ptrVal (ClusterSpec_val V) (tsm_ClusterTemplate x),
       ts_CompilePipeline = ptrVal CompilePipelineSpec_val (tsm_CompilePipeline x)\<rparr>"

lemma TenantSpec_copies:
  assumes lib: "libraryCopies L V"
  shows "deepCopier (TenantSpec_DeepCopyInto L) (TenantSpec_addrs V) (TenantSpec_val V)"
  by (rule deepCopierI)
    (auto simp: TenantSpec_DeepCopyInto_def TenantSpec_addrs_def TenantSpec_val_def split: prod.splits
      dest!: deepCopierD [OF copyPtr_copies [OF GitRepoTemplate_copies [OF lib]]]
      deepCopierD [OF copyPtr_copies [OF ClusterSpec_copies [OF lib]]]
      deepCopierD [OF copyPtr_copies [OF CompilePipelineSpec_copies]]; blast intro: fresh_append)

definition TenantStatus_DeepCopyInto :: "TenantStatusMem \<Rightarrow> TenantStatusMem alloc" where
  "TenantStatus_DeepCopyInto x = do {
     pipeline \<leftarrow> copyPtr CompilePipelineStatus_DeepCopyInto (tstm_CompilePipeline x);
     State_Monad.return (x\<lparr>tstm_CompilePipeline := pipeline\<rparr>) }"

definition TenantStatus_DeepCopy ::
  "TenantStatusMem reference \<Rightarrow> TenantStatusMem reference alloc" where
  "TenantStatus_DeepCopy = copyPtr TenantStatus_DeepCopyInto"

definition TenantStatus_addrs :: "TenantStatusMem \<Rightarrow> nat list" where
  "TenantStatus_addrs x =
     ptrAddrs CompilePipelineStatus_addrs (tstm_CompilePipeline x)"

definition TenantStatus_val :: "TenantStatusMem \<Rightarrow> TenantStatus" where
  "TenantStatus_val x =
     \<lparr>tst_CompilePipeline = ptrVal CompilePipelineStatus_val (tstm_CompilePipeline x)\<rparr>"

lemma TenantStatus_copies:
  "deepCopier TenantStatus_DeepCopyInto TenantStatus_addrs TenantStatus_val"
  by (rule deepCopierI)
    (auto simp: TenantStatus_DeepCopyInto_def TenantStatus_addrs_def TenantStatus_val_def split: prod.splits
      dest!: deepCopierD [OF copyPtr_copies [OF CompilePipelineStatus_copies]]; blast intro: fresh_append)

definition Tenant_DeepCopyInto ::
  "('m, 's, 'l) copyLibrary \<Rightarrow> ('m, 's) TenantMem \<Rightarrow> ('m, 's) TenantMem alloc" where
  "Tenant_DeepCopyInto L x = do {
     meta \<leftarrow> lc_Meta L (tnm_Meta x);
     spec \<leftarrow> TenantSpec_DeepCopyInto L (tnm_Spec x);
     status \<leftarrow> TenantStatus_DeepCopyInto (tnm_Status x);
     State_Monad.return (x\<lparr>tnm_Meta := meta, tnm_Spec := spec, tnm_Status := status\<rparr>) }"

definition Tenant_DeepCopy ::
  "('m, 's, 'l) copyLibrary \<Rightarrow> ('m, 's) TenantMem reference \<Rightarrow>
    ('m, 's) TenantMem reference alloc" where
  "Tenant_DeepCopy L = copyPtr (Tenant_DeepCopyInto L)"

definition Tenant_addrs ::
  "('m, 's, 'l, 'k) copyView \<Rightarrow> ('m, 's) TenantMem \<Rightarrow> nat list" where
  "Tenant_addrs V x =
     lv_MetaAddrs V (tnm_Meta x) @ TenantSpec_addrs V (tnm_Spec x) @ TenantStatus_addrs (tnm_Status x)"

definition Tenant_val :: "('m, 's, 'l, 'k) copyView \<Rightarrow> ('m, 's) TenantMem \<Rightarrow> Tenant" where
  "Tenant_val V x =
     \<lparr>tn_GVK = tnm_GVK x, tn_Meta = lv_Meta V (tnm_Meta x), tn_Spec = TenantSpec_val V (tnm_Spec x),
       tn_Status = TenantStatus_val (tnm_Status x)\<rparr>"

lemma Tenant_copies:
  assumes lib: "libraryCopies L V"
  shows "deepCopier (Tenant_DeepCopyInto L) (Tenant_addrs V) (Tenant_val V)"
  by (rule deepCopierI)
    (auto simp: Tenant_DeepCopyInto_def Tenant_addrs_def Tenant_val_def split: prod.splits
      dest!: deepCopierD [OF library_meta [OF lib]] deepCopierD [OF TenantSpec_copies [OF lib]]
      deepCopierD [OF TenantStatus_copies]; blast intro: fresh_append)

definition TenantTemplate_DeepCopyInto ::
  "('m, 's, 'l) copyLibrary \<Rightarrow> ('m, 's) TenantTemplateMem \<Rightarrow>
    ('m, 's) TenantTemplateMem alloc" where
  "TenantTemplate_DeepCopyInto L x = do {
     meta \<leftarrow> lc_Meta L (ttm_Meta x);
     spec \<leftarrow> TenantSpec_DeepCopyInto L (ttm_Spec x);
     State_Monad.return (x\<lparr>ttm_Meta := meta, ttm_Spec := spec\<rparr>) }"

definition TenantTemplate_DeepCopy ::
  "('m, 's, 'l) copyLibrary \<Rightarrow> ('m, 's) TenantTemplateMem reference \<Rightarrow>
    ('m, 's) TenantTemplateMem reference alloc" where
  "TenantTemplate_DeepCopy L = copyPtr (TenantTemplate_DeepCopyInto L)"

definition TenantTemplate_addrs ::
  "('m, 's, 'l, 'k) copyView \<Rightarrow> ('m, 's) TenantTemplateMem \<Rightarrow> nat list" where
  "TenantTemplate_addrs V x =
     lv_MetaAddrs V (ttm_Meta x) @ TenantSpec_addrs V (ttm_Spec x)"

definition TenantTemplate_val ::
  "('m, 's, 'l, 'k) copyView \<Rightarrow> ('m, 's) TenantTemplateMem \<Rightarrow>
    GVK \<times> TenantTemplate" where
  "TenantTemplate_val V x =
     (ttm_GVK x, \<lparr>tt_Meta = lv_Meta V (ttm_Meta x), tt_Spec = TenantSpec_val V (ttm_Spec x)\<rparr>)"

lemma TenantTemplate_copies:
  assumes lib: "libraryCopies L V"
  shows "deepCopier (TenantTemplate_DeepCopyInto L) (TenantTemplate_addrs V) (TenantTemplate_val V)"
  by (rule deepCopierI)
    (auto simp: TenantTemplate_DeepCopyInto_def TenantTemplate_addrs_def TenantTemplate_val_def
      split: prod.splits
      dest!: deepCopierD [OF library_meta [OF lib]] deepCopierD [OF TenantSpec_copies [OF lib]]; blast intro: fresh_append)

section \<open>Lists\<close>

definition ClusterList_DeepCopyInto ::
  "('m, 's, 'l) copyLibrary \<Rightarrow> ('m, 's, 'l) ClusterListMem \<Rightarrow>
    ('m, 's, 'l) ClusterListMem alloc" where
  "ClusterList_DeepCopyInto L x = do {
     meta \<leftarrow> lc_ListMeta L (cllm_Meta x);
     items \<leftarrow> copySlice (Cluster_DeepCopyInto L) (cllm_Items x);
     State_Monad.return (x\<lparr>cllm_Meta := meta, cllm_Items := items\<rparr>) }"

definition ClusterList_DeepCopy ::
  "('m, 's, 'l) copyLibrary \<Rightarrow> ('m, 's, 'l) ClusterListMem reference \<Rightarrow>
    ('m, 's, 'l) ClusterListMem reference alloc" where
  "ClusterList_DeepCopy L = copyPtr (ClusterList_DeepCopyInto L)"

definition ClusterList_addrs ::
  "('m, 's, 'l, 'k) copyView \<Rightarrow> ('m, 's, 'l) ClusterListMem \<Rightarrow> nat list" where
  "ClusterList_addrs V x =
     lv_ListAddrs V (cllm_Meta x) @ sliceAddrs (Cluster_addrs V) (cllm_Items x)"

definition ClusterList_val ::
  "('m, 's, 'l, 'k) copyView \<Rightarrow> ('m, 's, 'l) ClusterListMem \<Rightarrow>
    GVK \<times> 'k \<times> Cluster list" where
  "ClusterList_val V x =
     (cllm_GVK x, lv_List V (cllm_Meta x), sliceVal (Cluster_val V) (cllm_Items x))"

lemma ClusterList_copies:
  assumes lib: "libraryCopies L V"
  shows "deepCopier (ClusterList_DeepCopyInto L) (ClusterList_addrs V) (ClusterList_val V)"
  by (rule deepCopierI)
    (auto simp: ClusterList_DeepCopyInto_def ClusterList_addrs_def ClusterList_val_def split: prod.splits
      dest!: deepCopierD [OF library_list [OF lib]]
      deepCopierD [OF copySlice_copies [OF Cluster_copies [OF lib]]]; blast intro: fresh_append)

definition GitRepoList_DeepCopyInto ::
  "('m, 's, 'l) copyLibrary \<Rightarrow> ('m, 's, 'l) GitRepoListMem \<Rightarrow>
    ('m, 's, 'l) GitRepoListMem alloc" where
  "GitRepoList_DeepCopyInto L x = do {
     meta \<leftarrow> lc_ListMeta L (grlm_Meta x);
     items \<leftarrow> copySlice (GitRepo_DeepCopyInto L) (grlm_Items x);
     State_Monad.return (x\<lparr>grlm_Meta := meta, grlm_Items := items\<rparr>) }"

definition GitRepoList_DeepCopy ::
  "('m, 's, 'l) copyLibrary \<Rightarrow> ('m, 's, 'l) GitRepoListMem reference \<Rightarrow>
    ('m, 's, 'l) GitRepoListMem reference alloc" where
  "GitRepoList_DeepCopy L = copyPtr (GitRepoList_DeepCopyInto L)"

definition GitRepoList_addrs ::
  "('m, 's, 'l, 'k) copyView \<Rightarrow> ('m, 's, 'l) GitRepoListMem \<Rightarrow> nat list" where
  "GitRepoList_addrs V x =
     lv_ListAddrs V (grlm_Meta x) @ sliceAddrs (GitRepo_addrs V) (grlm_Items x)"

definition GitRepoList_val ::
  "('m, 's, 'l, 'k) copyView \<Rightarrow> ('m, 's, 'l) GitRepoListMem \<Rightarrow>
    GVK \<times> 'k \<times> GitRepo list" where
  "GitRepoList_val V x =
     (grlm_GVK x, lv_List V (grlm_Meta x), sliceVal (GitRepo_val V) (grlm_Items x))"

lemma GitRepoList_copies:
  assumes lib: "libraryCopies L V"
  shows "deepCopier (GitRepoList_DeepCopyInto L) (GitRepoList_addrs V) (GitRepoList_val V)"
  by (rule deepCopierI)
    (auto simp: GitRepoList_DeepCopyInto_def GitRepoList_addrs_def GitRepoList_val_def split: prod.splits
      dest!: deepCopierD [OF library_list [OF lib]]
      deepCopierD [OF copySlice_copies [OF GitRepo_copies [OF lib]]]; blast intro: fresh_append)

definition TenantList_DeepCopyInto ::
  "('m, 's, 'l) copyLibrary \<Rightarrow> ('m, 's, 'l) TenantListMem \<Rightarrow>
    ('m, 's, 'l) TenantListMem alloc" where
  "TenantList_DeepCopyInto L x = do {
     meta \<leftarrow> lc_ListMeta L (tnlm_Meta x);
     items \<leftarrow> copySlice (Tenant_DeepCopyInto L) (tnlm_Items x);
     State_Monad.return (x\<lparr>tnlm_Meta := meta, tnlm_Items := items\<rparr>) }"

definition TenantList_DeepCopy ::
  "('m, 's, 'l) copyLibrary \<Rightarrow> ('m, 's, 'l) TenantListMem reference \<Rightarrow>
    ('m, 's, 'l) TenantListMem reference alloc" where
  "TenantList_DeepCopy L = copyPtr (TenantList_DeepCopyInto L)"

definition TenantList_addrs ::
  "('m, 's, 'l, 'k) copyView \<Rightarrow> ('m, 's, 'l) TenantListMem \<Rightarrow> nat list" where
  "TenantList_addrs V x =
     lv_ListAddrs V (tnlm_Meta x) @ sliceAddrs (Tenant_addrs V) (tnlm_Items x)"

definition TenantList_val ::
  "('m, 's, 'l, 'k) copyView \<Rightarrow> ('m, 's, 'l) TenantListMem \<Rightarrow>
    GVK \<times> 'k \<times> Tenant list" where
  "TenantList_val V x =
     (tnlm_GVK x, lv_List V (tnlm_Meta x), sliceVal (Tenant_val V) (tnlm_Items x))"

lemma TenantList_copies:
  assumes lib: "libraryCopies L V"
  shows "deepCopier (TenantList_DeepCopyInto L) (TenantList_addrs V) (TenantList_val V)"
  by (rule deepCopierI)
    (auto simp: TenantList_DeepCopyInto_def TenantList_addrs_def TenantList_val_def split: prod.splits
      dest!: deepCopierD [OF library_list [OF lib]]
      deepCopierD [OF copySlice_copies [OF Tenant_copies [OF lib]]]; blast intro: fresh_append)

definition TenantTemplateList_DeepCopyInto ::
  "('m, 's, 'l) copyLibrary \<Rightarrow> ('m, 's, 'l) TenantTemplateListMem \<Rightarrow>
    ('m, 's, 'l) TenantTemplateListMem alloc" where
  "TenantTemplateList_DeepCopyInto L x = do {
     meta \<leftarrow> lc_ListMeta L (ttlm_Meta x);
     items \<leftarrow> copySlice (TenantTemplate_DeepCopyInto L) (ttlm_Items x);
     State_Monad.return (x\<lparr>ttlm_Meta := meta, ttlm_Items := items\<rparr>) }"

definition TenantTemplateList_DeepCopy ::
  "('m, 's, 'l) copyLibrary \<Rightarrow>
    ('m, 's, 'l) TenantTemplateListMem reference \<Rightarrow> ('m, 's, 'l) TenantTemplateListMem reference alloc" where
  "TenantTemplateList_DeepCopy L = copyPtr (TenantTemplateList_DeepCopyInto L)"

definition TenantTemplateList_addrs ::
  "('m, 's, 'l, 'k) copyView \<Rightarrow> ('m, 's, 'l) TenantTemplateListMem \<Rightarrow> nat list" where
  "TenantTemplateList_addrs V x =
     lv_ListAddrs V (ttlm_Meta x) @ sliceAddrs (TenantTemplate_addrs V) (ttlm_Items x)"

definition TenantTemplateList_val ::
  "('m, 's, 'l, 'k) copyView \<Rightarrow> ('m, 's, 'l) TenantTemplateListMem \<Rightarrow>
    GVK \<times> 'k \<times> (GVK \<times> TenantTemplate) list" where
  "TenantTemplateList_val V x =
     (ttlm_GVK x, lv_List V (ttlm_Meta x), sliceVal (TenantTemplate_val V) (ttlm_Items x))"

lemma TenantTemplateList_copies:
  assumes lib: "libraryCopies L V"
  shows "deepCopier (TenantTemplateList_DeepCopyInto L) (TenantTemplateList_addrs V) (TenantTemplateList_val V)"
  by (rule deepCopierI)
    (auto simp: TenantTemplateList_DeepCopyInto_def TenantTemplateList_addrs_def TenantTemplateList_val_def
      split: prod.splits
      dest!: deepCopierD [OF library_list [OF lib]]
      deepCopierD [OF copySlice_copies [OF TenantTemplate_copies [OF lib]]]; blast intro: fresh_append)

section \<open>Objects\<close>

text \<open>\<open>runtime.Object\<close>: a pointer to a struct of one of the registered kinds.\<close>

datatype ('m, 's, 'l) RuntimeObject =
    ClusterRO "('m, 's) ClusterMem reference"
  | ClusterListRO "('m, 's, 'l) ClusterListMem reference"
  | GitRepoRO "('m, 's) GitRepoMem reference"
  | GitRepoListRO "('m, 's, 'l) GitRepoListMem reference"
  | TenantRO "('m, 's) TenantMem reference"
  | TenantListRO "('m, 's, 'l) TenantListMem reference"
  | TenantTemplateRO "('m, 's) TenantTemplateMem reference"
  | TenantTemplateListRO "('m, 's, 'l) TenantTemplateListMem reference"

text \<open>The copy of a nil pointer is the nil interface, not an interface with a nil pointer in it.\<close>

definition asObject ::
  "('a reference \<Rightarrow> ('m, 's, 'l) RuntimeObject) \<Rightarrow> 'a reference alloc \<Rightarrow> ('m, 's, 'l) RuntimeObject option alloc" where
  "asObject ro copy = do { c \<leftarrow> copy; State_Monad.return (if c = None then None else Some (ro c)) }"

definition Cluster_DeepCopyObject ::
  "('m, 's, 'l) copyLibrary \<Rightarrow> ('m, 's) ClusterMem reference \<Rightarrow>
    ('m, 's, 'l) RuntimeObject option alloc" where
  "Cluster_DeepCopyObject L p = asObject ClusterRO (Cluster_DeepCopy L p)"

definition ClusterList_DeepCopyObject ::
  "('m, 's, 'l) copyLibrary \<Rightarrow> ('m, 's, 'l) ClusterListMem reference \<Rightarrow>
    ('m, 's, 'l) RuntimeObject option alloc" where
  "ClusterList_DeepCopyObject L p = asObject ClusterListRO (ClusterList_DeepCopy L p)"

definition GitRepo_DeepCopyObject ::
  "('m, 's, 'l) copyLibrary \<Rightarrow> ('m, 's) GitRepoMem reference \<Rightarrow>
    ('m, 's, 'l) RuntimeObject option alloc" where
  "GitRepo_DeepCopyObject L p = asObject GitRepoRO (GitRepo_DeepCopy L p)"

definition GitRepoList_DeepCopyObject ::
  "('m, 's, 'l) copyLibrary \<Rightarrow> ('m, 's, 'l) GitRepoListMem reference \<Rightarrow>
    ('m, 's, 'l) RuntimeObject option alloc" where
  "GitRepoList_DeepCopyObject L p = asObject GitRepoListRO (GitRepoList_DeepCopy L p)"

definition Tenant_DeepCopyObject ::
  "('m, 's, 'l) copyLibrary \<Rightarrow> ('m, 's) TenantMem reference \<Rightarrow>
    ('m, 's, 'l) RuntimeObject option alloc" where
  "Tenant_DeepCopyObject L p = asObject TenantRO (Tenant_DeepCopy L p)"

definition TenantList_DeepCopyObject ::
  "('m, 's, 'l) copyLibrary \<Rightarrow> ('m, 's, 'l) TenantListMem reference \<Rightarrow>
    ('m, 's, 'l) RuntimeObject option alloc" where
  "TenantList_DeepCopyObject L p = asObject TenantListRO (TenantList_DeepCopy L p)"

definition TenantTemplate_DeepCopyObject ::
  "('m, 's, 'l) copyLibrary \<Rightarrow> ('m, 's) TenantTemplateMem reference \<Rightarrow>
    ('m, 's, 'l) RuntimeObject option alloc" where
  "TenantTemplate_DeepCopyObject L p = asObject TenantTemplateRO (TenantTemplate_DeepCopy L p)"

definition TenantTemplateList_DeepCopyObject ::
  "('m, 's, 'l) copyLibrary \<Rightarrow> ('m, 's, 'l) TenantTemplateListMem reference \<Rightarrow>
    ('m, 's, 'l) RuntimeObject option alloc" where
  "TenantTemplateList_DeepCopyObject L p = asObject TenantTemplateListRO (TenantTemplateList_DeepCopy L p)"

text \<open>The method of the interface, called on the pointer in it.\<close>

fun DeepCopyObject ::
  "('m, 's, 'l) copyLibrary \<Rightarrow> ('m, 's, 'l) RuntimeObject \<Rightarrow> ('m, 's, 'l) RuntimeObject option alloc" where
  "DeepCopyObject L (ClusterRO p) = Cluster_DeepCopyObject L p"
| "DeepCopyObject L (ClusterListRO p) = ClusterList_DeepCopyObject L p"
| "DeepCopyObject L (GitRepoRO p) = GitRepo_DeepCopyObject L p"
| "DeepCopyObject L (GitRepoListRO p) = GitRepoList_DeepCopyObject L p"
| "DeepCopyObject L (TenantRO p) = Tenant_DeepCopyObject L p"
| "DeepCopyObject L (TenantListRO p) = TenantList_DeepCopyObject L p"
| "DeepCopyObject L (TenantTemplateRO p) = TenantTemplate_DeepCopyObject L p"
| "DeepCopyObject L (TenantTemplateListRO p) = TenantTemplateList_DeepCopyObject L p"

fun reached :: "('m, 's, 'l, 'k) copyView \<Rightarrow> ('m, 's, 'l) RuntimeObject \<Rightarrow> nat list" where
  "reached V (ClusterRO p) = ptrAddrs (Cluster_addrs V) p"
| "reached V (ClusterListRO p) = ptrAddrs (ClusterList_addrs V) p"
| "reached V (GitRepoRO p) = ptrAddrs (GitRepo_addrs V) p"
| "reached V (GitRepoListRO p) = ptrAddrs (GitRepoList_addrs V) p"
| "reached V (TenantRO p) = ptrAddrs (Tenant_addrs V) p"
| "reached V (TenantListRO p) = ptrAddrs (TenantList_addrs V) p"
| "reached V (TenantTemplateRO p) = ptrAddrs (TenantTemplate_addrs V) p"
| "reached V (TenantTemplateListRO p) = ptrAddrs (TenantTemplateList_addrs V) p"

datatype 'k ObjectValue =
    ClusterVal "Cluster option"
  | ClusterListVal "(GVK \<times> 'k \<times> Cluster list) option"
  | GitRepoVal "GitRepo option"
  | GitRepoListVal "(GVK \<times> 'k \<times> GitRepo list) option"
  | TenantVal "Tenant option"
  | TenantListVal "(GVK \<times> 'k \<times> Tenant list) option"
  | TenantTemplateVal "(GVK \<times> TenantTemplate) option"
  | TenantTemplateListVal "(GVK \<times> 'k \<times> (GVK \<times> TenantTemplate) list) option"

fun standsFor :: "('m, 's, 'l, 'k) copyView \<Rightarrow> ('m, 's, 'l) RuntimeObject \<Rightarrow> 'k ObjectValue" where
  "standsFor V (ClusterRO p) = ClusterVal (ptrVal (Cluster_val V) p)"
| "standsFor V (ClusterListRO p) = ClusterListVal (ptrVal (ClusterList_val V) p)"
| "standsFor V (GitRepoRO p) = GitRepoVal (ptrVal (GitRepo_val V) p)"
| "standsFor V (GitRepoListRO p) = GitRepoListVal (ptrVal (GitRepoList_val V) p)"
| "standsFor V (TenantRO p) = TenantVal (ptrVal (Tenant_val V) p)"
| "standsFor V (TenantListRO p) = TenantListVal (ptrVal (TenantList_val V) p)"
| "standsFor V (TenantTemplateRO p) = TenantTemplateVal (ptrVal (TenantTemplate_val V) p)"
| "standsFor V (TenantTemplateListRO p) = TenantTemplateListVal (ptrVal (TenantTemplateList_val V) p)"

lemma asObject_copies:
  assumes "deepCopier c f v" and "run_state (asObject ro (copyPtr c p)) n = (ob', n')"
    and "\<And>p. reached V (ro p) = ptrAddrs f p" and "\<And>p. standsFor V (ro p) = w (ptrVal v p)"
  shows "case ob' of None \<Rightarrow> reached V (ro p) = [] | Some ob \<Rightarrow> reached V (ro p) \<noteq> [] \<and>
    standsFor V ob = standsFor V (ro p) \<and> fresh n n' (reached V ob)"
  using assms(2)
  by (cases p) (auto simp: asObject_def assms(3,4) ptrVal_def split: prod.splits
      dest!: deepCopierD [OF assms(1)] intro!: fresh_Cons)

lemma DeepCopyObject_copies:
  assumes lib: "libraryCopies L V" and run: "run_state (DeepCopyObject L ob) n = (ob', n')"
  shows "case ob' of None \<Rightarrow> reached V ob = []
    | Some c \<Rightarrow> reached V ob \<noteq> [] \<and> standsFor V c = standsFor V ob \<and> fresh n n' (reached V c)"
proof (cases ob)
  case (ClusterRO p)
  with run show ?thesis
    by (auto simp: Cluster_DeepCopyObject_def Cluster_DeepCopy_def
        intro!: asObject_copies [where w = ClusterVal, OF Cluster_copies [OF lib]])
next
  case (ClusterListRO p)
  with run show ?thesis
    by (auto simp: ClusterList_DeepCopyObject_def ClusterList_DeepCopy_def
        intro!: asObject_copies [where w = ClusterListVal, OF ClusterList_copies [OF lib]])
next
  case (GitRepoRO p)
  with run show ?thesis
    by (auto simp: GitRepo_DeepCopyObject_def GitRepo_DeepCopy_def
        intro!: asObject_copies [where w = GitRepoVal, OF GitRepo_copies [OF lib]])
next
  case (GitRepoListRO p)
  with run show ?thesis
    by (auto simp: GitRepoList_DeepCopyObject_def GitRepoList_DeepCopy_def
        intro!: asObject_copies [where w = GitRepoListVal, OF GitRepoList_copies [OF lib]])
next
  case (TenantRO p)
  with run show ?thesis
    by (auto simp: Tenant_DeepCopyObject_def Tenant_DeepCopy_def
        intro!: asObject_copies [where w = TenantVal, OF Tenant_copies [OF lib]])
next
  case (TenantListRO p)
  with run show ?thesis
    by (auto simp: TenantList_DeepCopyObject_def TenantList_DeepCopy_def
        intro!: asObject_copies [where w = TenantListVal, OF TenantList_copies [OF lib]])
next
  case (TenantTemplateRO p)
  with run show ?thesis
    by (auto simp: TenantTemplate_DeepCopyObject_def TenantTemplate_DeepCopy_def
        intro!: asObject_copies [where w = TenantTemplateVal, OF TenantTemplate_copies [OF lib]])
next
  case (TenantTemplateListRO p)
  with run show ?thesis
    by (auto simp: TenantTemplateList_DeepCopyObject_def TenantTemplateList_DeepCopy_def
        intro!: asObject_copies [where w = TenantTemplateListVal, OF TenantTemplateList_copies [OF lib]])
qed

section \<open>Copies share nothing\<close>

text \<open>C34: \<open>DeepCopyObject\<close> of a resource or of a list of resources answers nil for a nil pointer only. A copy
  has the value of the original, every address it reaches is new and reached once, also in the templates,
  variables and selectors inside of it, so that no write through the copy reaches the original. This
  rests on the deep copies of the metadata and the selectors doing the same for theirs.\<close>

theorem deep_copies_share_nothing:
  assumes "libraryCopies L V" and "\<forall>a\<in>set (reached V ob). a < n"
    and "run_state (DeepCopyObject L ob) n = (copy, n')"
  shows "(copy = None \<longleftrightarrow> reached V ob = []) \<and>
    (\<forall>c. copy = Some c \<longrightarrow> standsFor V c = standsFor V ob \<and> distinct (reached V c) \<and>
       set (reached V c) \<inter> set (reached V ob) = {} \<and> set (reached V c) \<subseteq> {n..<n'})"
  using DeepCopyObject_copies [OF assms(1,3)] assms(2)
  by (auto simp: fresh_def split: option.splits; fastforce)

text \<open>Metadata that is its labels, and a repository with a variable from a secret.\<close>

definition labelLibrary :: "(string gomap reference, SecretKeySelector, unit) copyLibrary" where
  "labelLibrary = \<lparr>lc_Meta = copyMap (\<lambda>_. []), lc_Selector = State_Monad.return,
     lc_ListMeta = State_Monad.return, lc_Order = \<lambda>_. []\<rparr>"

definition labelView :: "(string gomap reference, SecretKeySelector, unit, unit) copyView" where
  "labelView = \<lparr>lv_MetaAddrs = mapAddrs, lv_Meta = (\<lambda>r. emptyMeta\<lparr>om_Labels := mapVal r\<rparr>),
     lv_SelectorAddrs = (\<lambda>_. []), lv_Selector = (\<lambda>s. s), lv_ListAddrs = (\<lambda>_. []), lv_List = (\<lambda>_. ())\<rparr>"

lemma labelLibrary_copies: "libraryCopies labelLibrary labelView"
  using copyMap_copies [THEN deepCopierD]
  by (fastforce simp: libraryCopies_def labelLibrary_def labelView_def intro!: deepCopierI)

definition sampleVarMem :: "SecretKeySelector EnvVarMem" where
  "sampleVarMem = \<lparr>evm_Name = ''TOKEN'', evm_Value = '''',
     evm_ValueFrom = Some (4, \<lparr>evsm_SecretKeyRef = Some (5, \<lparr>sks_Name = ''s'', sks_Key = ''k'', sks_Optional = None\<rparr>)\<rparr>),
     evm_GitlabOptions = \<lparr>go_Description = '''', go_Protected = False, go_Masked = False, go_Raw = False\<rparr>\<rparr>"

definition sampleTemplateMem :: "SecretKeySelector GitRepoTemplateMem" where
  "sampleTemplateMem = \<lparr>gtm_APISecretRef = \<lparr>sr_Name = ''api'', sr_Namespace = ''''\<rparr>, gtm_DeployKeys = None,
     gtm_GeneratedDeployKeys = None, gtm_Path = ''acme'', gtm_RepoName = ''prod'', gtm_RepoType = ''auto'',
     gtm_DisplayName = '''', gtm_TemplateFiles = Some (2, fmempty), gtm_DeletionPolicy = '''',
     gtm_CreationPolicy = '''', gtm_AccessTokenSecretRef = '''', gtm_CIVariables = Some (3, [sampleVarMem])\<rparr>"

definition sampleRepoMem :: "(string gomap reference, SecretKeySelector, unit) RuntimeObject" where
  "sampleRepoMem = GitRepoRO (Some (0, \<lparr>grm_GVK = synGVK ''GitRepo'', grm_Meta = Some (1, fmempty),
     grm_Spec = \<lparr>gsm_GitRepoTemplate = sampleTemplateMem, gsm_TenantRef = ''t-acme''\<rparr>,
     grm_Status = \<lparr>gstm_Phase = Some (6, PhaseCreated), gstm_Type = '''', gstm_URL = '''', gstm_HostKeys = '''',
       gstm_LastAppliedCIVariables = '''', gstm_GeneratedDeployKeys = None\<rparr>\<rparr>))"

lemma sampleRepoMem_reached: "reached labelView sampleRepoMem = [0, 1, 2, 3, 4, 5, 6]"
  by (simp add: sampleRepoMem_def sampleTemplateMem_def sampleVarMem_def labelView_def GitRepo_addrs_def
      GitRepoSpec_addrs_def GitRepoTemplate_addrs_def EnvVar_addrs_def EnvVarSource_addrs_def GitRepoStatus_addrs_def)

theorem deep_copies_share_nothing_witness:
  "\<exists>c n'. run_state (DeepCopyObject labelLibrary sampleRepoMem) 7 = (Some c, n') \<and>
     standsFor labelView c = standsFor labelView sampleRepoMem \<and> distinct (reached labelView c) \<and>
     set (reached labelView c) \<inter> {0, 1, 2, 3, 4, 5, 6} = {}"
proof -
  obtain copy n' where run: "run_state (DeepCopyObject labelLibrary sampleRepoMem) 7 = (copy, n')" by fastforce
  have "\<forall>a\<in>set (reached labelView sampleRepoMem). a < 7" by (simp add: sampleRepoMem_reached)
  from deep_copies_share_nothing [OF labelLibrary_copies this run] run show ?thesis
    by (cases copy) (auto simp: sampleRepoMem_reached)
qed

end
