(* ===== verification/Spec2Isabelle.thy ===== *)
theory Spec2Isabelle
  imports CompilePipeline GitRepo Manager GitlabUrl GitlabKeys GitlabVars GitlabFiles
    TenantController GitRepoController Metrics LogAdapter Startup ApiStore DeepCopy
begin

text \<open>
  The Lieutenant operator of Project Syn (Go, under \<open>src/\<close>). It watches four custom resources
  (\<open>api/v1alpha1\<close>) in one namespace of a Kubernetes cluster and keeps the outside in line with
  them: a \<open>Tenant\<close> and each of its \<open>Cluster\<close>s own a \<open>GitRepo\<close>, a \<open>GitRepo\<close> stands for a project
  on GitLab, and a cluster's service account token is kept in Vault. Four controllers run passes,
  each a function of one object:

  \<^item> \<open>controllers/cluster_controller.go\<close>: RBAC, bootstrap token, Vault, the tenant's template, the
    repository object, then the shared steps;
  \<^item> \<open>controllers/tenant_controller.go\<close>: the tenant template, the class files, RBAC, the repository
    object, then the shared steps;
  \<^item> \<open>controllers/gitrepo_controller.go\<close>: the project on GitLab with its files, deploy keys, access
    token and CI variables, then the shared steps;
  \<^item> \<open>controllers/tenant_compile_pipeline_controller.go\<close>: the CI variables of a tenant and the list
    of clusters that are compiled by its pipeline.

  The controllers share state only through the API server: the tenant controller writes the
  template that the GitRepo controller reads, the GitRepo controller writes the URL and the access
  token that the other two read, and finalizers order the deletions.

  \<^bold>\<open>How the code is modelled.\<close> A struct is a record with the fields of the struct, an enum of Go
  strings is a string, a pointer an option, an interface value a sum of the types that implement
  it. Whatever is outside the repository (the API server, GitLab, Vault, the clock, randomness,
  template engines, the Prometheus client) is a parameter: a record of the calls the code makes,
  each a function of a world of any type. Go code that calls out is a function of the world that
  returns, panics or does not end (\<open>go\<close> in Prelude). A Go map is a finite map, and the order of
  a range loop over it is a hint that the world gives, with every order possible. A nil map and an
  empty one are the same except where writing to it panics, which is a branch of its own. Errors
  are values of \<open>gerr\<close>, with wrapping. Logging and contexts are left out. An object
  is a value, so that a deep copy is the object itself; what this takes is shown in DeepCopy.

  \<^bold>\<open>The theories.\<close>

  \<^item> Prelude, GoLib, GoTime, GoUrl, GoBase64: Go itself and what the code uses of its standard
    library (runs, maps, strings, paths, numbers; durations and dates; URLs; base64).
  \<^item> Api, Objects: the resources and the methods of \<open>pipeline.Object\<close>, whose contract is the locale
    \<open>pipeline_object\<close>. Kube: the Kubernetes client and the runtime.
  \<^item> DeepCopy: the generated deep copies on a model of memory, in which pointers, maps and slices have
    addresses: a copy has the same value at addresses of its own.
  \<^item> Pipeline: \<open>pipeline/*.go\<close>. \<open>RunPipeline\<close> is shown to be a sequence of calls that is spelled out
    on its own; the shared steps are characterised for live, deleted and protected objects, on write conflicts, and on a
    second run.
  \<^item> EnvVars, CompilePipeline: \<open>controllers/util.go\<close> (contract: the locale \<open>env_table\<close>) and the
    compile pipeline controller: what a pass may write and in which order, what variables come
    out, and that the pass after one without an error only reads.
  \<^item> RepoApi, GitRepo: the interface \<open>manager.Repo\<close> (contract: the locale \<open>repo_contract\<close>) and
    \<open>controllers/gitrepo/*.go\<close>: adoption, removal, generated keys, variables, and how owner and
    repository come to rest.
  \<^item> Manager, Gitlab, GitlabUrl, GitlabKeys, GitlabVars, GitlabFiles: \<open>git/manager\<close>, \<open>git/gitlab\<close>,
    \<open>git/helpers\<close>. GitLab interprets \<open>repo_contract\<close>; deploy keys, variables, files and tokens are
    brought in line with the template, on a server that behaves as documented and may refuse a call. The
    keys of one page, twenty, are all that the code reads, and all that the theorem speaks of.
  \<^item> Vault: \<open>vault/*.go\<close> and \<open>collection/values.go\<close>: which token is stored, that it is read back,
    and that a removal visits every secret of a tree.
  \<^item> Cluster, TenantController, GitRepoController: \<open>controllers/cluster\<close>, \<open>controllers/tenant\<close>, the
    three reconcilers, the watch on secrets and the default policies of \<open>main.go\<close>: what the role of
    a tenant allows, its files, the life of a bootstrap token, deletion and Vault.
  \<^item> Metrics: \<open>metrics/*.go\<close>: the label names of facts are valid, and when they are distinct.
    LogAdapter: \<open>vault/log_adapter.go\<close>.
  \<^item> Wiring, Startup: \<open>main.go\<close> and the functions \<open>SetupWithManager\<close>: flags, the reconcilers on one
    client, what wakes each controller, and the order in which the operator starts.
  \<^item> Calls, Passes: what a pass does to the world, call by call. A step is \<open>tame\<close> if it keeps what the
    calls keep that write objects in given namespaces, and leaves of its object the identity and the
    bootstrap token; every step of the four controllers is shown tame.
  \<^item> Wakes: a cluster and its tenant, and a repository and its owner, wake each other.
  \<^item> ClusterServer, System: the API server among other programs (the locale \<open>cluster_server\<close>), the
    operator on it (the locale \<open>operator_world\<close>), runs that interleave passes and other programs, and
    the operator at work on the events of its namespace. ApiStore interprets both locales on a server
    with tables, versions, optimistic locking, finalizers and a plan of what others do, on which whole
    passes are evaluated.

  \<^bold>\<open>Fuel.\<close> Two recursions follow answers of a server and have fuel. The pages of a GitLab tree
  (\<open>listPages\<close>): \<open>committing_files_ends\<close> shows that the number of pages is enough when the server
  only names later pages. The directories of Vault (\<open>removeSecret\<close>): \<open>removal_of_a_tree\<close> shows that
  a fuel above the depth of the tree is enough. Every other recursion is structural or has a
  measure.

  \<^bold>\<open>Assumptions.\<close> A theorem that needs documented behaviour of the outside names it as a hypothesis
  (\<open>finalizer_laws\<close>, \<open>optimistic_locking\<close>, \<open>pipeline_store\<close>, \<open>repo_store\<close>, \<open>status_store\<close>,
  \<open>key_server\<close>, \<open>var_server\<close>, \<open>kv_store\<close>, \<open>serves\<close>, \<open>lists_by_index\<close>,
  \<open>mutates_role\<close>, \<open>controller_refs\<close>, \<open>owner_handler\<close>, \<open>operator_world\<close> and the like), and its witness is a concrete server where it holds.

  \<^bold>\<open>Concurrency.\<close> A call of the model stands for the call and whatever other programs, or other passes,
  do before and after it: a theorem about a world of any type holds for worlds that others change
  between the calls. Runs of the whole operator make that explicit by a relation \<open>rely\<close>, the steps of
  others; a predicate is kept by a pass if the steps of others keep it and the calls do.

  \<^bold>\<open>Not modelled.\<close> The inside of the manager of controller-runtime (its
  queues, its cache beyond the events it delivers, leader election); signal handling and the set-up
  of the logger in \<open>main\<close>; the registration of the types in the scheme; the text of some library
  errors.
\<close>

section \<open>When a pass is repeated\<close>

text \<open>No pass of the Cluster and the Tenant controller ever asks to be run again, not even after a
  write conflict, so that it is repeated only after an error or a change. A pass of the GitRepo
  controller that found its object always asks for the next one after the interval the operator is
  configured with, and one that found none asks for nothing.\<close>

theorem passes_are_repeated_by_interval_only:
  "wlp (ClusterReconcile fuel env cd cr request) (\<lambda>(res, _) _. res = ctrlDone) w
   \<and> wlp (TenantReconcile merge tr request) (\<lambda>(res, _) _. res = ctrlDone) w
   \<and> wlp (GitRepoReconcile dp imps ri r request)
       (\<lambda>(res, _) _. res = (case fst (k_GetGitRepo (grr_Client r) request w) of
            Ret (Inr _) \<Rightarrow> ctrlDone\<lparr>cr_RequeueAfter := grr_MaxReconcileInterval r\<rparr>
          | _ \<Rightarrow> ctrlDone)) w"
proof (intro conjI wlpI, goal_cases)
  case (1 x w')
  then show ?case using ClusterReconcile_no_requeue by (cases x) fastforce
next
  case (2 x w')
  then show ?case using TenantReconcile_no_requeue by (cases x) fastforce
next
  case (3 x w')
  obtain res e where x: "x = (res, e)" by (cases x)
  from 3 obtain g w1 where g: "k_GetGitRepo (grr_Client r) request w = (Ret g, w1)"
    by (auto simp: GitRepoReconcile_def elim: bnd_RetE)
  show ?case
  proof (cases g)
    case (Inl err)
    with g 3 x show ?thesis using GitRepoReconcile_not_found by fastforce
  next
    case (Inr found)
    with g 3 x show ?thesis using GitRepoReconcile_found by fastforce
  qed
qed

section \<open>Passes among other programs\<close>

text \<open>C2: A bootstrap token that was handed out is never replaced and never becomes usable again. On any
  API server with versions and optimistic locking, however stale the reads are and whatever passes of
  the four controllers and other programs do in between, a cluster that had a token and still is the
  same object has that token with the same expiry, and it is valid only if it was before. What is
  assumed of the other programs is that they do not break this themselves.\<close>

theorem used_bootstrap_token_stays_used:
  fixes stored :: "'w \<Rightarrow> NamespacedName \<Rightarrow> Cluster option"
  assumes "operator_world k stored later rely out" and "operator_run fl out k rely w w'"
    and "stored w n = Some c" and "stored w' n = Some c'" and "om_UID (cl_Meta c') = om_UID (cl_Meta c)"
    and "cst_BootstrapToken (cl_Status c) = Some t"
  shows "\<exists>t'. cst_BootstrapToken (cl_Status c') = Some t' \<and> bt_Token t' = bt_Token t
     \<and> bt_ValidUntil t' = bt_ValidUntil t \<and> (bt_TokenValid t' \<longrightarrow> bt_TokenValid t)"
proof -
  from operator_world.run_keeps_token [OF assms(1,2,3,4,5)] have "tokenKept (cl_Status c) (cl_Status c')" .
  with assms(6) show ?thesis by (auto simp: tokenKept_def)
qed

text \<open>The API has handed the token of a cluster out. The token then stays invalid through a pass of the
  cluster controller, in which its specification is edited.\<close>

definition handedOut :: apiState where
  "handedOut = applyEdit (UseToken clusterKey) (tokenState [Rest, Rest, EditSpec clusterKey (cl_Spec tokenCluster)])"

definition skipVault :: Flags where
  "skipVault = defaultFlags\<lparr>fl_SkipVaultSetup := True\<rparr>"

definition afterPass :: apiState where
  "afterPass = runPass skipVault storeOutside storeClient (ClusterPass clusterKey) handedOut"

lemma tokens_of_the_run:
  "map_option (\<lambda>c. (om_UID (cl_Meta c), cst_BootstrapToken (cl_Status c))) (clustersOf handedOut clusterKey) =
     Some (''1'', Some \<lparr>bt_Token = ''secret'', bt_ValidUntil = 5, bt_TokenValid = False\<rparr>)"
  "map_option (\<lambda>c. om_UID (cl_Meta c)) (clustersOf afterPass clusterKey) = Some ''1''"
  by code_simp+

lemma used_bootstrap_token_stays_used_witness:
  "\<exists>c t. clustersOf afterPass clusterKey = Some c \<and> cst_BootstrapToken (cl_Status c) = Some t
     \<and> bt_Token t = ''secret'' \<and> \<not> bt_TokenValid t"
proof -
  from tokens_of_the_run obtain c c' where c: "clustersOf handedOut clusterKey = Some c"
      "cst_BootstrapToken (cl_Status c) = Some \<lparr>bt_Token = ''secret'', bt_ValidUntil = 5, bt_TokenValid = False\<rparr>"
    and c': "clustersOf afterPass clusterKey = Some c'" and u: "om_UID (cl_Meta c') = om_UID (cl_Meta c)"
    by auto
  have "operator_run skipVault storeOutside storeClient relyState handedOut afterPass"
    unfolding afterPass_def by (intro run_pass run_start)
  from used_bootstrap_token_stays_used [OF store_op.operator_world_axioms this c(1) c' u c(2)] c' show ?thesis
    by auto
qed

text \<open>C3: The operator writes only in the namespace it watches. Whatever events of objects of that
  namespace it is given, in whatever order it works on the requests they make and however often, what
  is seen of another namespace stays as it was, provided writes of objects outside of it leave that
  alone: everything the four controllers make or change (repositories, accounts, roles, bindings,
  secrets, the objects and their status) is in the watched namespace, and so is every request.\<close>

theorem operator_stays_in_its_namespace:
  assumes "calm_client (\<lambda>ns. ns \<noteq> m) (\<lambda>w'. view w' = view w) k"
    and "\<And>c. om_Namespace (cl_Meta c) \<noteq> m \<Longrightarrow> keeps (\<lambda>w'. view w' = view w) (k_StatusUpdateCluster k c)"
    and "calm_libraries (\<lambda>w'. view w' = view w) out"
    and "owner_handler own" and "lists_in_namespace k" and "fl_WatchNamespace fl \<noteq> m"
    and "operator_works fl out own k w q w'"
  shows "view w' = view w \<and> (\<forall>p \<in> q. nn_Namespace (passKey p) = fl_WatchNamespace fl)"
  by (rule operator_works_keeps [where P = "\<lambda>w'. view w' = view w", OF assms(1-7) refl])

text \<open>The operator watches \<open>lieutenant\<close> and works on a cluster there. A secret of the namespace \<open>other\<close> with the
  name of that cluster stays as it is.\<close>

definition otherKey :: NamespacedName where
  "otherKey = \<lparr>nn_Namespace = ''other'', nn_Name = ''c-prod''\<rparr>"

definition otherSecret :: Secret where
  "otherSecret = \<lparr>sec_Meta = emptyMeta\<lparr>om_Name := ''c-prod'', om_Namespace := ''other''\<rparr>,
     sec_Type = ''Opaque'', sec_Data = fmupd ''token'' ''x'' fmempty\<rparr>"

definition twoNamespaces :: apiState where
  "twoNamespaces = (tokenState [])\<lparr>st_Secrets := [(otherKey, otherSecret)]\<rparr>"

definition lieutenantFlags :: Flags where
  "lieutenantFlags = defaultFlags\<lparr>fl_WatchNamespace := ''lieutenant''\<rparr>"

lemma quiet_libraries: "calm_libraries P storeOutside"
  by (simp add: calm_libraries_def storeOutside_def quietVault_def calm_vault_def idleRepo_def calm_repo_def
      idleDeps_def calm_keygen_def idleRuntime_def calm_runtime_def keeps_ret)

lemma store_lists: "lists_in_namespace storeClient"
  by (auto simp: lists_in_namespace_def storeClient_def call_Ret listClustersIn_def listGitReposIn_def)

lemma operator_stays_in_its_namespace_witness:
  "findRow secretTable otherKey (runPass lieutenantFlags storeOutside storeClient (ClusterPass clusterKey) twoNamespaces) =
   Some otherSecret"
proof -
  have "st_Plan twoNamespaces = []" by (simp add: twoNamespaces_def tokenState_def)
  note server = store_namespace [OF this, where m = "''other''", unfolded showsOf_def [abs_def]]
  have own: "owner_handler ownersOf" by (simp add: owner_handler_def ownersOf_def)
  have event: "om_Namespace (metaOf (R_Cluster tokenCluster)) = fl_WatchNamespace lieutenantFlags"
    "fl_WatchNamespace lieutenantFlags \<noteq> ''other''" "keyOf (cl_Meta tokenCluster) = clusterKey" by code_simp+
  have "requests (watchesOf ownersOf storeClient ClusterController) (R_Cluster tokenCluster) twoNamespaces =
    (Ret [keyOf (cl_Meta tokenCluster)], twoNamespaces)"
    by (simp add: clusterWatches_def watchFor_def watchOwns_def)
  from works_event [OF works_start event(1) this]
  have "operator_works lieutenantFlags storeOutside ownersOf storeClient twoNamespaces {ClusterPass clusterKey} twoNamespaces"
    by (simp add: event(3))
  from works_pass [OF this, of "ClusterPass clusterKey"]
  have "namespaceView ''other'' (runPass lieutenantFlags storeOutside storeClient (ClusterPass clusterKey) twoNamespaces) =
     namespaceView ''other'' twoNamespaces"
    using operator_stays_in_its_namespace [OF server quiet_libraries own store_lists event(2)] by blast
  then have "findRow secretTable otherKey (runPass lieutenantFlags storeOutside storeClient (ClusterPass clusterKey) twoNamespaces) =
     findRow secretTable otherKey twoNamespaces"
    by (auto simp: namespaceView_def inNamespace_def otherKey_def dest!: fun_cong [where x = otherKey])
  also have "\<dots> = Some otherSecret" by code_simp
  finally show ?thesis .
qed

end
